(* ===== verification/Go_Prelude.thy ===== *)
theory Go_Prelude
  imports Main "HOL-Library.Word" "HOL-Library.AList" "HOL-Library.Multiset" "HOL-Library.Sublist"
begin

text \<open>
  The part of Go that every component of the device worker uses: error values and their text,
  run-time panics, maps, the iteration order of \<open>range\<close> over a map, the string functions of
  packages \<open>fmt\<close>, \<open>strings\<close> and \<open>strconv\<close>, and fixed-width integers.

  \<^item> A Go \<open>error\<close> is a value of \<open>error\<close>; a result \<open>(T, error)\<close> is \<open>error + 'a\<close> with \<open>Inl\<close> for a
    non-nil error, a lone \<open>error\<close> result is \<open>error option\<close> with \<open>None\<close> for nil.
  \<^item> A Go string or byte slice is a \<open>string\<close>; Isabelle's \<open>char\<close> is one byte.
  \<^item> A run-time panic (nil dereference, index out of range) is the value \<open>Panic\<close>.
  \<^item> A Go map is an association list with distinct keys. Its order stands for nothing: where the
    source ranges over a map, the definition takes the enumeration as an argument.
\<close>

named_theorems go_defs \<open>definitions of straight-line operations, unfolded by the component proofs\<close>
named_theorems go_inv \<open>operations keep the invariant of their component\<close>

section \<open>Errors and panics\<close>

datatype errno = ENOENT | ENOTDIR | EISDIR | ENOTEMPTY | EIO

datatype error =
    Errorf string "string list" \<comment> \<open>\<open>fmt.Errorf\<close>, \<open>errors.New\<close>: the format and its rendered arguments\<close>
  | PathError string string errno \<comment> \<open>\<open>os.PathError\<close>: operation, path, cause\<close>
  | MultiError "error list" \<comment> \<open>\<open>multierror.Error\<close> of \<open>hashicorp/go-multierror\<close>\<close>
  | ExitError "string list" int string \<comment> \<open>a command that exited non-zero: arguments, status, stderr\<close>
  | RecoverableError error \<comment> \<open>\<open>metrics.RemoteRecoverableError\<close>\<close>
  | ExternalError string \<comment> \<open>any error value made by code outside the repository\<close>

datatype 'a outcome = Ret 'a | Panic

text \<open>
  A call on a state \<open>'w\<close> that may panic is an outcome with the state it leaves. The combinators are
  the ways the source goes on after a call:
  \<^item> \<open>check\<close>: \<open>if err := call; err != nil { return err }\<close>;
  \<^item> \<open>check_val\<close>: the same for a call that also returns a value;
  \<^item> \<open>ignore\<close>: the error is dropped (or only logged);
  \<^item> \<open>wrap_err\<close>: the error is returned inside a new one.
  A panic ends the sequence in each of them.
\<close>

type_synonym ('a, 'w) call = "'a outcome \<times> 'w"

definition check :: "(error option, 'w) call \<Rightarrow> ('w \<Rightarrow> (error option, 'w) call) \<Rightarrow> (error option, 'w) call" where
  "check r k =
     (case r of (Ret None, w) \<Rightarrow> k w | (Ret (Some e), w) \<Rightarrow> (Ret (Some e), w) | (Panic, w) \<Rightarrow> (Panic, w))"

definition check_val ::
  "(error + 'a, 'w) call \<Rightarrow> ('a \<Rightarrow> 'w \<Rightarrow> (error option, 'w) call) \<Rightarrow> (error option, 'w) call" where
  "check_val r k =
     (case r of (Ret (Inr a), w) \<Rightarrow> k a w | (Ret (Inl e), w) \<Rightarrow> (Ret (Some e), w) | (Panic, w) \<Rightarrow> (Panic, w))"

definition ignore :: "('a, 'w) call \<Rightarrow> ('w \<Rightarrow> ('b, 'w) call) \<Rightarrow> ('b, 'w) call" where
  "ignore r k = (case r of (Ret _, w) \<Rightarrow> k w | (Panic, w) \<Rightarrow> (Panic, w))"

definition wrap_err :: "(error \<Rightarrow> error) \<Rightarrow> (error option, 'w) call \<Rightarrow> (error option, 'w) call" where
  "wrap_err f r = (case r of (Ret (Some e), w) \<Rightarrow> (Ret (Some (f e)), w) | _ \<Rightarrow> r)"

lemma check_simps [simp]:
  "check (Ret None, w) k = k w"
  "check (Ret (Some e), w) k = (Ret (Some e), w)"
  "check (Panic, w) k = (Panic, w)"
  "check_val (Ret (Inr a), w) k2 = k2 a w"
  "check_val (Ret (Inl e), w) k2 = (Ret (Some e), w)"
  "check_val (Panic, w) k2 = (Panic, w)"
  "ignore (Ret x, w) k3 = k3 w"
  "ignore (Panic, w) k3 = (Panic, w)"
  "wrap_err f (Ret None, w) = (Ret None, w)"
  "wrap_err f (Ret (Some e), w) = (Ret (Some (f e)), w)"
  "wrap_err f (Panic, w) = (Panic, w)"
  by (simp_all add: check_def check_val_def ignore_def wrap_err_def)

text \<open>A sequence succeeds exactly when each of its calls does.\<close>

lemma check_ok: "check r k = (Ret None, w') \<longleftrightarrow> (\<exists>w. r = (Ret None, w) \<and> k w = (Ret None, w'))"
  by (cases r; cases "fst r"; cases "\<exists>e. fst r = Ret (Some e)") (auto simp: check_def split: outcome.splits option.splits)

lemma check_val_ok: "check_val r k = (Ret None, w') \<longleftrightarrow> (\<exists>a w. r = (Ret (Inr a), w) \<and> k a w = (Ret None, w'))"
  by (cases r) (auto simp: check_val_def split: outcome.splits sum.splits)

lemma wrap_err_ok [simp]: "wrap_err f r = (Ret None, w') \<longleftrightarrow> r = (Ret None, w')"
  by (cases r) (auto simp: wrap_err_def split: outcome.splits option.splits)

lemma ignore_ok: "ignore r k = (Ret x, w') \<longleftrightarrow> (\<exists>y w. r = (Ret y, w) \<and> k w = (Ret x, w'))"
  by (cases r) (auto simp: ignore_def split: outcome.splits)

text \<open>What the calls of a sequence keep of the state, the sequence keeps.\<close>

lemma check_keeps:
  assumes "P (snd r)" and "\<And>w. P w \<Longrightarrow> P (snd (k w))"
  shows "P (snd (check r k))"
  using assms by (cases r) (auto simp: check_def split: outcome.splits option.splits)

lemma check_val_keeps:
  assumes "P (snd r)" and "\<And>a w. P w \<Longrightarrow> P (snd (k a w))"
  shows "P (snd (check_val r k))"
  using assms by (cases r) (auto simp: check_val_def split: outcome.splits sum.splits)

lemma ignore_keeps:
  assumes "P (snd r)" and "\<And>w. P w \<Longrightarrow> P (snd (k w))"
  shows "P (snd (ignore r k))"
  using assms by (cases r) (auto simp: ignore_def split: outcome.splits)

lemma wrap_err_keeps [simp]: "snd (wrap_err f r) = snd r"
  by (cases r) (auto simp: wrap_err_def split: outcome.splits option.splits)

lemmas call_keeps = check_keeps check_val_keeps ignore_keeps
lemmas call_ok = check_ok check_val_ok ignore_ok

text \<open>\<open>fmt.Sprintf\<close> on arguments that are already rendered: each verb takes the next one.\<close>

fun Sprintf :: "string \<Rightarrow> string list \<Rightarrow> string" where
  "Sprintf [] args = []"
| "Sprintf [c] args = [c]"
| "Sprintf (c # v # fs) args =
     (if c = CHR ''%'' then
        (case args of [] \<Rightarrow> CHR ''%'' # CHR ''!'' # v # ''(MISSING)'' @ Sprintf fs []
         | a # as \<Rightarrow> a @ Sprintf fs as)
      else c # Sprintf (v # fs) args)"

text \<open>\<open>strconv.Itoa\<close>, the decimal rendering of an integer.\<close>

fun digits :: "nat \<Rightarrow> string" where
  "digits n = (if n < 10 then [char_of (48 + n)] else digits (n div 10) @ [char_of (48 + n mod 10)])"

declare digits.simps [simp del]

definition Itoa :: "int \<Rightarrow> string" where
  "Itoa i = (if i < 0 then CHR ''-'' # digits (nat (- i)) else digits (nat i))"

fun errno_string :: "errno \<Rightarrow> string" where
  "errno_string ENOENT = ''no such file or directory''"
| "errno_string ENOTDIR = ''not a directory''"
| "errno_string EISDIR = ''is a directory''"
| "errno_string ENOTEMPTY = ''directory not empty''"
| "errno_string EIO = ''input/output error''"

text \<open>\<open>strings.Join\<close>.\<close>

fun strings_Join :: "string list \<Rightarrow> string \<Rightarrow> string" where
  "strings_Join [] sep = []"
| "strings_Join [x] sep = x"
| "strings_Join (x # y # xs) sep = x @ sep @ strings_Join (y # xs) sep"

text \<open>
  The text of an error. \<open>ListFormatFunc\<close> of \<open>go-multierror\<close> numbers the errors and lists them.
\<close>

definition ListFormat :: "string list \<Rightarrow> string" where
  "ListFormat es =
     (let nl = CHR 0x0A # CHR 0x09 # [];
          fin = CHR 0x0A # CHR 0x0A # []
      in if length es = 1 then ''1 error occurred:'' @ nl @ ''* '' @ hd es @ fin
         else Itoa (int (length es)) @ '' errors occurred:'' @ nl
              @ strings_Join (map (\<lambda>e. ''* '' @ e) es) nl @ fin)"

fun error_string :: "error \<Rightarrow> string" where
  "error_string (Errorf f args) = Sprintf f args"
| "error_string (PathError ope p e) = ope @ '' '' @ p @ '': '' @ errno_string e"
| "error_string (MultiError es) = ListFormat (map error_string es)"
| "error_string (ExitError args status msg) =
     Sprintf ''running %v: exit status %v: %v'' [''['' @ strings_Join args '' '' @ '']'', Itoa status, msg]"
| "error_string (RecoverableError e) = error_string e"
| "error_string (ExternalError s) = s"

text \<open>
  \<open>multierror.Append\<close>: an accumulated error is a list, nil is the empty list, and an appended
  multierror is flattened one level.
\<close>

fun errs_of :: "error \<Rightarrow> error list" where
  "errs_of (MultiError es) = es"
| "errs_of e = [e]"

definition multierror_Append :: "error list \<Rightarrow> error \<Rightarrow> error list" where
  "multierror_Append es e = es @ errs_of e"

text \<open>The \<open>error\<close> a function returns from its accumulated errors.\<close>

definition as_error :: "error list \<Rightarrow> error option" where
  "as_error es = (if es = [] then None else Some (MultiError es))"

lemma as_error_None [simp]: "as_error es = None \<longleftrightarrow> es = []"
  by (simp add: as_error_def)

lemma as_error_Nil [simp]: "as_error [] = None"
  by (simp add: as_error_def)

lemma multierror_Append_Errorf [simp]: "multierror_Append es (Errorf f as) = es @ [Errorf f as]"
  by (simp add: multierror_Append_def)

section \<open>Maps\<close>

type_synonym ('k, 'v) gomap = "('k \<times> 'v) list"

abbreviation map_lookup :: "('k, 'v) gomap \<Rightarrow> 'k \<Rightarrow> 'v option" where
  "map_lookup \<equiv> map_of"

text \<open>Indexing a \<open>map[string]string\<close> (or one with list values) gives the zero value where the key is absent.\<close>

definition map_get :: "('k, 'v list) gomap \<Rightarrow> 'k \<Rightarrow> 'v list" where
  "map_get m k = (case map_of m k of None \<Rightarrow> [] | Some v \<Rightarrow> v)"

abbreviation map_put :: "('k, 'v) gomap \<Rightarrow> 'k \<Rightarrow> 'v \<Rightarrow> ('k, 'v) gomap" where
  "map_put m k v \<equiv> AList.update k v m"

abbreviation map_del :: "('k, 'v) gomap \<Rightarrow> 'k \<Rightarrow> ('k, 'v) gomap" where
  "map_del m k \<equiv> AList.delete k m"

definition gomap_ok :: "('k, 'v) gomap \<Rightarrow> bool" where
  "gomap_ok m \<longleftrightarrow> distinct (map fst m)"

lemma gomap_ok_Nil [simp, go_inv]: "gomap_ok []"
  by (simp add: gomap_ok_def)

lemma gomap_ok_put [simp, go_inv]: "gomap_ok m \<Longrightarrow> gomap_ok (map_put m k v)"
  by (simp add: gomap_ok_def distinct_update)

lemma gomap_ok_del [simp, go_inv]: "gomap_ok m \<Longrightarrow> gomap_ok (map_del m k)"
  by (simp add: gomap_ok_def distinct_delete)

lemma lookup_put [simp]: "map_of (map_put m k v) = (map_of m)(k \<mapsto> v)"
  by (rule update_conv')

lemma lookup_del [simp]: "map_of (map_del m k) = (map_of m)(k := None)"
  by (rule delete_conv')

lemma keys_put [simp]: "fst ` set (map_put m k v) = insert k (fst ` set m)"
  by (simp add: dom_update)

lemma keys_del [simp]: "fst ` set (map_del m k) = fst ` set m - {k}"
  by (induction m) auto

lemma map_get_put [simp]: "map_get (map_put m k v) j = (if j = k then v else map_get m j)"
  by (simp add: map_get_def)

lemma map_get_del [simp]: "map_get (map_del m k) j = (if j = k then [] else map_get m j)"
  by (simp add: map_get_def)

text \<open>
  A map built by storing the pairs of a list one after the other, the later pair winning.
\<close>

definition map_fill :: "('k, 'v) gomap \<Rightarrow> ('k \<times> 'v) list \<Rightarrow> ('k, 'v) gomap" where
  "map_fill m ps = fold (\<lambda>(k, v) acc. map_put acc k v) ps m"

lemma map_fill_Nil [simp]: "map_fill m [] = m"
  by (simp add: map_fill_def)

lemma map_fill_Cons [simp]: "map_fill m ((k, v) # ps) = map_fill (map_put m k v) ps"
  by (simp add: map_fill_def)

lemma gomap_ok_fill [simp, go_inv]: "gomap_ok m \<Longrightarrow> gomap_ok (map_fill m ps)"
  by (induction ps arbitrary: m) (auto simp: go_inv)

lemma lookup_fill: "map_of (map_fill m ps) = map_of m ++ map_of (rev ps)"
  by (induction ps arbitrary: m) (auto simp: map_add_def fun_eq_iff split: option.splits)

lemma lookup_fill_distinct:
  assumes "distinct (map fst ps)"
  shows "map_of (map_fill [] ps) = map_of ps"
proof -
  have "map_of (rev ps) = map_of ps"
    using assms by (metis map_of_inject_set rev_map distinct_rev set_rev)
  then show ?thesis by (simp add: lookup_fill)
qed

text \<open>
  The enumeration a \<open>range\<close> statement makes of a map is not specified beyond being a
  permutation of the entries.
\<close>

definition is_range :: "(('k, 'v) gomap \<Rightarrow> ('k \<times> 'v) list) \<Rightarrow> bool" where
  "is_range rng \<longleftrightarrow> (\<forall>m. mset (rng m) = mset m)"

lemma is_range_id [simp]: "is_range (\<lambda>m. m)"
  by (simp add: is_range_def)

lemma is_range_rev [simp]: "is_range rev"
  by (simp add: is_range_def)

lemma range_set: "is_range rng \<Longrightarrow> set (rng m) = set m"
  unfolding is_range_def by (metis set_mset_mset)

lemma range_length: "is_range rng \<Longrightarrow> length (rng m) = length m"
  unfolding is_range_def by (metis size_mset)

lemma range_mset: "is_range rng \<Longrightarrow> mset (rng m) = mset m"
  by (simp add: is_range_def)

lemma range_distinct: "is_range rng \<Longrightarrow> gomap_ok m \<Longrightarrow> distinct (map fst (rng m))"
  unfolding gomap_ok_def by (metis mset_map mset_eq_imp_distinct_iff range_mset)

lemma range_lookup: "is_range rng \<Longrightarrow> gomap_ok m \<Longrightarrow> map_of (rng m) = map_of m"
  by (metis gomap_ok_def map_of_inject_set range_distinct range_set)

section \<open>Strings\<close>

text \<open>\<open>strings.Contains\<close>.\<close>

fun strings_Contains :: "string \<Rightarrow> string \<Rightarrow> bool" where
  "strings_Contains [] sub = (sub = [])"
| "strings_Contains (c # cs) sub = (prefix sub (c # cs) \<or> strings_Contains cs sub)"

lemma strings_Contains_iff: "strings_Contains s sub \<longleftrightarrow> sublist sub s"
  by (induction s) (auto simp: sublist_Cons_right)

text \<open>\<open>strings.ReplaceAll\<close> for a non-empty pattern.\<close>

function strings_ReplaceAll :: "string \<Rightarrow> string \<Rightarrow> string \<Rightarrow> string" where
  "strings_ReplaceAll s old new =
     (if s = [] \<or> old = [] then s
      else if prefix old s then new @ strings_ReplaceAll (drop (length old) s) old new
      else hd s # strings_ReplaceAll (tl s) old new)"
  by pat_completeness auto
termination
  by (relation "measure (\<lambda>(s, old, new). length s)") auto

declare strings_ReplaceAll.simps [simp del]

lemma ReplaceAll_char:
  "strings_ReplaceAll s [a] [b] = map (\<lambda>c. if c = a then b else c) s"
proof (induction s)
  case Nil
  then show ?case by (simp add: strings_ReplaceAll.simps)
next
  case (Cons c s)
  then show ?case by (subst strings_ReplaceAll.simps) auto
qed

text \<open>\<open>strings.Split\<close> at a one-byte separator.\<close>

fun split_on :: "char \<Rightarrow> string \<Rightarrow> string list" where
  "split_on c [] = [[]]"
| "split_on c (x # xs) =
     (if x = c then [] # split_on c xs
      else (case split_on c xs of [] \<Rightarrow> [[x]] | p # ps \<Rightarrow> (x # p) # ps))"

lemma split_on_not_Nil [simp]: "split_on c s \<noteq> []"
  by (induction s) (auto split: list.splits)

lemma split_on_no_sep: "c \<notin> set s \<Longrightarrow> split_on c s = [s]"
  by (induction s) auto

lemma split_on_append_sep:
  "c \<notin> set a \<Longrightarrow> split_on c (a @ c # b) = a # split_on c b"
  by (induction a) auto

lemma split_on_parts_no_sep: "p \<in> set (split_on c s) \<Longrightarrow> c \<notin> set p"
  by (induction s arbitrary: p) (auto split: list.splits if_splits)

lemma Join_split_on: "strings_Join (split_on c s) [c] = s"
proof (induction s)
  case Nil
  then show ?case by simp
next
  case (Cons x xs)
  obtain p ps where ps: "split_on c xs = p # ps"
    by (cases "split_on c xs") auto
  with Cons show ?case by (cases ps) auto
qed

lemma split_on_Join:
  "ps \<noteq> [] \<Longrightarrow> list_all (\<lambda>p. c \<notin> set p) ps \<Longrightarrow> split_on c (strings_Join ps [c]) = ps"
  by (induction ps "[c]" rule: strings_Join.induct)
    (auto simp: split_on_no_sep split_on_append_sep)

section \<open>Lists\<close>

text \<open>A list without its element at an index.\<close>

definition drop_nth :: "nat \<Rightarrow> 'a list \<Rightarrow> 'a list" where
  "drop_nth i xs = take i xs @ drop (Suc i) xs"

lemma drop_nth_mset: "i < length xs \<Longrightarrow> add_mset (xs ! i) (mset (drop_nth i xs)) = mset xs"
  unfolding drop_nth_def by (metis add_mset_add_single append.assoc id_take_nth_drop mset.simps(2) mset_append union_mset_add_mset_right)

lemma drop_nth_map: "map f (drop_nth i xs) = drop_nth i (map f xs)"
  by (simp add: drop_nth_def take_map drop_map)

section \<open>Sums of lengths\<close>

definition total_length :: "'a list list \<Rightarrow> nat" where
  "total_length xss = sum_list (map length xss)"

lemma total_length_simps [simp]:
  "total_length [] = 0"
  "total_length (xs # xss) = length xs + total_length xss"
  "total_length (xss @ yss) = total_length xss + total_length yss"
  by (simp_all add: total_length_def)

lemma length_concat_total: "length (concat xss) = total_length xss"
  by (simp add: total_length_def length_concat)

end
