(* ===== verification/Go_Path.thy ===== *)
theory Go_Path
  imports Go_Prelude
begin

text \<open>
  Package \<open>path\<close>: \<open>Clean\<close>, \<open>Join\<close> and the parent of a clean path. The components only build file
  names with \<open>path.Join\<close>, so where a name ends up on disk is a property of these functions: a name
  that is one plain path element stays directly below its directory, and different names give
  different files.
\<close>

abbreviation slash :: char where
  "slash \<equiv> CHR 0x2F"

abbreviation dot :: string where
  "dot \<equiv> [CHR 0x2E]"

abbreviation dotdot :: string where
  "dotdot \<equiv> [CHR 0x2E, CHR 0x2E]"

text \<open>
  \<open>Clean\<close> drops empty and \<open>.\<close> elements and lets \<open>..\<close> cancel the element before it; the third
  argument is the output so far, last element first.
\<close>

fun clean_parts :: "bool \<Rightarrow> string list \<Rightarrow> string list \<Rightarrow> string list" where
  "clean_parts rooted [] out = rev out"
| "clean_parts rooted (p # ps) out =
     (if p = [] \<or> p = dot then clean_parts rooted ps out
      else if p = dotdot then
        (case out of
           [] \<Rightarrow> clean_parts rooted ps (if rooted then [] else [dotdot])
         | q # qs \<Rightarrow> clean_parts rooted ps (if q = dotdot then dotdot # out else qs))
      else clean_parts rooted ps (p # out))"

definition path_Clean :: "string \<Rightarrow> string" where
  "path_Clean s =
     (if s = [] then dot
      else let rooted = (hd s = slash);
               ps = clean_parts rooted (split_on slash s) []
           in if rooted then slash # strings_Join ps [slash]
              else if ps = [] then dot else strings_Join ps [slash])"

definition path_Join :: "string list \<Rightarrow> string" where
  "path_Join elems =
     (case dropWhile (\<lambda>e. e = []) elems of
        [] \<Rightarrow> []
      | es \<Rightarrow> path_Clean (strings_Join es [slash]))"

text \<open>An element that names an entry of a directory, and a clean absolute path below the root.\<close>

definition plain_elem :: "string \<Rightarrow> bool" where
  "plain_elem p \<longleftrightarrow> p \<noteq> [] \<and> p \<noteq> dot \<and> p \<noteq> dotdot \<and> slash \<notin> set p"

definition abs_path :: "string list \<Rightarrow> string" where
  "abs_path ps = slash # strings_Join ps [slash]"

definition clean_dir :: "string \<Rightarrow> bool" where
  "clean_dir d \<longleftrightarrow>
     (case split_on slash d of
        [] \<Rightarrow> False
      | p # ps \<Rightarrow> p = [] \<and> ps \<noteq> [] \<and> list_all plain_elem ps)"

lemma clean_parts_plain:
  "list_all plain_elem ps \<Longrightarrow> clean_parts rooted ps out = rev out @ ps"
  by (induction ps arbitrary: out) (auto simp: plain_elem_def)

lemma clean_dirE:
  assumes "clean_dir d"
  obtains ps where "ps \<noteq> []" and "list_all plain_elem ps" and "d = abs_path ps"
proof -
  from assms obtain ps where ps: "split_on slash d = [] # ps" "ps \<noteq> []" "list_all plain_elem ps"
    by (auto simp: clean_dir_def split: list.splits)
  have "d = strings_Join ([] # ps) [slash]"
    using Join_split_on [of slash d] ps(1) by simp
  also have "\<dots> = abs_path ps"
    using ps(2) by (cases ps) (auto simp: abs_path_def)
  finally show ?thesis using ps that by blast
qed

lemma split_abs_path:
  assumes "ps \<noteq> []" and "list_all plain_elem ps"
  shows "split_on slash (abs_path ps) = [] # ps"
proof -
  have "list_all (\<lambda>p. slash \<notin> set p) ps"
    using assms(2) by (simp add: list_all_iff plain_elem_def)
  with assms(1) show ?thesis by (simp add: abs_path_def split_on_Join)
qed

lemma clean_dir_abs_path: "ps \<noteq> [] \<Longrightarrow> list_all plain_elem ps \<Longrightarrow> clean_dir (abs_path ps)"
  by (simp add: clean_dir_def split_abs_path)

lemma Join_snoc: "ps \<noteq> [] \<Longrightarrow> strings_Join (ps @ [q]) sep = strings_Join ps sep @ sep @ q"
  by (induction ps sep rule: strings_Join.induct) auto

lemma Clean_abs_path:
  assumes "ps \<noteq> []" and "list_all plain_elem ps"
  shows "path_Clean (abs_path ps) = abs_path ps"
  using split_abs_path [OF assms] clean_parts_plain [OF assms(2), of True "[]"]
  by (simp add: path_Clean_def abs_path_def)

text \<open>Joining a plain element to a clean directory appends it, and the result is clean again.\<close>

lemma path_Join_plain:
  assumes "clean_dir d" and "plain_elem n"
  shows "path_Join [d, n] = d @ slash # n" and "clean_dir (path_Join [d, n])"
proof -
  obtain ps where ps: "ps \<noteq> []" "list_all plain_elem ps" "d = abs_path ps"
    using assms(1) by (rule clean_dirE)
  have all: "list_all plain_elem (ps @ [n])"
    using ps(2) assms(2) by simp
  have app: "abs_path (ps @ [n]) = d @ slash # n"
    using ps by (simp add: abs_path_def Join_snoc)
  have "path_Join [d, n] = path_Clean (abs_path (ps @ [n]))"
    using ps(1,3) by (simp add: path_Join_def abs_path_def Join_snoc)
  then have eq: "path_Join [d, n] = abs_path (ps @ [n])"
    using Clean_abs_path [OF _ all] by simp
  then show "path_Join [d, n] = d @ slash # n" by (simp add: app)
  from eq show "clean_dir (path_Join [d, n])" using all by (simp add: clean_dir_abs_path)
qed

lemma clean_dir_not_Nil: "clean_dir d \<Longrightarrow> d \<noteq> []"
  by (auto simp: clean_dir_def)

text \<open>The directories above a path: its prefixes that end before a slash, and the root.\<close>

definition ancestors :: "string \<Rightarrow> string list" where
  "ancestors p = [slash] # filter (\<lambda>q. q \<noteq> [] \<and> prefix (q @ [slash]) p) (prefixes p)"

text \<open>\<open>path.Dir\<close> of a clean path: what stands before the last slash.\<close>

definition path_Dir :: "string \<Rightarrow> string" where
  "path_Dir p =
     (let d = rev (drop 1 (dropWhile (\<lambda>c. c \<noteq> slash) (rev p)))
      in if d = [] then (if slash \<in> set p then [slash] else dot) else d)"

lemma path_Dir_append: "d \<noteq> [] \<Longrightarrow> slash \<notin> set n \<Longrightarrow> path_Dir (d @ slash # n) = d"
  by (simp add: path_Dir_def Let_def dropWhile_append1 dropWhile_append3 dropWhile_append)

lemma path_Dir_Join:
  assumes "clean_dir d" and "plain_elem n"
  shows "path_Dir (path_Join [d, n]) = d"
  using assms path_Join_plain(1) [OF assms] clean_dir_not_Nil [OF assms(1)]
  by (simp add: path_Dir_append plain_elem_def)

text \<open>Below: \<open>q\<close> is \<open>p\<close> or lies in the tree under \<open>p\<close>.\<close>

definition below :: "string \<Rightarrow> string \<Rightarrow> bool" where
  "below p q \<longleftrightarrow> q = p \<or> prefix (p @ [slash]) q"

lemma below_refl [simp]: "below p p"
  by (simp add: below_def)

lemma below_trans: "below p q \<Longrightarrow> below q r \<Longrightarrow> below p r"
  unfolding below_def by (metis append_assoc append_prefixD prefix_order.trans prefix_def)

lemma below_Join: "clean_dir d \<Longrightarrow> plain_elem n \<Longrightarrow> below d (path_Join [d, n])"
  by (simp add: below_def path_Join_plain)

text \<open>Two plain names below one directory span disjoint trees.\<close>

lemma below_siblings:
  assumes "slash \<notin> set m" and "slash \<notin> set n" and "m \<noteq> n"
  shows "\<not> below (d @ slash # m) (d @ slash # n)"
proof
  assume "below (d @ slash # m) (d @ slash # n)"
  then have "n = m \<or> prefix (m @ [slash]) n"
    by (auto simp: below_def)
  with assms show False
    by (auto simp: prefix_def)
qed

end
