(* ===== verification/Go_FS.thy ===== *)
theory Go_FS
  imports Go_Path
begin

text \<open>
  The file system as packages \<open>os\<close> and \<open>io/ioutil\<close> show it to the worker: a map from clean paths to
  directories and regular files. Permission bits, links and other processes writing to the same
  files are left out.

  Any call that changes the disk may fail: \<open>faults\<close> is the script of what the disk does at the
  calls still to come. \<open>NoFault\<close> lets a call through, \<open>FaultOpen\<close> makes it fail with no effect, and
  \<open>FaultShort n\<close> makes a \<open>WriteFile\<close> fail after \<open>n\<close> bytes, which leaves the truncated file behind. An
  empty script means no further fault.
\<close>

datatype node = Dir | File string

datatype fault = NoFault | FaultOpen | FaultShort nat

record fs =
  nodes :: "string \<Rightarrow> node option"
  faults :: "fault list"

definition next_fault :: "fs \<Rightarrow> fault" where
  "next_fault s = (case faults s of [] \<Rightarrow> NoFault | f # _ \<Rightarrow> f)"

definition tick :: "fs \<Rightarrow> fs" where
  "tick s = s\<lparr>faults := tl (faults s)\<rparr>"

lemma nodes_tick [simp]: "nodes (tick s) = nodes s"
  by (simp add: tick_def)

lemma faults_tick [simp]: "faults (tick s) = tl (faults s)"
  by (simp add: tick_def)

lemma next_fault_Nil [simp]: "faults s = [] \<Longrightarrow> next_fault s = NoFault"
  by (simp add: next_fault_def)

definition is_dir :: "fs \<Rightarrow> string \<Rightarrow> bool" where
  "is_dir s p \<longleftrightarrow> p = [slash] \<or> nodes s p = Some Dir"

definition is_file :: "fs \<Rightarrow> string \<Rightarrow> bool" where
  "is_file s p \<longleftrightarrow> (case nodes s p of Some (File _) \<Rightarrow> True | _ \<Rightarrow> False)"

text \<open>The contents of a regular file.\<close>

definition content :: "fs \<Rightarrow> string \<Rightarrow> string option" where
  "content s p = (case nodes s p of Some (File c) \<Rightarrow> Some c | _ \<Rightarrow> None)"

text \<open>A missing path is \<open>ENOTDIR\<close> when a component above it is a file, else \<open>ENOENT\<close>.\<close>

definition missing :: "fs \<Rightarrow> string \<Rightarrow> errno" where
  "missing s p = (if list_ex (is_file s) (ancestors p) then ENOTDIR else ENOENT)"

section \<open>Reading\<close>

definition os_Stat :: "fs \<Rightarrow> string \<Rightarrow> error option" where
  "os_Stat s p = (if p = [slash] \<or> nodes s p \<noteq> None then None
                  else Some (PathError ''stat'' p (missing s p)))"

definition ReadFile :: "fs \<Rightarrow> string \<Rightarrow> error + string" where
  "ReadFile s p =
     (case nodes s p of
        Some (File c) \<Rightarrow> Inr c
      | Some Dir \<Rightarrow> Inl (PathError ''read'' p EISDIR)
      | None \<Rightarrow> Inl (PathError ''open'' p (missing s p)))"

text \<open>\<open>os.IsNotExist\<close>.\<close>

fun os_IsNotExist :: "error \<Rightarrow> bool" where
  "os_IsNotExist (PathError _ _ e) = (e = ENOENT)"
| "os_IsNotExist _ = False"

section \<open>Writing\<close>

definition set_node :: "fs \<Rightarrow> string \<Rightarrow> node option \<Rightarrow> fs" where
  "set_node s p n = s\<lparr>nodes := (nodes s)(p := n)\<rparr>"

definition WriteFile :: "fs \<Rightarrow> string \<Rightarrow> string \<Rightarrow> error option \<times> fs" where
  "WriteFile s p c =
     (let s' = tick s in
      if is_dir s p then (Some (PathError ''open'' p EISDIR), s')
      else if \<not> is_dir s (path_Dir p) then (Some (PathError ''open'' p (missing s p)), s')
      else (case next_fault s of
              NoFault \<Rightarrow> (None, set_node s' p (Some (File c)))
            | FaultOpen \<Rightarrow> (Some (PathError ''open'' p EIO), s')
            | FaultShort n \<Rightarrow>
                (Some (PathError ''write'' p EIO), set_node s' p (Some (File (take n c))))))"

definition MkdirAll :: "fs \<Rightarrow> string \<Rightarrow> error option \<times> fs" where
  "MkdirAll s p =
     (let s' = tick s in
      if is_dir s p then (None, s')
      else if is_file s p \<or> list_ex (is_file s) (ancestors p) then
        (Some (PathError ''mkdir'' p ENOTDIR), s')
      else if next_fault s \<noteq> NoFault then (Some (PathError ''mkdir'' p EIO), s')
      else (None, s'\<lparr>nodes := (\<lambda>q. if q = p \<or> q \<in> set (ancestors p) then Some Dir
                                    else nodes s q)\<rparr>))"

text \<open>
  \<open>os.RemoveAll\<close> removes a file or a whole tree, and an absent path is no error.
\<close>

definition RemoveAll :: "fs \<Rightarrow> string \<Rightarrow> error option \<times> fs" where
  "RemoveAll s p =
     (let s' = tick s in
      if nodes s p = None then (None, s')
      else if next_fault s \<noteq> NoFault then (Some (PathError ''unlinkat'' p EIO), s')
      else (None, s'\<lparr>nodes := (\<lambda>q. if below p q then None else nodes s q)\<rparr>))"

text \<open>
  \<open>os.Remove\<close> removes a file. A directory counts as non-empty: the worker calls \<open>os.Remove\<close> on the
  names of regular files only.
\<close>

definition os_Remove :: "fs \<Rightarrow> string \<Rightarrow> error option \<times> fs" where
  "os_Remove s p =
     (let s' = tick s in
      case nodes s p of
        None \<Rightarrow> (Some (PathError ''remove'' p (missing s p)), s')
      | Some Dir \<Rightarrow> (Some (PathError ''remove'' p ENOTEMPTY), s')
      | Some (File _) \<Rightarrow>
          (if next_fault s \<noteq> NoFault then (Some (PathError ''remove'' p EIO), s')
           else (None, set_node s' p None)))"

lemmas fs_defs = WriteFile_def MkdirAll_def RemoveAll_def os_Remove_def set_node_def

section \<open>What the calls promise\<close>

lemma WriteFile_ok:
  assumes "WriteFile s p c = (None, s')"
  shows "nodes s' = (nodes s)(p \<mapsto> File c)" and "ReadFile s' p = Inr c" and "content s' p = Some c"
  using assms
  by (auto simp: WriteFile_def Let_def set_node_def ReadFile_def content_def
      split: if_splits fault.splits)

lemma WriteFile_succeeds:
  assumes "\<not> is_dir s p" and "is_dir s (path_Dir p)" and "next_fault s = NoFault"
  shows "WriteFile s p c = (None, set_node (tick s) p (Some (File c)))"
  using assms by (simp add: WriteFile_def Let_def)

text \<open>A call touches no path but its own (or its tree).\<close>

lemma WriteFile_frame: "q \<noteq> p \<Longrightarrow> nodes (snd (WriteFile s p c)) q = nodes s q"
  by (auto simp: WriteFile_def Let_def set_node_def split: fault.splits)

lemma os_Remove_frame: "q \<noteq> p \<Longrightarrow> nodes (snd (os_Remove s p)) q = nodes s q"
  by (auto simp: os_Remove_def Let_def set_node_def split: option.splits node.splits)

lemma RemoveAll_frame: "\<not> below p q \<Longrightarrow> nodes (snd (RemoveAll s p)) q = nodes s q"
  by (auto simp: RemoveAll_def Let_def)

lemma RemoveAll_ok: "RemoveAll s p = (None, s') \<Longrightarrow> nodes s' p = None"
  by (auto simp: RemoveAll_def Let_def split: if_splits)

lemma MkdirAll_ok: "MkdirAll s p = (None, s') \<Longrightarrow> is_dir s' p"
  by (auto simp: MkdirAll_def Let_def is_dir_def split: if_splits)

lemma MkdirAll_files: "nodes s q = Some (File c) \<Longrightarrow> nodes (snd (MkdirAll s p)) q = Some (File c)"
  by (auto simp: MkdirAll_def Let_def list_ex_iff is_file_def)

text \<open>No call adds to the script of faults, so a disk with none left stays that way.\<close>

lemma faults_calls [simp]:
  "faults (snd (WriteFile s p c)) = tl (faults s)"
  "faults (snd (MkdirAll s p)) = tl (faults s)"
  "faults (snd (RemoveAll s p)) = tl (faults s)"
  "faults (snd (os_Remove s p)) = tl (faults s)"
  by (auto simp: fs_defs Let_def split: fault.splits option.splits node.splits)

lemma content_File [simp]: "content s p = Some c \<longleftrightarrow> nodes s p = Some (File c)"
  by (auto simp: content_def split: option.splits node.splits)

lemma ReadFile_File [simp]: "nodes s p = Some (File c) \<Longrightarrow> ReadFile s p = Inr c"
  by (simp add: ReadFile_def)

lemma ReadFile_Inr: "ReadFile s p = Inr c \<longleftrightarrow> nodes s p = Some (File c)"
  by (auto simp: ReadFile_def split: option.splits node.splits)

text \<open>A disk given by a list of its entries, with no faults to come.\<close>

definition fs_of :: "(string \<times> node) list \<Rightarrow> fs" where
  "fs_of ns = \<lparr>nodes = map_of ns, faults = []\<rparr>"

lemma fs_of_simps [simp]: "nodes (fs_of ns) = map_of ns" "faults (fs_of ns) = []"
  by (simp_all add: fs_of_def)

section \<open>The world of a component\<close>

text \<open>
  The disk, and everything else outside the process: the podman service, systemd, the kernel's
  packet filter. That part has a type of its own, \<open>'e\<close>, and is only reached through functions the
  definitions take as arguments.
\<close>

record 'e world =
  disk :: fs
  ext :: 'e

text \<open>A call that only touches the disk, or only the rest.\<close>

definition on_disk :: "(fs \<Rightarrow> 'a \<times> fs) \<Rightarrow> 'e world \<Rightarrow> ('a, 'e world) call" where
  "on_disk f w = (let (a, s) = f (disk w) in (Ret a, w\<lparr>disk := s\<rparr>))"

definition on_ext :: "('e \<Rightarrow> 'a \<times> 'e) \<Rightarrow> 'e world \<Rightarrow> ('a, 'e world) call" where
  "on_ext f w = (let (a, e) = f (ext w) in (Ret a, w\<lparr>ext := e\<rparr>))"

lemma on_disk_fst [simp]: "fst (on_disk f w) = Ret (fst (f (disk w)))"
  by (simp add: on_disk_def split_beta)

lemma on_ext_fst [simp]: "fst (on_ext f w) = Ret (fst (f (ext w)))"
  by (simp add: on_ext_def split_beta)

lemma on_disk_snd [simp]: "snd (on_disk f w) = w\<lparr>disk := snd (f (disk w))\<rparr>"
  by (simp add: on_disk_def split_beta)

lemma on_ext_snd [simp]: "snd (on_ext f w) = w\<lparr>ext := snd (f (ext w))\<rparr>"
  by (simp add: on_ext_def split_beta)

end
