(* ===== verification/Models.thy ===== *)
theory Models
  imports Go_Prelude
begin

text \<open>
  The data exchanged with the control plane (package \<open>models\<close> of the operator, vendored) and the
  part of a Kubernetes pod the worker reads or writes. A pointer that may be nil is an \<open>option\<close>; a
  slice or a map that the source never compares with nil is a list. Integers keep their Go type in
  a comment and are \<open>int\<close>; arithmetic that can leave the type's range is done on words where it
  occurs.
\<close>

section \<open>Device configuration\<close>

record DataPath =
  dp_Source :: string
  dp_Target :: string

record MetricsAllowList =
  al_Names :: "string list"

record ContainerMetrics =
  cm_Disabled :: bool
  cm_Path :: string
  cm_Port :: int

record Metrics =
  met_AllowList :: "MetricsAllowList option"
  met_Containers :: "(string, ContainerMetrics) gomap"
  met_Interval :: int \<comment> \<open>int32\<close>
  met_Path :: string
  met_Port :: int \<comment> \<open>int32\<close>

record ImageRegistries =
  ir_AuthFile :: string

record Secret =
  sec_Data :: string
  sec_Name :: string

record Workload_model =
  wl_Configmaps :: "string list"
  wl_Data :: "DataPath list option"
  wl_ImageRegistries :: "ImageRegistries option"
  wl_Labels :: "(string, string) gomap option" \<comment> \<open>\<open>None\<close> is the nil map\<close>
  wl_LogCollection :: string
  wl_Metrics :: "Metrics option"
  wl_Name :: string
  wl_Namespace :: string
  wl_Specification :: string

record HeartbeatConfiguration =
  hb_HardwareProfile :: "(bool \<times> string) option" \<comment> \<open>\<open>Include\<close> and \<open>Scope\<close>\<close>
  hb_PeriodSeconds :: int \<comment> \<open>int64\<close>

record SyslogConfig =
  sc_Address :: string
  sc_Protocol :: string

record LogsCollectionInformation =
  lc_BufferSize :: int \<comment> \<open>int32\<close>
  lc_Kind :: string
  lc_SyslogConfig :: "SyslogConfig option"

record MetricsReceiverConfiguration =
  mr_CaCert :: string
  mr_RequestNumSamples :: int \<comment> \<open>int64\<close>
  mr_TimeoutSeconds :: int \<comment> \<open>int64\<close>
  mr_URL :: string

record MetricsRetention =
  ret_MaxHours :: int \<comment> \<open>int32\<close>
  ret_MaxMib :: int \<comment> \<open>int32\<close>

record SystemMetricsConfiguration =
  sm_AllowList :: "MetricsAllowList option"
  sm_Disabled :: bool
  sm_Interval :: int \<comment> \<open>int32\<close>

record MetricsConfiguration =
  mc_Receiver :: "MetricsReceiverConfiguration option"
  mc_Retention :: "MetricsRetention option"
  mc_System :: "SystemMetricsConfiguration option"

record OsInformation =
  os_AutomaticallyUpgrade :: bool
  os_CommitID :: string
  os_HostedObjectsURL :: string

record S3StorageConfiguration =
  s3_AwsAccessKeyID :: string
  s3_AwsCaBundle :: string
  s3_AwsSecretAccessKey :: string
  s3_BucketHost :: string
  s3_BucketName :: string
  s3_BucketPort :: int
  s3_BucketRegion :: string

record DeviceConfiguration =
  dc_Heartbeat :: "HeartbeatConfiguration option"
  dc_LogCollection :: "(string, LogsCollectionInformation) gomap"
  dc_Metrics :: "MetricsConfiguration option"
  dc_Os :: "OsInformation option"
  dc_Storage :: "S3StorageConfiguration option option" \<comment> \<open>\<open>Storage\<close>, and its \<open>S3\<close>\<close>

record DeviceConfigurationMessage =
  dcm_AnsiblePlaybook :: string
  dcm_Configuration :: "DeviceConfiguration option"
  dcm_DeviceID :: string
  dcm_Secrets :: "Secret list"
  dcm_Version :: string
  dcm_Workloads :: "Workload_model list"
  dcm_WorkloadsMonitoringInterval :: int \<comment> \<open>int64\<close>

section \<open>Events\<close>

record EventInfo =
  ev_Message :: string
  ev_Reason :: string
  ev_Type :: string

definition EventInfoTypeWarn :: string where
  "EventInfoTypeWarn = ''warn''"

definition EventInfoTypeInfo :: string where
  "EventInfoTypeInfo = ''info''"

text \<open>
  What the heartbeat relies on in a component that queues events: an operation appends to the queue
  or leaves it alone, and \<open>PopEvents\<close> hands over the whole queue and empties it. Over any run of
  operations and pops the events popped, followed by the ones still queued, are the events appended.
\<close>

locale event_queue =
  fixes queued :: "'s \<Rightarrow> EventInfo list"
    and pop :: "'s \<Rightarrow> EventInfo list \<times> 's"
  assumes pop_all: "fst (pop s) = queued s"
    and pop_empties: "queued (snd (pop s)) = []"
begin

lemma pop_twice: "fst (pop (snd (pop s))) = []"
  by (simp add: pop_all pop_empties)

fun collect :: "('s \<Rightarrow> 's) list \<Rightarrow> 's \<Rightarrow> EventInfo list \<times> 's" where
  "collect [] s = ([], s)"
| "collect (f # fs) s =
     (let (evs, s') = pop (f s); (later, s'') = collect fs s' in (evs @ later, s''))"

lemma collect_conserves:
  assumes "\<And>f s. f \<in> set fs \<Longrightarrow> queued (f s) = queued s @ made f"
  shows "fst (collect fs s) @ queued (snd (collect fs s)) = queued s @ concat (map made fs)"
  using assms
proof (induction fs arbitrary: s)
  case Nil
  then show ?case by simp
next
  case (Cons f fs)
  have "fst (collect fs (snd (pop (f s)))) @ queued (snd (collect fs (snd (pop (f s))))) =
      queued (snd (pop (f s))) @ concat (map made fs)"
    using Cons by simp
  then show ?case
    using Cons.prems [of f s] by (simp add: split_beta Let_def pop_all pop_empties)
qed

end

section \<open>Pods\<close>

text \<open>
  \<open>'p\<close> stands for the fields of a pod specification, a container or a volume that the worker
  hands on without reading them.
\<close>

datatype 'p Volume = HostPath string string string | OtherVolume 'p
  \<comment> \<open>a host path volume: name, type, path\<close>

record 'p Container =
  ctr_Name :: string
  ctr_HostPorts :: "int list" \<comment> \<open>the \<open>HostPort\<close> (int32) of each of its \<open>Ports\<close>\<close>
  ctr_VolumeMounts :: "(string \<times> string) list" \<comment> \<open>name and mount path\<close>
  ctr_Env :: "(string \<times> string) list"
  ctr_other :: 'p

record 'p PodSpec =
  spec_Volumes :: "'p Volume list"
  spec_Containers :: "'p Container list"
  spec_other :: 'p

record 'p Pod =
  pod_Kind :: string
  pod_Name :: string
  pod_Labels :: "(string, string) gomap"
  pod_Spec :: "'p PodSpec"

end
