(* ===== verification/Metrics_Store.thy ===== *)
theory Metrics_Store
  imports Go_FS Models
begin

text \<open>
  \<open>internal/metrics/metrics.go\<close> and \<open>allow-list.go\<close>: the store of samples and the filters in front
  of it. The time series database (\<open>prometheus/tsdb\<close>) is a record of functions on the external
  state.

  A \<open>time.Time\<close> is the number of nanoseconds since the Unix epoch, an \<open>int\<close>; the zero time is the
  first of January of year 1. A sample's value is any type \<open>'v\<close>: the worker only copies it.
\<close>

section \<open>Time\<close>

definition zero_time :: int where
  "zero_time = - 62135596800 * 10 ^ 9"

definition MinInt64 :: int where "MinInt64 = - (2 ^ 63)"
definition MaxInt64 :: int where "MaxInt64 = 2 ^ 63 - 1"

text \<open>Go's integer division truncates toward zero.\<close>

definition quot :: "int \<Rightarrow> int \<Rightarrow> int" where
  "quot a b = (if (a < 0) = (b < 0) then \<bar>a\<bar> div \<bar>b\<bar> else - (\<bar>a\<bar> div \<bar>b\<bar>))"

definition remn :: "int \<Rightarrow> int \<Rightarrow> int" where
  "remn a b = a - quot a b * b"

definition Millisecond :: int where "Millisecond = 1000000"
definition Second :: int where "Second = 1000000000"

text \<open>\<open>UnixNano\<close> is an \<open>int64\<close> and wraps around for times before 1678 or after 2262.\<close>

definition UnixNano :: "int \<Rightarrow> int" where
  "UnixNano t = (t + 2 ^ 63) mod 2 ^ 64 - 2 ^ 63"

definition toDbTime :: "int \<Rightarrow> int" where
  "toDbTime t = quot (UnixNano t) Millisecond"

definition time_Unix :: "int \<Rightarrow> int \<Rightarrow> int" where
  "time_Unix sec nsec = sec * Second + nsec"

definition fromDbTime :: "int \<Rightarrow> int" where
  "fromDbTime t = (if t = 0 \<or> t = MinInt64 \<or> t = MaxInt64 then zero_time
     else time_Unix (quot t 1000) (remn t 1000 * Millisecond))"

lemma quot_remn: "quot t b * b + remn t b = t"
  by (simp add: remn_def)

lemma fromDbTime_ms:
  assumes "t \<noteq> 0" and "t \<noteq> MinInt64" and "t \<noteq> MaxInt64"
  shows "fromDbTime t = t * Millisecond"
proof -
  have "quot t 1000 * 1000000000 + remn t 1000 * 1000000 = (quot t 1000 * 1000 + remn t 1000) * 1000000"
    by (simp add: algebra_simps)
  then show ?thesis
    using assms quot_remn [of t 1000]
    by (simp only: fromDbTime_def time_Unix_def Second_def Millisecond_def if_False simp_thms)
qed

lemma UnixNano_id: "- (2 ^ 63) \<le> t \<Longrightarrow> t < 2 ^ 63 \<Longrightarrow> UnixNano t = t"
  by (simp add: UnixNano_def)

lemma quot_mult: "0 < b \<Longrightarrow> quot (t * b) b = t"
  using nonzero_mult_div_cancel_right [of b "- t"] by (auto simp: quot_def abs_mult mult_less_0_iff not_less)

text \<open>
  A time of the database survives the conversion to a \<open>time.Time\<close> and back, if it is within
  the range of \<open>UnixNano\<close> and is none of the three values 0, \<open>MinInt64\<close> and \<open>MaxInt64\<close>, which all
  stand for no time at all.
\<close>

theorem db_time_roundtrip:
  assumes "t \<noteq> 0" and "- (2 ^ 63) \<le> t * 1000000" and "t * 1000000 < 2 ^ 63"
  shows "toDbTime (fromDbTime t) = t \<and> fromDbTime 0 = zero_time \<and> fromDbTime MinInt64 = zero_time \<and>
    fromDbTime MaxInt64 = zero_time"
proof -
  have "t \<noteq> MinInt64" "t \<noteq> MaxInt64"
    using assms by (auto simp: MinInt64_def MaxInt64_def)
  then have "fromDbTime t = t * 1000000"
    using assms(1) fromDbTime_ms by (simp add: Millisecond_def)
  then have "toDbTime (fromDbTime t) = t"
    using UnixNano_id [OF assms(2,3)] quot_mult [of Millisecond t]
    by (simp add: toDbTime_def Millisecond_def)
  then show ?thesis by (simp add: fromDbTime_def)
qed

theorem db_time_roundtrip_witness: "toDbTime (fromDbTime 1650000000123) = 1650000000123"
  using db_time_roundtrip [of 1650000000123] by simp

section \<open>Samples and their filters\<close>

record 'v Sample =
  smp_Metric :: "(string, string) gomap" \<comment> \<open>the labels, the name under \<open>__name__\<close>\<close>
  smp_Value :: 'v

datatype SampleFilter = PermissiveAllowList | RestrictiveAllowList "(string, unit) gomap"

definition MetricNameLabel :: string where
  "MetricNameLabel = ''__name__''"

text \<open>\<open>Filter\<close> of the two implementations of the interface.\<close>

fun Filter :: "SampleFilter \<Rightarrow> 'v Sample list \<Rightarrow> 'v Sample list" where
  "Filter PermissiveAllowList samples = samples"
| "Filter (RestrictiveAllowList allowedNames) samples =
     filter (\<lambda>sample. map_of allowedNames (map_get (smp_Metric sample) MetricNameLabel) \<noteq> None) samples"

definition NewRestrictiveAllowList :: "MetricsAllowList option \<Rightarrow> SampleFilter" where
  "NewRestrictiveAllowList list =
     RestrictiveAllowList (case list of None \<Rightarrow> [] | Some l \<Rightarrow> map_fill [] (map (\<lambda>n. (n, ())) (al_Names l)))"

definition DefaultSystemAllowList :: SampleFilter where
  "DefaultSystemAllowList = RestrictiveAllowList (map (\<lambda>n. (n, ()))
     [''node_cpu_frequency_hertz'', ''node_cpu_scaling_frequency_min_hertz'', ''node_cpu_scaling_frequency_hertz'',
      ''node_cpu_scaling_frequency_max_hertz'', ''node_disk_read_bytes_total'', ''node_disk_written_bytes_total'',
      ''node_memory_MemAvailable_bytes'', ''node_memory_MemFree_bytes'', ''node_memory_MemTotal_bytes'',
      ''node_network_info'', ''node_network_receive_bytes_total'', ''node_network_transmit_bytes_total''])"

lemma allowed_names:
  "map_of (map_fill [] (map (\<lambda>n. (n, ())) ns)) n \<noteq> None \<longleftrightarrow> n \<in> set ns"
  by (force simp: lookup_fill map_of_eq_None_iff)

section \<open>The store\<close>

record 'v DataPoint =
  pt_Time :: int \<comment> \<open>int64, milliseconds\<close>
  pt_Value :: 'v

record 'v Series =
  ser_Labels :: "(string, string) gomap"
  ser_DataPoints :: "'v DataPoint list"

record Options =
  opt_RetentionDuration :: int
  opt_MaxBytes :: int

text \<open>
  The database: opening and closing it, the times at its ends, appending one sample in a
  transaction, and reading. A querier is any value of type \<open>'q\<close>.
\<close>

record ('v, 'q, 'e) tsdb_api =
  tsdb_Open :: "string \<Rightarrow> Options \<Rightarrow> 'e \<Rightarrow> error option \<times> 'e"
  db_Close :: "'e \<Rightarrow> error option \<times> 'e"
  db_StartTime :: "'e \<Rightarrow> (error + int) \<times> 'e"
  db_HeadMaxTime :: "'e \<Rightarrow> int \<times> 'e"
  app_Append :: "(string, string) gomap \<Rightarrow> int \<Rightarrow> 'v \<Rightarrow> 'e \<Rightarrow> error option \<times> 'e"
  app_Rollback :: "'e \<Rightarrow> error option \<times> 'e"
  app_Commit :: "'e \<Rightarrow> error option \<times> 'e"
  db_Querier :: "int \<Rightarrow> int \<Rightarrow> 'e \<Rightarrow> (error + 'q) \<times> 'e"
  q_LabelNames :: "'q \<Rightarrow> 'e \<Rightarrow> (error + string list) \<times> 'e"
  q_Select :: "'q \<Rightarrow> bool \<Rightarrow> (string \<times> string) list \<Rightarrow> 'e \<Rightarrow>
    (error + ((string \<times> string) list \<times> (int \<times> 'v) list) list) \<times> 'e"
  q_Close :: "'q \<Rightarrow> 'e \<Rightarrow> error option \<times> 'e"

record TSDB =
  ts_dir :: string
  ts_open :: bool \<comment> \<open>\<open>t.db\<close> is a database that has not been closed\<close>
  ts_RetentionDuration :: int
  ts_MaxBytes :: int

definition millisInHour :: int where "millisInHour = 60 * 60 * 1000"
definition DefaultRetentionDuration :: int where "DefaultRetentionDuration = 7 * 24 * millisInHour"
definition DefaultMaxBytes :: int where "DefaultMaxBytes = 0"

definition NewTSDB :: "('v, 'q, 'e) tsdb_api \<Rightarrow> string \<Rightarrow> 'e world \<Rightarrow> (error + TSDB) \<times> 'e world" where
  "NewTSDB api dataDir w =
     (let metricsDir = path_Join [dataDir, ''metrics''] in
      case MkdirAll (disk w) metricsDir of
        (Some err, s) \<Rightarrow> (Inl (Errorf ''cannot create directory: %w'' [error_string err]), w\<lparr>disk := s\<rparr>)
      | (None, s) \<Rightarrow>
          (case tsdb_Open api metricsDir \<lparr>opt_RetentionDuration = DefaultRetentionDuration, opt_MaxBytes = DefaultMaxBytes\<rparr>
                  (ext w) of
             (Some err, e) \<Rightarrow> (Inl err, w\<lparr>disk := s, ext := e\<rparr>)
           | (None, e) \<Rightarrow>
               (Inr \<lparr>ts_dir = metricsDir, ts_open = True, ts_RetentionDuration = DefaultRetentionDuration,
                     ts_MaxBytes = DefaultMaxBytes\<rparr>, w\<lparr>disk := s, ext := e\<rparr>)))"

definition TSDB_Close :: "('v, 'q, 'e) tsdb_api \<Rightarrow> TSDB \<Rightarrow> 'e \<Rightarrow> (error option \<times> TSDB) \<times> 'e" where
  "TSDB_Close api t e =
     (case db_Close api e of (Some err, e') \<Rightarrow> ((Some err, t), e') | (None, e') \<Rightarrow> ((None, t\<lparr>ts_open := False\<rparr>), e'))"

definition TSDB_Deregister :: "('v, 'q, 'e) tsdb_api \<Rightarrow> TSDB \<Rightarrow> 'e world \<Rightarrow> (error option \<times> TSDB) \<times> 'e world" where
  "TSDB_Deregister api t w =
     (case TSDB_Close api t (ext w) of
        ((Some err, t'), e) \<Rightarrow> ((Some err, t'), w\<lparr>ext := e\<rparr>)
      | ((None, t'), e) \<Rightarrow>
          (case RemoveAll (disk w) (ts_dir t) of (r, s) \<Rightarrow> ((r, t'), w\<lparr>disk := s, ext := e\<rparr>)))"

definition AddMetric :: "('v, 'q, 'e) tsdb_api \<Rightarrow> int \<Rightarrow> 'v \<Rightarrow> (string, string) gomap \<Rightarrow> 'e \<Rightarrow> error option \<times> 'e" where
  "AddMetric api now v labelsMap e =
     (case app_Append api labelsMap (toDbTime now) v e of
        (Some err, e1) \<Rightarrow> (Some err, snd (app_Rollback api e1))
      | (None, e1) \<Rightarrow> app_Commit api e1)"

text \<open>Labels of the sample win over the added ones.\<close>

definition mergeLabelsFromVector ::
  "((string, string) gomap \<Rightarrow> (string \<times> string) list) \<Rightarrow> (string, string) gomap \<Rightarrow> (string, string) gomap \<Rightarrow> (string, string) gomap" where
  "mergeLabelsFromVector rng metric added = map_fill (map_fill [] (rng added)) (rng metric)"

fun AddVector_loop ::
  "('v, 'q, 'e) tsdb_api \<Rightarrow> ((string, string) gomap \<Rightarrow> (string \<times> string) list) \<Rightarrow> int \<Rightarrow> (string, string) gomap \<Rightarrow>
   'v Sample list \<Rightarrow> error list \<Rightarrow> 'e \<Rightarrow> error list \<times> 'e" where
  "AddVector_loop api rng now labelsMap [] errors e = (errors, e)"
| "AddVector_loop api rng now labelsMap (m # ms) errors e =
     (case AddMetric api now (smp_Value m) (mergeLabelsFromVector rng (smp_Metric m) labelsMap) e of
        (None, e') \<Rightarrow> AddVector_loop api rng now labelsMap ms errors e'
      | (Some err, e') \<Rightarrow> AddVector_loop api rng now labelsMap ms (multierror_Append errors err) e')"

definition AddVector where
  "AddVector api rng now samples labelsMap e =
     (case AddVector_loop api rng now labelsMap samples [] e of (errors, e') \<Rightarrow> (as_error errors, e'))"

definition getAllLabelsMatchers :: "('v, 'q, 'e) tsdb_api \<Rightarrow> 'q \<Rightarrow> 'e \<Rightarrow> (error + (string \<times> string) list) \<times> 'e" where
  "getAllLabelsMatchers api q e =
     (case q_LabelNames api q e of
        (Inl err, e') \<Rightarrow> (Inl err, e')
      | (Inr lbls, e') \<Rightarrow> (Inr (map (\<lambda>l. (l, ''.*'')) lbls), e'))"

definition toSeries :: "((string \<times> string) list \<times> (int \<times> 'v) list) list \<Rightarrow> 'v Series list" where
  "toSeries sers = map (\<lambda>(ls, pts). \<lparr>ser_Labels = map_fill [] ls,
     ser_DataPoints = map (\<lambda>(t, v). \<lparr>pt_Time = t, pt_Value = v\<rparr>) pts\<rparr>) sers"

definition GetMetricsForTimeRange ::
  "('v, 'q, 'e) tsdb_api \<Rightarrow> int \<Rightarrow> int \<Rightarrow> bool \<Rightarrow> 'e \<Rightarrow> (error + 'v Series list) \<times> 'e" where
  "GetMetricsForTimeRange api tMin tMax srt e =
     (case db_Querier api (toDbTime tMin) (toDbTime tMax) e of
        (Inl err, e1) \<Rightarrow> (Inl err, e1)
      | (Inr q, e1) \<Rightarrow>
          (case getAllLabelsMatchers api q e1 of
             (Inl err, e2) \<Rightarrow> (Inl err, snd (q_Close api q e2))
           | (Inr matchers, e2) \<Rightarrow>
               (case q_Select api q srt matchers e2 of
                  (Inl err, e3) \<Rightarrow> (Inl err, snd (q_Close api q e3))
                | (Inr sers, e3) \<Rightarrow> (Inr (toSeries sers), snd (q_Close api q e3)))))"

definition MinTime :: "('v, 'q, 'e) tsdb_api \<Rightarrow> 'e \<Rightarrow> (error + int) \<times> 'e" where
  "MinTime api e = (case db_StartTime api e of (Inl err, e') \<Rightarrow> (Inl err, e') | (Inr t, e') \<Rightarrow> (Inr (fromDbTime t), e'))"

definition MaxTime :: "('v, 'q, 'e) tsdb_api \<Rightarrow> 'e \<Rightarrow> int \<times> 'e" where
  "MaxTime api e = (case db_HeadMaxTime api e of (t, e') \<Rightarrow> (fromDbTime t, e'))"

section \<open>Retention\<close>

text \<open>
  \<open>Update\<close> reopens the database when the retention changes; \<open>config.Configuration\<close> is read without
  a check for nil. The options are changed before the database is opened again.
\<close>

definition wanted_retention :: "DeviceConfiguration \<Rightarrow> int \<times> int" where
  "wanted_retention c =
     (case dc_Metrics c of
        None \<Rightarrow> (DefaultMaxBytes, DefaultRetentionDuration)
      | Some mc \<Rightarrow>
          (case mc_Retention mc of
             None \<Rightarrow> (DefaultMaxBytes, DefaultRetentionDuration)
           | Some r \<Rightarrow> (ret_MaxMib r * 1024 * 1024, ret_MaxHours r * millisInHour)))"

definition TSDB_Update ::
  "('v, 'q, 'e) tsdb_api \<Rightarrow> DeviceConfigurationMessage \<Rightarrow> TSDB \<Rightarrow> 'e \<Rightarrow> (error option \<times> TSDB, 'e) call" where
  "TSDB_Update api config t e =
     (case dcm_Configuration config of
        None \<Rightarrow> (Panic, e)
      | Some c \<Rightarrow>
          (let (maxBytes, retentionDuration) = wanted_retention c in
           if retentionDuration = ts_RetentionDuration t \<and> maxBytes = ts_MaxBytes t then (Ret (None, t), e)
           else
             case db_Close api e of
               (Some err, e1) \<Rightarrow> (Ret (Some err, t), e1)
             | (None, e1) \<Rightarrow>
                 (let t1 = t\<lparr>ts_open := False, ts_MaxBytes := maxBytes, ts_RetentionDuration := retentionDuration\<rparr> in
                  case tsdb_Open api (ts_dir t) \<lparr>opt_RetentionDuration = retentionDuration, opt_MaxBytes = maxBytes\<rparr> e1 of
                    (Some err, e2) \<Rightarrow> (Ret (Some err, t1), e2)
                  | (None, e2) \<Rightarrow> (Ret (None, t1\<lparr>ts_open := True\<rparr>), e2))))"

definition TSDB_Init where
  "TSDB_Init api config t e = TSDB_Update api config t e"

text \<open>
  When the database cannot be reopened with a new retention, the new retention counts as
  applied: the same configuration sent again reports success and leaves the database closed.
\<close>

theorem failed_reopen_not_retried:
  assumes "TSDB_Update api config t e = (Ret (Some err, t'), e')" and "ts_open t" and "\<not> ts_open t'"
  shows "TSDB_Update api config t' e'' = (Ret (None, t'), e'') \<and> \<not> ts_open t'"
  using assms
  by (auto simp: TSDB_Update_def Let_def split: option.splits prod.splits if_splits)

text \<open>An update that succeeds on an open database leaves it open with the configured limits.\<close>

lemma retention_applied:
  assumes "TSDB_Update api config t e = (Ret (None, t'), e')" and "ts_open t"
  shows "ts_open t'" and "\<exists>c. dcm_Configuration config = Some c \<and> (ts_MaxBytes t', ts_RetentionDuration t') = wanted_retention c"
  using assms by (auto simp: TSDB_Update_def Let_def split: option.splits prod.splits if_splits)

section \<open>The contract of the filters\<close>

text \<open>
  What the scraper relies on in a filter: it keeps some of the samples, in their order, and decides
  on each sample alone.
\<close>

locale sample_filter =
  fixes run :: "'v Sample list \<Rightarrow> 'v Sample list"
    and keep :: "'v Sample \<Rightarrow> bool"
  assumes run_filter: "run samples = filter keep samples"
begin

lemma run_subseq: "subseq (run samples) samples"
  by (simp add: run_filter)

lemma run_append: "run (xs @ ys) = run xs @ run ys"
  by (simp add: run_filter)

lemma run_idem: "run (run samples) = run samples"
  by (simp add: run_filter)

lemma run_concat: "run (concat batches) = concat (map run batches)"
  by (simp add: run_filter [abs_def] filter_concat)

end

lemma restrictive_keeps:
  "Filter (NewRestrictiveAllowList (Some l)) samples =
     filter (\<lambda>s. map_get (smp_Metric s) MetricNameLabel \<in> set (al_Names l)) samples"
  using allowed_names [of "al_Names l"] by (simp add: NewRestrictiveAllowList_def)

interpretation permissive: sample_filter "Filter PermissiveAllowList" "\<lambda>_. True"
  by unfold_locales simp

interpretation restrictive: sample_filter "Filter (NewRestrictiveAllowList (Some l))"
  "\<lambda>s. map_get (smp_Metric s) MetricNameLabel \<in> set (al_Names l)" for l
  by unfold_locales (rule restrictive_keeps)

text \<open>
  A restrictive allow list keeps exactly the samples whose metric name is on the list, in their
  order, the same whether the samples are filtered at once or batch by batch; filtering twice
  changes nothing. Without a list nothing passes.
\<close>

theorem allow_list_filters:
  "Filter (NewRestrictiveAllowList (Some l)) (concat batches) =
     filter (\<lambda>s. map_get (smp_Metric s) MetricNameLabel \<in> set (al_Names l)) (concat batches) \<and>
   Filter (NewRestrictiveAllowList (Some l)) (concat batches) =
     concat (map (Filter (NewRestrictiveAllowList (Some l))) batches) \<and>
   Filter (NewRestrictiveAllowList (Some l)) (Filter (NewRestrictiveAllowList (Some l)) samples) =
     Filter (NewRestrictiveAllowList (Some l)) samples \<and>
   Filter (NewRestrictiveAllowList None) samples = []"
proof (intro conjI)
  show "Filter (NewRestrictiveAllowList None) samples = []"
    by (simp add: NewRestrictiveAllowList_def)
qed (rule restrictive.run_filter restrictive.run_concat restrictive.run_idem)+

text \<open>A database on which opening fails.\<close>

definition stuck_tsdb :: "(int, unit, unit) tsdb_api" where
  "stuck_tsdb = \<lparr>tsdb_Open = \<lambda>_ _ e. (Some (ExternalError ''locked''), e), db_Close = \<lambda>e. (None, e),
     db_StartTime = \<lambda>e. (Inr 0, e), db_HeadMaxTime = \<lambda>e. (0, e), app_Append = \<lambda>_ _ _ e. (None, e),
     app_Rollback = \<lambda>e. (None, e), app_Commit = \<lambda>e. (None, e), db_Querier = \<lambda>_ _ e. (Inr (), e),
     q_LabelNames = \<lambda>_ e. (Inr [], e), q_Select = \<lambda>_ _ _ e. (Inr [], e), q_Close = \<lambda>_ e. (None, e)\<rparr>"

definition retention_message :: DeviceConfigurationMessage where
  "retention_message = \<lparr>dcm_AnsiblePlaybook = [],
     dcm_Configuration = Some \<lparr>dc_Heartbeat = None, dc_LogCollection = [],
       dc_Metrics = Some \<lparr>mc_Receiver = None, mc_Retention = Some \<lparr>ret_MaxHours = 1, ret_MaxMib = 2\<rparr>, mc_System = None\<rparr>,
       dc_Os = None, dc_Storage = None\<rparr>,
     dcm_DeviceID = [], dcm_Secrets = [], dcm_Version = [], dcm_Workloads = [], dcm_WorkloadsMonitoringInterval = 0\<rparr>"

theorem failed_reopen_not_retried_witness:
  "let t = \<lparr>ts_dir = ''/m'', ts_open = True, ts_RetentionDuration = DefaultRetentionDuration, ts_MaxBytes = 0\<rparr>;
       t' = \<lparr>ts_dir = ''/m'', ts_open = False, ts_RetentionDuration = 3600000, ts_MaxBytes = 2097152\<rparr>
   in TSDB_Update stuck_tsdb retention_message t () = (Ret (Some (ExternalError ''locked''), t'), ()) \<and>
      TSDB_Update stuck_tsdb retention_message t' () = (Ret (None, t'), ())"
proof -
  let ?t = "\<lparr>ts_dir = ''/m'', ts_open = True, ts_RetentionDuration = DefaultRetentionDuration, ts_MaxBytes = 0\<rparr>"
  let ?t' = "\<lparr>ts_dir = ''/m'', ts_open = False, ts_RetentionDuration = 3600000, ts_MaxBytes = 2097152\<rparr>"
  have u: "TSDB_Update stuck_tsdb retention_message ?t () = (Ret (Some (ExternalError ''locked''), ?t'), ())"
    by (simp add: TSDB_Update_def stuck_tsdb_def retention_message_def wanted_retention_def Let_def
        DefaultRetentionDuration_def DefaultMaxBytes_def millisInHour_def)
  from failed_reopen_not_retried [OF u, of "()"] u show ?thesis by (simp add: Let_def)
qed

end
