(* ===== verification/Go_Json.thy ===== *)
theory Go_Json
  imports Go_Prelude
begin

text \<open>
  Package \<open>encoding/json\<close> as far as the worker's own state files need it: the text
  \<open>json.Marshal\<close> writes (HTML-safe escapes, invalid UTF-8 replaced) and the value
  \<open>json.Unmarshal\<close> reads from a text, for null, Booleans, integers, strings, arrays and objects.
  Fractions and exponents do not occur in these files and are not read.

  The main result is that reading back a written value gives the value, for strings that are
  valid UTF-8; a byte that is not is stored as the replacement character and does not come back.
\<close>

datatype json =
    JNull
  | JBool bool
  | JNum int
  | JStr string
  | JArr "json list"
  | JObj "(string \<times> json) list"

section \<open>UTF-8\<close>

abbreviation code :: "char \<Rightarrow> nat" where
  "code c \<equiv> of_char c"

definition byte_in :: "nat \<Rightarrow> nat \<Rightarrow> char \<Rightarrow> bool" where
  "byte_in lo hi c \<longleftrightarrow> lo \<le> code c \<and> code c \<le> hi"

text \<open>
  The length of the UTF-8 sequence a string starts with, 0 where it starts with none
  (\<open>utf8.DecodeRuneInString\<close> then returns \<open>RuneError\<close> and width 1).
\<close>

fun utf8_len :: "string \<Rightarrow> nat" where
  "utf8_len [] = 0"
| "utf8_len (b # r) =
     (if code b < 0x80 then 1
      else if byte_in 0xC2 0xDF b then
        (case r of c # _ \<Rightarrow> if byte_in 0x80 0xBF c then 2 else 0 | [] \<Rightarrow> 0)
      else if byte_in 0xE0 0xEF b then
        (case r of
           c # d # _ \<Rightarrow>
             if byte_in (if code b = 0xE0 then 0xA0 else 0x80) (if code b = 0xED then 0x9F else 0xBF) c
                \<and> byte_in 0x80 0xBF d then 3 else 0
         | _ \<Rightarrow> 0)
      else if byte_in 0xF0 0xF4 b then
        (case r of
           c # d # e # _ \<Rightarrow>
             if byte_in (if code b = 0xF0 then 0x90 else 0x80) (if code b = 0xF4 then 0x8F else 0xBF) c
                \<and> byte_in 0x80 0xBF d \<and> byte_in 0x80 0xBF e then 4 else 0
         | _ \<Rightarrow> 0)
      else 0)"

lemma utf8_len_le: "utf8_len s \<le> length s"
  by (cases s rule: utf8_len.cases) (auto split: list.splits)

function valid_utf8 :: "string \<Rightarrow> bool" where
  "valid_utf8 s =
     (if s = [] then True
      else if utf8_len s = 0 then False
      else valid_utf8 (drop (utf8_len s) s))"
  by pat_completeness auto
termination
  by (relation "measure length") auto

declare valid_utf8.simps [simp del] utf8_len.simps [simp del]

lemma valid_utf8_Nil [simp]: "valid_utf8 []"
  by (subst valid_utf8.simps) simp

lemma utf8_len_append: "utf8_len s \<noteq> 0 \<Longrightarrow> utf8_len (s @ t) = utf8_len s"
proof (cases s)
  case (Cons b r)
  moreover assume "utf8_len s \<noteq> 0"
  ultimately show ?thesis
    by (cases r; cases "tl r"; cases "tl (tl r)") (simp_all add: utf8_len.simps split: if_splits)
qed (simp add: utf8_len.simps)

lemma utf8_len_ascii [simp]: "code b < 0x80 \<Longrightarrow> utf8_len (b # r) = 1"
  by (simp add: utf8_len.simps)

lemma valid_utf8_ascii: "list_all (\<lambda>c. code c < 0x80) s \<Longrightarrow> valid_utf8 s"
proof (induction s)
  case (Cons c s)
  then show ?case by (subst valid_utf8.simps) simp
qed simp

section \<open>Strings\<close>

definition hexdigit :: "nat \<Rightarrow> char" where
  "hexdigit n = ''0123456789abcdef'' ! n"

definition hexval :: "char \<Rightarrow> nat option" where
  "hexval c =
     (if byte_in 48 57 c then Some (code c - 48)
      else if byte_in 97 102 c then Some (code c - 87)
      else if byte_in 65 70 c then Some (code c - 55)
      else None)"

lemma hexval_hexdigit: "n < 16 \<Longrightarrow> hexval (hexdigit n) = Some n"
proof -
  have "\<forall>n \<in> set [0..<16]. hexval (hexdigit n) = Some n" by code_simp
  then show "n < 16 \<Longrightarrow> hexval (hexdigit n) = Some n" by simp
qed

abbreviation bslash :: char where
  "bslash \<equiv> CHR 0x5C"

abbreviation dquote :: char where
  "dquote \<equiv> CHR 0x22"

text \<open>\<open>htmlSafeSet\<close>: the ASCII bytes written as they are.\<close>

definition html_safe :: "char \<Rightarrow> bool" where
  "html_safe c \<longleftrightarrow> 0x20 \<le> code c \<and> code c < 0x80 \<and>
     c \<noteq> dquote \<and> c \<noteq> bslash \<and> c \<noteq> CHR ''<'' \<and> c \<noteq> CHR ''>'' \<and> c \<noteq> CHR ''&''"

definition escape_ascii :: "char \<Rightarrow> string" where
  "escape_ascii c =
     (if html_safe c then [c]
      else if c = bslash \<or> c = dquote then [bslash, c]
      else if c = CHR 0x0A then [bslash, CHR ''n'']
      else if c = CHR 0x0D then [bslash, CHR ''r'']
      else if c = CHR 0x09 then [bslash, CHR ''t'']
      else [bslash, CHR ''u'', CHR ''0'', CHR ''0'', hexdigit (code c div 16), hexdigit (code c mod 16)])"

definition line_sep :: "string \<Rightarrow> bool" where
  "line_sep s \<longleftrightarrow> take 3 s = [CHR 0xE2, CHR 0x80, CHR 0xA8] \<or> take 3 s = [CHR 0xE2, CHR 0x80, CHR 0xA9]"

function json_escape :: "string \<Rightarrow> string" where
  "json_escape s =
     (case s of
        [] \<Rightarrow> []
      | b # r \<Rightarrow>
          if code b < 0x80 then escape_ascii b @ json_escape r
          else if utf8_len s = 0 then [bslash] @ ''ufffd'' @ json_escape r
          else if line_sep s then
            [bslash] @ ''u202'' @ [hexdigit (code (s ! 2) mod 16)] @ json_escape (drop 3 s)
          else take (utf8_len s) s @ json_escape (drop (utf8_len s) s))"
  by pat_completeness auto
termination
  by (relation "measure length") (auto simp: Suc_le_eq)

declare json_escape.simps [simp del]

lemma json_escape_Nil [simp]: "json_escape [] = []"
  by (subst json_escape.simps) simp

definition json_quote :: "string \<Rightarrow> string" where
  "json_quote s = dquote # json_escape s @ [dquote]"

text \<open>\<open>utf8.EncodeRune\<close>.\<close>

definition encode_rune :: "nat \<Rightarrow> string" where
  "encode_rune r =
     (if r < 0x80 then [char_of r]
      else if r < 0x800 then [char_of (0xC0 + r div 64), char_of (0x80 + r mod 64)]
      else if (0xD800 \<le> r \<and> r \<le> 0xDFFF) \<or> 0x10FFFF < r then [CHR 0xEF, CHR 0xBF, CHR 0xBD]
      else if r < 0x10000 then
        [char_of (0xE0 + r div 4096), char_of (0x80 + r div 64 mod 64), char_of (0x80 + r mod 64)]
      else
        [char_of (0xF0 + r div 262144), char_of (0x80 + r div 4096 mod 64),
         char_of (0x80 + r div 64 mod 64), char_of (0x80 + r mod 64)])"

fun getu4 :: "string \<Rightarrow> (nat \<times> string) option" where
  "getu4 (a # b # c # d # r) =
     (case (hexval a, hexval b, hexval c, hexval d) of
        (Some w, Some x, Some y, Some z) \<Rightarrow> Some (((w * 16 + x) * 16 + y) * 16 + z, r)
      | _ \<Rightarrow> None)"
| "getu4 _ = None"

text \<open>The rune of a \<open>\u\<close> escape, with a second escape when the two form a surrogate pair.\<close>

definition u_escape :: "string \<Rightarrow> (string \<times> string) option" where
  "u_escape s =
     (case getu4 s of
        None \<Rightarrow> None
      | Some (r, rest) \<Rightarrow>
          if 0xD800 \<le> r \<and> r < 0xDC00 then
            (case rest of
               a # b # rest' \<Rightarrow>
                 if a = bslash \<and> b = CHR ''u'' then
                   (case getu4 rest' of
                      Some (r2, rest2) \<Rightarrow>
                        if 0xDC00 \<le> r2 \<and> r2 < 0xE000
                        then Some (encode_rune ((r - 0xD800) * 1024 + (r2 - 0xDC00) + 0x10000), rest2)
                        else Some (encode_rune 0xFFFD, rest)
                    | None \<Rightarrow> None)
                 else Some (encode_rune 0xFFFD, rest)
             | _ \<Rightarrow> Some (encode_rune 0xFFFD, rest))
          else Some (encode_rune r, rest))"

text \<open>One escape sequence, after its backslash.\<close>

definition unescape1 :: "string \<Rightarrow> (string \<times> string) option" where
  "unescape1 s =
     (case s of
        [] \<Rightarrow> None
      | e # r \<Rightarrow>
          if e = dquote \<or> e = bslash \<or> e = CHR ''/'' then Some ([e], r)
          else if e = CHR ''b'' then Some ([CHR 0x08], r)
          else if e = CHR ''f'' then Some ([CHR 0x0C], r)
          else if e = CHR ''n'' then Some ([CHR 0x0A], r)
          else if e = CHR ''r'' then Some ([CHR 0x0D], r)
          else if e = CHR ''t'' then Some ([CHR 0x09], r)
          else if e = CHR ''u'' then u_escape r
          else None)"

text \<open>
  The string after an opening quote: its value and what follows the closing quote. The number
  bounds the steps; each step reads at least one byte, so the length of the input is enough.
\<close>

fun json_unquote :: "nat \<Rightarrow> string \<Rightarrow> (string \<times> string) option" where
  "json_unquote 0 s = None"
| "json_unquote (Suc n) s =
     (case s of
        [] \<Rightarrow> None
      | c # r \<Rightarrow>
          if c = dquote then Some ([], r)
          else
            (case (if c = bslash then unescape1 r
                   else if code c < 0x20 then None
                   else if code c < 0x80 then Some ([c], r)
                   else if utf8_len s = 0 then Some (encode_rune 0xFFFD, r)
                   else Some (take (utf8_len s) s, drop (utf8_len s) s)) of
               None \<Rightarrow> None
             | Some (x, r') \<Rightarrow> map_option (\<lambda>(y, r''). (x @ y, r'')) (json_unquote n r')))"

section \<open>Reading back a written string\<close>

lemma utf8_len_take: "utf8_len (take (utf8_len s) s) = utf8_len s"
proof (cases s)
  case (Cons b r)
  then show ?thesis
    by (cases r; cases "tl r"; cases "tl (tl r)") (simp_all add: utf8_len.simps)
qed (simp add: utf8_len.simps)

lemma getu4_ascii:
  assumes "code c < 0x80"
  shows "getu4 (CHR ''0'' # CHR ''0'' # hexdigit (code c div 16) # hexdigit (code c mod 16) # t)
    = Some (code c, t)"
proof -
  have "code c div 16 < 16" using assms by simp
  moreover have "hexval CHR ''0'' = Some 0" by code_simp
  ultimately show ?thesis by (simp add: hexval_hexdigit)
qed

lemma u_escape_ascii:
  assumes "code c < 0x80"
  shows "u_escape (CHR ''0'' # CHR ''0'' # hexdigit (code c div 16) # hexdigit (code c mod 16) # t)
    = Some ([c], t)"
  using assms by (simp only: u_escape_def getu4_ascii) (simp add: encode_rune_def)

lemma unquote_ascii:
  assumes "code b < 0x80"
  shows "json_unquote (Suc n) (escape_ascii b @ t)
    = map_option (\<lambda>(y, r). (b # y, r)) (json_unquote n t)"
proof (cases "html_safe b")
  case True
  then show ?thesis by (auto simp: escape_ascii_def html_safe_def)
next
  case False
  then show ?thesis
    using u_escape_ascii [OF assms, of t] by (simp add: escape_ascii_def unescape1_def)
qed

lemma u_escape_line_sep:
  "u_escape (''2028'' @ t) = Some ([CHR 0xE2, CHR 0x80, CHR 0xA8], t)"
  "u_escape (''2029'' @ t) = Some ([CHR 0xE2, CHR 0x80, CHR 0xA9], t)"
proof -
  have hv: "hexval CHR ''2'' = Some 2" "hexval CHR ''0'' = Some 0"
    "hexval CHR ''8'' = Some 8" "hexval CHR ''9'' = Some 9"
    by code_simp+
  have g: "getu4 (''2028'' @ t) = Some (8232, t)" "getu4 (''2029'' @ t) = Some (8233, t)"
    by (simp_all add: hv)
  have enc: "encode_rune 8232 = [CHR 0xE2, CHR 0x80, CHR 0xA8]"
    "encode_rune 8233 = [CHR 0xE2, CHR 0x80, CHR 0xA9]"
    by (simp_all add: encode_rune_def char_of_def bit_0)
  show "u_escape (''2028'' @ t) = Some ([CHR 0xE2, CHR 0x80, CHR 0xA8], t)"
    "u_escape (''2029'' @ t) = Some ([CHR 0xE2, CHR 0x80, CHR 0xA9], t)"
    unfolding u_escape_def g by (simp_all add: enc)
qed

lemma utf8_len_line_sep:
  assumes "line_sep s"
  shows "utf8_len s = 3"
proof -
  have "utf8_len (take 3 s) = 3"
    using assms by (auto simp: line_sep_def utf8_len.simps byte_in_def)
  then show ?thesis
    using utf8_len_append [of "take 3 s" "drop 3 s"] by simp
qed

lemma unquote_line_sep:
  assumes "line_sep s"
  shows "json_unquote (Suc n) ([bslash] @ ''u202'' @ [hexdigit (code (s ! 2) mod 16)] @ t)
    = map_option (\<lambda>(y, r). (take 3 s @ y, r)) (json_unquote n t)"
proof -
  obtain b c d u where s: "s = b # c # d # u"
    using assms by (cases s; cases "tl s"; cases "tl (tl s)") (auto simp: line_sep_def)
  have "hexdigit 8 = CHR ''8''" "hexdigit 9 = CHR ''9''"
    by code_simp+
  with assms s u_escape_line_sep [of t] show ?thesis
    by (auto simp: line_sep_def unescape1_def)
qed

lemma unquote_utf8:
  assumes "\<not> code (hd s) < 0x80" and "utf8_len s \<noteq> 0"
  shows "json_unquote (Suc n) (take (utf8_len s) s @ t)
    = map_option (\<lambda>(y, r). (take (utf8_len s) s @ y, r)) (json_unquote n t)"
proof -
  let ?u = "take (utf8_len s) s"
  have len: "utf8_len ?u = utf8_len s" "length ?u = utf8_len s"
    using utf8_len_take utf8_len_le [of s] by simp_all
  obtain b r where u: "?u = b # r"
    using len assms(2) by (cases ?u) (auto simp: utf8_len.simps)
  have b: "code b = code (hd s)"
    using u assms(2) by (cases s) (auto simp: take_Cons')
  have "utf8_len (b # r @ t) = utf8_len s"
    using utf8_len_append [of ?u t] len(1) assms(2) u by simp
  moreover have "take (utf8_len s) (b # r @ t) = b # r" "drop (utf8_len s) (b # r @ t) = t"
    using len(2) u by (metis append_Cons append_eq_conv_conj)+
  moreover have "b \<noteq> dquote" "b \<noteq> bslash" "\<not> code b < 0x80"
    using assms(1) b by auto
  ultimately show ?thesis
    using assms(2) u by (auto simp: u)
qed

declare json_unquote.simps(2) [simp del]

lemma unquote_end [simp]: "json_unquote (Suc n) (dquote # r) = Some ([], r)"
  by (simp add: json_unquote.simps(2))

lemma unquote_escape:
  assumes "valid_utf8 s" and "length s < n"
  shows "json_unquote n (json_escape s @ dquote # r) = Some (s, r)"
  using assms
proof (induction s arbitrary: n rule: json_escape.induct)
  case (1 s)
  obtain m where n: "n = Suc m" using "1.prems"(2) by (cases n) auto
  show ?case
  proof (cases s)
    case Nil
    then show ?thesis by (simp add: n)
  next
    case (Cons b t)
    have ne: "utf8_len s \<noteq> 0" and v: "valid_utf8 (drop (utf8_len s) s)"
      using "1.prems"(1) Cons valid_utf8.simps [of s] by (simp_all split: if_splits)
    consider (ascii) "code b < 0x80" | (sep) "\<not> code b < 0x80" "line_sep s"
      | (multi) "\<not> code b < 0x80" "\<not> line_sep s" by blast
    then show ?thesis
    proof cases
      case ascii
      then have "json_unquote m (json_escape t @ dquote # r) = Some (t, r)"
        using "1.IH"(1) [OF Cons ascii] v "1.prems"(2) Cons n by simp
      moreover have "json_escape s = escape_ascii b @ json_escape t"
        using Cons ascii by (subst json_escape.simps) simp
      ultimately show ?thesis
        using unquote_ascii [OF ascii, of m] Cons n by simp
    next
      case sep
      have l3: "utf8_len s = 3"
        using sep(2) by (rule utf8_len_line_sep)
      have "json_unquote m (json_escape (drop 3 s) @ dquote # r) = Some (drop 3 s, r)"
        using "1.IH"(3) [OF Cons sep(1) ne sep(2)] v "1.prems"(2) Cons n l3 by simp
      moreover have "json_escape s
          = [bslash] @ ''u202'' @ [hexdigit (code (s ! 2) mod 16)] @ json_escape (drop 3 s)"
        using Cons sep ne by (subst json_escape.simps) simp
      ultimately show ?thesis
        using unquote_line_sep [OF sep(2), of m "json_escape (drop 3 s) @ dquote # r"]
        by (simp add: n)
    next
      case multi
      have "length (drop (utf8_len s) s) < m"
        using "1.prems"(2) n Cons ne by simp
      then have "json_unquote m (json_escape (drop (utf8_len s) s) @ dquote # r)
          = Some (drop (utf8_len s) s, r)"
        using "1.IH"(4) [OF Cons multi(1) ne multi(2)] v by simp
      moreover have "json_escape s = take (utf8_len s) s @ json_escape (drop (utf8_len s) s)"
        using Cons multi ne by (subst json_escape.simps) simp
      ultimately show ?thesis
        using unquote_utf8 [OF _ ne, of m] multi(1) Cons by (simp add: n)
    qed
  qed
qed

lemma length_escape_ascii: "1 \<le> length (escape_ascii c)"
  by (simp add: escape_ascii_def)

lemma length_json_escape: "length s \<le> length (json_escape s)"
proof (induction s rule: json_escape.induct)
  case (1 s)
  show ?case
  proof (cases s)
    case (Cons b t)
    with 1 show ?thesis
      using length_escape_ascii [of b] utf8_len_le [of s]
      by (subst json_escape.simps) (auto simp: line_sep_def)
  qed simp
qed

section \<open>Values\<close>

fun json_print :: "json \<Rightarrow> string" where
  "json_print JNull = ''null''"
| "json_print (JBool b) = (if b then ''true'' else ''false'')"
| "json_print (JNum i) = Itoa i"
| "json_print (JStr s) = json_quote s"
| "json_print (JArr vs) = CHR ''['' # strings_Join (map json_print vs) '','' @ '']''"
| "json_print (JObj kvs) =
     CHR ''{'' # strings_Join (map (\<lambda>(k, v). json_quote k @ CHR '':'' # json_print v) kvs) '','' @ ''}''"

definition json_ws :: "char \<Rightarrow> bool" where
  "json_ws c \<longleftrightarrow> c = CHR '' '' \<or> c = CHR 0x09 \<or> c = CHR 0x0A \<or> c = CHR 0x0D"

definition skip_ws :: "string \<Rightarrow> string" where
  "skip_ws s = dropWhile json_ws s"

definition is_digit :: "char \<Rightarrow> bool" where
  "is_digit c \<longleftrightarrow> byte_in 48 57 c"

fun parse_nat :: "nat \<Rightarrow> string \<Rightarrow> nat" where
  "parse_nat acc [] = acc"
| "parse_nat acc (c # cs) = parse_nat (acc * 10 + (code c - 48)) cs"

text \<open>An integer: no leading zero, and at least one digit.\<close>

definition parse_num :: "string \<Rightarrow> (json \<times> string) option" where
  "parse_num s =
     (let neg = (s \<noteq> [] \<and> hd s = CHR ''-'');
          t = (if neg then tl s else s);
          ds = takeWhile is_digit t
      in if ds = [] \<or> (hd ds = CHR ''0'' \<and> length ds > 1) then None
         else Some (JNum (if neg then - int (parse_nat 0 ds) else int (parse_nat 0 ds)), dropWhile is_digit t))"

text \<open>
  The recursive-descent reader. The first argument bounds the depth of the calls; every second
  call reads a byte, so twice the length of the text is enough.
\<close>

fun parse_value :: "nat \<Rightarrow> string \<Rightarrow> (json \<times> string) option"
and parse_elems :: "nat \<Rightarrow> string \<Rightarrow> (json list \<times> string) option"
and parse_members :: "nat \<Rightarrow> string \<Rightarrow> ((string \<times> json) list \<times> string) option"
where
  "parse_value 0 s = None"
| "parse_value (Suc n) s =
     (case skip_ws s of
        [] \<Rightarrow> None
      | c # r \<Rightarrow>
          if c = dquote then map_option (\<lambda>(x, r'). (JStr x, r')) (json_unquote (Suc (length r)) r)
          else if c = CHR ''['' then
            (if prefix '']'' (skip_ws r) then Some (JArr [], tl (skip_ws r))
             else map_option (\<lambda>(vs, r'). (JArr vs, r')) (parse_elems n r))
          else if c = CHR ''{'' then
            (if prefix ''}'' (skip_ws r) then Some (JObj [], tl (skip_ws r))
             else map_option (\<lambda>(kvs, r'). (JObj kvs, r')) (parse_members n r))
          else if prefix ''null'' (c # r) then Some (JNull, drop 4 (c # r))
          else if prefix ''true'' (c # r) then Some (JBool True, drop 4 (c # r))
          else if prefix ''false'' (c # r) then Some (JBool False, drop 5 (c # r))
          else parse_num (c # r))"
| "parse_elems 0 s = None"
| "parse_elems (Suc n) s =
     (case parse_value n s of
        None \<Rightarrow> None
      | Some (v, r) \<Rightarrow>
          (case skip_ws r of
             [] \<Rightarrow> None
           | c # r' \<Rightarrow>
               if c = CHR '']'' then Some ([v], r')
               else if c = CHR '','' then map_option (\<lambda>(vs, r''). (v # vs, r'')) (parse_elems n r')
               else None))"
| "parse_members 0 s = None"
| "parse_members (Suc n) s =
     (case skip_ws s of
        [] \<Rightarrow> None
      | q # r0 \<Rightarrow>
          if q \<noteq> dquote then None
          else
            (case json_unquote (Suc (length r0)) r0 of
               None \<Rightarrow> None
             | Some (k, r1) \<Rightarrow>
                 if \<not> prefix '':'' (skip_ws r1) then None
                 else
                   (case parse_value n (tl (skip_ws r1)) of
                      None \<Rightarrow> None
                    | Some (v, r) \<Rightarrow>
                        (case skip_ws r of
                           [] \<Rightarrow> None
                         | c # r' \<Rightarrow>
                             if c = CHR ''}'' then Some ([(k, v)], r')
                             else if c = CHR '','' then
                               map_option (\<lambda>(kvs, r''). ((k, v) # kvs, r'')) (parse_members n r')
                             else None))))"

text \<open>A whole text: one value, with nothing but white space after it.\<close>

definition json_parse :: "string \<Rightarrow> json option" where
  "json_parse s =
     (case parse_value (2 * length s + 2) s of
        Some (v, r) \<Rightarrow> if skip_ws r = [] then Some v else None
      | None \<Rightarrow> None)"

section \<open>Reading back a written value\<close>

fun json_ok :: "json \<Rightarrow> bool" where
  "json_ok (JStr s) = valid_utf8 s"
| "json_ok (JArr vs) = list_all json_ok vs"
| "json_ok (JObj kvs) = list_all (\<lambda>(k, v). valid_utf8 k \<and> json_ok v) kvs"
| "json_ok _ = True"

fun json_depth :: "json \<Rightarrow> nat" where
  "json_depth (JArr vs) = Suc (foldr (\<lambda>v n. Suc (max (json_depth v) n)) vs 0)"
| "json_depth (JObj kvs) = Suc (foldr (\<lambda>(k, v) n. Suc (max (json_depth v) n)) kvs 0)"
| "json_depth _ = 1"

text \<open>A value may be followed by anything that is not a digit.\<close>

definition delimited :: "string \<Rightarrow> bool" where
  "delimited r \<longleftrightarrow> r = [] \<or> \<not> is_digit (hd r)"

lemma skip_ws_Cons [simp]: "skip_ws (c # s) = (if json_ws c then skip_ws s else c # s)"
  by (simp add: skip_ws_def)

lemma skip_ws_Nil [simp]: "skip_ws [] = []"
  by (simp add: skip_ws_def)

lemma unquote_quote:
  "valid_utf8 s \<Longrightarrow> json_unquote (Suc (length (json_escape s @ dquote # r))) (json_escape s @ dquote # r)
     = Some (s, r)"
  using length_json_escape [of s] by (intro unquote_escape) auto

lemma digits_digits: "list_all is_digit (digits n)"
proof (induction n rule: digits.induct)
  case (1 n)
  have d: "is_digit (char_of (48 + m))" if "m < 10" for m :: nat
    using that by (simp add: is_digit_def byte_in_def)
  show ?case
    using 1 d [of n] d [of "n mod 10"] by (subst digits.simps) auto
qed

lemma parse_nat_append: "parse_nat acc (xs @ ys) = parse_nat (parse_nat acc xs) ys"
  by (induction acc xs rule: parse_nat.induct) auto

lemma parse_nat_digits: "parse_nat 0 (digits k) = k"
proof (induction k rule: digits.induct)
  case (1 k)
  then show ?case by (cases "k < 10") (simp_all add: digits.simps [of k] parse_nat_append)
qed

lemma digits_not_Nil: "digits n \<noteq> []"
  by (subst digits.simps) simp

lemma digits_no_leading_zero: "length (digits n) > 1 \<Longrightarrow> hd (digits n) \<noteq> CHR ''0''"
proof (induction n rule: digits.induct)
  case (1 n)
  show ?case
  proof (cases "n < 10")
    case True
    with 1 show ?thesis by (simp add: digits.simps [of n])
  next
    case False
    show ?thesis
    proof (cases "length (digits (n div 10)) > 1")
      case True
      with 1 False show ?thesis by (simp add: digits.simps [of n] digits_not_Nil)
    next
      case short: False
      have small: "n div 10 < 10"
      proof (rule ccontr)
        assume "\<not> n div 10 < 10"
        then have "length (digits (n div 10)) \<ge> 2"
          using digits_not_Nil [of "n div 10 div 10"]
          by (subst digits.simps) (simp add: Suc_le_eq)
        with short show False by simp
      qed
      have pos: "n div 10 > 0" using False by simp
      have "hd (digits n) = char_of (48 + n div 10)"
        using False small by (simp add: digits.simps [of n] digits.simps [of "n div 10"])
      moreover have "char_of (48 + n div 10) \<noteq> (CHR ''0'' :: char)"
      proof
        assume "char_of (48 + n div 10) = (CHR ''0'' :: char)"
        then have "(of_char (char_of (48 + n div 10) :: char) :: nat) = of_char CHR ''0''" by simp
        with small pos show False by simp
      qed
      ultimately show ?thesis by simp
    qed
  qed
qed

lemma takeWhile_digits:
  assumes "delimited r"
  shows "takeWhile is_digit (digits n @ r) = digits n" and "dropWhile is_digit (digits n @ r) = r"
proof -
  have all: "\<forall>c \<in> set (digits n). is_digit c"
    using digits_digits [of n] by (simp add: list_all_iff)
  have "takeWhile is_digit r = []" "dropWhile is_digit r = r"
    using assms by (cases r; auto simp: delimited_def)+
  with all show "takeWhile is_digit (digits n @ r) = digits n"
    and "dropWhile is_digit (digits n @ r) = r"
    by (simp_all add: takeWhile_append2)
qed

lemma hd_digits: "is_digit (hd (digits n))"
  using digits_digits [of n] digits_not_Nil [of n] by (cases "digits n") auto

lemma digits_not_minus: "hd (digits n @ r) \<noteq> CHR ''-''"
  using hd_digits [of n] digits_not_Nil [of n] by (auto simp: is_digit_def byte_in_def)

lemma parse_num_Itoa:
  assumes "delimited r"
  shows "parse_num (Itoa i @ r) = Some (JNum i, r)"
  using assms digits_not_Nil digits_not_minus [of "nat i" r] digits_no_leading_zero
  by (auto simp: parse_num_def Itoa_def takeWhile_digits parse_nat_digits Let_def)

lemma num_head:
  assumes "is_digit c \<or> c = CHR ''-''"
  shows "\<not> json_ws c" "c \<noteq> dquote" "c \<noteq> CHR ''[''" "c \<noteq> CHR '']''" "c \<noteq> CHR ''{''" "c \<noteq> CHR ''}''"
    "c \<noteq> CHR ''n''" "c \<noteq> CHR ''t''" "c \<noteq> CHR ''f''"
  using assms by (auto simp: is_digit_def byte_in_def json_ws_def)

lemma Itoa_head: obtains c t where "Itoa i = c # t" and "is_digit c \<or> c = CHR ''-''"
  using hd_digits [of "nat i"] digits_not_Nil [of "nat i"]
  by (cases "digits (nat i)"; cases "i < 0") (auto simp: Itoa_def)

lemma json_print_head:
  obtains c t where "json_print v = c # t" and "\<not> json_ws c" and "c \<noteq> CHR '']''"
proof (cases v)
  case (JNum i)
  obtain c t where "Itoa i = c # t" "is_digit c \<or> c = CHR ''-''" by (rule Itoa_head)
  with JNum that num_head(1,4) show ?thesis by simp
next
  case (JBool b)
  with that show ?thesis by (cases b) (auto simp: json_ws_def)
qed (use that in \<open>auto simp: json_ws_def json_quote_def split: if_splits\<close>)

lemma parse_value_num:
  assumes "delimited r"
  shows "parse_value (Suc n) (Itoa i @ r) = Some (JNum i, r)"
proof -
  obtain c t where ct: "Itoa i = c # t" "is_digit c \<or> c = CHR ''-''" by (rule Itoa_head)
  then have "parse_value (Suc n) (Itoa i @ r) = parse_num (Itoa i @ r)"
    using num_head [OF ct(2)] by simp
  then show ?thesis using parse_num_Itoa [OF assms] by simp
qed

lemma parse_elems_print:
  assumes "\<And>v r n. v \<in> set vs \<Longrightarrow> delimited r \<Longrightarrow> json_depth v \<le> n \<Longrightarrow> parse_value n (json_print v @ r) = Some (v, r)"
    and "vs \<noteq> []" and "foldr (\<lambda>v n. Suc (max (json_depth v) n)) vs 0 \<le> n"
  shows "parse_elems n (strings_Join (map json_print vs) '','' @ CHR '']'' # r) = Some (vs, r)"
  using assms
proof (induction vs arbitrary: n)
  case (Cons v vs)
  obtain m where n: "n = Suc m" using Cons.prems(3) by (cases n) auto
  have pv: "parse_value m (json_print v @ t) = Some (v, t)" if "delimited t" for t
    using Cons.prems(1) [of v t m] Cons.prems(3) n that by simp
  show ?case
  proof (cases vs)
    case Nil
    have "delimited (CHR '']'' # r)" by (simp add: delimited_def is_digit_def byte_in_def)
    from pv [OF this] Nil show ?thesis by (simp add: n json_ws_def)
  next
    case (Cons w ws)
    have "delimited ('','' @ strings_Join (map json_print vs) '','' @ CHR '']'' # r)"
      by (simp add: delimited_def is_digit_def byte_in_def)
    note step = pv [OF this]
    have "parse_elems m (strings_Join (map json_print vs) '','' @ CHR '']'' # r) = Some (vs, r)"
      using Cons.IH [of m] Cons.prems Cons n by auto
    with step Cons show ?thesis by (simp add: n json_ws_def)
  qed
qed simp

lemma parse_members_print:
  assumes "\<And>k v r n. (k, v) \<in> set kvs \<Longrightarrow> delimited r \<Longrightarrow> json_depth v \<le> n \<Longrightarrow>
      parse_value n (json_print v @ r) = Some (v, r)"
    and "list_all (\<lambda>(k, v). valid_utf8 k) kvs"
    and "kvs \<noteq> []" and "foldr (\<lambda>(k, v) n. Suc (max (json_depth v) n)) kvs 0 \<le> n"
  shows "parse_members n (strings_Join (map (\<lambda>(k, v). json_quote k @ CHR '':'' # json_print v) kvs) '',''
      @ CHR ''}'' # r) = Some (kvs, r)"
  using assms
proof (induction kvs arbitrary: n)
  case (Cons kv kvs)
  obtain k v where kv: "kv = (k, v)" by (cases kv)
  obtain m where n: "n = Suc m" using Cons.prems(4) kv by (cases n) auto
  have uq: "json_unquote (Suc (length (json_escape k @ dquote # t))) (json_escape k @ dquote # t) = Some (k, t)" for t
    using Cons.prems(2) kv by (intro unquote_quote) auto
  have pv: "parse_value m (json_print v @ t) = Some (v, t)" if "delimited t" for t
    using Cons.prems(1) [of k v t m] Cons.prems(4) kv n that by simp
  show ?case
  proof (cases kvs)
    case Nil
    have "delimited (CHR ''}'' # r)" by (simp add: delimited_def is_digit_def byte_in_def)
    from pv [OF this] uq [of "CHR '':'' # json_print v @ CHR ''}'' # r"] Nil show ?thesis
      by (simp add: n kv json_ws_def json_quote_def)
  next
    case (Cons w ws)
    let ?t = "'','' @ strings_Join (map (\<lambda>(k, v). json_quote k @ CHR '':'' # json_print v) kvs) '','' @ CHR ''}'' # r"
    have "delimited ?t" by (simp add: delimited_def is_digit_def byte_in_def)
    note step = pv [OF this] uq [of "CHR '':'' # json_print v @ ?t"]
    have "parse_members m (strings_Join (map (\<lambda>(k, v). json_quote k @ CHR '':'' # json_print v) kvs) '',''
        @ CHR ''}'' # r) = Some (kvs, r)"
      using Cons.IH [of m] Cons.prems Cons kv n by auto
    with step Cons show ?thesis
      by (simp add: n kv json_ws_def json_quote_def)
  qed
qed simp

lemma parse_print:
  "json_ok v \<Longrightarrow> delimited r \<Longrightarrow> json_depth v \<le> n \<Longrightarrow> parse_value n (json_print v @ r) = Some (v, r)"
proof (induction v arbitrary: r n)
  case JNull
  then show ?case by (cases n) (auto simp: json_ws_def)
next
  case (JBool b)
  then show ?case by (cases n; cases b) (auto simp: json_ws_def)
next
  case (JNum i)
  then show ?case using parse_value_num by (cases n) auto
next
  case (JStr s)
  then show ?case
    using unquote_quote [of s r] by (cases n) (auto simp: json_quote_def json_ws_def)
next
  case (JArr vs)
  obtain m where n: "n = Suc m" using JArr.prems(3) by (cases n) auto
  show ?case
  proof (cases vs)
    case Nil
    then show ?thesis by (simp add: n json_ws_def)
  next
    case (Cons v ws)
    obtain c t where ct: "json_print v = c # t" "\<not> json_ws c" "c \<noteq> CHR '']''" by (rule json_print_head)
    have head: "\<not> prefix '']'' (skip_ws (strings_Join (map json_print vs) '','' @ CHR '']'' # r))"
      using ct Cons by (cases ws) auto
    have "parse_elems m (strings_Join (map json_print vs) '','' @ CHR '']'' # r) = Some (vs, r)"
      using JArr Cons n by (intro parse_elems_print) (auto simp: list_all_iff)
    with head show ?thesis by (simp add: n json_ws_def)
  qed
next
  case (JObj kvs)
  obtain m where n: "n = Suc m" using JObj.prems(3) by (cases n) auto
  show ?case
  proof (cases kvs)
    case Nil
    then show ?thesis by (simp add: n json_ws_def)
  next
    case (Cons kv ws)
    let ?body = "strings_Join (map (\<lambda>(k, v). json_quote k @ CHR '':'' # json_print v) kvs) '',''
      @ CHR ''}'' # r"
    have head: "\<not> prefix ''}'' (skip_ws ?body)"
      using Cons by (cases kv; cases ws) (auto simp: json_quote_def json_ws_def)
    have "parse_members m ?body = Some (kvs, r)"
    proof (rule parse_members_print)
      show "parse_value j (json_print v @ t) = Some (v, t)"
        if "(k, v) \<in> set kvs" "delimited t" "json_depth v \<le> j" for k v t j
        using JObj.IH [OF that(1), of v] JObj.prems(1) that by (auto simp: list_all_iff)
    qed (use JObj.prems Cons n in \<open>auto simp: list_all_iff\<close>)
    with head show ?thesis by (simp add: n json_ws_def)
  qed
qed

text \<open>The bound of \<open>json_parse\<close> covers the depth of any printed value.\<close>

lemma foldr_depth_le:
  assumes "\<And>x. x \<in> set xs \<Longrightarrow> d x \<le> 2 * length (p x)"
  shows "foldr (\<lambda>x n. Suc (max (d x) n)) xs 0 \<le> 2 * length (strings_Join (map p xs) '','') + 1"
  using assms
proof (induction xs)
  case (Cons x xs)
  have IH: "foldr (\<lambda>x n. Suc (max (d x) n)) xs 0 \<le> 2 * length (strings_Join (map p xs) '','') + 1"
    using Cons by simp
  have dx: "d x \<le> 2 * length (p x)" using Cons.prems by simp
  show ?case
  proof (cases xs)
    case Nil
    with dx show ?thesis by simp
  next
    case (Cons y ys)
    with IH dx show ?thesis by simp
  qed
qed simp

lemma json_depth_le: "json_depth v \<le> 2 * length (json_print v)"
proof (induction v)
  case (JNum i)
  then show ?case by (rule Itoa_head [of i]) simp
next
  case (JArr vs)
  then show ?case using foldr_depth_le [of vs json_depth json_print] by simp
next
  case (JObj kvs)
  have "foldr (\<lambda>x n. Suc (max (json_depth (snd x)) n)) kvs 0
      \<le> 2 * length (strings_Join (map (\<lambda>x. json_quote (fst x) @ CHR '':'' # json_print (snd x)) kvs) '','') + 1"
  proof (rule foldr_depth_le)
    fix x assume "x \<in> set kvs"
    then have "json_depth (snd x) \<le> 2 * length (json_print (snd x))"
      using JObj.IH [of x "snd x"] by (simp add: Basic_BNFs.snds.simps)
    then show "json_depth (snd x) \<le> 2 * length (json_quote (fst x) @ CHR '':'' # json_print (snd x))"
      by simp
  qed
  then show ?case by (simp add: case_prod_beta')
qed (simp_all add: json_quote_def)

theorem json_parse_print: "json_ok v \<Longrightarrow> json_parse (json_print v) = Some v"
  using parse_print [of v "[]" "2 * length (json_print v) + 2"] json_depth_le [of v]
  by (simp add: json_parse_def delimited_def)

section \<open>Records\<close>

text \<open>
  A struct is read from an object: the keys are compared without regard to ASCII case, keys the
  struct does not have are skipped, a later key wins, and \<open>null\<close> leaves the field as it is.
\<close>

definition to_lower :: "char \<Rightarrow> char" where
  "to_lower c = (if byte_in 65 90 c then char_of (code c + 32) else c)"

definition key_eq :: "string \<Rightarrow> string \<Rightarrow> bool" where
  "key_eq a b \<longleftrightarrow> map to_lower a = map to_lower b"

lemma key_eq_refl [simp]: "key_eq a a"
  by (simp add: key_eq_def)

text \<open>The value of a list of results, if none is missing.\<close>

fun all_some :: "'a option list \<Rightarrow> 'a list option" where
  "all_some [] = Some []"
| "all_some (x # xs) =
     (case x of None \<Rightarrow> None | Some y \<Rightarrow> map_option (\<lambda>ys. y # ys) (all_some xs))"

lemma all_some_map: "(\<And>x. x \<in> set xs \<Longrightarrow> f x = Some (g x)) \<Longrightarrow> all_some (map f xs) = Some (map g xs)"
  by (induction xs) simp_all

section \<open>Fields of a struct\<close>

text \<open>Reading: \<open>int\<close> fields take 64-bit integers, a \<open>null\<close> element of a string slice is the empty string.\<close>

definition int64_range :: "int \<Rightarrow> bool" where
  "int64_range i \<longleftrightarrow> - (2 ^ 63) \<le> i \<and> i < 2 ^ 63"

fun json_int_field :: "int \<Rightarrow> json \<Rightarrow> int option" where
  "json_int_field old (JNum i) = (if int64_range i then Some i else None)"
| "json_int_field old JNull = Some old"
| "json_int_field old _ = None"

fun json_elem_string :: "json \<Rightarrow> string option" where
  "json_elem_string (JStr s) = Some s"
| "json_elem_string JNull = Some []"
| "json_elem_string _ = None"

fun json_strings_field :: "json \<Rightarrow> string list option" where
  "json_strings_field (JArr vs) = all_some (map json_elem_string vs)"
| "json_strings_field JNull = Some []"
| "json_strings_field _ = None"

fun json_name_field :: "string \<Rightarrow> json \<Rightarrow> string option" where
  "json_name_field old (JStr s) = Some s"
| "json_name_field old JNull = Some old"
| "json_name_field old _ = None"

text \<open>
  A codec: what is written for an acceptable value is read back as the value. Every file the
  worker keeps its state in is written and read through one.
\<close>

locale codec =
  fixes marshal :: "'a \<Rightarrow> string"
    and unmarshal :: "string \<Rightarrow> 'a option"
    and acceptable :: "'a \<Rightarrow> bool"
  assumes unmarshal_marshal: "acceptable x \<Longrightarrow> unmarshal (marshal x) = Some x"
begin

lemma marshal_inject:
  assumes "acceptable x" and "acceptable y" and "marshal x = marshal y"
  shows "x = y"
  using assms unmarshal_marshal by (metis option.inject)

end

interpretation json_text: codec json_print json_parse json_ok
  by unfold_locales (rule json_parse_print)

end
