(* ===== verification/Remote_Write.thy ===== *)
theory Remote_Write
  imports Metrics_Store Go_Json
begin

text \<open>
  \<open>internal/metrics/remote_write.go\<close>: sending the stored samples to a remote receiver. The client
  (\<open>prometheus/storage/remote\<close>), the encoding of a request and URL parsing are parameters.
\<close>

definition defaultWaitInterval :: int where "defaultWaitInterval = 300 * Second"
definition defaultRequestDuration :: int where "defaultRequestDuration = 3600 * Second"
definition defaultRequestRetryInterval :: int where "defaultRequestRetryInterval = 10 * Second"
definition LastWriteFileName :: string where "LastWriteFileName = ''metrics-lastwrite''"
definition DeviceLabel :: string where "DeviceLabel = ''edgedeviceid''"

record RemoteWrite =
  rw_deviceID :: string
  rw_Config :: "MetricsReceiverConfiguration option"
  rw_LastWrite :: int
  rw_lastWriteFile :: string
  rw_WaitInterval :: int
  rw_RangeDuration :: int
  rw_RequestRetryInterval :: int
  rw_client :: "(string \<times> int \<times> string) option" \<comment> \<open>URL, timeout and CA file the client was made from\<close>
  rw_isRunning :: bool
  rw_dataDir :: string
  rw_currentServerCaFile :: string

section \<open>The time of the last write\<close>

text \<open>\<open>strconv.ParseInt(s, 10, 64)\<close>: an optional sign, digits, and a value that fits.\<close>

definition ParseInt :: "string \<Rightarrow> int option" where
  "ParseInt s =
     (let neg = (s \<noteq> [] \<and> hd s = CHR ''-'');
          ds = (if s \<noteq> [] \<and> (hd s = CHR ''-'' \<or> hd s = CHR ''+'') then tl s else s);
          n = (if neg then - int (parse_nat 0 ds) else int (parse_nat 0 ds))
      in if ds = [] \<or> \<not> list_all is_digit ds \<or> n < MinInt64 \<or> MaxInt64 < n then None else Some n)"

definition NewRemoteWrite :: "string \<Rightarrow> string \<Rightarrow> fs \<Rightarrow> RemoteWrite" where
  "NewRemoteWrite dataDir deviceID s =
     (let lastWriteFile = path_Join [dataDir, LastWriteFileName];
          lastWrite =
            (case ReadFile s lastWriteFile of
               Inl _ \<Rightarrow> zero_time
             | Inr bytes \<Rightarrow>
                 if bytes = [] then zero_time
                 else case ParseInt bytes of
                        None \<Rightarrow> zero_time
                      | Some i \<Rightarrow> time_Unix (quot i 1000000000) (remn i 1000000000))
      in \<lparr>rw_deviceID = deviceID, rw_Config = None, rw_LastWrite = lastWrite, rw_lastWriteFile = lastWriteFile,
          rw_WaitInterval = defaultWaitInterval, rw_RangeDuration = defaultRequestDuration,
          rw_RequestRetryInterval = defaultRequestRetryInterval, rw_client = None, rw_isRunning = False,
          rw_dataDir = dataDir, rw_currentServerCaFile = []\<rparr>)"

definition store_last_write :: "RemoteWrite \<Rightarrow> fs \<Rightarrow> error option \<times> fs" where
  "store_last_write r s = WriteFile s (rw_lastWriteFile r) (Itoa (UnixNano (rw_LastWrite r)))"

definition IsEnabled :: "RemoteWrite \<Rightarrow> bool" where
  "IsEnabled r \<longleftrightarrow> rw_client r \<noteq> None"

definition IsRunning :: "RemoteWrite \<Rightarrow> bool" where
  "IsRunning r = rw_isRunning r"

section \<open>One request\<close>

record 'v TimeSeries =
  tsr_Labels :: "(string \<times> string) list"
  tsr_Samples :: "(int \<times> 'v) list"

definition toTimeSeries ::
  "((string, string) gomap \<Rightarrow> (string \<times> string) list) \<Rightarrow> 'v Series list \<Rightarrow> 'v TimeSeries list \<times> int \<times> int" where
  "toTimeSeries rng series =
     (let ts = map (\<lambda>s. \<lparr>tsr_Labels = rng (ser_Labels s),
                         tsr_Samples = map (\<lambda>dp. (pt_Time dp, pt_Value dp)) (ser_DataPoints s)\<rparr>) series;
          times = concat (map (\<lambda>s. map pt_Time (ser_DataPoints s)) series);
          mint = fold (\<lambda>t m. if t < m then t else m) times MaxInt64;
          maxt = fold (\<lambda>t m. if t > m then t else m) times 0
      in (ts, fromDbTime mint, fromDbTime maxt))"

text \<open>
  The encoded request (protobuf, then snappy) and the client's \<open>Write\<close>, in which an error that may
  go away is a \<open>RecoverableError\<close>.
\<close>

record ('v, 'e) write_env =
  request_Marshal :: "'v TimeSeries list \<Rightarrow> error + string"
  client_Write :: "string \<Rightarrow> 'e \<Rightarrow> error option \<times> 'e"
  label_range :: "(string, string) gomap \<Rightarrow> (string \<times> string) list"

text \<open>
  \<open>writeClient.Write\<close>: Prometheus' \<open>Store\<close> gives its error and whether it is a \<open>remote.RecoverableError\<close>,
  which is wrapped; \<open>Error\<close> of the wrapper is the text of the error inside.
\<close>

definition writeClient_Write :: "(string \<Rightarrow> 'e \<Rightarrow> (error \<times> bool) option \<times> 'e) \<Rightarrow> string \<Rightarrow> 'e \<Rightarrow> error option \<times> 'e" where
  "writeClient_Write store bytes e =
     (case store bytes e of
        (None, e') \<Rightarrow> (None, e')
      | (Some (err, recoverable), e') \<Rightarrow> (Some (if recoverable then RecoverableError err else err), e'))"

definition numTries :: nat where
  "numTries = 3"

text \<open>The loop over the tries still left; the sleep between two of them is left out.\<close>

fun write_tries :: "('v, 'e) write_env \<Rightarrow> string \<Rightarrow> nat \<Rightarrow> 'e \<Rightarrow> bool \<times> 'e" where
  "write_tries env bytes 0 e = (True, e)"
| "write_tries env bytes (Suc left) e =
     (case client_Write env bytes e of
        (None, e') \<Rightarrow> (True, e')
      | (Some (RecoverableError _), e') \<Rightarrow> (if left = 0 then (False, e') else write_tries env bytes left e')
      | (Some _, e') \<Rightarrow> (True, e'))"

definition writeRequest :: "('v, 'e) write_env \<Rightarrow> 'v Series list \<Rightarrow> 'e \<Rightarrow> bool \<times> 'e" where
  "writeRequest env series e =
     (case request_Marshal env (fst (toTimeSeries (label_range env) series)) of
        Inl _ \<Rightarrow> (False, e)
      | Inr bytes \<Rightarrow> write_tries env bytes numTries e)"

section \<open>A range of samples\<close>

text \<open>
  Taking samples of the current series into the request: the new position, count and request, or
  nothing where the slice bounds are out of range.
\<close>

definition use_series ::
  "int \<Rightarrow> 'v Series \<Rightarrow> nat \<Rightarrow> nat \<Rightarrow> 'v Series list \<Rightarrow> (nat \<times> nat \<times> 'v Series list) option" where
  "use_series requestNumSamples currentSeries sampleIndex numSamples requestSeries =
     (let pts = ser_DataPoints currentSeries in
      if pts = [] then Some (sampleIndex, numSamples, requestSeries)
      else
        (let requestSeries1 = (if sampleIndex = 0 \<or> requestSeries = []
                               then requestSeries @ [\<lparr>ser_Labels = ser_Labels currentSeries, ser_DataPoints = []\<rparr>]
                               else requestSeries);
             numMissingSamples = requestNumSamples - int numSamples;
             remainderOfSeries = int (length pts) - int sampleIndex;
             numSamplesToUse = (if numMissingSamples > remainderOfSeries then remainderOfSeries else numMissingSamples)
         in if numSamplesToUse < 0 then None
            else
              (let n = nat numSamplesToUse; samplesToAppend = take n (drop sampleIndex pts); cur = last requestSeries1
               in Some (sampleIndex + n, numSamples + n,
                        butlast requestSeries1 @ [cur\<lparr>ser_DataPoints := ser_DataPoints cur @ samplesToAppend\<rparr>]))))"

text \<open>
  The loop of \<open>writeRange\<close> on the series from position \<open>i\<close> on. With \<open>requestNumSamples\<close> 0 it would
  not end, so the result is an option.
\<close>

partial_function (option) range_loop ::
  "('v Series list \<Rightarrow> 'e \<Rightarrow> bool \<times> 'e) \<Rightarrow> int \<Rightarrow> 'v Series list \<Rightarrow> nat \<Rightarrow> nat \<Rightarrow> 'v Series list \<Rightarrow> 'e \<Rightarrow>
   (bool, 'e) call option" where
  "range_loop write requestNumSamples series sampleIndex numSamples requestSeries e =
     (case series of
        [] \<Rightarrow> Some (Ret True, e)
      | currentSeries # later \<Rightarrow>
          (case use_series requestNumSamples currentSeries sampleIndex numSamples requestSeries of
             None \<Rightarrow> Some (Panic, e)
           | Some (sampleIndex', numSamples', requestSeries') \<Rightarrow>
               (let finished = (sampleIndex' = length (ser_DataPoints currentSeries));
                    rest = (if finished then later else series);
                    index = (if finished then 0 else sampleIndex')
                in if int numSamples' \<noteq> requestNumSamples \<and> rest \<noteq> [] then
                     range_loop write requestNumSamples rest index numSamples' requestSeries' e
                   else
                     (case write requestSeries' e of
                        (continue, e') \<Rightarrow>
                          if \<not> continue then Some (Ret False, e')
                          else range_loop write requestNumSamples rest index 0 [] e'))))"

definition writeRange ::
  "('v, 'e) write_env \<Rightarrow> 'v Series list \<Rightarrow> int \<Rightarrow> 'e \<Rightarrow> (bool, 'e) call option" where
  "writeRange env series requestNumSamples e = range_loop (writeRequest env) requestNumSamples series 0 0 [] e"

section \<open>Writing all there is\<close>

text \<open>
  One turn of the loop of \<open>Write\<close>: whether to go on, and the writer afterwards. The result is an
  option because writing the range may not end.
\<close>

definition range_of :: "RemoteWrite \<Rightarrow> int \<Rightarrow> int \<Rightarrow> int \<times> int" where
  "range_of r minTSDB maxTSDB =
     (let start0 = rw_LastWrite r + Millisecond;
          rangeStart = (if start0 - minTSDB < 0 then minTSDB else start0);
          end0 = rangeStart + rw_RangeDuration r;
          rangeEnd = (if end0 - maxTSDB > 0 then maxTSDB else end0)
      in (rangeStart, rangeEnd))"

definition label_series :: "RemoteWrite \<Rightarrow> 'v Series list \<Rightarrow> 'v Series list" where
  "label_series r series = map (\<lambda>s. s\<lparr>ser_Labels := map_put (ser_Labels s) DeviceLabel (rw_deviceID r)\<rparr>) series"

definition advance :: "RemoteWrite \<Rightarrow> int \<Rightarrow> 'e world \<Rightarrow> RemoteWrite \<times> 'e world" where
  "advance r rangeEnd w =
     (let r' = r\<lparr>rw_LastWrite := rangeEnd\<rparr> in (r', w\<lparr>disk := snd (store_last_write r' (disk w))\<rparr>))"

definition write_turn ::
  "('v, 'q, 'e) tsdb_api \<Rightarrow> ('v, 'e) write_env \<Rightarrow> int \<Rightarrow> RemoteWrite \<Rightarrow> 'e world \<Rightarrow> (bool \<times> RemoteWrite, 'e world) call option" where
  "write_turn api env requestNumSamples r w =
     (let (maxTSDB, e1) = MaxTime api (ext w) in
      if \<not> maxTSDB - rw_LastWrite r > 0 then Some (Ret (False, r), w\<lparr>ext := e1\<rparr>)
      else
        case MinTime api e1 of
          (Inl _, e2) \<Rightarrow> Some (Ret (False, r), w\<lparr>ext := e2\<rparr>)
        | (Inr minTSDB, e2) \<Rightarrow>
            (let (rangeStart, rangeEnd) = range_of r minTSDB maxTSDB in
             case GetMetricsForTimeRange api rangeStart rangeEnd True e2 of
               (Inl _, e3) \<Rightarrow> Some (Ret (False, r), w\<lparr>ext := e3\<rparr>)
             | (Inr series, e3) \<Rightarrow>
                 if series = [] then (case advance r rangeEnd (w\<lparr>ext := e3\<rparr>) of (r', w') \<Rightarrow> Some (Ret (True, r'), w'))
                 else
                   (case writeRange env (label_series r series) requestNumSamples e3 of
                      None \<Rightarrow> None
                    | Some (Panic, e4) \<Rightarrow> Some (Panic, w\<lparr>ext := e4\<rparr>)
                    | Some (Ret ok, e4) \<Rightarrow>
                        if ok then (case advance r rangeEnd (w\<lparr>ext := e4\<rparr>) of (r', w') \<Rightarrow> Some (Ret (True, r'), w'))
                        else Some (Ret (False, r), w\<lparr>ext := e4\<rparr>))))"

partial_function (option) RemoteWrite_Write ::
  "('v, 'q, 'e) tsdb_api \<Rightarrow> ('v, 'e) write_env \<Rightarrow> int \<Rightarrow> RemoteWrite \<Rightarrow> 'e world \<Rightarrow> (RemoteWrite, 'e world) call option" where
  "RemoteWrite_Write api env requestNumSamples r w =
     Option.bind (write_turn api env requestNumSamples r w)
       (\<lambda>(res, w'). case res of
           Panic \<Rightarrow> Some (Panic, w')
         | Ret x \<Rightarrow> if fst x then RemoteWrite_Write api env requestNumSamples (snd x) w' else Some (Ret (snd x), w'))"

text \<open>The head of a turn of \<open>writeRoutine\<close>: what it takes over from the configuration, or that it ends.\<close>

definition getConfig :: "RemoteWrite \<Rightarrow> int option \<times> RemoteWrite" where
  "getConfig r =
     (if IsEnabled r then (Some (case rw_Config r of None \<Rightarrow> 0 | Some c \<Rightarrow> mr_RequestNumSamples c), r)
      else (None, r\<lparr>rw_isRunning := False\<rparr>))"

section \<open>Configuration\<close>

text \<open>
  What applying a configuration needs from outside: parsing a URL, making a client, the name of a
  new temporary file, and the names in a directory.
\<close>

record rw_env =
  url_Parse :: "string \<Rightarrow> error option"
  remote_NewWriteClient :: "string \<Rightarrow> string \<Rightarrow> int \<Rightarrow> string \<Rightarrow> error option"
  temp_name :: "fs \<Rightarrow> string"
  ReadDir :: "fs \<Rightarrow> string \<Rightarrow> error + string list"

text \<open>\<open>path.Match\<close> with \<open>ServerCAFileNamePattern\<close>, on the name of a directory entry.\<close>

definition ca_file :: "string \<Rightarrow> bool" where
  "ca_file name \<longleftrightarrow> prefix ''remote-write-ca-'' name \<and> suffix ''.pem'' name \<and> 20 \<le> length name"

fun remove_files :: "string \<Rightarrow> string list \<Rightarrow> fs \<Rightarrow> fs" where
  "remove_files dir [] s = s"
| "remove_files dir (n # ns) s =
     remove_files dir ns (if ca_file n then snd (os_Remove s (path_Join [dir, n])) else s)"

definition removeServerCaFiles :: "rw_env \<Rightarrow> RemoteWrite \<Rightarrow> fs \<Rightarrow> fs" where
  "removeServerCaFiles env r s =
     (case ReadDir env s (rw_dataDir r) of Inl _ \<Rightarrow> s | Inr names \<Rightarrow> remove_files (rw_dataDir r) names s)"

text \<open>The CA certificate goes to a new temporary file; its path, or none without a certificate.\<close>

definition store_ca :: "rw_env \<Rightarrow> string \<Rightarrow> fs \<Rightarrow> (error + string) \<times> fs" where
  "store_ca env cert s =
     (if cert = [] then (Inr [], s)
      else let path = temp_name env s in
        case WriteFile s path [] of
          (Some err, s1) \<Rightarrow> (Inl err, s1)
        | (None, s1) \<Rightarrow>
            (case WriteFile s1 path cert of (Some err, s2) \<Rightarrow> (Inl err, s2) | (None, s2) \<Rightarrow> (Inr path, s2)))"

definition applyConfig ::
  "rw_env \<Rightarrow> MetricsReceiverConfiguration \<Rightarrow> RemoteWrite \<Rightarrow> fs \<Rightarrow> (error option \<times> RemoteWrite) \<times> fs" where
  "applyConfig env newConfig r s =
     (case url_Parse env (mr_URL newConfig) of
        Some err \<Rightarrow> ((Some err, r), s)
      | None \<Rightarrow>
          if mr_TimeoutSeconds newConfig = 0 then
            ((Some (Errorf ''metrics remote write configuration is invalid. TimeoutSeconds has to greater than 0'' []), r), s)
          else if mr_RequestNumSamples newConfig = 0 then
            ((Some (Errorf ''metrics remote write configuration is invalid. RequestNumSamples has to greater than 0'' []), r), s)
          else
            case store_ca env (mr_CaCert newConfig) s of
              (Inl err, s1) \<Rightarrow> ((Some err, r), s1)
            | (Inr caFile, s1) \<Rightarrow>
                (let timeout = UnixNano (mr_TimeoutSeconds newConfig * Second) in
                 case remote_NewWriteClient env (rw_deviceID r) (mr_URL newConfig) timeout caFile of
                   Some err \<Rightarrow> ((Some err, r), snd (os_Remove s1 caFile))
                 | None \<Rightarrow>
                     ((None, r\<lparr>rw_client := Some (mr_URL newConfig, timeout, caFile), rw_currentServerCaFile := caFile\<rparr>),
                      snd (os_Remove s1 (rw_currentServerCaFile r)))))"

definition receiver_of :: "DeviceConfigurationMessage \<Rightarrow> MetricsReceiverConfiguration option" where
  "receiver_of config =
     (case dcm_Configuration config of
        None \<Rightarrow> None
      | Some c \<Rightarrow> (case dc_Metrics c of None \<Rightarrow> None | Some mc \<Rightarrow> mc_Receiver mc))"

definition RemoteWrite_Update ::
  "rw_env \<Rightarrow> DeviceConfigurationMessage \<Rightarrow> RemoteWrite \<Rightarrow> fs \<Rightarrow> (error option \<times> RemoteWrite) \<times> fs" where
  "RemoteWrite_Update env config r s =
     (let newConfig = receiver_of config in
      if rw_Config r = newConfig then ((None, r), s)
      else
        case newConfig of
          None \<Rightarrow> ((None, r\<lparr>rw_client := None, rw_currentServerCaFile := [], rw_Config := None\<rparr>), removeServerCaFiles env r s)
        | Some c \<Rightarrow>
            if mr_URL c = [] then
              ((None, r\<lparr>rw_client := None, rw_currentServerCaFile := [], rw_Config := Some c\<rparr>), removeServerCaFiles env r s)
            else
              (case applyConfig env c r s of
                 ((Some err, r'), s') \<Rightarrow> ((Some err, r'), s')
               | ((None, r'), s') \<Rightarrow> ((None, r'\<lparr>rw_isRunning := True, rw_Config := Some c\<rparr>), s')))"

definition RemoteWrite_Init ::
  "rw_env \<Rightarrow> DeviceConfigurationMessage \<Rightarrow> RemoteWrite \<Rightarrow> fs \<Rightarrow> (error option \<times> RemoteWrite) \<times> fs" where
  "RemoteWrite_Init env config r s = RemoteWrite_Update env config r (removeServerCaFiles env r s)"

section \<open>What a range sends\<close>

text \<open>The samples of a list of series with their labels, in order.\<close>

definition labelled :: "'v Series \<Rightarrow> ((string, string) gomap \<times> 'v DataPoint) list" where
  "labelled s = map (Pair (ser_Labels s)) (ser_DataPoints s)"

definition flat :: "'v Series list \<Rightarrow> ((string, string) gomap \<times> 'v DataPoint) list" where
  "flat ss = concat (map labelled ss)"

lemma flat_simps [simp]: "flat [] = []" "flat (s # ss) = labelled s @ flat ss" "flat (ss @ ts) = flat ss @ flat ts"
  by (simp_all add: flat_def)

text \<open>The samples that are left when \<open>k\<close> of the first series are done.\<close>

definition remaining :: "'v Series list \<Rightarrow> nat \<Rightarrow> ((string, string) gomap \<times> 'v DataPoint) list" where
  "remaining ss k = drop k (flat ss)"

text \<open>Requests sent one after the other until one is given up.\<close>

fun send_all :: "('v Series list \<Rightarrow> 'e \<Rightarrow> bool \<times> 'e) \<Rightarrow> 'v Series list list \<Rightarrow> 'e \<Rightarrow> bool \<times> 'e" where
  "send_all write [] e = (True, e)"
| "send_all write (r # rs) e = (case write r e of (ok, e') \<Rightarrow> if \<not> ok then (False, e') else send_all write rs e')"

text \<open>A list of requests with all the samples \<open>xs\<close>, at most \<open>n\<close> in each, and \<open>n\<close> in all but the last.\<close>

definition chunked :: "int \<Rightarrow> ((string, string) gomap \<times> 'v DataPoint) list \<Rightarrow> 'v Series list list \<Rightarrow> bool" where
  "chunked n xs reqs \<longleftrightarrow> concat (map flat reqs) = xs \<and> (\<forall>r \<in> set reqs. int (length (flat r)) \<le> n) \<and>
     (\<forall>r \<in> set (butlast reqs). int (length (flat r)) = n)"

lemma chunked_Nil: "0 < n \<Longrightarrow> chunked n [] []"
  by (simp add: chunked_def)

lemma chunked_last: "int (length (flat r)) \<le> n \<Longrightarrow> chunked n (flat r) [r]"
  by (simp add: chunked_def)

lemma chunked_Cons:
  "int (length (flat r)) = n \<Longrightarrow> chunked n xs reqs \<Longrightarrow> chunked n (flat r @ xs) (r # reqs)"
  by (auto simp: chunked_def)

lemma use_series_step:
  assumes "k < length (ser_DataPoints s)" and "int n < N" and "0 < k \<longrightarrow> acc = []"
  obtains u where "0 < u" and "u \<le> length (ser_DataPoints s) - k" and "int (n + u) \<le> N"
    and "u = length (ser_DataPoints s) - k \<or> int (n + u) = N"
    and "use_series N s k n acc =
      Some (k + u, n + u, acc @ [\<lparr>ser_Labels = ser_Labels s, ser_DataPoints = take u (drop k (ser_DataPoints s))\<rparr>])"
proof
  let ?len = "length (ser_DataPoints s)"
  let ?u = "nat (if N - int n > int ?len - int k then int ?len - int k else N - int n)"
  show "0 < ?u" and "?u \<le> ?len - k" and "int (n + ?u) \<le> N" and "?u = ?len - k \<or> int (n + ?u) = N"
    using assms by auto
  have "ser_DataPoints s \<noteq> []" "k = 0 \<or> acc = []" "\<not> (if N - int n > int ?len - int k then int ?len - int k else N - int n) < 0"
    using assms by auto
  then show "use_series N s k n acc =
      Some (k + ?u, n + ?u, acc @ [\<lparr>ser_Labels = ser_Labels s, ser_DataPoints = take ?u (drop k (ser_DataPoints s))\<rparr>])"
    unfolding use_series_def Let_def by (simp split: if_splits)
qed

lemma labelled_take:
  "labelled \<lparr>ser_Labels = ser_Labels s, ser_DataPoints = take u (drop k (ser_DataPoints s))\<rparr> = take u (drop k (labelled s))"
  by (simp add: labelled_def take_map drop_map)

lemma length_labelled [simp]: "length (labelled s) = length (ser_DataPoints s)"
  by (simp add: labelled_def)

definition sent :: "bool \<times> 'e \<Rightarrow> (bool, 'e) call option" where
  "sent r = Some (Ret (fst r), snd r)"

text \<open>What the loop does once it has taken samples into the request \<open>acc\<close>: go on, or send it.\<close>

definition go_on where
  "go_on write N rest k acc e =
     (if int (length (flat acc)) \<noteq> N \<and> rest \<noteq> [] then range_loop write N rest k (length (flat acc)) acc e
      else case write acc e of
             (continue, e') \<Rightarrow> if \<not> continue then Some (Ret False, e') else range_loop write N rest k 0 [] e')"

definition chunks_from where
  "chunks_from write N series k acc \<longleftrightarrow>
     (\<forall>e. \<exists>reqs. range_loop write N series k (length (flat acc)) acc e = sent (send_all write reqs e) \<and>
        chunked N (flat acc @ remaining series k) reqs)"

lemma go_on_chunks:
  assumes "int (length (flat acc)) \<le> N" and "0 < N"
    and "int (length (flat acc)) < N \<Longrightarrow> rest \<noteq> [] \<Longrightarrow> chunks_from write N rest k acc"
    and "rest \<noteq> [] \<Longrightarrow> chunks_from write N rest k []"
  shows "\<exists>reqs. go_on write N rest k acc e = sent (send_all write reqs e) \<and> chunked N (flat acc @ remaining rest k) reqs"
proof (cases "int (length (flat acc)) \<noteq> N \<and> rest \<noteq> []")
  case True
  then show ?thesis using assms(1,3) by (simp add: go_on_def chunks_from_def)
next
  case False
  obtain ok e' where w: "write acc e = (ok, e')" by fastforce
  show ?thesis
  proof (cases "rest = []")
    case True
    with w assms(1) show ?thesis
      by (intro exI [of _ "[acc]"]) (auto simp: go_on_def sent_def range_loop.simps remaining_def chunked_last)
  next
    case rest: False
    with False have full: "int (length (flat acc)) = N" by simp
    obtain reqs where reqs: "range_loop write N rest k 0 [] e' = sent (send_all write reqs e')"
      "chunked N (remaining rest k) reqs"
      using assms(4) [OF rest] by (fastforce simp: chunks_from_def)
    with w full chunked_Cons [OF full reqs(2)] show ?thesis
      by (intro exI [of _ "acc # reqs"]) (auto simp: go_on_def sent_def)
  qed
qed

lemma range_loop_step:
  assumes "use_series N s k (length (flat acc)) acc = Some (k', length (flat acc'), acc')"
  shows "range_loop write N (s # later) k (length (flat acc)) acc e =
    go_on write N (if k' = length (ser_DataPoints s) then later else s # later)
      (if k' = length (ser_DataPoints s) then 0 else k') acc' e"
  by (subst range_loop.simps) (simp add: assms go_on_def Let_def)

text \<open>The samples taken, followed by what is left after them, are what was left before.\<close>

lemma take_remaining:
  assumes "k + u \<le> length (ser_DataPoints s)"
  shows "take u (drop k (labelled s)) @
      remaining (if k + u = length (ser_DataPoints s) then later else s # later)
        (if k + u = length (ser_DataPoints s) then 0 else k + u) = remaining (s # later) k"
proof -
  have "take u (drop k (labelled s)) @ drop (k + u) (labelled s) = drop k (labelled s)"
    by (metis add.commute append_take_drop_id drop_drop)
  then have "take u (drop k (labelled s)) @ drop (k + u) (labelled s) @ flat later = drop k (labelled s) @ flat later"
    by (simp flip: append_assoc)
  then show ?thesis
    using assms by (auto simp: remaining_def)
qed

lemma range_loop_chunks:
  assumes "0 < N" and "int (length (flat acc)) < N" and "series = [] \<longrightarrow> acc = []"
    and "series \<noteq> [] \<longrightarrow> k < length (ser_DataPoints (hd series)) \<or> k = 0" and "0 < k \<longrightarrow> series \<noteq> [] \<and> acc = []"
  shows "chunks_from write N series k acc"
  using assms(2-5)
proof (induction "length (remaining series k) + length series" arbitrary: series k acc rule: less_induct)
  case less
  show ?case
  proof (cases series)
    case Nil
    then have "acc = []" "k = 0" using less.prems by auto
    with Nil assms(1) show ?thesis
      by (auto simp: chunks_from_def range_loop.simps sent_def remaining_def intro!: exI [of _ "[]"] chunked_Nil)
  next
    case (Cons s later)
    let ?pts = "ser_DataPoints s"
    obtain u acc' where use: "use_series N s k (length (flat acc)) acc = Some (k + u, length (flat acc'), acc')"
      and acc': "flat acc' = flat acc @ take u (drop k (labelled s))" "int (length (flat acc')) \<le> N"
      and u: "k + u \<le> length ?pts" "k + u = length ?pts \<or> 0 < u \<and> int (length (flat acc')) = N"
    proof (cases "?pts = []")
      case True
      then have "k = 0" using less.prems(3) Cons by auto
      with True less.prems(1) that [of 0 acc] show thesis by (simp add: use_series_def)
    next
      case False
      then have lt: "k < length ?pts" using less.prems(3) Cons by auto
      from use_series_step [OF lt less.prems(1), of acc] less.prems(4) obtain u where
        u: "0 < u" "u \<le> length ?pts - k" "int (length (flat acc) + u) \<le> N"
          "u = length ?pts - k \<or> int (length (flat acc) + u) = N"
        and use: "use_series N s k (length (flat acc)) acc = Some (k + u, length (flat acc) + u,
          acc @ [\<lparr>ser_Labels = ser_Labels s, ser_DataPoints = take u (drop k ?pts)\<rparr>])"
        by blast
      show thesis
        by (rule that [OF _ _ _ _ _, of u "acc @ [\<lparr>ser_Labels = ser_Labels s, ser_DataPoints = take u (drop k ?pts)\<rparr>]"])
          (use u use lt in \<open>auto simp: labelled_take\<close>)
    qed
    let ?rest = "if k + u = length ?pts then later else s # later"
    let ?k = "if k + u = length ?pts then 0 else k + u"
    have rem: "take u (drop k (labelled s)) @ remaining ?rest ?k = remaining series k"
      unfolding Cons by (rule take_remaining [OF u(1)])
    have small: "length (remaining ?rest ?k) + length ?rest < length (remaining series k) + length series"
      using arg_cong [OF rem, of length] u Cons by auto
    have "\<exists>reqs. go_on write N ?rest ?k acc' e = sent (send_all write reqs e) \<and>
        chunked N (flat acc' @ remaining ?rest ?k) reqs" for e
      using u assms(1) less.prems(4)
      by (intro go_on_chunks less.hyps [OF small] acc'(2)) auto
    moreover have "flat acc' @ remaining ?rest ?k = flat acc @ remaining series k"
      using acc'(1) rem by simp
    ultimately show ?thesis
      unfolding chunks_from_def Cons range_loop_step [OF use] by simp
  qed
qed

text \<open>The requests of a range.\<close>

lemma write_range_requests:
  assumes "0 < requestNumSamples"
  shows "\<exists>reqs. writeRange env series requestNumSamples e =
      Some (Ret (fst (send_all (writeRequest env) reqs e)), snd (send_all (writeRequest env) reqs e)) \<and>
    concat (map flat reqs) = flat series \<and>
    (\<forall>r \<in> set reqs. int (length (flat r)) \<le> requestNumSamples) \<and>
    (\<forall>r \<in> set (butlast reqs). int (length (flat r)) = requestNumSamples)"
proof -
  have "chunks_from (writeRequest env) requestNumSamples series 0 []"
    using assms by (intro range_loop_chunks) simp_all
  then show ?thesis
    by (simp add: writeRange_def chunks_from_def chunked_def sent_def remaining_def)
qed

text \<open>
  C13: Writing a range with a positive number of samples per request ends, and it sends its samples
  in requests that hold, one after the other, exactly the samples of the range with their labels
  and in their order; every request but the last has the full number, none has more. It stops at
  the first request that is given up and returns whether there was none.
\<close>

theorem write_range_chunks:
  assumes "0 < requestNumSamples"
  shows "\<exists>reqs. writeRange env series requestNumSamples e =
      Some (Ret (fst (send_all (writeRequest env) reqs e)), snd (send_all (writeRequest env) reqs e)) \<and>
    concat (map flat reqs) = flat series \<and>
    (\<forall>r \<in> set reqs. int (length (flat r)) \<le> requestNumSamples) \<and>
    (\<forall>r \<in> set (butlast reqs). int (length (flat r)) = requestNumSamples)"
  using assms by (rule write_range_requests)

section \<open>Giving up a request\<close>

text \<open>
  A request is given up, so that its range is tried again later, exactly when it cannot be
  encoded or three tries in a row fail with an error that may go away. After any other error the
  request counts as done and its samples are skipped.
\<close>

theorem request_given_up_iff:
  "writeRequest env series e = (False, e') \<longleftrightarrow>
     (\<exists>err. request_Marshal env (fst (toTimeSeries (label_range env) series)) = Inl err) \<and> e' = e \<or>
     (\<exists>bytes r1 e1 r2 e2 r3. request_Marshal env (fst (toTimeSeries (label_range env) series)) = Inr bytes \<and>
        client_Write env bytes e = (Some (RecoverableError r1), e1) \<and>
        client_Write env bytes e1 = (Some (RecoverableError r2), e2) \<and>
        client_Write env bytes e2 = (Some (RecoverableError r3), e'))"
proof (cases "request_Marshal env (fst (toTimeSeries (label_range env) series))")
  case (Inl err)
  then show ?thesis by (auto simp: writeRequest_def)
next
  case (Inr bytes)
  have "write_tries env bytes (Suc n) v = (False, e') \<longleftrightarrow>
      (\<exists>r v1. client_Write env bytes v = (Some (RecoverableError r), v1) \<and>
         (if n = 0 then v1 = e' else write_tries env bytes n v1 = (False, e')))" for n v
    by (auto split: prod.splits option.splits error.splits)
  then show ?thesis
    using Inr by (simp add: writeRequest_def numTries_def numeral_3_eq_3 del: write_tries.simps)
qed

text \<open>In terms of \<open>Store\<close>, whose other errors are not wrapped: three tries, all recoverable.\<close>

corollary request_given_up_store:
  assumes "client_Write env = writeClient_Write store" and "\<And>bytes e r e'. store bytes e \<noteq> (Some (RecoverableError r, False), e')"
    and "request_Marshal env (fst (toTimeSeries (label_range env) series)) = Inr bytes"
  shows "writeRequest env series e = (False, e') \<longleftrightarrow>
    (\<exists>r1 e1 r2 e2 r3. store bytes e = (Some (r1, True), e1) \<and> store bytes e1 = (Some (r2, True), e2) \<and>
       store bytes e2 = (Some (r3, True), e'))"
proof -
  have "client_Write env bytes x = (Some (RecoverableError r), y) \<longleftrightarrow> store bytes x = (Some (r, True), y)" for x r y
    using assms(2) [of bytes x r y] by (auto simp: assms(1) writeClient_Write_def split: prod.splits option.splits if_splits)
  with assms(3) show ?thesis by (simp add: request_given_up_iff)
qed

section \<open>Progress\<close>

lemma range_of_bounds:
  assumes "range_of r mn mx = (st, en)" and "rw_LastWrite r < mx" and "0 \<le> rw_RangeDuration r"
  shows "rw_LastWrite r < en" and "en \<le> mx" and "st = max mn (rw_LastWrite r + Millisecond)"
  using assms by (auto simp: range_of_def Let_def Millisecond_def split: if_splits)

text \<open>A turn that goes on has moved the time of the last write forward, and not past the end.\<close>

lemma write_turn_moves:
  assumes "write_turn api env n r w = Some (Ret (True, r'), w')" and "0 \<le> rw_RangeDuration r"
    and "fst (MaxTime api (ext w)) = mx"
  shows "rw_LastWrite r < rw_LastWrite r'" and "rw_LastWrite r' \<le> mx" and "rw_RangeDuration r' = rw_RangeDuration r"
  using assms range_of_bounds
  by (auto simp: write_turn_def advance_def Let_def split: if_splits prod.splits sum.splits option.splits outcome.splits)

lemma write_turn_total:
  assumes "0 < n"
  shows "\<exists>b r' w'. write_turn api env n r w = Some (Ret (b, r'), w')"
proof -
  obtain mx e1 mn e2 where mx: "MaxTime api (ext w) = (mx, e1)" and mn: "MinTime api e1 = (mn, e2)" by fastforce
  show ?thesis
  proof (cases "\<exists>m. mn = Inr m \<and> mx - rw_LastWrite r > 0")
    case False
    with mx mn show ?thesis by (cases mn) (auto simp: write_turn_def)
  next
    case True
    then obtain m where m: "mn = Inr m" "mx - rw_LastWrite r > 0" by blast
    obtain st en where range: "range_of r m mx = (st, en)" by fastforce
    obtain g e3 where g: "GetMetricsForTimeRange api st en True e2 = (g, e3)" by fastforce
    show ?thesis
    proof (cases g)
      case (Inl err)
      with mx mn m range g show ?thesis by (auto simp: write_turn_def)
    next
      case (Inr series)
      obtain b e4 where "writeRange env (label_series r series) n e3 = Some (Ret b, e4)"
        using write_range_requests [OF assms, of env "label_series r series" e3] by blast
      with Inr mx mn m range g show ?thesis by (auto simp: write_turn_def advance_def Let_def)
    qed
  qed
qed

text \<open>
  C21: With a positive number of samples per request and an end of the stored samples that stays
  where it is, \<open>Write\<close> comes to an end without a panic; the time of the last write has not gone back
  and is not beyond the end of the samples unless it was before.
\<close>

theorem write_terminates:
  assumes "0 < requestNumSamples" and "0 \<le> rw_RangeDuration r" and "\<forall>e. fst (MaxTime api e) = maxTSDB"
  shows "\<exists>r' w'. RemoteWrite_Write api env requestNumSamples r w = Some (Ret r', w') \<and>
    rw_LastWrite r \<le> rw_LastWrite r' \<and> rw_LastWrite r' \<le> max maxTSDB (rw_LastWrite r)"
  using assms(2)
proof (induction "nat (maxTSDB - rw_LastWrite r)" arbitrary: r w rule: less_induct)
  case less
  obtain b r1 w1 where turn: "write_turn api env requestNumSamples r w = Some (Ret (b, r1), w1)"
    using write_turn_total [OF assms(1)] by blast
  show ?case
  proof (cases b)
    case True
    note moves = write_turn_moves [of api env requestNumSamples r w r1 w1 maxTSDB] turn True less.prems assms(3)
    then have m: "rw_LastWrite r < rw_LastWrite r1" "rw_LastWrite r1 \<le> maxTSDB" "rw_RangeDuration r1 = rw_RangeDuration r"
      by auto
    from less.hyps [of r1 w1] m less.prems obtain r' w' where
      "RemoteWrite_Write api env requestNumSamples r1 w1 = Some (Ret r', w')"
      "rw_LastWrite r1 \<le> rw_LastWrite r'" "rw_LastWrite r' \<le> max maxTSDB (rw_LastWrite r1)"
      by auto
    with turn True m show ?thesis
      by (subst RemoteWrite_Write.simps) auto
  next
    case False
    then have "r1 = r"
      using turn by (auto simp: write_turn_def advance_def Let_def
          split: if_splits prod.splits sum.splits option.splits outcome.splits)
    with turn False show ?thesis
      by (subst RemoteWrite_Write.simps) auto
  qed
qed

section \<open>The file of the last write\<close>

lemma Itoa_parts:
  "i < 0 \<Longrightarrow> Itoa i = CHR ''-'' # digits (nat (- i))" "0 \<le> i \<Longrightarrow> Itoa i = digits (nat i)"
  by (simp_all add: Itoa_def)

lemma digits_hd: "is_digit (hd (digits n))"
  using digits_digits [of n] digits_not_Nil [of n] by (cases "digits n") auto

lemma ParseInt_Itoa:
  assumes "MinInt64 \<le> i" and "i \<le> MaxInt64"
  shows "ParseInt (Itoa i) = Some i"
proof (cases "i < 0")
  case True
  with assms show ?thesis
    by (simp add: Itoa_parts ParseInt_def Let_def digits_not_Nil digits_digits parse_nat_digits)
next
  case False
  have "hd (digits (nat i)) \<noteq> CHR ''-''" "hd (digits (nat i)) \<noteq> CHR ''+''"
    using digits_hd [of "nat i"] by (auto simp: is_digit_def byte_in_def)
  with False assms show ?thesis
    by (simp add: Itoa_parts ParseInt_def Let_def digits_not_Nil digits_digits parse_nat_digits)
qed

text \<open>
  After the time of the last write is stored without error, a writer started on that data
  directory goes on from the same time, to the nanosecond, provided the time is within the range
  of \<open>UnixNano\<close>.
\<close>

theorem last_write_reload:
  assumes "store_last_write r s = (None, s')" and "rw_lastWriteFile r = path_Join [dataDir, LastWriteFileName]"
    and "MinInt64 \<le> rw_LastWrite r" and "rw_LastWrite r \<le> MaxInt64"
  shows "rw_LastWrite (NewRemoteWrite dataDir deviceID s') = rw_LastWrite r"
proof -
  let ?t = "rw_LastWrite r"
  have "UnixNano ?t = ?t"
    using assms(3,4) by (intro UnixNano_id) (simp_all add: MinInt64_def MaxInt64_def)
  then have "ReadFile s' (path_Join [dataDir, LastWriteFileName]) = Inr (Itoa ?t)"
    using assms(1,2) WriteFile_ok(2) by (simp add: store_last_write_def)
  moreover have "Itoa ?t \<noteq> []"
    by (simp add: Itoa_def digits_not_Nil)
  moreover have "time_Unix (quot ?t 1000000000) (remn ?t 1000000000) = ?t"
    using quot_remn [of ?t 1000000000] by (simp add: time_Unix_def Second_def)
  ultimately show ?thesis
    using ParseInt_Itoa [OF assms(3,4)] by (simp add: NewRemoteWrite_def Let_def)
qed

section \<open>The receiver's configuration\<close>

text \<open>
  A receiver with a URL but no timeout or no samples per request is refused: the writer keeps
  its configuration and its client, and the disk is not touched.
\<close>

theorem invalid_receiver_refused:
  assumes "receiver_of config = Some c" and "mr_URL c \<noteq> []" and "rw_Config r \<noteq> Some c"
    and "url_Parse env (mr_URL c) \<noteq> None \<or> mr_TimeoutSeconds c = 0 \<or> mr_RequestNumSamples c = 0"
  shows "\<exists>err. RemoteWrite_Update env config r s = ((Some err, r), s)"
  using assms by (auto simp: RemoteWrite_Update_def applyConfig_def Let_def split: option.splits)

text \<open>A negative number of samples per request makes the slice bounds of the first series invalid.\<close>

lemma negative_request_panics:
  assumes "requestNumSamples < 0" and "ser_DataPoints s \<noteq> []"
  shows "writeRange env (s # series) requestNumSamples e = Some (Panic, e)"
proof -
  have "use_series requestNumSamples s 0 0 [] = None"
    using assms by (simp add: use_series_def Let_def)
  then show ?thesis
    by (simp add: writeRange_def range_loop.simps)
qed

text \<open>
  A negative number of samples per request is accepted as a configuration, and the first range
  that has a sample in its first series then panics the writer.
\<close>

theorem negative_request_size_accepted:
  assumes "receiver_of config = Some c" and "mr_URL c \<noteq> []" and "rw_Config r \<noteq> Some c"
    and "url_Parse renv (mr_URL c) = None" and "mr_TimeoutSeconds c \<noteq> 0" and "mr_CaCert c = []"
    and "remote_NewWriteClient renv (rw_deviceID r) (mr_URL c) (UnixNano (mr_TimeoutSeconds c * Second)) [] = None"
    and "mr_RequestNumSamples c < 0" and "ser_DataPoints ser \<noteq> []"
  shows "\<exists>r' s'. RemoteWrite_Update renv config r s = ((None, r'), s') \<and>
    getConfig r' = (Some (mr_RequestNumSamples c), r') \<and>
    writeRange env (label_series r' (ser # series)) (mr_RequestNumSamples c) e = Some (Panic, e)"
  using assms
  by (simp add: RemoteWrite_Update_def applyConfig_def store_ca_def Let_def getConfig_def IsEnabled_def label_series_def
      negative_request_panics)

section \<open>Concrete instances\<close>

definition demo_series :: "int Series list" where
  "demo_series = map (\<lambda>n. \<lparr>ser_Labels = [(''__name__'', n)], ser_DataPoints = [\<lparr>pt_Time = 1, pt_Value = 1\<rparr>, \<lparr>pt_Time = 2, pt_Value = 2\<rparr>]\<rparr>)
     [''a'', ''b'']"

definition demo_write_env :: "(int, int TimeSeries list list) write_env" where
  "demo_write_env = \<lparr>request_Marshal = \<lambda>_. Inr [], client_Write = \<lambda>_ e. (None, e), label_range = \<lambda>m. m\<rparr>"

definition demo_rw_env :: rw_env where
  "demo_rw_env = \<lparr>url_Parse = \<lambda>_. None, remote_NewWriteClient = \<lambda>_ _ _ _. None, temp_name = \<lambda>_. ''/d/remote-write-ca-1.pem'',
     ReadDir = \<lambda>_ _. Inr []\<rparr>"

definition demo_receiver :: "int \<Rightarrow> MetricsReceiverConfiguration" where
  "demo_receiver n = \<lparr>mr_CaCert = [], mr_RequestNumSamples = n, mr_TimeoutSeconds = 10, mr_URL = ''http://r''\<rparr>"

definition receiver_message :: "int \<Rightarrow> DeviceConfigurationMessage" where
  "receiver_message n = retention_message\<lparr>dcm_Configuration := Some \<lparr>dc_Heartbeat = None, dc_LogCollection = [],
     dc_Metrics = Some \<lparr>mc_Receiver = Some (demo_receiver n), mc_Retention = None, mc_System = None\<rparr>, dc_Os = None, dc_Storage = None\<rparr>\<rparr>"

lemma receiver_of_message [simp]: "receiver_of (receiver_message n) = Some (demo_receiver n)"
  by (simp add: receiver_of_def receiver_message_def)

theorem write_range_chunks_witness:
  "\<exists>reqs. concat (map flat reqs) = flat demo_series \<and> (\<forall>r \<in> set reqs. int (length (flat r)) \<le> 3) \<and>
     writeRange demo_write_env demo_series 3 [] =
       Some (Ret (fst (send_all (writeRequest demo_write_env) reqs [])), snd (send_all (writeRequest demo_write_env) reqs []))"
  using write_range_chunks [of 3 demo_write_env demo_series "[]"] by auto

definition still_tsdb :: "(int, unit, int TimeSeries list list) tsdb_api" where
  "still_tsdb = \<lparr>tsdb_Open = \<lambda>_ _ e. (None, e), db_Close = \<lambda>e. (None, e), db_StartTime = \<lambda>e. (Inr 1000, e),
     db_HeadMaxTime = \<lambda>e. (5000, e), app_Append = \<lambda>_ _ _ e. (None, e), app_Rollback = \<lambda>e. (None, e),
     app_Commit = \<lambda>e. (None, e), db_Querier = \<lambda>_ _ e. (Inr (), e), q_LabelNames = \<lambda>_ e. (Inr [], e),
     q_Select = \<lambda>_ _ _ e. (Inr [], e), q_Close = \<lambda>_ e. (None, e)\<rparr>"

theorem write_terminates_witness:
  "\<exists>r' w'. RemoteWrite_Write still_tsdb demo_write_env 3 (NewRemoteWrite ''/d'' ''dev'' (fs_of [])) \<lparr>disk = fs_of [], ext = []\<rparr>
     = Some (Ret r', w')"
  using write_terminates [of 3 "NewRemoteWrite ''/d'' ''dev'' (fs_of [])" still_tsdb "fromDbTime 5000" demo_write_env
      "\<lparr>disk = fs_of [], ext = []\<rparr>"]
  by (auto simp: NewRemoteWrite_def Let_def defaultRequestDuration_def Second_def MaxTime_def still_tsdb_def)

theorem last_write_reload_witness:
  "rw_LastWrite (NewRemoteWrite ''/d'' ''dev'' (snd (store_last_write ((NewRemoteWrite ''/d'' ''dev'' (fs_of []))
     \<lparr>rw_LastWrite := 1650000000123456789\<rparr>) (fs_of [(''/d'', Dir)])))) = 1650000000123456789"
proof -
  let ?r = "(NewRemoteWrite ''/d'' ''dev'' (fs_of []))\<lparr>rw_LastWrite := 1650000000123456789\<rparr>"
  have f: "rw_lastWriteFile ?r = ''/d/metrics-lastwrite''" "path_Join [''/d'', LastWriteFileName] = ''/d/metrics-lastwrite''"
    by (simp_all add: NewRemoteWrite_def Let_def LastWriteFileName_def path_Join_def path_Clean_def)
  have "store_last_write ?r (fs_of [(''/d'', Dir)]) = (None, snd (store_last_write ?r (fs_of [(''/d'', Dir)])))"
    unfolding store_last_write_def f(1) by (simp add: WriteFile_def is_dir_def path_Dir_def Let_def)
  from last_write_reload [OF this, of "''/d''" "''dev''"] show ?thesis
    using f by (simp add: MinInt64_def MaxInt64_def)
qed

theorem invalid_receiver_refused_witness:
  "\<exists>err. RemoteWrite_Update demo_rw_env (receiver_message 0) (NewRemoteWrite ''/d'' ''dev'' (fs_of [])) (fs_of []) =
     ((Some err, NewRemoteWrite ''/d'' ''dev'' (fs_of [])), fs_of [])"
  by (rule invalid_receiver_refused [of _ "demo_receiver 0"]) (simp_all add: demo_receiver_def NewRemoteWrite_def Let_def)

theorem negative_request_size_accepted_witness:
  "\<exists>r' s'. RemoteWrite_Update demo_rw_env (receiver_message (- 1)) (NewRemoteWrite ''/d'' ''dev'' (fs_of [])) (fs_of []) = ((None, r'), s') \<and>
     writeRange demo_write_env (label_series r' demo_series) (- 1) [] = Some (Panic, [])"
  using negative_request_size_accepted [of "receiver_message (- 1)" "demo_receiver (- 1)" "NewRemoteWrite ''/d'' ''dev'' (fs_of [])"
      demo_rw_env "hd demo_series" "fs_of []" demo_write_env "tl demo_series" "[]"]
  by (auto simp: demo_receiver_def demo_rw_env_def NewRemoteWrite_def Let_def demo_series_def)

end
