(* ===== verification/Fifo_Log.thy ===== *)
theory Fifo_Log
  imports Go_Prelude
begin

text \<open>
  \<open>internal/logs/log_container.go\<close>, the bounded buffer between a workload's log stream and a log
  transport, with the transport's loop (\<open>transportLog.Start\<close> in \<open>logs/workload.go\<close>), the writer that
  feeds the buffer (\<open>logs/workload_writer.go\<close>) and the retrying send of
  \<open>logs/syslog_transport.go\<close>.

  \<open>maxlen\<close> and \<open>currentSize\<close> are Go \<open>int\<close>s that count bytes held in memory; they cannot reach the
  64-bit limit and are mathematical integers here.
\<close>

record LogEntry =
  entry_Time :: int
  entry_data :: string
  entry_workload :: string

definition NewLogEntry :: "int \<Rightarrow> string \<Rightarrow> string \<Rightarrow> LogEntry" where
  "NewLogEntry now data workload = \<lparr>entry_Time = now, entry_data = data, entry_workload = workload\<rparr>"

definition LogEntry_Size :: "LogEntry \<Rightarrow> int" where
  "LogEntry_Size l = int (length (entry_data l))"

definition LogEntry_String :: "LogEntry \<Rightarrow> string" where
  "LogEntry_String l = entry_data l"

definition LogEntry_GetWorkload :: "LogEntry \<Rightarrow> string" where
  "LogEntry_GetWorkload l = entry_workload l"

record FIFOLog =
  maxlen :: int
  fifo_data :: "LogEntry list"
  currentSize :: int

definition NewFIFOLog :: "int \<Rightarrow> FIFOLog" where
  "NewFIFOLog maxSize = \<lparr>maxlen = maxSize, fifo_data = [], currentSize = 0\<rparr>"

definition FIFOLog_CurrentSize :: "FIFOLog \<Rightarrow> int" where
  "FIFOLog_CurrentSize f = currentSize f"

text \<open>\<open>Write\<close>; \<open>None\<close> is the nil entry.\<close>

definition FIFOLog_Write :: "LogEntry option \<Rightarrow> FIFOLog \<Rightarrow> error option \<times> FIFOLog" where
  "FIFOLog_Write entry f =
     (case entry of
        None \<Rightarrow> (Some (Errorf ''No log entry added'' []), f)
      | Some e \<Rightarrow>
          if currentSize f > maxlen f then (Some (Errorf ''Buffer is already full'' []), f)
          else (None, f\<lparr>fifo_data := fifo_data f @ [e], currentSize := currentSize f + LogEntry_Size e\<rparr>))"

text \<open>
  \<open>ReadLine\<close>: the entry (nil when there is nothing to read) and no error; indexing an empty
  slice would panic.
\<close>

definition FIFOLog_ReadLine :: "FIFOLog \<Rightarrow> LogEntry option outcome \<times> FIFOLog" where
  "FIFOLog_ReadLine f =
     (if currentSize f \<le> 0 then (Ret None, f)
      else case fifo_data f of
             [] \<Rightarrow> (Panic, f)
           | res # rest \<Rightarrow>
               (Ret (Some res), f\<lparr>fifo_data := rest, currentSize := currentSize f - LogEntry_Size res\<rparr>))"

section \<open>The invariant of the buffer\<close>

definition entries_size :: "LogEntry list \<Rightarrow> int" where
  "entries_size es = sum_list (map LogEntry_Size es)"

lemma entries_size_simps [simp]:
  "entries_size [] = 0"
  "entries_size (e # es) = LogEntry_Size e + entries_size es"
  "entries_size (es @ fs) = entries_size es + entries_size fs"
  by (simp_all add: entries_size_def)

lemma LogEntry_Size_nonneg [simp]: "0 \<le> LogEntry_Size e"
  by (simp add: LogEntry_Size_def)

lemma entries_size_nonneg [simp]: "0 \<le> entries_size es"
  by (induction es) auto

text \<open>
  The size field counts the stored bytes, and everything but the newest entry fits the limit:
  the "soft" limit of the source.
\<close>

definition fifo_ok :: "FIFOLog \<Rightarrow> bool" where
  "fifo_ok f \<longleftrightarrow> currentSize f = entries_size (fifo_data f) \<and>
     (fifo_data f \<noteq> [] \<longrightarrow> entries_size (butlast (fifo_data f)) \<le> maxlen f)"

lemma fifo_ok_New [simp, go_inv]: "fifo_ok (NewFIFOLog n)"
  by (simp add: fifo_ok_def NewFIFOLog_def)

lemma fifo_ok_Write [go_inv]: "fifo_ok f \<Longrightarrow> fifo_ok (snd (FIFOLog_Write e f))"
  by (auto simp: fifo_ok_def FIFOLog_Write_def split: option.splits)

lemma fifo_ok_ReadLine [go_inv]:
  assumes "fifo_ok f"
  shows "fifo_ok (snd (FIFOLog_ReadLine f))"
proof (cases "fifo_data f")
  case Nil
  with assms show ?thesis by (simp add: FIFOLog_ReadLine_def)
next
  case (Cons e es)
  then show ?thesis
    using assms LogEntry_Size_nonneg [of e]
    by (auto simp: fifo_ok_def FIFOLog_ReadLine_def simp del: LogEntry_Size_nonneg)
qed

lemma ReadLine_no_panic: "fifo_ok f \<Longrightarrow> fst (FIFOLog_ReadLine f) \<noteq> Panic"
  by (auto simp: fifo_ok_def FIFOLog_ReadLine_def split: list.splits)

text \<open>
  A run of pushes (\<open>Some\<close>) and pops (\<open>None\<close>) on a queue: the accepted elements, the delivered ones
  and the queue at the end.
\<close>

fun queue_run ::
  "('a \<Rightarrow> 'q \<Rightarrow> bool \<times> 'q) \<Rightarrow> ('q \<Rightarrow> 'a option \<times> 'q) \<Rightarrow> 'a option list \<Rightarrow> 'q \<Rightarrow> 'a list \<times> 'a list \<times> 'q" where
  "queue_run push pop [] q = ([], [], q)"
| "queue_run push pop (Some x # ops) q =
     (let (ok, q') = push x q; (acc, del, q'') = queue_run push pop ops q'
      in (if ok then x # acc else acc, del, q''))"
| "queue_run push pop (None # ops) q =
     (let (r, q') = pop q; (acc, del, q'') = queue_run push pop ops q'
      in (acc, (case r of None \<Rightarrow> del | Some x \<Rightarrow> x # del), q''))"

text \<open>
  The interface a transport relies on: a queue whose reads return the accepted entries in order.
\<close>

locale bounded_queue =
  fixes queued :: "'q \<Rightarrow> 'a list"
    and push :: "'a \<Rightarrow> 'q \<Rightarrow> bool \<times> 'q"
    and pop :: "'q \<Rightarrow> 'a option \<times> 'q"
    and invar :: "'q \<Rightarrow> bool"
  assumes queued_push: "invar q \<Longrightarrow> queued (snd (push x q)) = (if fst (push x q) then queued q @ [x] else queued q)"
    and queued_pop_Some: "invar q \<Longrightarrow> fst (pop q) = Some x \<Longrightarrow> queued q = x # queued (snd (pop q))"
    and queued_pop_None: "invar q \<Longrightarrow> fst (pop q) = None \<Longrightarrow> snd (pop q) = q"
    and invar_push: "invar q \<Longrightarrow> invar (snd (push x q))"
    and invar_pop: "invar q \<Longrightarrow> invar (snd (pop q))"
begin

lemma run_fifo:
  assumes "invar q"
  shows "queued q @ fst (queue_run push pop ops q) = fst (snd (queue_run push pop ops q)) @ queued (snd (snd (queue_run push pop ops q)))
    \<and> invar (snd (snd (queue_run push pop ops q)))"
  using assms
proof (induction ops arbitrary: q)
  case Nil
  then show ?case by simp
next
  case (Cons op ops)
  show ?case
  proof (cases op)
    case None
    have IH: "queued (snd (pop q)) @ fst (queue_run push pop ops (snd (pop q)))
        = fst (snd (queue_run push pop ops (snd (pop q)))) @ queued (snd (snd (queue_run push pop ops (snd (pop q)))))
        \<and> invar (snd (snd (queue_run push pop ops (snd (pop q)))))"
      using Cons.IH [OF invar_pop [OF Cons.prems]] .
    show ?thesis
    proof (cases "fst (pop q)")
      case none: None
      with IH None queued_pop_None [OF Cons.prems none] show ?thesis
        by (simp add: split_beta Let_def)
    next
      case (Some x)
      with IH None queued_pop_Some [OF Cons.prems Some] show ?thesis
        by (simp add: split_beta Let_def)
    qed
  next
    case (Some x)
    have IH: "queued (snd (push x q)) @ fst (queue_run push pop ops (snd (push x q)))
        = fst (snd (queue_run push pop ops (snd (push x q)))) @ queued (snd (snd (queue_run push pop ops (snd (push x q)))))
        \<and> invar (snd (snd (queue_run push pop ops (snd (push x q)))))"
      using Cons.IH [OF invar_push [OF Cons.prems]] .
    then show ?thesis
      using Some queued_push [OF Cons.prems, of x]
      by (cases "fst (push x q)") (simp_all add: split_beta Let_def)
  qed
qed

end

definition fifo_push :: "LogEntry \<Rightarrow> FIFOLog \<Rightarrow> bool \<times> FIFOLog" where
  "fifo_push e f = (let (err, f') = FIFOLog_Write (Some e) f in (err = None, f'))"

definition fifo_pop :: "FIFOLog \<Rightarrow> LogEntry option \<times> FIFOLog" where
  "fifo_pop f = (let (r, f') = FIFOLog_ReadLine f in ((case r of Ret x \<Rightarrow> x | Panic \<Rightarrow> None), f'))"

interpretation fifo_queue: bounded_queue fifo_data fifo_push fifo_pop fifo_ok
proof unfold_locales
  fix f :: FIFOLog and e
  assume ok: "fifo_ok f"
  show "fifo_data (snd (fifo_push e f)) = (if fst (fifo_push e f) then fifo_data f @ [e] else fifo_data f)"
    by (simp add: fifo_push_def FIFOLog_Write_def split_beta Let_def)
  show "fifo_ok (snd (fifo_push e f))" "fifo_ok (snd (fifo_pop f))"
    using fifo_ok_Write [OF ok] fifo_ok_ReadLine [OF ok]
    by (simp_all add: fifo_push_def fifo_pop_def split_beta Let_def)
  show "fst (fifo_pop f) = Some e \<Longrightarrow> fifo_data f = e # fifo_data (snd (fifo_pop f))"
    by (auto simp: fifo_pop_def FIFOLog_ReadLine_def split: list.splits if_splits)
  show "fst (fifo_pop f) = None \<Longrightarrow> snd (fifo_pop f) = f"
    by (auto simp: fifo_pop_def FIFOLog_ReadLine_def split: list.splits if_splits)
qed

section \<open>The writer and the transport loop\<close>

text \<open>
  \<open>WorkloadWriter.Write\<close> wraps the bytes of a container into an entry. The writer has no target
  before \<open>SetTarget\<close>. It returns the number of bytes taken, or the error.
\<close>

definition WorkloadWriter_Write ::
  "int \<Rightarrow> string \<Rightarrow> string \<Rightarrow> FIFOLog option \<Rightarrow> (error + int) \<times> FIFOLog option" where
  "WorkloadWriter_Write now workloadName data target =
     (let entry = NewLogEntry now data workloadName
      in case target of
           None \<Rightarrow> (Inl (Errorf ''cannot write to target, no buffer is defined'' []), None)
         | Some f \<Rightarrow>
             (case FIFOLog_Write (Some entry) f of
                (Some e, f') \<Rightarrow> (Inl (Errorf ''cannot write to target: %v'' [error_string e]), Some f')
              | (None, f') \<Rightarrow> (Inr (int (length data)), Some f')))"

text \<open>
  \<open>syslogTransport\<close>: \<open>connected\<close> is \<open>conn != nil\<close>. The outcomes of the writes to come are a script
  (\<open>True\<close> is a successful \<open>Fprintf\<close>; a script that has run out means failure).
\<close>

record syslogTransport =
  syslog_server :: string
  syslog_protocol :: string
  syslog_hostname :: string
  connected :: bool

text \<open>\<open>dial protocol server\<close> is the outcome of \<open>net.Dial\<close>.\<close>

definition NewSyslogServer ::
  "(string \<Rightarrow> string \<Rightarrow> error option) \<Rightarrow> string \<Rightarrow> string \<Rightarrow> string \<Rightarrow> error + syslogTransport" where
  "NewSyslogServer dial server protocol deviceID =
     (let proto = (if protocol \<noteq> [] then protocol else ''tcp'')
      in case dial proto server of
           Some e \<Rightarrow> Inl e
         | None \<Rightarrow> Inr \<lparr>syslog_server = server, syslog_protocol = proto, syslog_hostname = deviceID, connected = True\<rparr>)"

text \<open>
  \<open>writeAndRetry\<close> returns the error, the outcomes left over and the lines delivered.
\<close>

function writeAndRetry ::
  "bool \<Rightarrow> bool list \<Rightarrow> string \<Rightarrow> int \<Rightarrow> error option \<times> bool list \<times> string list" where
  "writeAndRetry conn outs data retryTimes =
     (if retryTimes < 0 then (Some (Errorf ''cannot send message'' []), outs, [])
      else if conn then
        (case outs of
           [] \<Rightarrow> writeAndRetry conn [] data (retryTimes - 1)
         | out # outs' \<Rightarrow>
             if out then (None, outs', [data]) else writeAndRetry conn outs' data (retryTimes - 1))
      else writeAndRetry conn outs data (retryTimes - 1))"
  by pat_completeness auto
termination
  by (relation "measure (\<lambda>(c, outs, d, r). nat (r + 1))") auto

declare writeAndRetry.simps [simp del]

text \<open>\<open>WriteLog\<close>: \<open>rfc3339\<close> renders a time, \<open>pid\<close> is \<open>os.Getpid()\<close>, the priority is \<open>LOG_INFO\<close>.\<close>

definition syslog_line :: "(int \<Rightarrow> string) \<Rightarrow> int \<Rightarrow> string \<Rightarrow> LogEntry \<Rightarrow> string" where
  "syslog_line rfc3339 pid hostname l =
     Sprintf ''<%d>%s %s %s[%d]: %s''
       [Itoa 6, rfc3339 (entry_Time l), hostname, LogEntry_GetWorkload l, Itoa pid, LogEntry_String l] @ [CHR 0x0A]"

definition syslog_WriteLog where
  "syslog_WriteLog rfc3339 pid t outs l =
     writeAndRetry (connected t) outs (syslog_line rfc3339 pid (syslog_hostname t) l) 10"

text \<open>
  One turn of the loop of \<open>transportLog.Start\<close>: read an entry, send it, and put it back at the end
  of the buffer when the transport fails. The result says what became of the entry.
\<close>

datatype turn = Idle | Sent LogEntry | Requeued LogEntry | Dropped LogEntry | Crashed

definition transportLog_turn :: "(LogEntry \<Rightarrow> error option) \<Rightarrow> FIFOLog \<Rightarrow> turn \<times> FIFOLog" where
  "transportLog_turn WriteLog f =
     (case FIFOLog_ReadLine f of
        (Panic, f') \<Rightarrow> (Crashed, f')
      | (Ret None, f') \<Rightarrow> (Idle, f')
      | (Ret (Some entry), f') \<Rightarrow>
          (case WriteLog entry of
             None \<Rightarrow> (Sent entry, f')
           | Some _ \<Rightarrow>
               (case FIFOLog_Write (Some entry) f' of
                  (None, f'') \<Rightarrow> (Requeued entry, f'')
                | (Some _, f'') \<Rightarrow> (Dropped entry, f''))))"

lemma writeAndRetry_result:
  "(fst (writeAndRetry conn outs data r) = None \<longleftrightarrow> conn \<and> True \<in> set (take (nat (r + 1)) outs)) \<and>
   snd (snd (writeAndRetry conn outs data r))
     = (if fst (writeAndRetry conn outs data r) = None then [data] else []) \<and>
   length outs \<le> length (fst (snd (writeAndRetry conn outs data r))) + nat (r + 1)"
proof (induction conn outs data r rule: writeAndRetry.induct)
  case (1 conn outs data r)
  show ?case
  proof (cases "r < 0 \<or> \<not> conn")
    case True
    with 1 show ?thesis by (auto simp: writeAndRetry.simps [of conn outs data r])
  next
    case False
    then have n: "nat (r + 1) = Suc (nat r)" by linarith
    show ?thesis
    proof (cases outs)
      case Nil
      with 1 False show ?thesis by (simp add: writeAndRetry.simps [of True "[]" data r])
    next
      case (Cons b bs)
      with 1 False n show ?thesis by (simp add: writeAndRetry.simps [of True "b # bs" data r])
    qed
  qed
qed

lemma transportLog_turn_ok: "fifo_ok f \<Longrightarrow> fifo_ok (snd (transportLog_turn send f))"
proof -
  assume ok: "fifo_ok f"
  have "fifo_ok (snd (FIFOLog_ReadLine f))" by (rule fifo_ok_ReadLine [OF ok])
  then show ?thesis
    by (auto simp: transportLog_turn_def split: prod.splits outcome.splits option.splits)
      (metis fifo_ok_Write snd_conv)+
qed

section \<open>Properties\<close>

text \<open>
  C18: The buffer is a queue. Over any sequence of writes and reads that starts with a new buffer,
  the entries handed to the transport followed by those still buffered are exactly the accepted
  entries in the order they were accepted, and no read panics.
\<close>

theorem fifo_order:
  "let (acc, del, f) = queue_run fifo_push fifo_pop ops (NewFIFOLog n)
   in acc = del @ fifo_data f \<and> fifo_ok f \<and> fst (FIFOLog_ReadLine f) \<noteq> Panic"
proof -
  have "fifo_data (NewFIFOLog n) = []" by (simp add: NewFIFOLog_def)
  then show ?thesis
    using fifo_queue.run_fifo [OF fifo_ok_New, of n ops] ReadLine_no_panic
    by (auto simp: split_beta Let_def)
qed

text \<open>
  C40: The limit of the buffer is exceeded by at most one entry: after any sequence of operations
  the bytes of all entries but the newest fit \<open>maxlen\<close>, the counter is the exact number of
  buffered bytes, and a write is refused exactly when the counter is above the limit.
\<close>

theorem fifo_soft_limit:
  "let f = snd (snd (queue_run fifo_push fifo_pop ops (NewFIFOLog n)))
   in FIFOLog_CurrentSize f = entries_size (fifo_data f) \<and>
      (fifo_data f \<noteq> [] \<longrightarrow> FIFOLog_CurrentSize f \<le> maxlen f + LogEntry_Size (last (fifo_data f))) \<and>
      (fst (FIFOLog_Write (Some e) f) \<noteq> None \<longleftrightarrow> FIFOLog_CurrentSize f > maxlen f)"
proof -
  let ?f = "snd (snd (queue_run fifo_push fifo_pop ops (NewFIFOLog n)))"
  have ok: "fifo_ok ?f"
    using fifo_queue.run_fifo [OF fifo_ok_New, of n ops] by simp
  have "entries_size (fifo_data ?f) = entries_size (butlast (fifo_data ?f)) + LogEntry_Size (last (fifo_data ?f))"
    if "fifo_data ?f \<noteq> []"
    using that by (metis append_butlast_last_id entries_size_simps add.right_neutral)
  then show ?thesis
    using ok by (auto simp: Let_def fifo_ok_def FIFOLog_CurrentSize_def FIFOLog_Write_def)
qed

theorem fifo_soft_limit_witness:
  "let f = snd (snd (queue_run fifo_push fifo_pop [Some (NewLogEntry 0 ''abcdef'' ''w'')] (NewFIFOLog 2)))
   in FIFOLog_CurrentSize f = 6 \<and> FIFOLog_CurrentSize f \<le> maxlen f + 6"
  using fifo_soft_limit [where ops = "[Some (NewLogEntry 0 ''abcdef'' ''w'')]" and n = 2]
  by (simp add: fifo_push_def FIFOLog_Write_def NewFIFOLog_def NewLogEntry_def LogEntry_Size_def
      FIFOLog_CurrentSize_def)

text \<open>
  Sending an entry to syslog tries at most eleven times. It reports success exactly when the
  transport is connected and one of the first eleven attempts succeeds, and then the line went
  out exactly once; a reported failure means that nothing went out.
\<close>

theorem syslog_retries:
  "let (err, left, lines) = syslog_WriteLog rfc3339 pid t outs l
   in (err = None \<longleftrightarrow> connected t \<and> True \<in> set (take 11 outs)) \<and>
      lines = (if err = None then [syslog_line rfc3339 pid (syslog_hostname t) l] else []) \<and>
      length outs - length left \<le> 11"
  using writeAndRetry_result [of "connected t" outs "syslog_line rfc3339 pid (syslog_hostname t) l" 10]
  by (auto simp: syslog_WriteLog_def split_beta Let_def)

text \<open>
  A turn of the transport loop loses an entry only when the send fails and the buffer is over
  its limit without that entry; otherwise the entries of the buffer together with the one sent
  are the entries there were before.
\<close>

theorem transport_turn_conserves:
  assumes "fifo_ok f"
  shows "case transportLog_turn send f of
      (Idle, f') \<Rightarrow> f' = f
    | (Sent e, f') \<Rightarrow> fifo_data f = e # fifo_data f' \<and> send e = None
    | (Requeued e, f') \<Rightarrow> mset (fifo_data f') = mset (fifo_data f) \<and> fifo_data f' = tl (fifo_data f) @ [e] \<and> send e \<noteq> None
    | (Dropped e, f') \<Rightarrow> fifo_data f = e # fifo_data f' \<and> send e \<noteq> None \<and> entries_size (fifo_data f') > maxlen f
    | (Crashed, f') \<Rightarrow> False"
  using assms
  by (auto simp: transportLog_turn_def FIFOLog_ReadLine_def FIFOLog_Write_def fifo_ok_def
      split: list.splits option.splits)

definition full_log :: FIFOLog where
  "full_log = \<lparr>maxlen = 2, fifo_data = [NewLogEntry 0 ''a'' ''w'', NewLogEntry 1 ''bcdefg'' ''w''], currentSize = 7\<rparr>"

theorem transport_turn_conserves_witness:
  "fst (transportLog_turn (\<lambda>_. Some (ExternalError ''down'')) full_log) = Dropped (NewLogEntry 0 ''a'' ''w'') \<and>
   entries_size (fifo_data (snd (transportLog_turn (\<lambda>_. Some (ExternalError ''down'')) full_log))) > maxlen full_log"
proof -
  have ok: "fifo_ok full_log"
    by (simp add: fifo_ok_def full_log_def LogEntry_Size_def NewLogEntry_def)
  have r: "fst (transportLog_turn (\<lambda>_. Some (ExternalError ''down'')) full_log) = Dropped (NewLogEntry 0 ''a'' ''w'')"
    by (simp add: transportLog_turn_def FIFOLog_ReadLine_def FIFOLog_Write_def full_log_def
        LogEntry_Size_def NewLogEntry_def)
  then show ?thesis
    using transport_turn_conserves [OF ok, of "\<lambda>_. Some (ExternalError ''down'')"]
    by (cases "transportLog_turn (\<lambda>_. Some (ExternalError ''down'')) full_log") simp
qed

text \<open>
  An entry of size zero blocks the reader: once only such entries are buffered, \<open>ReadLine\<close>
  reports an empty buffer although the entries are there.
\<close>

theorem fifo_empty_entry_hidden:
  "fifo_ok f \<and> fifo_data f \<noteq> [] \<and> list_all (\<lambda>e. entry_data e = []) (fifo_data f)
     \<Longrightarrow> FIFOLog_ReadLine f = (Ret None, f)"
proof -
  assume a: "fifo_ok f \<and> fifo_data f \<noteq> [] \<and> list_all (\<lambda>e. entry_data e = []) (fifo_data f)"
  have "list_all (\<lambda>e. entry_data e = []) es \<Longrightarrow> entries_size es = 0" for es
    by (induction es) (auto simp: LogEntry_Size_def)
  with a show ?thesis by (simp add: FIFOLog_ReadLine_def fifo_ok_def)
qed

theorem fifo_empty_entry_hidden_witness:
  "FIFOLog_ReadLine (snd (FIFOLog_Write (Some (NewLogEntry 0 [] ''w'')) (NewFIFOLog 10)))
     = (Ret None, snd (FIFOLog_Write (Some (NewLogEntry 0 [] ''w'')) (NewFIFOLog 10)))"
  by (rule fifo_empty_entry_hidden)
    (simp add: fifo_ok_Write, simp add: FIFOLog_Write_def NewFIFOLog_def NewLogEntry_def)

end
