(* ===== verification/Netfilter.thy ===== *)
theory Netfilter
  imports Go_FS
begin

text \<open>
  \<open>internal/workload/network/netfilter.go\<close>: the \<open>nft\<close> commands that open the host ports of a
  workload. Running a command is a parameter on the external state.
\<close>

text \<open>
  How \<open>cmd.Run\<close> ends: with exit status 0, with another status and the text written to standard
  error, or without the command having run.
\<close>

datatype exec_result = ExecOk | ExecExit int string | ExecFailed string

type_synonym 'e exec = "string list \<Rightarrow> 'e \<Rightarrow> exec_result \<times> 'e"

record netfilter =
  nft_path :: string

definition nftcommand :: string where
  "nftcommand = ''nft''"

definition family :: string where
  "family = ''inet''"

definition NewNetfilter :: "(string \<Rightarrow> error + string) \<Rightarrow> error + netfilter" where
  "NewNetfilter LookPath =
     (case LookPath nftcommand of Inl e \<Rightarrow> Inl e | Inr p \<Rightarrow> Inr \<lparr>nft_path = p\<rparr>)"

definition netfilter_run :: "'e exec \<Rightarrow> netfilter \<Rightarrow> string list \<Rightarrow> 'e \<Rightarrow> error option \<times> 'e" where
  "netfilter_run exec nft args e =
     (let argv = nft_path nft # args in
      case exec argv e of
        (ExecOk, e') \<Rightarrow> (None, e')
      | (ExecExit status msg, e') \<Rightarrow> (Some (ExitError argv status msg), e')
      | (ExecFailed err, e') \<Rightarrow> (Some (ExternalError err), e'))"

definition netfilter_AddTable :: "'e exec \<Rightarrow> netfilter \<Rightarrow> string \<Rightarrow> 'e \<Rightarrow> error option \<times> 'e" where
  "netfilter_AddTable exec nft table = netfilter_run exec nft [''add'', ''table'', family, table]"

definition netfilter_DeleteTable :: "'e exec \<Rightarrow> netfilter \<Rightarrow> string \<Rightarrow> 'e \<Rightarrow> error option \<times> 'e" where
  "netfilter_DeleteTable exec nft table = netfilter_run exec nft [''delete'', ''table'', family, table]"

definition netfilter_AddChain :: "'e exec \<Rightarrow> netfilter \<Rightarrow> string \<Rightarrow> string \<Rightarrow> 'e \<Rightarrow> error option \<times> 'e" where
  "netfilter_AddChain exec nft table chain =
     netfilter_run exec nft
       [''add'', ''chain'', family, table, chain, ''{ type filter hook input priority 0 ; }'']"

text \<open>A chain that is reported missing counts as deleted.\<close>

definition chain_missing :: "error \<Rightarrow> bool" where
  "chain_missing err =
     (case err of ExitError _ _ msg \<Rightarrow> strings_Contains msg ''No such file or directory'' | _ \<Rightarrow> False)"

definition netfilter_DeleteChain :: "'e exec \<Rightarrow> netfilter \<Rightarrow> string \<Rightarrow> string \<Rightarrow> 'e \<Rightarrow> error option \<times> 'e" where
  "netfilter_DeleteChain exec nft table chain e =
     (case netfilter_run exec nft [''list'', ''chain'', family, table, chain] e of
        (Some err, e') \<Rightarrow> (if chain_missing err then (None, e') else (Some err, e'))
      | (None, e') \<Rightarrow> netfilter_run exec nft [''delete'', ''chain'', family, table, chain] e')"

definition netfilter_AddRule ::
  "'e exec \<Rightarrow> netfilter \<Rightarrow> string \<Rightarrow> string \<Rightarrow> string \<Rightarrow> 'e \<Rightarrow> error option \<times> 'e" where
  "netfilter_AddRule exec nft table chain rule =
     netfilter_run exec nft [''add'', ''rule'', family, table, chain, rule]"

lemmas netfilter_defs = netfilter_AddTable_def netfilter_DeleteTable_def netfilter_AddChain_def
  netfilter_AddRule_def

section \<open>Deleting a chain\<close>

lemma netfilter_run_None:
  "netfilter_run exec nft args e = (None, e') \<longleftrightarrow> exec (nft_path nft # args) e = (ExecOk, e')"
  by (auto simp: netfilter_run_def Let_def split: prod.splits exec_result.splits)

text \<open>
  Deleting a chain first lists it. It succeeds exactly when the listing fails with the
  message that the chain does not exist, in which case no other command is run, or when the chain
  is listed and the delete command succeeds. So deleting a chain twice is no error.
\<close>

theorem delete_chain_succeeds_iff:
  "netfilter_DeleteChain exec nft table chain e = (None, e') \<longleftrightarrow>
     (\<exists>status msg. exec [nft_path nft, ''list'', ''chain'', family, table, chain] e = (ExecExit status msg, e')
        \<and> sublist ''No such file or directory'' msg) \<or>
     (\<exists>e1. exec [nft_path nft, ''list'', ''chain'', family, table, chain] e = (ExecOk, e1)
        \<and> exec [nft_path nft, ''delete'', ''chain'', family, table, chain] e1 = (ExecOk, e'))"
proof (cases "exec [nft_path nft, ''list'', ''chain'', family, table, chain] e")
  case (Pair r e1)
  then show ?thesis
  proof (cases r)
    case ExecOk
    with Pair have run: "netfilter_run exec nft [''list'', ''chain'', family, table, chain] e = (None, e1)"
      by (simp add: netfilter_run_None)
    show ?thesis
      unfolding netfilter_DeleteChain_def run using Pair ExecOk by (simp add: netfilter_run_None)
  next
    case (ExecExit status msg)
    with Pair show ?thesis
      by (auto simp: netfilter_DeleteChain_def netfilter_run_def Let_def chain_missing_def strings_Contains_iff)
  next
    case (ExecFailed err)
    with Pair show ?thesis
      by (auto simp: netfilter_DeleteChain_def netfilter_run_def Let_def chain_missing_def)
  qed
qed

end
