(* ===== verification/Systemd.thy ===== *)
theory Systemd
  imports Go_FS Go_Json "HOL-Library.List_Lexorder" "HOL-Library.Char_ord"
begin

text \<open>
  \<open>internal/service/systemd.go\<close>: one systemd service (\<open>systemd\<close>) and the manager that keeps the
  services of the worker's pods and writes them to \<open>services.json\<close>.

  The D-Bus connection of \<open>coreos/go-systemd\<close> is a record of functions on the external state, an
  argument of every operation that talks to systemd. A service whose connection pointer is nil
  panics when it uses it.
\<close>

record 'e dbus_api =
  dbus_Connect :: "'e \<Rightarrow> error option \<times> 'e"
  dbus_Reload :: "'e \<Rightarrow> error option \<times> 'e"
  dbus_StartUnit :: "string \<Rightarrow> 'e \<Rightarrow> (error + string) \<times> 'e" \<comment> \<open>the value is the job result sent on the channel\<close>
  dbus_StopUnit :: "string \<Rightarrow> 'e \<Rightarrow> (error + string) \<times> 'e"
  dbus_EnableUnitFiles :: "string \<Rightarrow> 'e \<Rightarrow> error option \<times> 'e"
  dbus_DisableUnitFiles :: "string \<Rightarrow> 'e \<Rightarrow> error option \<times> 'e"

definition DefaultUnitsPath :: string where
  "DefaultUnitsPath = ''/etc/systemd/system/''"

definition DefaultRestartTimeout :: int where
  "DefaultRestartTimeout = 15"

definition PodSuffix :: string where
  "PodSuffix = ''_pod''"

definition ServicePrefix :: string where
  "ServicePrefix = ''pod-''"

definition ServiceSuffix :: string where
  "ServiceSuffix = ''.service''"

definition TimerSuffix :: string where
  "TimerSuffix = ''.timer''"

record systemd =
  svc_Name :: string
  svc_RestartSec :: int
  svc_Units :: "string list"
  svc_UnitsContent :: "(string, string) gomap"
  svc_servicePrefix :: string
  svc_dbusConnection :: bool \<comment> \<open>the pointer is not nil\<close>
  svc_suffix :: string
  svc_podSuffix :: string

section \<open>A service\<close>

definition NewSystemdWithSuffix ::
  "'e dbus_api \<Rightarrow> ((string, string) gomap \<Rightarrow> (string \<times> string) list) \<Rightarrow>
   string \<Rightarrow> string \<Rightarrow> string \<Rightarrow> string \<Rightarrow> (string, string) gomap \<Rightarrow> 'e world \<Rightarrow> (error + systemd, 'e world) call" where
  "NewSystemdWithSuffix api rng name serviceNamePrefix serviceNameSuffix serviceSuffix units w =
     (case on_ext (dbus_Connect api) w of
        (Ret (Some e), w') \<Rightarrow> (Ret (Inl e), w')
      | (Ret None, w') \<Rightarrow>
          (Ret (Inr \<lparr>svc_Name = name, svc_RestartSec = DefaultRestartTimeout, svc_Units = map fst (rng units),
             svc_UnitsContent = units, svc_servicePrefix = serviceNamePrefix, svc_dbusConnection = True,
             svc_suffix = serviceSuffix, svc_podSuffix = serviceNameSuffix\<rparr>), w')
      | (Panic, w') \<Rightarrow> (Panic, w'))"

definition NewSystemd where
  "NewSystemd api rng name serviceNamePrefix units w =
     NewSystemdWithSuffix api rng name serviceNamePrefix PodSuffix ServiceSuffix units w"

definition systemd_serviceName :: "systemd \<Rightarrow> string \<Rightarrow> string" where
  "systemd_serviceName s serviceName = svc_servicePrefix s @ serviceName @ svc_podSuffix s @ svc_suffix s"

definition DefaultServiceName :: "string \<Rightarrow> string" where
  "DefaultServiceName serviceName = ServicePrefix @ serviceName @ PodSuffix @ ServiceSuffix"

definition systemd_GetName :: "systemd \<Rightarrow> string" where
  "systemd_GetName s = svc_Name s"

text \<open>A method of \<open>*dbus.Conn\<close>: a nil receiver panics.\<close>

definition via_dbus :: "systemd \<Rightarrow> ('e \<Rightarrow> 'a \<times> 'e) \<Rightarrow> 'e world \<Rightarrow> ('a, 'e world) call" where
  "via_dbus s f w = (if svc_dbusConnection s then on_ext f w else (Panic, w))"

definition systemd_reload :: "'e dbus_api \<Rightarrow> systemd \<Rightarrow> 'e world \<Rightarrow> (error option, 'e world) call" where
  "systemd_reload api s w = via_dbus s (dbus_Reload api) w"

definition unit_path :: "systemd \<Rightarrow> string \<Rightarrow> string" where
  "unit_path s u = path_Join [DefaultUnitsPath, u @ svc_suffix s]"

fun write_units :: "systemd \<Rightarrow> (string \<times> string) list \<Rightarrow> 'e world \<Rightarrow> (error option, 'e world) call" where
  "write_units s [] w = (Ret None, w)"
| "write_units s ((u, txt) # us) w =
     check (on_disk (\<lambda>d. WriteFile d (unit_path s u) txt) w) (write_units s us)"

definition systemd_Add where
  "systemd_Add api rng s w = check (write_units s (rng (svc_UnitsContent s)) w) (systemd_reload api s)"

fun remove_units :: "systemd \<Rightarrow> string list \<Rightarrow> 'e world \<Rightarrow> (error option, 'e world) call" where
  "remove_units s [] w = (Ret None, w)"
| "remove_units s (u # us) w =
     check (on_disk (\<lambda>d. os_Remove d (unit_path s u)) w) (remove_units s us)"

definition systemd_Remove :: "'e dbus_api \<Rightarrow> systemd \<Rightarrow> 'e world \<Rightarrow> (error option, 'e world) call" where
  "systemd_Remove api s w = check (remove_units s (svc_Units s) w) (systemd_reload api s)"

text \<open>\<open>Start\<close> and \<open>Stop\<close> wait for the job and accept the result \<open>done\<close> only.\<close>

definition job_result :: "string \<Rightarrow> systemd \<Rightarrow> (error + string, 'e world) call \<Rightarrow> (error option, 'e world) call" where
  "job_result verb s r =
     check_val r (\<lambda>result w.
       if result = ''done'' then (Ret None, w)
       else (Ret (Some (Errorf ''Failed to %s systemd service %s'' [verb, systemd_serviceName s (svc_Name s)])), w))"

definition systemd_Start :: "'e dbus_api \<Rightarrow> systemd \<Rightarrow> 'e world \<Rightarrow> (error option, 'e world) call" where
  "systemd_Start api s w =
     job_result ''start'' s (via_dbus s (dbus_StartUnit api (systemd_serviceName s (svc_Name s))) w)"

definition systemd_Stop :: "'e dbus_api \<Rightarrow> systemd \<Rightarrow> 'e world \<Rightarrow> (error option, 'e world) call" where
  "systemd_Stop api s w =
     job_result ''stop'' s (via_dbus s (dbus_StopUnit api (systemd_serviceName s (svc_Name s))) w)"

definition systemd_Enable :: "'e dbus_api \<Rightarrow> systemd \<Rightarrow> 'e world \<Rightarrow> (error option, 'e world) call" where
  "systemd_Enable api s w = via_dbus s (dbus_EnableUnitFiles api (systemd_serviceName s (svc_Name s))) w"

definition systemd_Disable :: "'e dbus_api \<Rightarrow> systemd \<Rightarrow> 'e world \<Rightarrow> (error option, 'e world) call" where
  "systemd_Disable api s w = via_dbus s (dbus_DisableUnitFiles api (systemd_serviceName s (svc_Name s))) w"

section \<open>The file of the manager\<close>

text \<open>What \<open>services.json\<close> holds of a service: the exported fields with a tag other than \<open>-\<close>.\<close>

record stored_service =
  stored_name :: string
  stored_restartSec :: int
  stored_units :: "string list"

definition stored :: "systemd \<Rightarrow> stored_service" where
  "stored s = \<lparr>stored_name = svc_Name s, stored_restartSec = svc_RestartSec s, stored_units = svc_Units s\<rparr>"

text \<open>The service read back: every other field has its zero value.\<close>

definition restored :: "stored_service \<Rightarrow> systemd" where
  "restored t = \<lparr>svc_Name = stored_name t, svc_RestartSec = stored_restartSec t, svc_Units = stored_units t,
     svc_UnitsContent = [], svc_servicePrefix = [], svc_dbusConnection = False, svc_suffix = [], svc_podSuffix = []\<rparr>"

fun stored_json :: "stored_service option \<Rightarrow> json" where
  "stored_json None = JNull"
| "stored_json (Some t) = JObj [(''name'', JStr (stored_name t)), (''restartSec'', JNum (stored_restartSec t)),
     (''units'', if stored_units t = [] then JNull else JArr (map JStr (stored_units t)))]"

definition marshal_services :: "(string \<times> stored_service option) list \<Rightarrow> string" where
  "marshal_services kvs = json_print (JObj (map (\<lambda>(k, t). (k, stored_json t)) kvs))"

fun stored_fields :: "(string \<times> json) list \<Rightarrow> stored_service \<Rightarrow> stored_service option" where
  "stored_fields [] t = Some t"
| "stored_fields ((k, v) # kvs) t =
     (if key_eq k ''name'' then
        (case json_name_field (stored_name t) v of
           None \<Rightarrow> None | Some x \<Rightarrow> stored_fields kvs (t\<lparr>stored_name := x\<rparr>))
      else if key_eq k ''restartSec'' then
        (case json_int_field (stored_restartSec t) v of
           None \<Rightarrow> None | Some x \<Rightarrow> stored_fields kvs (t\<lparr>stored_restartSec := x\<rparr>))
      else if key_eq k ''units'' then
        (case json_strings_field v of
           None \<Rightarrow> None | Some x \<Rightarrow> stored_fields kvs (t\<lparr>stored_units := x\<rparr>))
      else stored_fields kvs t)"

text \<open>
  The file is a map of pointers: an entry that is \<open>null\<close> is a nil pointer, the inner \<open>None\<close>.
\<close>

fun stored_of_json :: "json \<Rightarrow> stored_service option option" where
  "stored_of_json (JObj kvs) =
     map_option Some (stored_fields kvs \<lparr>stored_name = [], stored_restartSec = 0, stored_units = []\<rparr>)"
| "stored_of_json JNull = Some None"
| "stored_of_json _ = None"

definition unmarshal_services :: "string \<Rightarrow> (string \<times> stored_service option) list option" where
  "unmarshal_services text =
     (case json_parse text of
        Some JNull \<Rightarrow> Some []
      | Some (JObj kvs) \<Rightarrow> all_some (map (\<lambda>(k, v). map_option (\<lambda>t. (k, t)) (stored_of_json v)) kvs)
      | _ \<Rightarrow> None)"

definition stored_ok :: "string \<times> stored_service option \<Rightarrow> bool" where
  "stored_ok kt \<longleftrightarrow> valid_utf8 (fst kt) \<and>
     (case snd kt of
        None \<Rightarrow> True
      | Some t \<Rightarrow> valid_utf8 (stored_name t) \<and> int64_range (stored_restartSec t) \<and>
          list_all valid_utf8 (stored_units t))"

lemma key_eq_service:
  "\<not> key_eq ''restartSec'' ''name''" "\<not> key_eq ''units'' ''name''" "\<not> key_eq ''units'' ''restartSec''"
  by (simp_all add: key_eq_def)

lemma stored_of_json_json:
  assumes "stored_ok (k, t)"
  shows "stored_of_json (stored_json t) = Some t"
proof -
  have "all_some (map json_elem_string (map JStr us)) = Some us" for us
    using all_some_map [of us "\<lambda>u. json_elem_string (JStr u)" "\<lambda>u. u"] by (simp add: comp_def)
  then show ?thesis
    using assms by (cases t) (simp_all add: stored_ok_def key_eq_service)
qed

lemma stored_ok_key: "stored_ok (k, t) \<Longrightarrow> valid_utf8 k"
  by (simp add: stored_ok_def)

lemma stored_json_ok: "stored_ok (k, t) \<Longrightarrow> json_ok (stored_json t)"
  by (cases t) (auto simp: stored_ok_def list_all_iff valid_utf8_ascii)

interpretation service_codec: codec marshal_services unmarshal_services "list_all stored_ok"
proof unfold_locales
  fix kts :: "(string \<times> stored_service option) list"
  assume ok: "list_all stored_ok kts"
  let ?kvs = "map (\<lambda>(k, t). (k, stored_json t)) kts"
  have "json_parse (json_print (JObj ?kvs)) = Some (JObj ?kvs)"
    using ok by (intro json_parse_print)
      (auto simp: list_all_iff stored_json_ok dest: stored_ok_key)
  moreover have "all_some (map (\<lambda>(k, v). map_option (\<lambda>t. (k, t)) (stored_of_json v)) ?kvs) = Some kts"
    using ok all_some_map [of kts "\<lambda>(k, t). map_option (\<lambda>t. (k, t)) (stored_of_json (stored_json t))" "\<lambda>x. x"]
    by (fastforce simp: comp_def case_prod_beta' list_all_iff dest: stored_of_json_json)
  ultimately show "unmarshal_services (marshal_services kts) = Some kts"
    by (simp add: marshal_services_def unmarshal_services_def)
qed

section \<open>The manager\<close>

record systemdManager =
  svcFilePath :: string
  services :: "(string, systemd option) gomap" \<comment> \<open>\<open>None\<close> is a nil \<open>*systemd\<close>\<close>

definition NewSystemdManager :: "fs \<Rightarrow> string \<Rightarrow> error + systemdManager" where
  "NewSystemdManager s configDir =
     (let servicePath = path_Join [configDir, ''services.json''];
          load = (\<lambda>kts. Inr \<lparr>svcFilePath = servicePath,
                     services = map_fill [] (map (\<lambda>(k, t). (k, map_option restored t)) kts)\<rparr>)
      in case ReadFile s servicePath of
           Inl _ \<Rightarrow> load []
         | Inr text \<Rightarrow>
             (case unmarshal_services text of
                None \<Rightarrow> Inl (Errorf ''cannot unmarshal %v: %w'' [servicePath, ''json''])
              | Some kts \<Rightarrow> load kts))"

text \<open>\<open>json.Marshal\<close> writes the entries of a map in the order of their keys.\<close>

definition systemdManager_write :: "systemdManager \<Rightarrow> fs \<Rightarrow> error option \<times> fs" where
  "systemdManager_write mgr s =
     WriteFile s (svcFilePath mgr)
       (marshal_services (sort_key fst (map (\<lambda>(k, svc). (k, map_option stored svc)) (services mgr))))"

definition systemdManager_Add :: "systemd \<Rightarrow> systemdManager \<Rightarrow> fs \<Rightarrow> error option \<times> systemdManager \<times> fs" where
  "systemdManager_Add svc mgr s =
     (let mgr' = mgr\<lparr>services := map_put (services mgr) (systemd_GetName svc) (Some svc)\<rparr>;
          (e, s') = systemdManager_write mgr' s
      in (e, mgr', s'))"

definition systemdManager_Get :: "systemdManager \<Rightarrow> string \<Rightarrow> systemd option option" where
  "systemdManager_Get mgr name = map_of (services mgr) name"

definition systemdManager_Remove :: "systemd \<Rightarrow> systemdManager \<Rightarrow> fs \<Rightarrow> error option \<times> systemdManager \<times> fs" where
  "systemdManager_Remove svc mgr s =
     (let mgr' = mgr\<lparr>services := map_del (services mgr) (systemd_GetName svc)\<rparr>;
          (e, s') = systemdManager_write mgr' s
      in (e, mgr', s'))"

definition systemdManager_RemoveServicesFile :: "systemdManager \<Rightarrow> fs \<Rightarrow> error option \<times> fs" where
  "systemdManager_RemoveServicesFile mgr s = RemoveAll s (svcFilePath mgr)"

definition manager_ok :: "systemdManager \<Rightarrow> bool" where
  "manager_ok mgr \<longleftrightarrow> gomap_ok (services mgr) \<and>
     list_all (\<lambda>(k, svc). (case svc of None \<Rightarrow> True | Some s \<Rightarrow> svc_Name s = k) \<and>
       stored_ok (k, map_option stored svc)) (services mgr)"

section \<open>What the file keeps\<close>

definition written_services :: "systemdManager \<Rightarrow> (string \<times> stored_service option) list" where
  "written_services mgr = sort_key fst (map (\<lambda>(k, svc). (k, map_option stored svc)) (services mgr))"

lemma written_services_ok: "manager_ok mgr \<Longrightarrow> list_all stored_ok (written_services mgr)"
  by (auto simp: manager_ok_def written_services_def list_all_iff)

lemma written_services_lookup:
  assumes "gomap_ok (services mgr)"
  shows "distinct (map fst (written_services mgr))"
    and "map_of (written_services mgr) = (\<lambda>k. map_option (map_option stored) (map_of (services mgr) k))"
proof -
  let ?l = "map (\<lambda>(k, svc). (k, map_option stored svc)) (services mgr)"
  have d: "distinct (map fst ?l)"
    using assms by (simp add: gomap_ok_def comp_def case_prod_beta')
  then show d': "distinct (map fst (written_services mgr))"
    unfolding written_services_def using mset_eq_imp_distinct_iff [of "map fst (sort_key fst ?l)" "map fst ?l"]
    by (simp only: mset_map mset_sort)
  have "map_of (written_services mgr) = map_of ?l"
    using d d' by (intro iffD2 [OF map_of_inject_set]) (simp_all add: written_services_def)
  then show "map_of (written_services mgr) = (\<lambda>k. map_option (map_option stored) (map_of (services mgr) k))"
    by (simp add: fun_eq_iff map_of_map)
qed

lemma map_of_restored:
  "map_of (map (\<lambda>(k, t). (k, map_option restored t)) kts) = (\<lambda>k. map_option (map_option restored) (map_of kts k))"
  by (simp add: fun_eq_iff map_of_map)

text \<open>
  What a service is after the worker restarts: its name, its restart interval and its unit names,
  and nothing of its connection, its prefix or its suffixes.
\<close>

definition forgetful :: "systemd \<Rightarrow> systemd" where
  "forgetful s = restored (stored s)"

text \<open>
  C20: When the services are written without error and the worker starts again on the same
  directory, the manager it builds has exactly the services of the old one, each with its name,
  restart interval and unit names; the connection to systemd, the prefix and the suffixes of the
  unit names are gone from all of them.
\<close>

theorem services_reload:
  assumes "manager_ok mgr" and "svcFilePath mgr = path_Join [dir, ''services.json'']"
    and "systemdManager_write mgr s = (None, s')"
  shows "\<exists>mgr'. NewSystemdManager s' dir = Inr mgr' \<and> svcFilePath mgr' = svcFilePath mgr \<and>
    (\<forall>name. systemdManager_Get mgr' name = map_option (map_option forgetful) (systemdManager_Get mgr name))"
proof -
  let ?w = "written_services mgr"
  have "ReadFile s' (path_Join [dir, ''services.json'']) = Inr (marshal_services ?w)"
    using assms(2,3) by (simp add: systemdManager_write_def written_services_def WriteFile_ok(2))
  moreover have "unmarshal_services (marshal_services ?w) = Some ?w"
    using written_services_ok [OF assms(1)] by (rule service_codec.unmarshal_marshal)
  moreover have g: "gomap_ok (services mgr)"
    using assms(1) by (simp add: manager_ok_def)
  moreover have "map_of (map_fill [] (map (\<lambda>(k, t). (k, map_option restored t)) ?w))
      = (\<lambda>k. map_option (map_option forgetful) (map_of (services mgr) k))"
  proof (subst lookup_fill_distinct)
    show "distinct (map fst (map (\<lambda>(k, t). (k, map_option restored t)) ?w))"
      using written_services_lookup(1) [OF g] by (simp add: comp_def case_prod_beta')
    show "map_of (map (\<lambda>(k, t). (k, map_option restored t)) ?w)
        = (\<lambda>k. map_option (map_option forgetful) (map_of (services mgr) k))"
      by (simp add: map_of_restored written_services_lookup(2) [OF g] option.map_comp comp_def forgetful_def [abs_def])
  qed
  ultimately show ?thesis
    using assms(2) by (simp add: NewSystemdManager_def systemdManager_Get_def)
qed

definition example_service :: systemd where
  "example_service = \<lparr>svc_Name = ''web'', svc_RestartSec = 15, svc_Units = [''pod-web_pod''],
     svc_UnitsContent = [(''pod-web_pod'', ''[Unit]'')], svc_servicePrefix = ServicePrefix, svc_dbusConnection = True,
     svc_suffix = ServiceSuffix, svc_podSuffix = PodSuffix\<rparr>"

definition example_manager :: systemdManager where
  "example_manager = \<lparr>svcFilePath = ''/var/services.json'', services = [(''web'', Some example_service)]\<rparr>"

lemma example_manager_facts:
  "manager_ok example_manager" "svcFilePath example_manager = path_Join [''/var'', ''services.json'']"
  "\<exists>s'. systemdManager_write example_manager (fs_of [(''/var'', Dir)]) = (None, s')"
  by (simp_all add: manager_ok_def example_manager_def example_service_def gomap_ok_def stored_ok_def stored_def
      int64_range_def valid_utf8_ascii systemdManager_write_def path_Join_def path_Clean_def
      WriteFile_def is_dir_def path_Dir_def Let_def)

theorem services_reload_witness:
  "\<exists>s' mgr'. systemdManager_write example_manager (fs_of [(''/var'', Dir)]) = (None, s') \<and>
     NewSystemdManager s' ''/var'' = Inr mgr' \<and>
     systemdManager_Get mgr' ''web'' = Some (Some (forgetful example_service))"
proof -
  obtain s' where w: "systemdManager_write example_manager (fs_of [(''/var'', Dir)]) = (None, s')"
    using example_manager_facts(3) by blast
  have "systemdManager_Get example_manager ''web'' = Some (Some example_service)"
    by (simp add: systemdManager_Get_def example_manager_def)
  then show ?thesis
    using services_reload [OF example_manager_facts(1,2) w] w by auto
qed

text \<open>A service without a connection panics in every operation that reaches systemd.\<close>

lemma no_connection_panics:
  assumes "\<not> svc_dbusConnection s"
  shows "systemd_Stop api s w = (Panic, w)" and "systemd_Start api s w = (Panic, w)"
    and "systemd_Enable api s w = (Panic, w)" and "systemd_reload api s w = (Panic, w)"
  using assms by (simp_all add: systemd_Stop_def systemd_Start_def systemd_Enable_def systemd_reload_def
      via_dbus_def job_result_def)

lemma forgetful_no_connection [simp]: "\<not> svc_dbusConnection (forgetful s)"
  by (simp add: forgetful_def restored_def)

lemma job_result_done: "job_result verb s r = (Ret None, w) \<longleftrightarrow> r = (Ret (Inr ''done''), w)"
  by (auto simp: job_result_def call_ok split: if_splits)

text \<open>The service of a pod has the unit name that the pod's label announces.\<close>

lemma NewSystemd_unit_name:
  assumes "NewSystemd api rng name ServicePrefix units w = (Ret (Inr s), w')"
  shows "systemd_serviceName s (svc_Name s) = DefaultServiceName name" and "systemd_GetName s = name"
  using assms by (auto simp: NewSystemd_def NewSystemdWithSuffix_def systemd_serviceName_def DefaultServiceName_def
      systemd_GetName_def split: prod.splits outcome.splits option.splits)

end
