(* ===== verification/Podman.thy ===== *)
theory Podman
  imports Systemd
begin

text \<open>
  \<open>internal/workload/podman/podman.go\<close>: pods, secrets, pod events and container logs, on top of the
  bindings of podman v3. The bindings are a record of functions on the external state.
\<close>

text \<open>The fields the worker reads of what the bindings return.\<close>

record pod_entry =
  entry_Id :: string
  entry_Name :: string
  entry_Status :: string

record container_data =
  data_Name :: string
  data_Networks :: "(string, string) gomap" \<comment> \<open>the IP address by network name\<close>

record pod_info =
  info_Name :: string
  info_Containers :: "string list" \<comment> \<open>container ids\<close>

record played_pod =
  played_ID :: string
  played_Containers :: "string list"

record 'e podman_api =
  bindings_NewConnection :: "'e \<Rightarrow> error option \<times> 'e"
  pods_List :: "'e \<Rightarrow> (error + pod_entry list) \<times> 'e"
  pods_Exists :: "string \<Rightarrow> 'e \<Rightarrow> (error + bool) \<times> 'e"
  pods_Remove :: "string \<Rightarrow> bool \<Rightarrow> 'e \<Rightarrow> error option \<times> 'e"
  pods_Inspect :: "string \<Rightarrow> 'e \<Rightarrow> (error + pod_info) \<times> 'e"
  pods_Stop :: "string \<Rightarrow> int \<Rightarrow> 'e \<Rightarrow> error option \<times> 'e"
  pods_Start :: "string \<Rightarrow> 'e \<Rightarrow> error option \<times> 'e"
  containers_Inspect :: "string \<Rightarrow> 'e \<Rightarrow> (error + container_data) \<times> 'e"
  play_Kube :: "string \<Rightarrow> string \<Rightarrow> 'e \<Rightarrow> (error + played_pod list) \<times> 'e"
  secrets_List :: "'e \<Rightarrow> (error + string list) \<times> 'e"
  secrets_Remove :: "string \<Rightarrow> 'e \<Rightarrow> error option \<times> 'e"
  secrets_Create :: "string \<Rightarrow> string \<Rightarrow> 'e \<Rightarrow> error option \<times> 'e"
  generate_Systemd :: "string \<Rightarrow> nat \<Rightarrow> bool \<Rightarrow> 'e \<Rightarrow> (error + (string, string) gomap) \<times> 'e"

section \<open>Data\<close>

record WorkloadInfo =
  wi_Id :: string
  wi_Name :: string
  wi_Status :: string

record ContainerReport =
  cr_IPAddress :: string
  cr_Id :: string
  cr_Name :: string

record PodReport =
  pr_Id :: string
  pr_Name :: string
  pr_Containers :: "ContainerReport list"

definition PodReport_AppendContainer :: "PodReport \<Rightarrow> ContainerReport \<Rightarrow> PodReport" where
  "PodReport_AppendContainer p c = p\<lparr>pr_Containers := pr_Containers p @ [c]\<rparr>"

record PodmanEvent =
  pe_Event :: string
  pe_WorkloadName :: string
  pe_Report :: "PodReport option"

definition StoppedContainer :: string where
  "StoppedContainer = ''stoppedContainer''"

definition StartedContainer :: string where
  "StartedContainer = ''startedContainer''"

definition podmanStart :: string where "podmanStart = ''start''"
definition podmanRemove :: string where "podmanRemove = ''remove''"
definition podmanStop :: string where "podmanStop = ''stop''"

record podman =
  timeoutForStopping :: int

definition DefaultTimeoutForStoppingInSeconds :: int where
  "DefaultTimeoutForStoppingInSeconds = 5"

text \<open>The three ways a call of the bindings goes on.\<close>

definition then_val :: "(error + 'a) \<times> 'e \<Rightarrow> ('a \<Rightarrow> 'e \<Rightarrow> (error + 'b) \<times> 'e) \<Rightarrow> (error + 'b) \<times> 'e" where
  "then_val r k = (case r of (Inl err, e) \<Rightarrow> (Inl err, e) | (Inr a, e) \<Rightarrow> k a e)"

definition then_err :: "(error + 'a) \<times> 'e \<Rightarrow> ('a \<Rightarrow> 'e \<Rightarrow> error option \<times> 'e) \<Rightarrow> error option \<times> 'e" where
  "then_err r k = (case r of (Inl err, e) \<Rightarrow> (Some err, e) | (Inr a, e) \<Rightarrow> k a e)"

definition then_do :: "error option \<times> 'e \<Rightarrow> ('e \<Rightarrow> error option \<times> 'e) \<Rightarrow> error option \<times> 'e" where
  "then_do r k = (case r of (Some err, e) \<Rightarrow> (Some err, e) | (None, e) \<Rightarrow> k e)"

lemma then_simps [simp]:
  "then_val (Inl err, e) k = (Inl err, e)" "then_val (Inr a, e) k = k a e"
  "then_err (Inl err, e) k2 = (Some err, e)" "then_err (Inr a, e) k2 = k2 a e"
  "then_do (Some err, e) k3 = (Some err, e)" "then_do (None, e) k3 = k3 e"
  by (simp_all add: then_val_def then_err_def then_do_def)

section \<open>Pods\<close>

definition NewPodman :: "'e podman_api \<Rightarrow> 'e \<Rightarrow> (error + podman) \<times> 'e" where
  "NewPodman api e =
     (case bindings_NewConnection api e of
        (Some err, e') \<Rightarrow> (Inl err, e')
      | (None, e') \<Rightarrow> (Inr \<lparr>timeoutForStopping = DefaultTimeoutForStoppingInSeconds\<rparr>, e'))"

definition podman_List :: "'e podman_api \<Rightarrow> 'e \<Rightarrow> (error + WorkloadInfo list) \<times> 'e" where
  "podman_List api e =
     then_val (pods_List api e)
       (\<lambda>podList e. (Inr (map (\<lambda>p. \<lparr>wi_Id = entry_Id p, wi_Name = entry_Name p, wi_Status = entry_Status p\<rparr>) podList), e))"

definition podman_Exists :: "'e podman_api \<Rightarrow> string \<Rightarrow> 'e \<Rightarrow> (error + bool) \<times> 'e" where
  "podman_Exists api workloadId e = then_val (pods_Exists api workloadId e) (\<lambda>exists e. (Inr exists, e))"

definition podman_Remove :: "'e podman_api \<Rightarrow> string \<Rightarrow> 'e \<Rightarrow> error option \<times> 'e" where
  "podman_Remove api workloadId e =
     then_err (podman_Exists api workloadId e)
       (\<lambda>exists e. if exists then pods_Remove api workloadId True e else (None, e))"

definition podman_Stop :: "'e podman_api \<Rightarrow> podman \<Rightarrow> string \<Rightarrow> 'e \<Rightarrow> error option \<times> 'e" where
  "podman_Stop api p workloadId e =
     then_err (pods_Exists api workloadId e)
       (\<lambda>exists e. if exists then pods_Stop api workloadId (timeoutForStopping p) e else (None, e))"

definition podman_Start :: "'e podman_api \<Rightarrow> string \<Rightarrow> 'e \<Rightarrow> error option \<times> 'e" where
  "podman_Start api workloadId e = pods_Start api workloadId e"

definition getContainerDetails :: "'e podman_api \<Rightarrow> string \<Rightarrow> 'e \<Rightarrow> (error + ContainerReport) \<times> 'e" where
  "getContainerDetails api containerId e =
     then_val (containers_Inspect api containerId e)
       (\<lambda>d e. case map_of (data_Networks d) ''podman'' of
                None \<Rightarrow> (Inl (Errorf ''cannot retrieve container '%s' network information'' [containerId]), e)
              | Some ip \<Rightarrow> (Inr \<lparr>cr_IPAddress = ip, cr_Id = containerId, cr_Name = data_Name d\<rparr>, e))"

text \<open>The loop over the containers of a pod: one that cannot be inspected is logged and left out.\<close>

fun append_containers :: "'e podman_api \<Rightarrow> string list \<Rightarrow> PodReport \<Rightarrow> 'e \<Rightarrow> PodReport \<times> 'e" where
  "append_containers api [] report e = (report, e)"
| "append_containers api (c # cs) report e =
     (case getContainerDetails api c e of
        (Inl _, e') \<Rightarrow> append_containers api cs report e'
      | (Inr d, e') \<Rightarrow> append_containers api cs (PodReport_AppendContainer report d) e')"

definition getPodReportforId :: "'e podman_api \<Rightarrow> string \<Rightarrow> 'e \<Rightarrow> (error + PodReport) \<times> 'e" where
  "getPodReportforId api podID e =
     then_val (pods_Inspect api podID e)
       (\<lambda>podInfo e. case append_containers api (info_Containers podInfo)
                             \<lparr>pr_Id = podID, pr_Name = info_Name podInfo, pr_Containers = []\<rparr> e of
                       (report, e') \<Rightarrow> (Inr report, e'))"

fun pod_reports :: "'e podman_api \<Rightarrow> played_pod list \<Rightarrow> 'e \<Rightarrow> PodReport list \<times> 'e" where
  "pod_reports api [] e = ([], e)"
| "pod_reports api (p # ps) e =
     (let (report, e1) = append_containers api (played_Containers p)
                           \<lparr>pr_Id = played_ID p, pr_Name = [], pr_Containers = []\<rparr> e;
          (reports, e2) = pod_reports api ps e1
      in (report # reports, e2))"

definition podman_Run :: "'e podman_api \<Rightarrow> string \<Rightarrow> string \<Rightarrow> 'e \<Rightarrow> (error + PodReport list) \<times> 'e" where
  "podman_Run api manifestPath authFilePath e =
     then_val (play_Kube api manifestPath authFilePath e)
       (\<lambda>played e. case pod_reports api played e of (reports, e') \<Rightarrow> (Inr reports, e'))"

section \<open>Secrets and services\<close>

text \<open>A Go set is a map to the empty struct; here the list of its keys.\<close>

definition podman_ListSecrets :: "'e podman_api \<Rightarrow> 'e \<Rightarrow> (error + (string, unit) gomap) \<times> 'e" where
  "podman_ListSecrets api e =
     then_val (secrets_List api e) (\<lambda>names e. (Inr (map_fill [] (map (\<lambda>n. (n, ())) names)), e))"

definition podman_RemoveSecret :: "'e podman_api \<Rightarrow> string \<Rightarrow> 'e \<Rightarrow> error option \<times> 'e" where
  "podman_RemoveSecret api name e = secrets_Remove api name e"

definition podman_CreateSecret :: "'e podman_api \<Rightarrow> string \<Rightarrow> string \<Rightarrow> 'e \<Rightarrow> error option \<times> 'e" where
  "podman_CreateSecret api name d e = secrets_Create api name d e"

definition podman_UpdateSecret :: "'e podman_api \<Rightarrow> string \<Rightarrow> string \<Rightarrow> 'e \<Rightarrow> error option \<times> 'e" where
  "podman_UpdateSecret api name d e =
     then_do (podman_RemoveSecret api name e) (podman_CreateSecret api name d)"

definition podman_GenerateSystemdService ::
  "'e podman_api \<Rightarrow> 'e dbus_api \<Rightarrow> ((string, string) gomap \<Rightarrow> (string \<times> string) list) \<Rightarrow>
   string \<Rightarrow> nat \<Rightarrow> 'e world \<Rightarrow> (error + systemd, 'e world) call" where
  "podman_GenerateSystemdService api bus rng podName monitoringInterval w =
     (case on_ext (generate_Systemd api (podName @ PodSuffix) monitoringInterval True) w of
        (Ret (Inl err), w') \<Rightarrow> (Ret (Inl err), w')
      | (Ret (Inr units), w') \<Rightarrow> NewSystemd bus rng podName ServicePrefix units w'
      | (Panic, w') \<Rightarrow> (Panic, w'))"

section \<open>Events\<close>

text \<open>
  At start every running pod is announced, except the ones that cannot be inspected. (The source
  sends each announcement from a goroutine of its own, so their order is not fixed; the list is the
  order in which they are made.)
\<close>

fun started_events :: "'e podman_api \<Rightarrow> WorkloadInfo list \<Rightarrow> 'e \<Rightarrow> PodmanEvent list \<times> 'e" where
  "started_events api [] e = ([], e)"
| "started_events api (wrk # wrks) e =
     (case getPodReportforId api (wi_Id wrk) e of
        (Inl _, e') \<Rightarrow> started_events api wrks e'
      | (Inr report, e') \<Rightarrow>
          (let (evs, e2) = started_events api wrks e'
           in (\<lparr>pe_Event = StartedContainer, pe_WorkloadName = wi_Name wrk, pe_Report = Some report\<rparr> # evs, e2)))"

definition podman_Events :: "'e podman_api \<Rightarrow> 'e \<Rightarrow> PodmanEvent list \<times> 'e" where
  "podman_Events api e =
     (case podman_List api e of
        (Inl _, e') \<Rightarrow> ([], e')
      | (Inr workloads, e') \<Rightarrow> started_events api workloads e')"

text \<open>An event of podman: the action, the pod's id and the attributes of the actor.\<close>

record podman_msg =
  msg_Action :: string
  msg_ID :: string
  msg_Attributes :: "(string, string) gomap"

text \<open>One turn of the goroutine that translates the events: what it sends on, if anything.\<close>

definition event_turn :: "'e podman_api \<Rightarrow> podman_msg \<Rightarrow> 'e \<Rightarrow> PodmanEvent option \<times> 'e" where
  "event_turn api msg e =
     (let name = map_get (msg_Attributes msg) ''name'' in
      if msg_Action msg = podmanStart then
        (case getPodReportforId api (msg_ID msg) e of
           (Inl _, e') \<Rightarrow> (None, e')
         | (Inr report, e') \<Rightarrow>
             (Some \<lparr>pe_Event = StartedContainer, pe_WorkloadName = name, pe_Report = Some report\<rparr>, e'))
      else if msg_Action msg = podmanRemove \<or> msg_Action msg = podmanStop then
        (Some \<lparr>pe_Event = StoppedContainer, pe_WorkloadName = name, pe_Report = None\<rparr>, e)
      else (None, e))"

section \<open>Container logs\<close>

text \<open>
  \<open>Logs\<close> reads what the containers have written from one buffer per container. \<open>ReadLine\<close> is
  \<open>bufio.Reader.ReadLine\<close> with its buffer of 4096 bytes on the text available: the line without
  its end, whether it is only the first part of a line, and the text left.
\<close>

definition newline :: char where
  "newline = CHR 0x0A"

definition strip_cr :: "string \<Rightarrow> string" where
  "strip_cr l = (if l \<noteq> [] \<and> last l = CHR 0x0D then butlast l else l)"

definition ReadLine :: "string \<Rightarrow> string \<times> bool \<times> string" where
  "ReadLine txt =
     (let t = take 4096 txt; l = takeWhile (\<lambda>c. c \<noteq> newline) t in
      if newline \<in> set t then (strip_cr l, False, drop (length l + 1) txt)
      else if length t = 4096 then (strip_cr t, True, drop (length (strip_cr t)) txt)
      else (txt, False, []))"

lemma ReadLine_shorter:
  assumes "ReadLine txt = (l, p, rest)" and "l \<noteq> []"
  shows "length rest < length txt"
proof -
  have "txt \<noteq> []"
    using assms by (auto simp: ReadLine_def strip_cr_def)
  moreover have "strip_cr (take 4096 txt) \<noteq> [] \<Longrightarrow> 0 < length (strip_cr (take 4096 txt))"
    by simp
  ultimately show ?thesis
    using assms by (auto simp: ReadLine_def Let_def split: if_splits)
qed

text \<open>The inner loop: lines up to the first empty one, put together; parts of long lines are dropped.\<close>

function drain_lines :: "string \<Rightarrow> string \<Rightarrow> string \<times> string" where
  "drain_lines resultLine txt =
     (case ReadLine txt of
        (l, isPrefix, rest) \<Rightarrow>
          if l = [] then (resultLine, rest)
          else drain_lines (if isPrefix then resultLine else resultLine @ l) rest)"
  by pat_completeness auto
termination
  by (relation "measure (\<lambda>(r, txt). length txt)") (auto dest: ReadLine_shorter [OF sym])

declare drain_lines.simps [simp del]

text \<open>One turn of the outer loop: what is written to the log writer, and the text left in each buffer.\<close>

fun logs_turn :: "(string \<times> string) list \<Rightarrow> string list \<times> (string \<times> string) list" where
  "logs_turn [] = ([], [])"
| "logs_turn ((containerID, txt) # rs) =
     (let (resultLine, rest) = drain_lines [] txt;
          (written, left) = logs_turn rs
      in ((if resultLine = [] then written
           else (containerID @ '': '' @ resultLine @ [newline]) # written),
          (containerID, rest) # left))"

text \<open>The readers \<open>Logs\<close> starts with: one empty buffer per container (\<open>containerLog\<close> never fails).\<close>

definition podman_Logs :: "'e podman_api \<Rightarrow> string \<Rightarrow> 'e \<Rightarrow> (error + (string, string) gomap) \<times> 'e" where
  "podman_Logs api podID e =
     then_val (pods_Inspect api podID e)
       (\<lambda>podInfo e. (Inr (map_fill [] (map (\<lambda>c. (c, [])) (info_Containers podInfo))), e))"

section \<open>What the reports and the log lines hold\<close>

text \<open>
  The report of a pod has the containers that could be inspected, in the order of the pod, when
  inspecting does not change what the bindings answer.
\<close>

lemma append_containers_appends:
  "\<exists>ds. append_containers api cs report e = (report\<lparr>pr_Containers := pr_Containers report @ ds\<rparr>, e')
     \<and> subseq (map cr_Id ds) cs" if "e' = snd (append_containers api cs report e)"
  using that
proof (induction cs arbitrary: report e)
  case Nil
  then show ?case by (intro exI [of _ "[]"]) simp
next
  case (Cons c cs)
  obtain r e1 where r: "getContainerDetails api c e = (r, e1)"
    by fastforce
  show ?case
  proof (cases r)
    case (Inl err)
    with Cons.IH [of report e1] Cons.prems r show ?thesis by (auto intro: list_emb_Cons)
  next
    case (Inr d)
    have "cr_Id d = c"
      using r Inr by (auto simp: getContainerDetails_def then_val_def split: prod.splits sum.splits option.splits)
    moreover obtain ds where "append_containers api cs (PodReport_AppendContainer report d) e1 =
        (report\<lparr>pr_Containers := (pr_Containers report @ [d]) @ ds\<rparr>, e')" "subseq (map cr_Id ds) cs"
      using Cons.IH [of "PodReport_AppendContainer report d" e1] Cons.prems r Inr
      by (auto simp: PodReport_AppendContainer_def)
    ultimately show ?thesis
      using r Inr by (intro exI [of _ "d # ds"]) auto
  qed
qed

lemma pod_reports_ids: "map pr_Id (fst (pod_reports api ps e)) = map played_ID ps"
proof (induction ps arbitrary: e)
  case Nil
  then show ?case by simp
next
  case (Cons p ps)
  let ?r = "append_containers api (played_Containers p) \<lparr>pr_Id = played_ID p, pr_Name = [], pr_Containers = []\<rparr> e"
  obtain ds where "?r = (\<lparr>pr_Id = played_ID p, pr_Name = [], pr_Containers = ds\<rparr>, snd ?r)"
    using append_containers_appends [OF refl, of api "played_Containers p"
        "\<lparr>pr_Id = played_ID p, pr_Name = [], pr_Containers = []\<rparr>" e] by auto
  then have "pr_Id (fst ?r) = played_ID p"
    by (metis PodReport.select_convs(1) fst_conv)
  then show ?case
    using Cons.IH by (simp add: split_beta Let_def)
qed

text \<open>A line as a container writes it, short enough for the reader's buffer.\<close>

definition plain_line :: "string \<Rightarrow> bool" where
  "plain_line l \<longleftrightarrow> l \<noteq> [] \<and> length l < 4096 \<and> newline \<notin> set l \<and> last l \<noteq> CHR 0x0D"

lemma ReadLine_plain:
  assumes "plain_line l"
  shows "ReadLine (l @ newline # rest) = (l, False, rest)"
proof -
  have t: "take 4096 (l @ newline # rest) = l @ newline # take (4095 - length l) rest"
    using assms by (auto simp: plain_line_def take_Cons' Suc_diff_le)
  have "takeWhile (\<lambda>c. c \<noteq> newline) (l @ newline # xs) = l" for xs
    using assms by (auto simp: plain_line_def takeWhile_append)
  moreover have "strip_cr l = l"
    using assms by (simp add: plain_line_def strip_cr_def)
  ultimately show ?thesis
    unfolding ReadLine_def t Let_def by simp
qed

lemma ReadLine_empty_line: "ReadLine (newline # rest) = ([], False, rest)"
  by (simp add: ReadLine_def strip_cr_def Let_def take_Cons')

text \<open>
  One turn of the log loop on a buffer of whole lines joins all of them, without a separator,
  into one line for the writer; an empty line ends the turn and what follows it waits for the next
  one.
\<close>

theorem logs_turn_merges_lines:
  assumes "list_all plain_line ls" and "ls \<noteq> []"
  shows "logs_turn [(containerID, concat (map (\<lambda>l. l @ [newline]) ls) @ newline # rest)] =
    ([containerID @ '': '' @ concat ls @ [newline]], [(containerID, rest)])"
proof -
  have "drain_lines acc (concat (map (\<lambda>l. l @ [newline]) ls) @ newline # rest) = (acc @ concat ls, rest)" for acc
    using assms(1)
  proof (induction ls arbitrary: acc)
    case Nil
    then show ?case by (subst drain_lines.simps) (simp add: ReadLine_empty_line)
  next
    case (Cons l ls)
    then show ?case
      by (subst drain_lines.simps) (simp add: ReadLine_plain, simp add: plain_line_def)
  qed
  moreover have "concat ls \<noteq> []"
    using assms by (cases ls) (auto simp: plain_line_def)
  ultimately show ?thesis by (simp add: Let_def)
qed

theorem logs_turn_merges_lines_witness:
  "logs_turn [(''c1'', ''one'' @ [newline] @ ''two'' @ [newline] @ [newline] @ ''three'')] =
    ([''c1: onetwo'' @ [newline]], [(''c1'', ''three'')])"
proof -
  have "list_all plain_line [''one'', ''two'']"
    by (simp add: plain_line_def newline_def)
  from logs_turn_merges_lines [OF this, of "''c1''" "''three''"] show ?thesis by simp
qed

end
