(* ===== verification/Bimap.thy ===== *)
theory Bimap
  imports Go_Prelude
begin

text \<open>
  The contract of a repository that maps names to identifiers and back. Two repositories of the
  worker keep a pair of Go maps of this kind: \<open>workload/mapping\<close> (workload name and pod id) and
  \<open>ansible/mapping\<close> (playbook file and modification time). The client's facts are proved once here.
\<close>

locale bimap =
  fixes id_of :: "'m \<Rightarrow> 'n \<Rightarrow> 'i option"
    and name_of :: "'m \<Rightarrow> 'i \<Rightarrow> 'n option"
    and add :: "'n \<Rightarrow> 'i \<Rightarrow> 'm \<Rightarrow> 'm"
    and remove :: "'n \<Rightarrow> 'm \<Rightarrow> 'm"
    and invar :: "'m \<Rightarrow> bool"
    and valid_id :: "'i \<Rightarrow> bool"
  assumes inverse: "invar m \<Longrightarrow> name_of m i = Some n \<longleftrightarrow> id_of m n = Some i"
    and id_of_add: "id_of (add n i m) = (id_of m)(n \<mapsto> i)"
    and name_of_add: "name_of (add n i m) = (name_of m)(i \<mapsto> n)"
    and id_of_remove: "id_of (remove n m) = (id_of m)(n := None)"
    and invar_add: "invar m \<Longrightarrow> valid_id i \<Longrightarrow> id_of m n = None \<Longrightarrow> name_of m i = None \<Longrightarrow> invar (add n i m)"
    and invar_remove: "invar m \<Longrightarrow> invar (remove n m)"
begin

lemma id_of_inject: "invar m \<Longrightarrow> id_of m n = Some i \<Longrightarrow> id_of m n' = Some i \<Longrightarrow> n = n'"
  using inverse [of m i n] inverse [of m i n'] by simp

lemma name_of_remove:
  assumes "invar m"
  shows "name_of (remove n m) i = (if id_of m n = Some i then None else name_of m i)"
proof (cases "name_of (remove n m) i")
  case None
  have "\<not> (name_of m i = Some n' \<and> n' \<noteq> n)" for n'
    using None inverse [OF invar_remove [OF assms], of n i n'] inverse [OF assms, of i n']
    by (auto simp: id_of_remove split: if_splits)
  then show ?thesis
    using None inverse [OF assms, of i n] by (cases "name_of m i") auto
next
  case (Some n')
  then have "id_of m n' = Some i" "n' \<noteq> n"
    using inverse [OF invar_remove [OF assms], of n i n'] by (auto simp: id_of_remove split: if_splits)
  then show ?thesis
    using Some inverse [OF assms, of i n'] id_of_inject [OF assms, of n i n'] by auto
qed

text \<open>Replacing an entry by removing it first, as the wrapper does before it runs a pod, is safe.\<close>

lemma invar_replace:
  assumes "invar m" and "valid_id i" and "name_of m i = None \<or> name_of m i = Some n"
  shows "invar (add n i (remove n m))"
proof (rule invar_add)
  show "name_of (remove n m) i = None"
    using assms(3) inverse [OF assms(1), of i n] name_of_remove [OF assms(1), of n i] by auto
qed (simp_all add: assms invar_remove id_of_remove)

lemma remove_add:
  assumes "invar m" and "valid_id i" and "id_of m n = None" and "name_of m i = None"
  shows "id_of (remove n (add n i m)) = id_of m" and "name_of (remove n (add n i m)) = name_of m"
proof -
  show "id_of (remove n (add n i m)) = id_of m"
    using assms(3) by (simp add: id_of_remove id_of_add fun_eq_iff)
  have inv: "invar (add n i m)" by (rule invar_add [OF assms])
  show "name_of (remove n (add n i m)) = name_of m"
    using assms(4) by (auto simp: fun_eq_iff name_of_remove [OF inv] id_of_add name_of_add)
qed

end

text \<open>
  The two Go maps of such a repository, and the operations both repositories perform on them.
\<close>

definition inverse_maps :: "('n, 'i) gomap \<Rightarrow> ('i, 'n) gomap \<Rightarrow> bool" where
  "inverse_maps fwd bwd \<longleftrightarrow> gomap_ok fwd \<and> gomap_ok bwd \<and>
     list_all (\<lambda>(n, i). map_of bwd i = Some n) fwd \<and> list_all (\<lambda>(i, n). map_of fwd n = Some i) bwd"

lemma inverse_maps_iff:
  "inverse_maps fwd bwd \<longleftrightarrow> gomap_ok fwd \<and> gomap_ok bwd \<and>
     (\<forall>n i. map_of fwd n = Some i \<longleftrightarrow> map_of bwd i = Some n)"
  unfolding inverse_maps_def list_all_iff gomap_ok_def
  by (auto dest: map_of_SomeD)

lemma inverse_maps_Nil [simp]: "inverse_maps [] []"
  by (simp add: inverse_maps_def)

lemma inverse_maps_put:
  assumes "inverse_maps fwd bwd" and "map_of fwd n = None" and "map_of bwd i = None"
  shows "inverse_maps (map_put fwd n i) (map_put bwd i n)"
  using assms unfolding inverse_maps_iff by (auto split: if_splits) (metis option.distinct(1))

lemma inverse_maps_del:
  assumes "inverse_maps fwd bwd" and "map_of fwd n = Some i"
  shows "inverse_maps (map_del fwd n) (map_del bwd i)"
  using assms unfolding inverse_maps_iff by (auto split: if_splits) (metis option.inject)

text \<open>
  A file lists the pairs of one of the two maps in the order of some enumeration. Reading the list
  back gives both maps again when they are inverse, whatever the enumeration was.
\<close>

lemma reload_inverse_maps:
  assumes "inverse_maps fwd bwd" and "is_range rng"
  shows "map_of (map_fill [] (rng bwd)) = map_of bwd"
    and "map_of (map_fill [] (map (\<lambda>(i, n). (n, i)) (rng bwd))) = map_of fwd"
    and "inverse_maps (map_fill [] (map (\<lambda>(i, n). (n, i)) (rng bwd))) (map_fill [] (rng bwd))"
proof -
  have ok: "gomap_ok bwd" and iff: "\<And>n i. map_of fwd n = Some i \<longleftrightarrow> map_of bwd i = Some n"
    using assms(1) by (auto simp: inverse_maps_iff)
  have d: "distinct (map fst (rng bwd))" and l: "map_of (rng bwd) = map_of bwd"
    using range_distinct [OF assms(2) ok] range_lookup [OF assms(2) ok] by auto
  show b: "map_of (map_fill [] (rng bwd)) = map_of bwd"
    using lookup_fill_distinct [OF d] l by simp
  have inj: "inj_on snd (set (rng bwd))"
  proof (rule inj_onI)
    fix x y assume "x \<in> set (rng bwd)" "y \<in> set (rng bwd)" "snd x = snd y"
    then have "map_of bwd (fst x) = Some (snd x)" "map_of bwd (fst y) = Some (snd x)"
      using d l by (metis map_of_is_SomeI prod.collapse)+
    then show "x = y"
      using iff [of "snd x" "fst x"] iff [of "snd x" "fst y"] \<open>snd x = snd y\<close> by (simp add: prod_eq_iff)
  qed
  have dist: "distinct (rng bwd)"
    using d by (simp add: distinct_map)
  have d': "distinct (map fst (map (\<lambda>(i, n). (n, i)) (rng bwd)))"
    using inj dist by (simp add: distinct_map comp_def case_prod_beta' inj_on_def)
  have "map_of (map (\<lambda>(i, n). (n, i)) (rng bwd)) n = map_of fwd n" for n
  proof -
    have "map_of (map (\<lambda>(i, n). (n, i)) (rng bwd)) n = Some i \<longleftrightarrow> map_of fwd n = Some i" for i
      using l iff map_of_eq_Some_iff [OF d', of n i] map_of_eq_Some_iff [OF d, of i n] by auto
    then show ?thesis by (metis not_None_eq)
  qed
  then show f: "map_of (map_fill [] (map (\<lambda>(i, n). (n, i)) (rng bwd))) = map_of fwd"
    using lookup_fill_distinct [OF d'] by (simp add: fun_eq_iff)
  show "inverse_maps (map_fill [] (map (\<lambda>(i, n). (n, i)) (rng bwd))) (map_fill [] (rng bwd))"
    using b f iff by (simp add: inverse_maps_iff)
qed

end
