(* ===== verification/Workload_Mapping.thy ===== *)
theory Workload_Mapping
  imports Bimap Go_Json Go_FS
begin

text \<open>
  \<open>internal/workload/mapping/mapping.go\<close>: the repository that remembers which pod id runs a
  workload. Its state is a pair of maps, written to \<open>workload-mapping.json\<close> after every change and
  read back when the worker starts. The lock makes each method atomic.
\<close>

record mapping =
  mapping_Id :: string
  mapping_Name :: string

record mappingRepository =
  mappingFilePath :: string
  idToName :: "(string, string) gomap"
  nameToId :: "(string, string) gomap"

section \<open>The file\<close>

text \<open>\<open>json.Marshal\<close> of the slice; a nil slice is written as \<open>null\<close>.\<close>

definition mapping_json :: "mapping \<Rightarrow> json" where
  "mapping_json m = JObj [(''id'', JStr (mapping_Id m)), (''name'', JStr (mapping_Name m))]"

definition marshal_mappings :: "mapping list \<Rightarrow> string" where
  "marshal_mappings ms = json_print (if ms = [] then JNull else JArr (map mapping_json ms))"

text \<open>A string field: \<open>null\<close> keeps the value, any other JSON type is an error.\<close>

fun json_string_field :: "string \<Rightarrow> json \<Rightarrow> string option" where
  "json_string_field old (JStr s) = Some s"
| "json_string_field old JNull = Some old"
| "json_string_field old _ = None"

fun mapping_fields :: "(string \<times> json) list \<Rightarrow> mapping \<Rightarrow> mapping option" where
  "mapping_fields [] m = Some m"
| "mapping_fields ((k, v) # kvs) m =
     (if key_eq k ''id'' then
        (case json_string_field (mapping_Id m) v of
           None \<Rightarrow> None | Some x \<Rightarrow> mapping_fields kvs (m\<lparr>mapping_Id := x\<rparr>))
      else if key_eq k ''name'' then
        (case json_string_field (mapping_Name m) v of
           None \<Rightarrow> None | Some x \<Rightarrow> mapping_fields kvs (m\<lparr>mapping_Name := x\<rparr>))
      else mapping_fields kvs m)"

fun mapping_of_json :: "json \<Rightarrow> mapping option" where
  "mapping_of_json (JObj kvs) = mapping_fields kvs \<lparr>mapping_Id = [], mapping_Name = []\<rparr>"
| "mapping_of_json JNull = Some \<lparr>mapping_Id = [], mapping_Name = []\<rparr>"
| "mapping_of_json _ = None"

definition unmarshal_mappings :: "string \<Rightarrow> mapping list option" where
  "unmarshal_mappings s =
     (case json_parse s of
        Some JNull \<Rightarrow> Some []
      | Some (JArr vs) \<Rightarrow> all_some (map mapping_of_json vs)
      | _ \<Rightarrow> None)"

definition mapping_utf8 :: "mapping \<Rightarrow> bool" where
  "mapping_utf8 m \<longleftrightarrow> valid_utf8 (mapping_Id m) \<and> valid_utf8 (mapping_Name m)"

lemma key_eq_id_name: "key_eq ''id'' ''id''" "\<not> key_eq ''name'' ''id''" "key_eq ''name'' ''name''"
  by (simp_all add: key_eq_def)

lemma mapping_of_json_json: "mapping_of_json (mapping_json m) = Some m"
  by (simp add: mapping_json_def key_eq_id_name)

interpretation mapping_codec: codec marshal_mappings unmarshal_mappings "list_all mapping_utf8"
proof unfold_locales
  fix ms assume ok: "list_all mapping_utf8 ms"
  show "unmarshal_mappings (marshal_mappings ms) = Some ms"
  proof (cases "ms = []")
    case True
    have "json_parse (json_print JNull) = Some JNull" by (rule json_parse_print) simp
    with True show ?thesis by (simp add: marshal_mappings_def unmarshal_mappings_def)
  next
    case False
    have "json_parse (json_print (JArr (map mapping_json ms))) = Some (JArr (map mapping_json ms))"
      using ok by (intro json_parse_print)
        (auto simp: list_all_iff mapping_json_def mapping_utf8_def valid_utf8_ascii)
    moreover have "all_some (map mapping_of_json (map mapping_json ms)) = Some ms"
      using all_some_map [of ms "\<lambda>m. mapping_of_json (mapping_json m)" "\<lambda>m. m"]
      by (simp add: mapping_of_json_json comp_def)
    ultimately show ?thesis
      using False by (simp add: marshal_mappings_def unmarshal_mappings_def)
  qed
qed

section \<open>The operations\<close>

definition NewMappingRepository :: "fs \<Rightarrow> string \<Rightarrow> error + mappingRepository" where
  "NewMappingRepository s configDir =
     (let path = path_Join [configDir, ''workload-mapping.json''];
          load = (\<lambda>ms. Inr \<lparr>mappingFilePath = path,
                     idToName = map_fill [] (map (\<lambda>m. (mapping_Id m, mapping_Name m)) ms),
                     nameToId = map_fill [] (map (\<lambda>m. (mapping_Name m, mapping_Id m)) ms)\<rparr>)
      in case ReadFile s path of
           Inl _ \<Rightarrow> load []
         | Inr text \<Rightarrow>
             (case unmarshal_mappings text of
                None \<Rightarrow> Inl (ExternalError ''json'')
              | Some ms \<Rightarrow> load ms))"

text \<open>
  \<open>persist\<close> lists \<open>idToName\<close> in the order \<open>rng\<close> that the run time picks for this \<open>range\<close>.
\<close>

definition persist ::
  "((string, string) gomap \<Rightarrow> (string \<times> string) list) \<Rightarrow> mappingRepository \<Rightarrow> fs \<Rightarrow> error option \<times> fs" where
  "persist rng m s =
     WriteFile s (mappingFilePath m)
       (marshal_mappings (map (\<lambda>(ident, name). \<lparr>mapping_Id = ident, mapping_Name = name\<rparr>) (rng (idToName m))))"

definition mem_Add :: "string \<Rightarrow> string \<Rightarrow> mappingRepository \<Rightarrow> mappingRepository" where
  "mem_Add name ident m = m\<lparr>idToName := map_put (idToName m) ident name, nameToId := map_put (nameToId m) name ident\<rparr>"

definition mem_Remove :: "string \<Rightarrow> mappingRepository \<Rightarrow> mappingRepository" where
  "mem_Remove name m =
     (let ident = map_get (nameToId m) name
      in m\<lparr>idToName := map_del (idToName m) ident, nameToId := map_del (nameToId m) name\<rparr>)"

definition mappingRepository_Add where
  "mappingRepository_Add rng name ident m s =
     (let m' = mem_Add name ident m; (e, s') = persist rng m' s in (e, m', s'))"

definition mappingRepository_Remove where
  "mappingRepository_Remove rng name m s =
     (let m' = mem_Remove name m; (e, s') = persist rng m' s in (e, m', s'))"

definition mappingRepository_RemoveMappingFile :: "mappingRepository \<Rightarrow> fs \<Rightarrow> error option \<times> fs" where
  "mappingRepository_RemoveMappingFile m s = RemoveAll s (mappingFilePath m)"

definition mappingRepository_GetId :: "mappingRepository \<Rightarrow> string \<Rightarrow> string" where
  "mappingRepository_GetId m name = map_get (nameToId m) name"

definition mappingRepository_GetName :: "mappingRepository \<Rightarrow> string \<Rightarrow> string" where
  "mappingRepository_GetName m ident = map_get (idToName m) ident"

definition mappingRepository_Persist where
  "mappingRepository_Persist rng m s = persist rng m s"

definition mappingRepository_Size :: "mappingRepository \<Rightarrow> nat" where
  "mappingRepository_Size m = length (nameToId m)"

lemmas mapping_ops = mappingRepository_Add_def mappingRepository_Remove_def
  mappingRepository_GetId_def mappingRepository_GetName_def mappingRepository_Persist_def
  mem_Add_def mem_Remove_def

section \<open>The two maps stay inverse to each other\<close>

text \<open>
  The invariant: both maps are inverse to each other and no workload has the empty id, which is
  what \<open>Remove\<close> would delete for an unknown name.
\<close>

definition repo_ok :: "mappingRepository \<Rightarrow> bool" where
  "repo_ok m \<longleftrightarrow> inverse_maps (nameToId m) (idToName m) \<and> map_of (idToName m) [] = None"

interpretation workload_repo:
  bimap "\<lambda>m. map_of (nameToId m)" "\<lambda>m. map_of (idToName m)" mem_Add mem_Remove repo_ok "\<lambda>ident. ident \<noteq> []"
proof unfold_locales
  fix m n
  assume ok: "repo_ok m"
  show "repo_ok (mem_Remove n m)"
  proof (cases "map_of (nameToId m) n")
    case None
    then have "map_del (nameToId m) n = nameToId m"
      by (metis delete_id map_of_eq_None_iff)
    moreover have "map_del (idToName m) [] = idToName m"
      using ok by (metis repo_ok_def delete_id map_of_eq_None_iff)
    ultimately show ?thesis
      using ok None by (simp add: mem_Remove_def Let_def map_get_def)
  next
    case (Some i)
    with ok show ?thesis
      by (simp add: repo_ok_def mem_Remove_def Let_def map_get_def inverse_maps_del)
  qed
next
  fix m i n
  assume "repo_ok m"
  then show "map_of (idToName m) i = Some n \<longleftrightarrow> map_of (nameToId m) n = Some i"
    by (simp add: repo_ok_def inverse_maps_iff)
qed (auto simp: repo_ok_def mem_Add_def mem_Remove_def Let_def inverse_maps_put)

lemma mappingRepository_Add_fst [simp]:
  "fst (snd (mappingRepository_Add rng name ident m s)) = mem_Add name ident m"
  "fst (snd (mappingRepository_Remove rng name m s)) = mem_Remove name m"
  by (simp_all add: mappingRepository_Add_def mappingRepository_Remove_def split_beta Let_def)

lemma mappingFilePath_ops [simp]:
  "mappingFilePath (mem_Add name ident m) = mappingFilePath m"
  "mappingFilePath (mem_Remove name m) = mappingFilePath m"
  by (simp_all add: mem_Add_def mem_Remove_def Let_def)

section \<open>The file gives the maps back\<close>

definition repo_utf8 :: "mappingRepository \<Rightarrow> bool" where
  "repo_utf8 m \<longleftrightarrow> list_all (\<lambda>(ident, name). valid_utf8 ident \<and> valid_utf8 name) (idToName m)"

lemma NewMappingRepository_persisted:
  assumes "persist rng m s = (None, s')" and "mappingFilePath m = path_Join [dir, ''workload-mapping.json'']"
    and "is_range rng" and "repo_utf8 m"
  shows "NewMappingRepository s' dir = Inr \<lparr>mappingFilePath = mappingFilePath m,
    idToName = map_fill [] (rng (idToName m)),
    nameToId = map_fill [] (map (\<lambda>(i, n). (n, i)) (rng (idToName m)))\<rparr>"
proof -
  let ?ms = "map (\<lambda>(ident, name). \<lparr>mapping_Id = ident, mapping_Name = name\<rparr>) (rng (idToName m))"
  have "ReadFile s' (mappingFilePath m) = Inr (marshal_mappings ?ms)"
    using assms(1) unfolding persist_def by (rule WriteFile_ok(2))
  moreover have "list_all mapping_utf8 ?ms"
    using assms(4) range_set [OF assms(3), of "idToName m"]
    by (auto simp: list_all_iff repo_utf8_def mapping_utf8_def)
  moreover have
    "map ((\<lambda>m. (mapping_Id m, mapping_Name m)) \<circ> (\<lambda>(ident, name). \<lparr>mapping_Id = ident, mapping_Name = name\<rparr>)) = (\<lambda>xs. xs)"
    "map ((\<lambda>m. (mapping_Name m, mapping_Id m)) \<circ> (\<lambda>(ident, name). \<lparr>mapping_Id = ident, mapping_Name = name\<rparr>))
       = map (\<lambda>(i, n). (n, i))"
    by (simp_all add: comp_def case_prod_beta' fun_eq_iff)
  ultimately show ?thesis
    using assms(2) mapping_codec.unmarshal_marshal [of ?ms]
    by (simp add: NewMappingRepository_def Let_def)
qed

section \<open>Properties\<close>

text \<open>
  C19: A restart loses no mapping. If the repository was persisted without an error, the
  repository read back from the file at start-up answers every \<open>GetId\<close> and \<open>GetName\<close> as the old one
  did and is consistent again, in whatever order the entries were written.
\<close>

theorem mapping_reload:
  assumes "repo_ok m" and "repo_utf8 m" and "is_range rng"
    and "mappingFilePath m = path_Join [dir, ''workload-mapping.json'']"
    and "mappingRepository_Persist rng m s = (None, s')"
  shows "\<exists>m'. NewMappingRepository s' dir = Inr m' \<and> repo_ok m' \<and>
    (\<forall>name. mappingRepository_GetId m' name = mappingRepository_GetId m name) \<and>
    (\<forall>ident. mappingRepository_GetName m' ident = mappingRepository_GetName m ident)"
proof -
  have inv: "inverse_maps (nameToId m) (idToName m)"
    using assms(1) by (simp add: repo_ok_def)
  note reload = reload_inverse_maps [OF inv assms(3)]
  show ?thesis
    using NewMappingRepository_persisted [OF _ assms(4,3,2), of s s'] assms(1,5) reload
    by (auto simp: mappingRepository_Persist_def repo_ok_def mappingRepository_GetId_def
        mappingRepository_GetName_def map_get_def)
qed

definition example_repo :: mappingRepository where
  "example_repo = \<lparr>mappingFilePath = ''/d/workload-mapping.json'',
     idToName = [(''id1'', ''web'')], nameToId = [(''web'', ''id1'')]\<rparr>"

definition example_disk :: fs where
  "example_disk = fs_of [(''/d'', Dir)]"

lemma example_repo_ok: "repo_ok example_repo" "repo_utf8 example_repo"
  "mappingFilePath example_repo = path_Join [''/d'', ''workload-mapping.json'']"
proof -
  show "repo_ok example_repo"
    by (simp add: example_repo_def repo_ok_def inverse_maps_def gomap_ok_def)
  show "repo_utf8 example_repo"
    by (simp add: example_repo_def repo_utf8_def valid_utf8_ascii)
  have "clean_dir ''/d''" "plain_elem ''workload-mapping.json''"
    by (simp_all add: clean_dir_def plain_elem_def)
  from path_Join_plain(1) [OF this]
  show "mappingFilePath example_repo = path_Join [''/d'', ''workload-mapping.json'']"
    by (simp add: example_repo_def)
qed

lemma example_persist:
  "mappingRepository_Persist rng example_repo example_disk =
     (None, snd (mappingRepository_Persist rng example_repo example_disk))"
proof -
  have "path_Dir (mappingFilePath example_repo) = ''/d''"
    by (simp add: example_repo_def path_Dir_def)
  then show ?thesis
    by (simp add: mappingRepository_Persist_def persist_def WriteFile_def is_dir_def
        example_disk_def example_repo_def Let_def)
qed

theorem mapping_reload_witness:
  "\<exists>m'. NewMappingRepository (snd (mappingRepository_Persist rev example_repo example_disk)) ''/d'' = Inr m'
    \<and> mappingRepository_GetId m' ''web'' = ''id1''"
proof -
  have "mappingRepository_GetId example_repo ''web'' = ''id1''"
    by (simp add: mappingRepository_GetId_def example_repo_def map_get_def)
  then show ?thesis
    using mapping_reload [OF example_repo_ok(1,2) is_range_rev example_repo_ok(3) example_persist]
    by auto
qed

text \<open>
  C12: Replacing a workload's pod, \<open>Remove\<close> followed by \<open>Add\<close> as the manager and the wrapper do
  it, behaves on the name-to-id view like one update of a finite map, keeps both maps inverse to
  each other, and leaves no trace of the pod id the name had before.
\<close>

theorem mapping_replace_refines:
  assumes "repo_ok m" and "ident \<noteq> []"
    and "mappingRepository_GetName m ident = [] \<and> map_of (idToName m) ident = None
      \<or> mappingRepository_GetName m ident = name \<and> map_of (idToName m) ident = Some name"
    and "mappingRepository_Remove rng name m s = (e1, m1, s1)"
    and "mappingRepository_Add rng' name ident m1 s1 = (e2, m2, s2)"
  shows "repo_ok m2 \<and> map_of (nameToId m2) = (map_of (nameToId m))(name \<mapsto> ident) \<and>
    mappingRepository_GetName m2 ident = name \<and>
    (\<forall>old. map_of (nameToId m) name = Some old \<longrightarrow> old \<noteq> ident \<longrightarrow> map_of (idToName m2) old = None)"
proof -
  have m1: "m1 = mem_Remove name m"
    using assms(4) mappingRepository_Add_fst(2) [of rng name m s] by simp
  have m2: "m2 = mem_Add name ident (mem_Remove name m)"
    using assms(5) m1 mappingRepository_Add_fst(1) [of rng' name ident m1 s1] by simp
  have "repo_ok m2"
    unfolding m2 using assms(1-3) by (intro workload_repo.invar_replace) auto
  moreover have "map_of (nameToId m2) = (map_of (nameToId m))(name \<mapsto> ident)"
    by (simp add: m2 workload_repo.id_of_add workload_repo.id_of_remove)
  moreover have "mappingRepository_GetName m2 ident = name"
    by (simp add: m2 mappingRepository_GetName_def map_get_def workload_repo.name_of_add)
  moreover have "map_of (idToName m2) old = None"
    if "map_of (nameToId m) name = Some old" "old \<noteq> ident" for old
    using that assms(1) by (simp add: m2 workload_repo.name_of_add workload_repo.name_of_remove)
  ultimately show ?thesis by blast
qed

theorem mapping_replace_refines_witness:
  "mappingRepository_GetId (fst (snd (mappingRepository_Add rev ''web'' ''id2''
      (fst (snd (mappingRepository_Remove rev ''web'' example_repo example_disk))) example_disk))) ''web'' = ''id2''"
proof -
  obtain e1 m1 s1 where r: "mappingRepository_Remove rev ''web'' example_repo example_disk = (e1, m1, s1)"
    by (metis surj_pair)
  obtain e2 m2 s2 where a: "mappingRepository_Add rev ''web'' ''id2'' m1 s1 = (e2, m2, s2)"
    by (metis surj_pair)
  have pre: "mappingRepository_GetName example_repo ''id2'' = [] \<and> map_of (idToName example_repo) ''id2'' = None
      \<or> mappingRepository_GetName example_repo ''id2'' = ''web'' \<and> map_of (idToName example_repo) ''id2'' = Some ''web''"
    by (simp add: example_repo_def mappingRepository_GetName_def map_get_def)
  have "map_of (nameToId m2) ''web'' = Some ''id2''"
    using mapping_replace_refines [OF example_repo_ok(1) _ pre r a] by simp
  moreover have "m2 = mem_Add ''web'' ''id2'' m1"
    using a mappingRepository_Add_fst(1) [of rev "''web''" "''id2''" m1 s1] by simp
  ultimately show ?thesis
    using r by (simp add: mappingRepository_GetId_def map_get_def)
qed

text \<open>
  Adding a name again without removing it first leaves its old pod id behind: the old id
  still names the workload, the maps are no longer inverse, and after a restart the id the
  workload gets depends on the order in which the file was written.
\<close>

theorem mapping_readd_stale:
  "\<exists>m. repo_ok m \<and> (let m' = mem_Add ''web'' ''id2'' m in
     \<not> repo_ok m' \<and> mappingRepository_GetName m' ''id1'' = ''web'' \<and>
     map_get (map_fill [] (map (\<lambda>(i, n). (n, i)) (idToName m'))) ''web''
       \<noteq> map_get (map_fill [] (map (\<lambda>(i, n). (n, i)) (rev (idToName m')))) ''web'')"
  by (rule exI [of _ example_repo])
    (simp add: example_repo_ok, simp add: example_repo_def mem_Add_def repo_ok_def inverse_maps_def
      mappingRepository_GetName_def map_get_def)

end
