(* ===== verification/Wrapper.thy ===== *)
theory Wrapper
  imports Netfilter Podman Workload_Mapping Models
begin

text \<open>
  \<open>internal/workload/wrapper.go\<close>: a workload is a pod in podman, a chain in the packet filter, an
  entry in the mapping repository and a systemd service; \<open>Workload\<close> keeps the four together.

  The state of an operation is the disk, the \<open>Workload\<close> value of the process and the world outside
  (podman, systemd, \<open>nft\<close>), reached through the functions of an \<open>env\<close>.
\<close>

record 'e env =
  env_podman :: "'e podman_api"
  env_dbus :: "'e dbus_api"
  env_exec :: "'e exec"
  env_LookPath :: "string \<Rightarrow> error + string"
  env_range :: "(string, string) gomap \<Rightarrow> (string \<times> string) list" \<comment> \<open>order of \<open>range\<close> over a string map\<close>

record 'o Workload =
  ww_workloads :: podman
  ww_netfilter :: netfilter
  ww_mappingRepository :: mappingRepository
  ww_observers :: "'o list"
  ww_serviceManager :: systemdManager
  ww_monitoringInterval :: nat

record ('o, 'e) process =
  wrapper :: "'o Workload"
  outside :: 'e

type_synonym ('o, 'e) wworld = "('o, 'e) process world"

definition nfTableName :: string where
  "nfTableName = ''edge''"

section \<open>Access to the parts of the state\<close>

definition on_outside ::
  "('e world \<Rightarrow> ('a, 'e world) call) \<Rightarrow> ('o, 'e) wworld \<Rightarrow> ('a, ('o, 'e) wworld) call" where
  "on_outside f w =
     (case f \<lparr>disk = disk w, ext = outside (ext w)\<rparr> of
        (r, v) \<Rightarrow> (r, w\<lparr>disk := disk v, ext := (ext w)\<lparr>outside := ext v\<rparr>\<rparr>))"

definition on_service :: "('e \<Rightarrow> 'a \<times> 'e) \<Rightarrow> ('o, 'e) wworld \<Rightarrow> ('a, ('o, 'e) wworld) call" where
  "on_service f w = on_outside (on_ext f) w"

abbreviation the_ww :: "('o, 'e) wworld \<Rightarrow> 'o Workload" where
  "the_ww w \<equiv> wrapper (ext w)"

abbreviation repo_of :: "('o, 'e) wworld \<Rightarrow> mappingRepository" where
  "repo_of w \<equiv> ww_mappingRepository (the_ww w)"

abbreviation manager_of :: "('o, 'e) wworld \<Rightarrow> systemdManager" where
  "manager_of w \<equiv> ww_serviceManager (the_ww w)"

definition set_ww :: "('o Workload \<Rightarrow> 'o Workload) \<Rightarrow> ('o, 'e) wworld \<Rightarrow> ('o, 'e) wworld" where
  "set_ww f w = w\<lparr>ext := (ext w)\<lparr>wrapper := f (the_ww w)\<rparr>\<rparr>"

definition on_mapping ::
  "(mappingRepository \<Rightarrow> fs \<Rightarrow> error option \<times> mappingRepository \<times> fs) \<Rightarrow>
   ('o, 'e) wworld \<Rightarrow> (error option, ('o, 'e) wworld) call" where
  "on_mapping f w =
     (let (err, m, s) = f (repo_of w) (disk w)
      in (Ret err, set_ww (\<lambda>ww. ww\<lparr>ww_mappingRepository := m\<rparr>) (w\<lparr>disk := s\<rparr>)))"

definition on_manager ::
  "(systemdManager \<Rightarrow> fs \<Rightarrow> error option \<times> systemdManager \<times> fs) \<Rightarrow>
   ('o, 'e) wworld \<Rightarrow> (error option, ('o, 'e) wworld) call" where
  "on_manager f w =
     (let (err, m, s) = f (manager_of w) (disk w)
      in (Ret err, set_ww (\<lambda>ww. ww\<lparr>ww_serviceManager := m\<rparr>) (w\<lparr>disk := s\<rparr>)))"

definition nft_of :: "('o, 'e) wworld \<Rightarrow> netfilter" where
  "nft_of w = ww_netfilter (the_ww w)"

section \<open>Observers\<close>

definition Workload_RegisterObserver :: "'o \<Rightarrow> 'o Workload \<Rightarrow> 'o Workload" where
  "Workload_RegisterObserver observer ww = ww\<lparr>ww_observers := ww_observers ww @ [observer]\<rparr>"

datatype notification = WorkloadRemoved string | WorkloadStarted string "PodReport option list"

text \<open>One turn of the goroutine that reads podman's events: the observers told, in order.\<close>

definition observer_turn :: "'o Workload \<Rightarrow> PodmanEvent \<Rightarrow> ('o \<times> notification) list" where
  "observer_turn ww msg =
     (if pe_Event msg = StartedContainer then
        map (\<lambda>obs. (obs, WorkloadStarted (pe_WorkloadName msg) [pe_Report msg])) (ww_observers ww)
      else if pe_Event msg = StoppedContainer then
        map (\<lambda>obs. (obs, WorkloadRemoved (pe_WorkloadName msg))) (ww_observers ww)
      else [])"

section \<open>Construction\<close>

definition NewWorkload ::
  "podman \<Rightarrow> netfilter \<Rightarrow> mappingRepository \<Rightarrow> systemdManager \<Rightarrow> nat \<Rightarrow> 'o Workload" where
  "NewWorkload p n m s monitoringInterval =
     \<lparr>ww_workloads = p, ww_netfilter = n, ww_mappingRepository = m, ww_observers = [],
      ww_serviceManager = s, ww_monitoringInterval = monitoringInterval\<rparr>"

definition newWorkloadInstance ::
  "'e env \<Rightarrow> string \<Rightarrow> nat \<Rightarrow> 'e world \<Rightarrow> (error + 'o Workload \<times> PodmanEvent list, 'e world) call" where
  "newWorkloadInstance env configDir monitoringInterval w =
     (let fail = (\<lambda>what err. Inl (Errorf (''workload cannot initialize '' @ what @ '': %w'') [error_string err])) in
      case NewPodman (env_podman env) (ext w) of
        (Inl err, e1) \<Rightarrow> (Ret (fail ''podman manager'' err), w\<lparr>ext := e1\<rparr>)
      | (Inr p, e1) \<Rightarrow>
          (case NewNetfilter (env_LookPath env) of
             Inl err \<Rightarrow> (Ret (fail ''netfilter manager'' err), w\<lparr>ext := e1\<rparr>)
           | Inr n \<Rightarrow>
               (case NewMappingRepository (disk w) configDir of
                  Inl err \<Rightarrow> (Ret (fail ''mapping repository'' err), w\<lparr>ext := e1\<rparr>)
                | Inr m \<Rightarrow>
                    (case NewSystemdManager (disk w) configDir of
                       Inl err \<Rightarrow> (Ret (fail ''systemd manager'' err), w\<lparr>ext := e1\<rparr>)
                     | Inr s \<Rightarrow>
                         (let (evs, e2) = podman_Events (env_podman env) e1
                          in (Ret (Inr (NewWorkload p n m s monitoringInterval, evs)), w\<lparr>ext := e2\<rparr>))))))"

definition Workload_Init :: "'e env \<Rightarrow> ('o, 'e) wworld \<Rightarrow> (error option, ('o, 'e) wworld) call" where
  "Workload_Init env w =
     check_val (on_outside (NewSystemdWithSuffix (env_dbus env) (env_range env) ''podman-auto-update'' [] [] TimerSuffix []) w)
       (\<lambda>svc w.
          check (on_outside (systemd_Enable (env_dbus env) svc) w) (\<lambda>w.
          check (on_outside (systemd_Start (env_dbus env) svc) w) (\<lambda>w.
          on_service (netfilter_AddTable (env_exec env) (nft_of w) nfTableName) w)))"

section \<open>The network rules of a workload\<close>

definition legal_port :: "int \<Rightarrow> bool" where
  "legal_port p \<longleftrightarrow> 0 < p \<and> p < 65536"

definition illegal_port :: "int \<Rightarrow> string \<Rightarrow> string \<Rightarrow> error" where
  "illegal_port p container workload =
     Errorf ''illegal host port number %d for container %s in workload %s'' [Itoa p, container, workload]"

fun container_ports :: "string \<Rightarrow> string \<Rightarrow> int list \<Rightarrow> int list \<Rightarrow> error + int list" where
  "container_ports workload container acc [] = Inr acc"
| "container_ports workload container acc (p # ps) =
     (if legal_port p then container_ports workload container (acc @ [p]) ps
      else Inl (illegal_port p container workload))"

fun host_ports :: "string \<Rightarrow> int list \<Rightarrow> 'p Container list \<Rightarrow> error + int list" where
  "host_ports workload acc [] = Inr acc"
| "host_ports workload acc (c # cs) =
     (case container_ports workload (ctr_Name c) acc (ctr_HostPorts c) of
        Inl err \<Rightarrow> Inl err
      | Inr acc' \<Rightarrow> host_ports workload acc' cs)"

definition getHostPorts :: "'p Pod \<Rightarrow> error + int list" where
  "getHostPorts workload = host_ports (pod_Name workload) [] (spec_Containers (pod_Spec workload))"

definition port_rule :: "int \<Rightarrow> string" where
  "port_rule p = Sprintf ''tcp dport %d ct state new,established counter accept'' [Itoa p]"

fun add_rules :: "'e exec \<Rightarrow> netfilter \<Rightarrow> string \<Rightarrow> int list \<Rightarrow> 'e \<Rightarrow> error option \<times> 'e" where
  "add_rules exec nft workload [] e = (None, e)"
| "add_rules exec nft workload (p # ps) e =
     (case netfilter_AddRule exec nft nfTableName workload (port_rule p) e of
        (Some err, e') \<Rightarrow>
          (Some (Errorf ''failed to add rule %s for workload %s: %v'' [port_rule p, workload, error_string err]), e')
      | (None, e') \<Rightarrow> add_rules exec nft workload ps e')"

definition applyNetworkConfiguration ::
  "'e env \<Rightarrow> 'p Pod \<Rightarrow> ('o, 'e) wworld \<Rightarrow> (error option, ('o, 'e) wworld) call" where
  "applyNetworkConfiguration env workload w =
     (case getHostPorts workload of
        Inl err \<Rightarrow> (Ret (Some err), w)
      | Inr hostPorts \<Rightarrow>
          if hostPorts = [] then (Ret None, w)
          else
            check (wrap_err (\<lambda>err. Errorf ''failed to create chain for workload %s: %v''
                                     [pod_Name workload, error_string err])
                     (on_service (netfilter_AddChain (env_exec env) (nft_of w) nfTableName (pod_Name workload)) w))
              (\<lambda>w. on_service (add_rules (env_exec env) (nft_of w) (pod_Name workload) hostPorts) w))"

section \<open>Running and removing a workload\<close>

definition createService ::
  "'e env \<Rightarrow> systemd \<Rightarrow> ('o, 'e) wworld \<Rightarrow> (error option, ('o, 'e) wworld) call" where
  "createService env svc w =
     check (on_outside (systemd_Add (env_dbus env) (env_range env) svc) w) (\<lambda>w.
     check (on_outside (systemd_Enable (env_dbus env) svc) w) (\<lambda>w.
     on_outside (systemd_Start (env_dbus env) svc) w))"

text \<open>The first pod of the report: indexing an empty slice panics.\<close>

definition first_pod :: "PodReport list \<Rightarrow> ('o, 'e) wworld \<Rightarrow> (error + PodReport, ('o, 'e) wworld) call" where
  "first_pod podIds w = (case podIds of [] \<Rightarrow> (Panic, w) | p # _ \<Rightarrow> (Ret (Inr p), w))"

definition wrap_val :: "(error \<Rightarrow> error) \<Rightarrow> (error + 'a, 'w) call \<Rightarrow> (error + 'a, 'w) call" where
  "wrap_val f r = (case r of (Ret (Inl e), w) \<Rightarrow> (Ret (Inl (f e)), w) | _ \<Rightarrow> r)"

definition Workload_Run ::
  "'e env \<Rightarrow> 'p Pod \<Rightarrow> string \<Rightarrow> string \<Rightarrow> ('o, 'e) wworld \<Rightarrow> (error option, ('o, 'e) wworld) call" where
  "Workload_Run env workload manifestPath authFilePath w =
     check (applyNetworkConfiguration env workload w) (\<lambda>w.
     check_val (on_service (podman_Run (env_podman env) manifestPath authFilePath) w) (\<lambda>podIds w.
     check_val (first_pod podIds w) (\<lambda>pod w.
     check (on_mapping (mappingRepository_Add (env_range env) (pod_Name workload) (pr_Id pod)) w) (\<lambda>w.
     check_val
       (wrap_val (\<lambda>err. Errorf ''Error while generating systemd service: %v'' [error_string err])
         (on_outside (podman_GenerateSystemdService (env_podman env) (env_dbus env) (env_range env)
            (pod_Name workload) (ww_monitoringInterval (the_ww w))) w)) (\<lambda>svc w.
     check
       (wrap_err (\<lambda>err. Errorf ''Error while creating service: %v'' [error_string err])
         (createService env svc w)) (\<lambda>w.
     wrap_err (\<lambda>err. Errorf ''Error while updating service manager: %v'' [error_string err])
       (on_manager (systemdManager_Add svc) w)))))))"

text \<open>
  The service of a workload, if any, is stopped (a failure to stop is ignored), its units removed,
  and it is dropped from the manager (a failure to write the manager's file is ignored too). A
  nil \<open>*systemd\<close> in the manager panics at \<open>Stop\<close>.
\<close>

definition removeService ::
  "'e env \<Rightarrow> string \<Rightarrow> ('o, 'e) wworld \<Rightarrow> (error option, ('o, 'e) wworld) call" where
  "removeService env workloadName w =
     (case systemdManager_Get (manager_of w) workloadName of
        None \<Rightarrow> (Ret None, w)
      | Some None \<Rightarrow> (Panic, w)
      | Some (Some svc) \<Rightarrow>
          ignore (on_outside (systemd_Stop (env_dbus env) svc) w) (\<lambda>w.
          check (on_outside (systemd_Remove (env_dbus env) svc) w) (\<lambda>w.
          ignore (on_manager (systemdManager_Remove svc) w) (\<lambda>w. (Ret None, w)))))"

definition pod_id_or_name :: "mappingRepository \<Rightarrow> string \<Rightarrow> string" where
  "pod_id_or_name m workloadName =
     (let ident = mappingRepository_GetId m workloadName in if ident = [] then workloadName else ident)"

definition Workload_Remove ::
  "'e env \<Rightarrow> string \<Rightarrow> ('o, 'e) wworld \<Rightarrow> (error option, ('o, 'e) wworld) call" where
  "Workload_Remove env workloadName w =
     (let ident = pod_id_or_name (repo_of w) workloadName in
      check (removeService env workloadName w) (\<lambda>w.
      check (on_service (podman_Remove (env_podman env) ident) w) (\<lambda>w.
      ignore (on_service (netfilter_DeleteChain (env_exec env) (nft_of w) nfTableName workloadName) w) (\<lambda>w.
      on_mapping (mappingRepository_Remove (env_range env) workloadName) w))))"

definition Workload_Stop ::
  "'e env \<Rightarrow> string \<Rightarrow> ('o, 'e) wworld \<Rightarrow> (error option, ('o, 'e) wworld) call" where
  "Workload_Stop env workloadName w =
     on_service (podman_Stop (env_podman env) (ww_workloads (the_ww w)) (pod_id_or_name (repo_of w) workloadName)) w"

definition Workload_Start ::
  "'e env \<Rightarrow> 'p Pod \<Rightarrow> ('o, 'e) wworld \<Rightarrow> (error option, ('o, 'e) wworld) call" where
  "Workload_Start env workload w =
     ignore (on_service (netfilter_DeleteChain (env_exec env) (nft_of w) nfTableName (pod_Name workload)) w) (\<lambda>w.
     check (applyNetworkConfiguration env workload w) (\<lambda>w.
     on_service (podman_Start (env_podman env) (mappingRepository_GetId (repo_of w) (pod_Name workload))) w))"

section \<open>The other operations\<close>

definition rename_info :: "mappingRepository \<Rightarrow> WorkloadInfo \<Rightarrow> WorkloadInfo" where
  "rename_info m info =
     (let mappedName = mappingRepository_GetName m (wi_Id info)
      in if mappedName \<noteq> [] then info\<lparr>wi_Name := mappedName\<rparr> else info)"

definition Workload_List ::
  "'e env \<Rightarrow> ('o, 'e) wworld \<Rightarrow> (error + WorkloadInfo list, ('o, 'e) wworld) call" where
  "Workload_List env w =
     (case on_service (podman_List (env_podman env)) w of
        (Ret (Inr infos), w') \<Rightarrow> (Ret (Inr (map (rename_info (repo_of w')) infos)), w')
      | r \<Rightarrow> r)"

definition Workload_RemoveTable :: "'e env \<Rightarrow> ('o, 'e) wworld \<Rightarrow> (error option, ('o, 'e) wworld) call" where
  "Workload_RemoveTable env w = on_service (netfilter_DeleteTable (env_exec env) (nft_of w) nfTableName) w"

definition Workload_RemoveServicesFile :: "('o, 'e) wworld \<Rightarrow> (error option, ('o, 'e) wworld) call" where
  "Workload_RemoveServicesFile w = on_disk (systemdManager_RemoveServicesFile (manager_of w)) w"

definition Workload_RemoveMappingFile :: "('o, 'e) wworld \<Rightarrow> (error option, ('o, 'e) wworld) call" where
  "Workload_RemoveMappingFile w = on_disk (mappingRepository_RemoveMappingFile (repo_of w)) w"

definition Workload_PersistConfiguration :: "'e env \<Rightarrow> ('o, 'e) wworld \<Rightarrow> (error option, ('o, 'e) wworld) call" where
  "Workload_PersistConfiguration env w = on_disk (mappingRepository_Persist (env_range env) (repo_of w)) w"

definition Workload_ListSecrets ::
  "'e env \<Rightarrow> ('o, 'e) wworld \<Rightarrow> (error + (string, unit) gomap, ('o, 'e) wworld) call" where
  "Workload_ListSecrets env w = on_service (podman_ListSecrets (env_podman env)) w"

definition Workload_RemoveSecret ::
  "'e env \<Rightarrow> string \<Rightarrow> ('o, 'e) wworld \<Rightarrow> (error option, ('o, 'e) wworld) call" where
  "Workload_RemoveSecret env name w = on_service (podman_RemoveSecret (env_podman env) name) w"

definition Workload_CreateSecret ::
  "'e env \<Rightarrow> string \<Rightarrow> string \<Rightarrow> ('o, 'e) wworld \<Rightarrow> (error option, ('o, 'e) wworld) call" where
  "Workload_CreateSecret env name d w = on_service (podman_CreateSecret (env_podman env) name d) w"

definition Workload_UpdateSecret ::
  "'e env \<Rightarrow> string \<Rightarrow> string \<Rightarrow> ('o, 'e) wworld \<Rightarrow> (error option, ('o, 'e) wworld) call" where
  "Workload_UpdateSecret env name d w = on_service (podman_UpdateSecret (env_podman env) name d) w"

definition Workload_Logs ::
  "'e env \<Rightarrow> string \<Rightarrow> ('o, 'e) wworld \<Rightarrow> (error + (string, string) gomap, ('o, 'e) wworld) call" where
  "Workload_Logs env podID w = on_service (podman_Logs (env_podman env) podID) w"

section \<open>What an operation leaves alone\<close>

lemma on_service_eq:
  "on_service f w = (Ret (fst (f (outside (ext w)))), w\<lparr>ext := (ext w)\<lparr>outside := snd (f (outside (ext w)))\<rparr>\<rparr>)"
  by (simp add: on_service_def on_outside_def on_ext_def split_beta)

lemma nft_of_outside [simp]: "nft_of (w\<lparr>ext := (ext w)\<lparr>outside := e\<rparr>\<rparr>) = nft_of w"
  by (simp add: nft_of_def)

lemma on_service_Ret:
  "on_service f w = (Ret a, w') \<longleftrightarrow> (\<exists>e'. f (outside (ext w)) = (a, e') \<and> w' = w\<lparr>ext := (ext w)\<lparr>outside := e'\<rparr>\<rparr>)"
  by (auto simp: on_service_eq prod_eq_iff)

lemma on_service_twice:
  "check (wrap_err g (on_service f w)) (\<lambda>w. on_service (h w) w) = (Ret None, w') \<longleftrightarrow>
     (\<exists>e1 e'. f (outside (ext w)) = (None, e1) \<and> h (w\<lparr>ext := (ext w)\<lparr>outside := e1\<rparr>\<rparr>) e1 = (None, e') \<and>
        w' = w\<lparr>ext := (ext w)\<lparr>outside := e'\<rparr>\<rparr>)"
proof (cases "f (outside (ext w))")
  case (Pair r e1)
  then show ?thesis
    by (cases r) (auto simp: on_service_eq prod_eq_iff)
qed

lemma on_outside_ww: "on_outside f w = (r, w') \<Longrightarrow> the_ww w' = the_ww w"
  by (auto simp: on_outside_def split: prod.splits)

lemma on_service_ww: "on_service f w = (r, w') \<Longrightarrow> the_ww w' = the_ww w"
  unfolding on_service_def by (rule on_outside_ww)

lemma on_service_disk: "on_service f w = (r, w') \<Longrightarrow> disk w' = disk w"
  by (auto simp: on_service_eq)

lemma on_service_ret: "on_service f w = (Ret a, w') \<Longrightarrow> f (outside (ext w)) = (a, outside (ext w'))"
  by (auto simp: on_service_eq)

lemma on_mapping_ok:
  assumes "on_mapping f w = (r, w')"
  shows "repo_of w' = fst (snd (f (repo_of w) (disk w)))" and "manager_of w' = manager_of w"
    and "outside (ext w') = outside (ext w)"
  using assms by (auto simp: on_mapping_def set_ww_def Let_def split: prod.splits)

lemma on_manager_ok:
  assumes "on_manager f w = (r, w')"
  shows "manager_of w' = fst (snd (f (manager_of w) (disk w)))" and "repo_of w' = repo_of w"
    and "outside (ext w') = outside (ext w)"
  using assms by (auto simp: on_manager_def set_ww_def Let_def split: prod.splits)

lemma on_manager_parts:
  "on_manager f w = (r, w') \<Longrightarrow>
     manager_of w' = fst (snd (f (manager_of w) (disk w))) \<and> repo_of w' = repo_of w"
  by (simp add: on_manager_ok)

lemmas ww_frames = on_outside_ww on_service_ww on_mapping_ok on_manager_ok

lemma systemdManager_Add_fst [simp]:
  "fst (snd (systemdManager_Add svc mgr s)) = mgr\<lparr>services := map_put (services mgr) (svc_Name svc) (Some svc)\<rparr>"
  "fst (snd (systemdManager_Remove svc mgr s)) = mgr\<lparr>services := map_del (services mgr) (svc_Name svc)\<rparr>"
  by (simp_all add: systemdManager_Add_def systemdManager_Remove_def systemd_GetName_def split_beta Let_def)

lemma applyNetworkConfiguration_ww:
  assumes "applyNetworkConfiguration env pod w = (Ret None, w')"
  shows "the_ww w' = the_ww w" and "disk w' = disk w"
  using assms
  by (auto simp: applyNetworkConfiguration_def call_ok on_service_eq split: sum.splits if_splits)

lemma createService_ww: "createService env svc w = (Ret None, w') \<Longrightarrow> the_ww w' = the_ww w"
  unfolding createService_def by (auto simp: call_ok dest!: on_outside_ww)

lemma GenerateSystemdService_ok:
  assumes "on_outside (podman_GenerateSystemdService api bus rng name n) w = (Ret (Inr svc), w')"
  shows "svc_Name svc = name" and "systemd_serviceName svc name = DefaultServiceName name"
    and "svc_dbusConnection svc"
  using assms
  by (auto simp: on_outside_def podman_GenerateSystemdService_def NewSystemd_def NewSystemdWithSuffix_def
      systemd_serviceName_def DefaultServiceName_def split: prod.splits outcome.splits sum.splits option.splits)

lemma wrap_val_ok [simp]: "wrap_val f r = (Ret (Inr a), w) \<longleftrightarrow> r = (Ret (Inr a), w)"
  by (cases r) (auto simp: wrap_val_def split: outcome.splits sum.splits)

lemma first_pod_ok [simp]: "first_pod podIds w = (Ret (Inr p), w') \<longleftrightarrow> w' = w \<and> (\<exists>ps. podIds = p # ps)"
  by (auto simp: first_pod_def split: list.splits)

section \<open>The ports of a workload\<close>

abbreviation pod_ports :: "'p Pod \<Rightarrow> int list" where
  "pod_ports pod \<equiv> concat (map ctr_HostPorts (spec_Containers (pod_Spec pod)))"

lemma container_ports_result:
  "list_all legal_port ps \<Longrightarrow> container_ports workload container acc ps = Inr (acc @ ps)"
  "\<not> list_all legal_port ps \<Longrightarrow> \<exists>err. container_ports workload container acc ps = Inl err"
  by (induction ps arbitrary: acc) auto

lemma host_ports_result:
  "list_all legal_port (concat (map ctr_HostPorts cs)) \<Longrightarrow>
     host_ports workload acc cs = Inr (acc @ concat (map ctr_HostPorts cs))"
  "\<not> list_all legal_port (concat (map ctr_HostPorts cs)) \<Longrightarrow> \<exists>err. host_ports workload acc cs = Inl err"
proof (induction cs arbitrary: acc)
  case Nil
  { case 1 then show ?case by simp }
  { case 2 then show ?case by simp }
next
  case (Cons c cs)
  { case 1 with Cons.IH(1) show ?case by (simp add: container_ports_result(1)) }
  { case 2
    then show ?case
      using Cons.IH(2) container_ports_result [of "ctr_HostPorts c" workload "ctr_Name c" acc]
      by (cases "list_all legal_port (ctr_HostPorts c)") auto }
qed

text \<open>A list of commands, each run when the one before it succeeded.\<close>

fun run_all :: "'e exec \<Rightarrow> string list list \<Rightarrow> 'e \<Rightarrow> 'e option" where
  "run_all exec [] e = Some e"
| "run_all exec (argv # cmds) e =
     (case exec argv e of (ExecOk, e') \<Rightarrow> run_all exec cmds e' | _ \<Rightarrow> None)"

definition rule_commands :: "netfilter \<Rightarrow> string \<Rightarrow> int list \<Rightarrow> string list list" where
  "rule_commands nft workload ports =
     map (\<lambda>p. [nft_path nft, ''add'', ''rule'', ''inet'', ''edge'', workload, port_rule p]) ports"

definition port_commands :: "netfilter \<Rightarrow> string \<Rightarrow> int list \<Rightarrow> string list list" where
  "port_commands nft workload ports =
     (if ports = [] then []
      else [nft_path nft, ''add'', ''chain'', ''inet'', ''edge'', workload, ''{ type filter hook input priority 0 ; }'']
             # rule_commands nft workload ports)"

lemma add_rules_run_all:
  "add_rules exec nft workload ports e = (None, e') \<longleftrightarrow>
     run_all exec (rule_commands nft workload ports) e = Some e'"
proof (induction ports arbitrary: e)
  case Nil
  then show ?case by (auto simp: rule_commands_def)
next
  case (Cons p ps)
  obtain r e1 where r: "exec [nft_path nft, ''add'', ''rule'', ''inet'', ''edge'', workload, port_rule p] e = (r, e1)"
    by fastforce
  with Cons show ?case
    by (cases r) (simp_all add: rule_commands_def netfilter_AddRule_def netfilter_run_def family_def nfTableName_def)
qed

text \<open>
  Applying the network configuration of a pod succeeds exactly when every host port is between
  1 and 65535 and the commands that make the pod's chain and one accept rule per port, in order,
  all succeed; nothing but these commands happens. With an illegal port no command is run at all.
\<close>

theorem network_configuration_rules:
  "(applyNetworkConfiguration env workload w = (Ret None, w') \<longleftrightarrow>
      list_all (\<lambda>p. 0 < p \<and> p < 65536) (pod_ports workload) \<and>
      (\<exists>e'. run_all (env_exec env) (port_commands (nft_of w) (pod_Name workload) (pod_ports workload)) (outside (ext w))
          = Some e' \<and> w' = w\<lparr>ext := (ext w)\<lparr>outside := e'\<rparr>\<rparr>)) \<and>
   (\<not> list_all (\<lambda>p. 0 < p \<and> p < 65536) (pod_ports workload) \<longrightarrow>
      (\<exists>err. applyNetworkConfiguration env workload w = (Ret (Some err), w)))"
proof (cases "list_all legal_port (pod_ports workload)")
  case False
  then obtain err where "getHostPorts workload = Inl err"
    using host_ports_result(2) [of "spec_Containers (pod_Spec workload)"] by (auto simp: getHostPorts_def)
  with False show ?thesis
    by (auto simp: applyNetworkConfiguration_def legal_port_def [abs_def])
next
  case True
  then have g: "getHostPorts workload = Inr (pod_ports workload)"
    by (simp add: getHostPorts_def host_ports_result(1))
  let ?chain = "[nft_path (nft_of w), ''add'', ''chain'', ''inet'', ''edge'', pod_Name workload,
    ''{ type filter hook input priority 0 ; }'']"
  have chain: "netfilter_AddChain (env_exec env) (nft_of w) nfTableName (pod_Name workload) e = (None, e1)
      \<longleftrightarrow> env_exec env ?chain e = (ExecOk, e1)" for e e1
    by (simp add: netfilter_AddChain_def netfilter_run_None family_def nfTableName_def)
  have "applyNetworkConfiguration env workload w = (Ret None, w') \<longleftrightarrow>
      (\<exists>e'. run_all (env_exec env) (port_commands (nft_of w) (pod_Name workload) (pod_ports workload)) (outside (ext w))
          = Some e' \<and> w' = w\<lparr>ext := (ext w)\<lparr>outside := e'\<rparr>\<rparr>)"
  proof (cases "pod_ports workload = []")
    case True
    with g show ?thesis by (auto simp: applyNetworkConfiguration_def port_commands_def)
  next
    case False
    have "applyNetworkConfiguration env workload w = (Ret None, w') \<longleftrightarrow>
        (\<exists>e1 e'. env_exec env ?chain (outside (ext w)) = (ExecOk, e1) \<and>
           run_all (env_exec env) (rule_commands (nft_of w) (pod_Name workload) (pod_ports workload)) e1 = Some e' \<and>
           w' = w\<lparr>ext := (ext w)\<lparr>outside := e'\<rparr>\<rparr>)"
      using g False
      by (simp add: applyNetworkConfiguration_def on_service_twice chain add_rules_run_all del: concat_eq_Nil_conv)
    with False show ?thesis
      by (auto simp: port_commands_def split: prod.splits exec_result.splits)
  qed
  with True show ?thesis by (simp add: legal_port_def [abs_def])
qed

section \<open>Running a workload\<close>

text \<open>The steps of a run that succeeds.\<close>

lemma Workload_Run_steps:
  assumes "Workload_Run env workload mp ap w = (Ret None, w')"
  obtains w1 pod pods w2 w3 svc w4 w5 where
    "applyNetworkConfiguration env workload w = (Ret None, w1)"
    "on_service (podman_Run (env_podman env) mp ap) w1 = (Ret (Inr (pod # pods)), w2)"
    "on_mapping (mappingRepository_Add (env_range env) (pod_Name workload) (pr_Id pod)) w2 = (Ret None, w3)"
    "on_outside (podman_GenerateSystemdService (env_podman env) (env_dbus env) (env_range env)
       (pod_Name workload) (ww_monitoringInterval (the_ww w3))) w3 = (Ret (Inr svc), w4)"
    "createService env svc w4 = (Ret None, w5)"
    "on_manager (systemdManager_Add svc) w5 = (Ret None, w')"
  using assms unfolding Workload_Run_def by (fastforce simp: call_ok)

text \<open>
  C25: When a workload is run without error, podman has played its manifest, the workload name maps
  to the id of the first pod played and that id back to the name, and the service manager holds a
  service for it, connected to systemd and with the unit name announced in the pod's label. The
  mappings and services of other workloads are as before.
\<close>

theorem run_registers_workload:
  assumes "Workload_Run env workload manifestPath authFilePath w = (Ret None, w')"
  shows "\<exists>e1 pod pods e2 svc.
     podman_Run (env_podman env) manifestPath authFilePath e1 = (Inr (pod # pods), e2) \<and>
     mappingRepository_GetId (repo_of w') (pod_Name workload) = pr_Id pod \<and>
     mappingRepository_GetName (repo_of w') (pr_Id pod) = pod_Name workload \<and>
     systemdManager_Get (manager_of w') (pod_Name workload) = Some (Some svc) \<and>
     systemd_serviceName svc (systemd_GetName svc) = DefaultServiceName (pod_Name workload) \<and>
     svc_dbusConnection svc \<and>
     (\<forall>name. name \<noteq> pod_Name workload \<longrightarrow>
        mappingRepository_GetId (repo_of w') name = mappingRepository_GetId (repo_of w) name \<and>
        systemdManager_Get (manager_of w') name = systemdManager_Get (manager_of w) name)"
proof -
  let ?n = "pod_Name workload"
  from assms obtain w1 pod pods w2 w3 svc w4 w5 where steps:
    "applyNetworkConfiguration env workload w = (Ret None, w1)"
    "on_service (podman_Run (env_podman env) manifestPath authFilePath) w1 = (Ret (Inr (pod # pods)), w2)"
    "on_mapping (mappingRepository_Add (env_range env) ?n (pr_Id pod)) w2 = (Ret None, w3)"
    "on_outside (podman_GenerateSystemdService (env_podman env) (env_dbus env) (env_range env)
       ?n (ww_monitoringInterval (the_ww w3))) w3 = (Ret (Inr svc), w4)"
    "createService env svc w4 = (Ret None, w5)"
    "on_manager (systemdManager_Add svc) w5 = (Ret None, w')"
    by (rule Workload_Run_steps)
  note frames = applyNetworkConfiguration_ww(1) [OF steps(1)] on_service_ww [OF steps(2)] on_mapping_ok [OF steps(3)]
    on_outside_ww [OF steps(4)] createService_ww [OF steps(5)] on_manager_ok [OF steps(6)]
  have repo: "repo_of w' = mem_Add ?n (pr_Id pod) (repo_of w)"
    and mgr: "manager_of w' = (manager_of w)\<lparr>services := map_put (services (manager_of w)) ?n (Some svc)\<rparr>"
    using frames GenerateSystemdService_ok(1) [OF steps(4)] by simp_all
  show ?thesis
    using on_service_ret [OF steps(2)] GenerateSystemdService_ok [OF steps(4)]
    unfolding repo mgr by (fastforce simp: mapping_ops systemdManager_Get_def systemd_GetName_def)
qed

text \<open>A played manifest that yields no pod crashes the worker, whatever else is the case.\<close>

lemma run_without_pods_panics:
  assumes "applyNetworkConfiguration env workload w = (Ret None, w1)"
    and "podman_Run (env_podman env) manifestPath authFilePath (outside (ext w1)) = (Inr [], e2)"
  shows "fst (Workload_Run env workload manifestPath authFilePath w) = Panic"
  using assms by (simp add: Workload_Run_def on_service_eq first_pod_def)

section \<open>Removing a workload\<close>

definition named_services :: "systemdManager \<Rightarrow> bool" where
  "named_services mgr \<longleftrightarrow> (\<forall>name svc. systemdManager_Get mgr name = Some (Some svc) \<longrightarrow> svc_Name svc = name)"

lemma removeService_ok:
  assumes "removeService env name w = (Ret None, w')" and "named_services (manager_of w)"
  shows "manager_of w' = (manager_of w)\<lparr>services := map_del (services (manager_of w)) name\<rparr>"
    and "repo_of w' = repo_of w"
proof -
  have "manager_of w' = (manager_of w)\<lparr>services := map_del (services (manager_of w)) name\<rparr> \<and> repo_of w' = repo_of w"
  proof (cases "systemdManager_Get (manager_of w) name")
    case None
    then have "map_del (services (manager_of w)) name = services (manager_of w)"
      by (simp add: systemdManager_Get_def map_of_eq_None_iff delete_id)
    with None assms(1) show ?thesis by (simp add: removeService_def)
  next
    case (Some x)
    then obtain svc where svc: "x = Some svc"
      using assms(1) by (cases x) (auto simp: removeService_def)
    with Some assms(2) have "svc_Name svc = name"
      by (auto simp: named_services_def)
    then show ?thesis
      using Some svc assms(1)
      by (auto simp: removeService_def call_ok dest!: on_outside_ww on_manager_parts)
  qed
  then show "manager_of w' = (manager_of w)\<lparr>services := map_del (services (manager_of w)) name\<rparr>"
    and "repo_of w' = repo_of w" by simp_all
qed

text \<open>
  C26: When a workload is removed without error, its name maps to no pod and has no service, podman
  was asked to remove the pod the name stood for, and the pods and services of other workloads are
  as before.
\<close>

theorem remove_forgets_workload:
  assumes "Workload_Remove env workloadName w = (Ret None, w')" and "named_services (manager_of w)"
  shows "mappingRepository_GetId (repo_of w') workloadName = [] \<and>
    systemdManager_Get (manager_of w') workloadName = None \<and>
    (\<exists>e1 e2. podman_Remove (env_podman env) (pod_id_or_name (repo_of w) workloadName) e1 = (None, e2)) \<and>
    (\<forall>name. name \<noteq> workloadName \<longrightarrow>
       mappingRepository_GetId (repo_of w') name = mappingRepository_GetId (repo_of w) name \<and>
       systemdManager_Get (manager_of w') name = systemdManager_Get (manager_of w) name)"
proof -
  from assms(1) obtain w1 w2 r w3 where steps:
    "removeService env workloadName w = (Ret None, w1)"
    "on_service (podman_Remove (env_podman env) (pod_id_or_name (repo_of w) workloadName)) w1 = (Ret None, w2)"
    "on_service (netfilter_DeleteChain (env_exec env) (nft_of w2) nfTableName workloadName) w2 = (r, w3)"
    "on_mapping (mappingRepository_Remove (env_range env) workloadName) w3 = (Ret None, w')"
    unfolding Workload_Remove_def by (fastforce simp: call_ok Let_def)
  note frames = removeService_ok [OF steps(1) assms(2)] on_service_ww [OF steps(2)] on_service_ww [OF steps(3)]
    on_mapping_ok [OF steps(4)]
  have "repo_of w' = mem_Remove workloadName (repo_of w)"
    and "manager_of w' = (manager_of w)\<lparr>services := map_del (services (manager_of w)) workloadName\<rparr>"
    using frames by simp_all
  then show ?thesis
    using on_service_ret [OF steps(2)] by (auto simp: mapping_ops systemdManager_Get_def Let_def)
qed

text \<open>
  A service that was read back from \<open>services.json\<close> has no connection to systemd, so removing
  its workload panics before anything is stopped or removed.
\<close>

theorem remove_reloaded_service_panics:
  assumes "systemdManager_Get (manager_of w) workloadName = Some (Some (forgetful svc))"
  shows "Workload_Remove env workloadName w = (Panic, w)"
proof -
  have "on_outside (systemd_Stop (env_dbus env) (forgetful svc)) w = (Panic, w)"
    by (simp add: on_outside_def no_connection_panics)
  then show ?thesis
    using assms by (simp add: Workload_Remove_def removeService_def Let_def)
qed

section \<open>A concrete environment\<close>

text \<open>
  Services that accept every request: podman plays one pod, systemd finishes every job. The
  external state is the list of the commands given to \<open>nft\<close>.
\<close>

definition calm_podman :: "'e podman_api" where
  "calm_podman = \<lparr>bindings_NewConnection = \<lambda>e. (None, e), pods_List = \<lambda>e. (Inr [], e),
     pods_Exists = \<lambda>_ e. (Inr True, e), pods_Remove = \<lambda>_ _ e. (None, e),
     pods_Inspect = \<lambda>i e. (Inr \<lparr>info_Name = i, info_Containers = []\<rparr>, e),
     pods_Stop = \<lambda>_ _ e. (None, e), pods_Start = \<lambda>_ e. (None, e),
     containers_Inspect = \<lambda>i e. (Inr \<lparr>data_Name = i, data_Networks = []\<rparr>, e),
     play_Kube = \<lambda>_ _ e. (Inr [\<lparr>played_ID = ''id2'', played_Containers = []\<rparr>], e),
     secrets_List = \<lambda>e. (Inr [], e), secrets_Remove = \<lambda>_ e. (None, e), secrets_Create = \<lambda>_ _ e. (None, e),
     generate_Systemd = \<lambda>_ _ _ e. (Inr [(''pod-web_pod'', ''[Unit]'')], e)\<rparr>"

definition calm_dbus :: "'e dbus_api" where
  "calm_dbus = \<lparr>dbus_Connect = \<lambda>e. (None, e), dbus_Reload = \<lambda>e. (None, e),
     dbus_StartUnit = \<lambda>_ e. (Inr ''done'', e), dbus_StopUnit = \<lambda>_ e. (Inr ''done'', e),
     dbus_EnableUnitFiles = \<lambda>_ e. (None, e), dbus_DisableUnitFiles = \<lambda>_ e. (None, e)\<rparr>"

definition calm_env :: "(string list list) env" where
  "calm_env = \<lparr>env_podman = calm_podman, env_dbus = calm_dbus, env_exec = \<lambda>argv e. (ExecOk, e @ [argv]),
     env_LookPath = \<lambda>c. Inr (''/usr/sbin/'' @ c), env_range = \<lambda>m. m\<rparr>"

definition web_pod :: "unit Pod" where
  "web_pod = \<lparr>pod_Kind = ''Pod'', pod_Name = ''web'', pod_Labels = [],
     pod_Spec = \<lparr>spec_Volumes = [],
       spec_Containers = [\<lparr>ctr_Name = ''nginx'', ctr_HostPorts = [80, 443], ctr_VolumeMounts = [], ctr_Env = [], ctr_other = ()\<rparr>],
       spec_other = ()\<rparr>\<rparr>"

definition calm_world :: "(systemd option) list \<Rightarrow> (unit, string list list) wworld" where
  "calm_world svcs = \<lparr>disk = fs_of [(''/d'', Dir), (''/etc/systemd/system'', Dir)],
     ext = \<lparr>wrapper = NewWorkload \<lparr>timeoutForStopping = 5\<rparr> \<lparr>nft_path = ''nft''\<rparr> example_repo
              \<lparr>svcFilePath = ''/d/services.json'', services = map (\<lambda>s. (''web'', s)) svcs\<rparr> 15,
            outside = []\<rparr>\<rparr>"

lemma calm_run: "fst (Workload_Run calm_env web_pod ''/d/m'' [] (calm_world [])) = Ret None"
  by code_simp

lemma calm_remove: "fst (Workload_Remove calm_env ''web'' (calm_world [])) = Ret None"
  by code_simp

theorem network_configuration_rules_witness:
  "applyNetworkConfiguration calm_env web_pod (calm_world []) = (Ret None, (calm_world [])\<lparr>ext :=
     (ext (calm_world []))\<lparr>outside := port_commands (nft_of (calm_world [])) ''web'' [80, 443]\<rparr>\<rparr>) \<and>
   (let bad = web_pod\<lparr>pod_Spec := (pod_Spec web_pod)\<lparr>spec_Containers :=
                [(hd (spec_Containers (pod_Spec web_pod)))\<lparr>ctr_HostPorts := [80, 0]\<rparr>]\<rparr>\<rparr>
    in \<exists>err. applyNetworkConfiguration calm_env bad (calm_world []) = (Ret (Some err), calm_world []))"
proof -
  have "run_all (env_exec calm_env) cmds e = Some (e @ cmds)" for cmds e
    by (induction cmds arbitrary: e) (auto simp: calm_env_def)
  then have "applyNetworkConfiguration calm_env web_pod (calm_world []) = (Ret None, (calm_world [])\<lparr>ext :=
     (ext (calm_world []))\<lparr>outside := port_commands (nft_of (calm_world [])) ''web'' [80, 443]\<rparr>\<rparr>)"
    by (intro iffD2 [OF conjunct1 [OF network_configuration_rules]]) (simp add: web_pod_def calm_world_def)
  then show ?thesis
    by (auto simp: Let_def web_pod_def intro!: mp [OF conjunct2 [OF network_configuration_rules]])
qed

theorem run_registers_workload_witness:
  "mappingRepository_GetId (repo_of (snd (Workload_Run calm_env web_pod ''/d/m'' [] (calm_world [])))) ''web'' = ''id2''"
proof -
  have "Workload_Run calm_env web_pod ''/d/m'' [] (calm_world []) =
      (Ret None, snd (Workload_Run calm_env web_pod ''/d/m'' [] (calm_world [])))"
    using calm_run by (simp add: prod_eq_iff)
  from run_registers_workload [OF this] obtain e1 pod pods e2 where
    "podman_Run (env_podman calm_env) ''/d/m'' [] e1 = (Inr (pod # pods), e2)"
    "mappingRepository_GetId (repo_of (snd (Workload_Run calm_env web_pod ''/d/m'' [] (calm_world [])))) ''web'' = pr_Id pod"
    by (auto simp: web_pod_def)
  then show ?thesis
    by (auto simp: calm_env_def calm_podman_def podman_Run_def)
qed

theorem remove_forgets_workload_witness:
  "mappingRepository_GetId (repo_of (snd (Workload_Remove calm_env ''web'' (calm_world [])))) ''web'' = []"
proof -
  have "Workload_Remove calm_env ''web'' (calm_world []) = (Ret None, snd (Workload_Remove calm_env ''web'' (calm_world [])))"
    using calm_remove by (simp add: prod_eq_iff)
  moreover have "named_services (manager_of (calm_world []))"
    by (simp add: named_services_def systemdManager_Get_def calm_world_def NewWorkload_def)
  ultimately show ?thesis
    using remove_forgets_workload by blast
qed

theorem remove_reloaded_service_panics_witness:
  "Workload_Remove calm_env ''web'' (calm_world [Some (forgetful example_service)]) =
     (Panic, calm_world [Some (forgetful example_service)])"
  by (rule remove_reloaded_service_panics [of _ _ example_service])
    (simp add: systemdManager_Get_def calm_world_def NewWorkload_def)

end
