(* ===== verification/Workload_Manager.thy ===== *)
theory Workload_Manager
  imports Wrapper
begin

text \<open>
  \<open>internal/workload/manager.go\<close> and \<open>internal/volumes\<close>: the manager that brings the workloads of the
  device to the configured ones. It keeps one directory per workload with the manifest and the
  registry credentials last deployed, and calls a \<open>WorkloadWrapper\<close>; the interface is a record of
  functions on the disk and the wrapper's own state.
\<close>

record ('p, 'x) WorkloadWrapper =
  Wr_Init :: "'x world \<Rightarrow> (error option, 'x world) call"
  Wr_List :: "'x world \<Rightarrow> (error + WorkloadInfo list, 'x world) call"
  Wr_Remove :: "string \<Rightarrow> 'x world \<Rightarrow> (error option, 'x world) call"
  Wr_Stop :: "string \<Rightarrow> 'x world \<Rightarrow> (error option, 'x world) call"
  Wr_Run :: "'p Pod \<Rightarrow> string \<Rightarrow> string \<Rightarrow> 'x world \<Rightarrow> (error option, 'x world) call"
  Wr_RemoveTable :: "'x world \<Rightarrow> (error option, 'x world) call"
  Wr_RemoveMappingFile :: "'x world \<Rightarrow> (error option, 'x world) call"
  Wr_RemoveServicesFile :: "'x world \<Rightarrow> (error option, 'x world) call"
  Wr_ListSecrets :: "'x world \<Rightarrow> (error + (string, unit) gomap, 'x world) call"
  Wr_RemoveSecret :: "string \<Rightarrow> 'x world \<Rightarrow> (error option, 'x world) call"
  Wr_CreateSecret :: "string \<Rightarrow> string \<Rightarrow> 'x world \<Rightarrow> (error option, 'x world) call"
  Wr_UpdateSecret :: "string \<Rightarrow> string \<Rightarrow> 'x world \<Rightarrow> (error option, 'x world) call"

text \<open>The wrapper the program uses, \<open>Workload\<close>.\<close>

definition workload_wrapper :: "'e env \<Rightarrow> ('p, ('o, 'e) process) WorkloadWrapper" where
  "workload_wrapper env =
     \<lparr>Wr_Init = Workload_Init env, Wr_List = Workload_List env, Wr_Remove = Workload_Remove env,
      Wr_Stop = Workload_Stop env, Wr_Run = Workload_Run env, Wr_RemoveTable = Workload_RemoveTable env,
      Wr_RemoveMappingFile = Workload_RemoveMappingFile, Wr_RemoveServicesFile = Workload_RemoveServicesFile,
      Wr_ListSecrets = Workload_ListSecrets env, Wr_RemoveSecret = Workload_RemoveSecret env,
      Wr_CreateSecret = Workload_CreateSecret env, Wr_UpdateSecret = Workload_UpdateSecret env\<rparr>"

text \<open>\<open>sigs.k8s.io/yaml\<close> on the types the manager uses, and the order of \<open>range\<close> over its maps.\<close>

record 'p mgr_env =
  yaml_Unmarshal :: "string \<Rightarrow> error + 'p PodSpec"
  yaml_Marshal :: "'p Pod \<Rightarrow> error + string"
  range_infos :: "(string, WorkloadInfo) gomap \<Rightarrow> (string \<times> WorkloadInfo) list"
  range_names :: "(string, unit) gomap \<Rightarrow> (string \<times> unit) list"

record WorkloadManager =
  workloadsDir :: string
  volumesDir :: string
  deregistered :: bool
  eventsQueue :: "EventInfo list"
  deviceId :: string

record 'x mworld =
  wm :: WorkloadManager
  out :: "'x world"

definition on_out :: "('x world \<Rightarrow> ('a, 'x world) call) \<Rightarrow> 'x mworld \<Rightarrow> ('a, 'x mworld) call" where
  "on_out f m = (case f (out m) of (r, w) \<Rightarrow> (r, m\<lparr>out := w\<rparr>))"

definition AuthFileName :: string where
  "AuthFileName = ''auth.json''"

definition WorkloadFileName :: string where
  "WorkloadFileName = ''workload.yaml''"

definition defaultWorkloadsMonitoringInterval :: nat where
  "defaultWorkloadsMonitoringInterval = 15"

section \<open>Volumes\<close>

definition HostPathVolumePath :: "string \<Rightarrow> string \<Rightarrow> string" where
  "HostPathVolumePath vols workloadName = path_Join [vols, workloadName]"

definition HostPathVolume :: "string \<Rightarrow> string \<Rightarrow> 'p Volume" where
  "HostPathVolume vols workloadName =
     HostPath (''export-'' @ workloadName) ''DirectoryOrCreate'' (HostPathVolumePath vols workloadName)"

section \<open>Paths\<close>

definition getWorkloadDirPath :: "WorkloadManager \<Rightarrow> string \<Rightarrow> string" where
  "getWorkloadDirPath w workloadName = path_Join [workloadsDir w, strings_ReplaceAll workloadName '' '' ''-'']"

definition getAuthFilePath :: "WorkloadManager \<Rightarrow> string \<Rightarrow> string" where
  "getAuthFilePath w workloadName = path_Join [getWorkloadDirPath w workloadName, AuthFileName]"

definition getManifestPath :: "WorkloadManager \<Rightarrow> string \<Rightarrow> string" where
  "getManifestPath w workloadName = path_Join [getWorkloadDirPath w workloadName, WorkloadFileName]"

definition GetExportedHostPath :: "WorkloadManager \<Rightarrow> string \<Rightarrow> string" where
  "GetExportedHostPath w workloadName = HostPathVolumePath (volumesDir w) workloadName"

definition GetDeviceID :: "WorkloadManager \<Rightarrow> string" where
  "GetDeviceID w = deviceId w"

section \<open>Construction\<close>

definition NewWorkloadManagerWithParamsAndInterval ::
  "('p, 'x) WorkloadWrapper \<Rightarrow> string \<Rightarrow> string \<Rightarrow> 'x world \<Rightarrow> (error + WorkloadManager, 'x world) call" where
  "NewWorkloadManagerWithParamsAndInterval ww dataDir devId w =
     (let wdir = path_Join [dataDir, ''workloads'']; vdir = path_Join [dataDir, ''volumes''] in
      case MkdirAll (disk w) wdir of
        (Some err, s1) \<Rightarrow> (Ret (Inl (Errorf ''cannot create directory: %w'' [error_string err])), w\<lparr>disk := s1\<rparr>)
      | (None, s1) \<Rightarrow>
          (case MkdirAll s1 vdir of
             (Some err, s2) \<Rightarrow> (Ret (Inl (Errorf ''cannot create directory: %w'' [error_string err])), w\<lparr>disk := s2\<rparr>)
           | (None, s2) \<Rightarrow>
               (case Wr_Init ww (w\<lparr>disk := s2\<rparr>) of
                  (Ret (Some err), w') \<Rightarrow> (Ret (Inl err), w')
                | (Ret None, w') \<Rightarrow>
                    (Ret (Inr \<lparr>workloadsDir = wdir, volumesDir = vdir, deregistered = False,
                                eventsQueue = [], deviceId = devId\<rparr>), w')
                | (Panic, w') \<Rightarrow> (Panic, w'))))"

text \<open>
  \<open>NewWorkloadManager\<close> on the program's wrapper: the world outside gains the process state.
\<close>

definition NewWorkloadManager ::
  "'e env \<Rightarrow> string \<Rightarrow> string \<Rightarrow> 'e world \<Rightarrow> (error + ('o, 'e) process mworld, 'e world) call" where
  "NewWorkloadManager env dataDir devId w =
     (case newWorkloadInstance env dataDir defaultWorkloadsMonitoringInterval w of
        (Ret (Inl err), w1) \<Rightarrow> (Ret (Inl err), w1)
      | (Ret (Inr (wrap, _)), w1) \<Rightarrow>
          (case NewWorkloadManagerWithParamsAndInterval (workload_wrapper env) dataDir devId
                  \<lparr>disk = disk w1, ext = \<lparr>wrapper = wrap, outside = ext w1\<rparr>\<rparr> of
             (Ret (Inl err), w2) \<Rightarrow> (Ret (Inl err), \<lparr>disk = disk w2, ext = outside (ext w2)\<rparr>)
           | (Ret (Inr mgr), w2) \<Rightarrow>
               (Ret (Inr \<lparr>wm = mgr, out = w2\<rparr>), \<lparr>disk = disk w2, ext = outside (ext w2)\<rparr>)
           | (Panic, w2) \<Rightarrow> (Panic, \<lparr>disk = disk w2, ext = outside (ext w2)\<rparr>))
      | (Panic, w1) \<Rightarrow> (Panic, w1))"

section \<open>Files\<close>

definition ensureWorkloadDirExists :: "WorkloadManager \<Rightarrow> string \<Rightarrow> fs \<Rightarrow> error option \<times> fs" where
  "ensureWorkloadDirExists w workloadName s =
     (let workloadDirPath = getWorkloadDirPath w workloadName
      in if os_Stat s workloadDirPath \<noteq> None then MkdirAll s workloadDirPath else (None, s))"

definition storeFile :: "string \<Rightarrow> string \<Rightarrow> fs \<Rightarrow> error option \<times> fs" where
  "storeFile filePath c s = WriteFile s filePath c"

definition deleteDir :: "string \<Rightarrow> fs \<Rightarrow> error option \<times> fs" where
  "deleteDir p s = RemoveAll s p"

definition deleteFile :: "string \<Rightarrow> fs \<Rightarrow> error option \<times> fs" where
  "deleteFile file s =
     (case os_Remove s file of
        (Some err, s') \<Rightarrow> (if \<not> os_IsNotExist err then (Some err, s') else (None, s'))
      | (None, s') \<Rightarrow> (None, s'))"

definition manageAuthFile :: "string \<Rightarrow> string \<Rightarrow> fs \<Rightarrow> (error + string) \<times> fs" where
  "manageAuthFile authFilePath authFile s =
     (if authFile = [] then
        (case deleteFile authFilePath s of
           (Some err, s') \<Rightarrow> (Inl (Errorf ''cannot remove auth file %s: %s'' [authFilePath, error_string err]), s')
         | (None, s') \<Rightarrow> (Inr [], s'))
      else
        (case storeFile authFilePath authFile s of
           (Some err, s') \<Rightarrow> (Inl (Errorf ''cannot store auth file %s: %s'' [authFilePath, error_string err]), s')
         | (None, s') \<Rightarrow> (Inr authFilePath, s')))"

definition podModified :: "fs \<Rightarrow> string \<Rightarrow> string \<Rightarrow> bool" where
  "podModified s manifestPath podYaml =
     (case ReadFile s manifestPath of Inl _ \<Rightarrow> True | Inr file \<Rightarrow> file \<noteq> podYaml)"

definition podAuthModified :: "fs \<Rightarrow> string \<Rightarrow> string \<Rightarrow> bool" where
  "podAuthModified s authPath auth =
     (if os_Stat s authPath \<noteq> None then auth \<noteq> []
      else case ReadFile s authPath of Inl _ \<Rightarrow> True | Inr file \<Rightarrow> file \<noteq> auth)"

definition podConfigurationModified :: "fs \<Rightarrow> string \<Rightarrow> string \<Rightarrow> string \<Rightarrow> string \<Rightarrow> bool" where
  "podConfigurationModified s manifestPath podYaml authPath auth \<longleftrightarrow>
     podModified s manifestPath podYaml \<or> podAuthModified s authPath auth"

section \<open>From the configured workload to a pod\<close>

definition auth_of :: "Workload_model \<Rightarrow> string" where
  "auth_of workload = (case wl_ImageRegistries workload of None \<Rightarrow> [] | Some ir \<Rightarrow> ir_AuthFile ir)"

text \<open>
  The labels of the pod are the map of the configured workload itself, not a copy, unless that map
  is nil: what is stored under a label is stored in the configuration as well.
\<close>

definition pod_labels :: "WorkloadManager \<Rightarrow> Workload_model \<Rightarrow> (string, string) gomap" where
  "pod_labels w workload =
     (let l0 = (case wl_Labels workload of None \<Rightarrow> [] | Some l \<Rightarrow> l);
          l1 = (if auth_of workload \<noteq> []
                then map_put l0 ''io.containers.autoupdate.authfile'' (getAuthFilePath w (wl_Name workload)) else l0)
      in if list_ex (\<lambda>(l, _). strings_Contains l ''io.containers.autoupdate'') l1
         then map_put l1 ''PODMAN_SYSTEMD_UNIT'' (DefaultServiceName (wl_Name workload)) else l1)"

definition export_container :: "WorkloadManager \<Rightarrow> string \<Rightarrow> 'p Container \<Rightarrow> 'p Container" where
  "export_container w volume c =
     c\<lparr>ctr_VolumeMounts := ctr_VolumeMounts c @ [(volume, ''/export'')],
       ctr_Env := ctr_Env c @ [(''DEVICE_ID'', deviceId w)]\<rparr>"

definition toPod :: "'p mgr_env \<Rightarrow> WorkloadManager \<Rightarrow> Workload_model \<Rightarrow> error + 'p Pod" where
  "toPod env w workload =
     (case yaml_Unmarshal env (wl_Specification workload) of
        Inl err \<Rightarrow> Inl err
      | Inr podSpec \<Rightarrow>
          Inr \<lparr>pod_Kind = ''Pod'', pod_Name = wl_Name workload, pod_Labels = pod_labels w workload,
               pod_Spec = podSpec\<lparr>
                 spec_Volumes := spec_Volumes podSpec @ [HostPathVolume (volumesDir w) (wl_Name workload)],
                 spec_Containers := map (export_container w (''export-'' @ wl_Name workload)) (spec_Containers podSpec)\<rparr>\<rparr>)"

text \<open>The workload of the configuration after \<open>toPod\<close> has written to its labels.\<close>

definition after_toPod :: "'p mgr_env \<Rightarrow> WorkloadManager \<Rightarrow> Workload_model \<Rightarrow> Workload_model" where
  "after_toPod env w workload =
     (case (yaml_Unmarshal env (wl_Specification workload), wl_Labels workload) of
        (Inr _, Some _) \<Rightarrow> workload\<lparr>wl_Labels := Some (pod_labels w workload)\<rparr>
      | _ \<Rightarrow> workload)"

definition toPodYaml :: "'p mgr_env \<Rightarrow> 'p Pod \<Rightarrow> string list \<Rightarrow> error + string" where
  "toPodYaml env pod configmaps =
     (let sep = ''---'' @ [newline] in
      case yaml_Marshal env pod of
        Inl err \<Rightarrow> Inl err
      | Inr podYaml \<Rightarrow> Inr (strings_Join [podYaml, if configmaps = [] then [] else strings_Join configmaps sep] sep))"

section \<open>Secrets\<close>

text \<open>
  Errors are collected, no failure ends the loop. A secret of the device that is configured is
  updated and struck off the list; what remains of the list is removed.
\<close>

fun put_secrets ::
  "('p, 'x) WorkloadWrapper \<Rightarrow> Secret list \<Rightarrow> (string, unit) gomap \<Rightarrow> error list \<Rightarrow> 'x world \<Rightarrow>
   (error list \<times> (string, unit) gomap, 'x world) call" where
  "put_secrets ww [] deviceSecrets errs w = (Ret (errs, deviceSecrets), w)"
| "put_secrets ww (c # cs) deviceSecrets errs w =
     (let known = map_of deviceSecrets (sec_Name c) \<noteq> None;
          r = (if known then Wr_UpdateSecret ww (sec_Name c) (sec_Data c) w
               else Wr_CreateSecret ww (sec_Name c) (sec_Data c) w);
          deviceSecrets' = (if known then map_del deviceSecrets (sec_Name c) else deviceSecrets)
      in case r of
           (Ret None, w') \<Rightarrow> put_secrets ww cs deviceSecrets' errs w'
         | (Ret (Some err), w') \<Rightarrow> put_secrets ww cs deviceSecrets' (errs @ [err]) w'
         | (Panic, w') \<Rightarrow> (Panic, w'))"

fun remove_secrets ::
  "('p, 'x) WorkloadWrapper \<Rightarrow> string list \<Rightarrow> error list \<Rightarrow> 'x world \<Rightarrow> (error list, 'x world) call" where
  "remove_secrets ww [] errs w = (Ret errs, w)"
| "remove_secrets ww (n # ns) errs w =
     (case Wr_RemoveSecret ww n w of
        (Ret None, w') \<Rightarrow> remove_secrets ww ns errs w'
      | (Ret (Some err), w') \<Rightarrow> remove_secrets ww ns (errs @ [err]) w'
      | (Panic, w') \<Rightarrow> (Panic, w'))"

definition updateSecrets ::
  "'p mgr_env \<Rightarrow> ('p, 'x) WorkloadWrapper \<Rightarrow> Secret list \<Rightarrow> 'x world \<Rightarrow> (error list, 'x world) call" where
  "updateSecrets env ww configSecrets w =
     (case Wr_ListSecrets ww w of
        (Ret (Inl err), w1) \<Rightarrow> (Ret [err], w1)
      | (Ret (Inr deviceSecrets), w1) \<Rightarrow>
          (case put_secrets ww configSecrets deviceSecrets [] w1 of
             (Ret (errs, rest), w2) \<Rightarrow> remove_secrets ww (map fst (range_names env rest)) errs w2
           | (Panic, w2) \<Rightarrow> (Panic, w2))
      | (Panic, w1) \<Rightarrow> (Panic, w1))"

section \<open>Deploying one workload\<close>

text \<open>\<open>Run\<close>, with the event that is queued when it fails.\<close>

definition run_pod ::
  "('p, 'x) WorkloadWrapper \<Rightarrow> 'p Pod \<Rightarrow> string \<Rightarrow> string \<Rightarrow> 'x mworld \<Rightarrow> (error option, 'x mworld) call" where
  "run_pod ww pod manifestPath authFilePath m =
     (case on_out (Wr_Run ww pod manifestPath authFilePath) m of
        (Ret (Some err), m') \<Rightarrow>
          (Ret (Some (Errorf ''cannot run workload '%s': %s'' [pod_Name pod, error_string err])),
           m'\<lparr>wm := (wm m')\<lparr>eventsQueue := eventsQueue (wm m') @
              [\<lparr>ev_Message = error_string err, ev_Reason = ''Failed'', ev_Type = EventInfoTypeWarn\<rparr>]\<rparr>\<rparr>)
      | r \<Rightarrow> r)"

text \<open>The body of the loop of \<open>Update\<close>: the error it appends, or none.\<close>

definition deploy_workload ::
  "'p mgr_env \<Rightarrow> ('p, 'x) WorkloadWrapper \<Rightarrow> Workload_model \<Rightarrow> 'x mworld \<Rightarrow> (error option, 'x mworld) call" where
  "deploy_workload env ww workload m =
     (let name = wl_Name workload; manifestPath = getManifestPath (wm m) name;
          authFilePath = getAuthFilePath (wm m) name; authFile = auth_of workload in
      case toPod env (wm m) workload of
        Inl err \<Rightarrow>
          (Ret (Some (Errorf ''cannot convert workload '%s' to pod. DeviceID: %s; err: %v''
                        [name, error_string err, deviceId (wm m)])), m)
      | Inr pod \<Rightarrow>
          check (wrap_err (\<lambda>err. Errorf ''cannot create workload directory for workload '%s': %s'' [name, error_string err])
                   (on_out (on_disk (ensureWorkloadDirExists (wm m) name)) m)) (\<lambda>m.
          case toPodYaml env pod (wl_Configmaps workload) of
            Inl err \<Rightarrow>
              (Ret (Some (Errorf ''cannot create pod's Yaml. DeviceID: %s; err:  %v'' [deviceId (wm m), error_string err])), m)
          | Inr podYaml \<Rightarrow>
              if \<not> podConfigurationModified (disk (out m)) manifestPath podYaml authFilePath authFile then (Ret None, m)
              else
                check (wrap_err (\<lambda>err. Errorf ''cannot store manifest for workload '%s': %s'' [name, error_string err])
                         (on_out (on_disk (storeFile manifestPath podYaml)) m)) (\<lambda>m.
                check_val (wrap_val (\<lambda>err. Errorf ''cannot store auth configuration for workload '%s': %s'' [name, error_string err])
                         (on_out (on_disk (manageAuthFile authFilePath authFile)) m)) (\<lambda>authFilePath' m.
                check (wrap_err (\<lambda>err. Errorf ''error removing workload %s: %s'' [name, error_string err])
                         (on_out (Wr_Remove ww name) m)) (\<lambda>m.
                run_pod ww pod manifestPath authFilePath' m)))))"

section \<open>Update\<close>

text \<open>
  All workloads in order, whatever the errors so far; the workloads come back as \<open>toPod\<close> has left
  them.
\<close>

fun deploy_all ::
  "'p mgr_env \<Rightarrow> ('p, 'x) WorkloadWrapper \<Rightarrow> Workload_model list \<Rightarrow> error list \<Rightarrow> 'x mworld \<Rightarrow> (error list, 'x mworld) call" where
  "deploy_all env ww [] errors m = (Ret errors, m)"
| "deploy_all env ww (workload # workloads) errors m =
     (case deploy_workload env ww workload m of
        (Ret None, m') \<Rightarrow> deploy_all env ww workloads errors m'
      | (Ret (Some err), m') \<Rightarrow> deploy_all env ww workloads (multierror_Append errors err) m'
      | (Panic, m') \<Rightarrow> (Panic, m'))"

definition indexWorkloads ::
  "('p, 'x) WorkloadWrapper \<Rightarrow> 'x world \<Rightarrow> (error + (string, WorkloadInfo) gomap, 'x world) call" where
  "indexWorkloads ww w =
     (case Wr_List ww w of
        (Ret (Inl err), w') \<Rightarrow> (Ret (Inl err), w')
      | (Ret (Inr workloads), w') \<Rightarrow> (Ret (Inr (map_fill [] (map (\<lambda>i. (wi_Name i, i)) workloads))), w')
      | (Panic, w') \<Rightarrow> (Panic, w'))"

fun remove_stale ::
  "('p, 'x) WorkloadWrapper \<Rightarrow> WorkloadManager \<Rightarrow> string list \<Rightarrow> string list \<Rightarrow> error list \<Rightarrow> 'x world \<Rightarrow> (error list, 'x world) call" where
  "remove_stale ww mgr configured [] errors w = (Ret errors, w)"
| "remove_stale ww mgr configured (name # names) errors w =
     (if name \<in> set configured then remove_stale ww mgr configured names errors w
      else
        (let (e1, s1) = deleteDir (getWorkloadDirPath mgr name) (disk w);
             errors1 = (case e1 of None \<Rightarrow> errors
                        | Some err \<Rightarrow> multierror_Append errors
                            (Errorf ''cannot remove existing workload directory: %s'' [error_string err]))
         in case Wr_Remove ww name (w\<lparr>disk := s1\<rparr>) of
              (Ret None, w') \<Rightarrow> remove_stale ww mgr configured names errors1 w'
            | (Ret (Some err), w') \<Rightarrow>
                remove_stale ww mgr configured names (multierror_Append errors1
                  (Errorf ''cannot remove stale workload name='%s': %s'' [name, error_string err])) w'
            | (Panic, w') \<Rightarrow> (Panic, w')))"

definition drop_unconfigured ::
  "'p mgr_env \<Rightarrow> ('p, 'x) WorkloadWrapper \<Rightarrow> string list \<Rightarrow> error list \<Rightarrow> 'x mworld \<Rightarrow> (error list, 'x mworld) call" where
  "drop_unconfigured env ww configured errors m =
     (case on_out (indexWorkloads ww) m of
        (Ret (Inl err), m1) \<Rightarrow>
          (Ret (multierror_Append errors (Errorf ''cannot get deployed workloads: %s'' [error_string err])), m1)
      | (Ret (Inr deployed), m1) \<Rightarrow>
          on_out (remove_stale ww (wm m1) configured (map fst (range_infos env deployed)) errors) m1
      | (Panic, m1) \<Rightarrow> (Panic, m1))"

text \<open>\<open>Update\<close> on the secrets and workloads of the configuration; the other fields are not read.\<close>

definition WorkloadManager_Update ::
  "'p mgr_env \<Rightarrow> ('p, 'x) WorkloadWrapper \<Rightarrow> DeviceConfigurationMessage \<Rightarrow> 'x mworld \<Rightarrow> (error option, 'x mworld) call" where
  "WorkloadManager_Update env ww configuration m =
     (if deregistered (wm m) then (Ret None, m)
      else case on_out (updateSecrets env ww (dcm_Secrets configuration)) m of
             (Ret errs, m1) \<Rightarrow>
               (case deploy_all env ww (dcm_Workloads configuration) (fold (\<lambda>err es. multierror_Append es err) errs []) m1 of
                  (Ret errors, m2) \<Rightarrow>
                    (case drop_unconfigured env ww (map wl_Name (dcm_Workloads configuration)) errors m2 of
                       (Ret errors', m3) \<Rightarrow> (Ret (as_error errors'), m3)
                     | (Panic, m3) \<Rightarrow> (Panic, m3))
                | (Panic, m2) \<Rightarrow> (Panic, m2))
           | (Panic, m1) \<Rightarrow> (Panic, m1))"

text \<open>The configuration as \<open>Update\<close> leaves it: the labels of the workloads may have grown.\<close>

definition after_Update :: "'p mgr_env \<Rightarrow> WorkloadManager \<Rightarrow> DeviceConfigurationMessage \<Rightarrow> DeviceConfigurationMessage" where
  "after_Update env w configuration =
     (if deregistered w then configuration
      else configuration\<lparr>dcm_Workloads := map (after_toPod env w) (dcm_Workloads configuration)\<rparr>)"

definition WorkloadManager_Init where
  "WorkloadManager_Init env ww configuration m = WorkloadManager_Update env ww configuration m"

section \<open>The other operations\<close>

definition WorkloadManager_PopEvents :: "WorkloadManager \<Rightarrow> EventInfo list \<times> WorkloadManager" where
  "WorkloadManager_PopEvents w = (eventsQueue w, w\<lparr>eventsQueue := []\<rparr>)"

definition ListWorkloads where
  "ListWorkloads ww m = on_out (Wr_List ww) m"

fun over_workloads ::
  "(string \<Rightarrow> 'x world \<Rightarrow> (error option, 'x world) call) \<Rightarrow> WorkloadInfo list \<Rightarrow> error list \<Rightarrow> 'x world \<Rightarrow> (error list, 'x world) call" where
  "over_workloads f [] res w = (Ret res, w)"
| "over_workloads f (i # infos) res w =
     (case f (wi_Name i) w of
        (Ret None, w') \<Rightarrow> over_workloads f infos res w'
      | (Ret (Some err), w') \<Rightarrow> over_workloads f infos (multierror_Append res err) w'
      | (Panic, w') \<Rightarrow> (Panic, w'))"

definition all_workloads ::
  "('p, 'x) WorkloadWrapper \<Rightarrow> (string \<Rightarrow> 'x world \<Rightarrow> (error option, 'x world) call) \<Rightarrow> 'x world \<Rightarrow> (error option, 'x world) call" where
  "all_workloads ww f w =
     (case Wr_List ww w of
        (Ret (Inl err), w') \<Rightarrow> (Ret (Some err), w')
      | (Ret (Inr infos), w') \<Rightarrow>
          (case over_workloads f infos [] w' of
             (Ret res, w2) \<Rightarrow> (Ret (as_error res), w2)
           | (Panic, w2) \<Rightarrow> (Panic, w2))
      | (Panic, w') \<Rightarrow> (Panic, w'))"

definition removeAllWorkloads :: "('p, 'x) WorkloadWrapper \<Rightarrow> 'x world \<Rightarrow> (error option, 'x world) call" where
  "removeAllWorkloads ww w = all_workloads ww (Wr_Remove ww) w"

definition stopAllWorkloads :: "('p, 'x) WorkloadWrapper \<Rightarrow> 'x world \<Rightarrow> (error option, 'x world) call" where
  "stopAllWorkloads ww w = all_workloads ww (Wr_Stop ww) w"

definition StopWorkloads :: "('p, 'x) WorkloadWrapper \<Rightarrow> 'x mworld \<Rightarrow> (error option, 'x mworld) call" where
  "StopWorkloads ww m = on_out (stopAllWorkloads ww) m"

definition deleteWorkloadsDir :: "WorkloadManager \<Rightarrow> fs \<Rightarrow> error option \<times> fs" where
  "deleteWorkloadsDir w s = deleteDir (workloadsDir w) s"

definition deleteVolumeDir :: "WorkloadManager \<Rightarrow> fs \<Rightarrow> error option \<times> fs" where
  "deleteVolumeDir w s = deleteDir (volumesDir w) s"

definition deleteTable :: "('p, 'x) WorkloadWrapper \<Rightarrow> 'x world \<Rightarrow> (error option, 'x world) call" where
  "deleteTable ww w = Wr_RemoveTable ww w"

definition removeMappingFile :: "('p, 'x) WorkloadWrapper \<Rightarrow> 'x world \<Rightarrow> (error option, 'x world) call" where
  "removeMappingFile ww w = Wr_RemoveMappingFile ww w"

definition removeServicesFile :: "('p, 'x) WorkloadWrapper \<Rightarrow> 'x world \<Rightarrow> (error option, 'x world) call" where
  "removeServicesFile ww w = Wr_RemoveServicesFile ww w"

text \<open>\<open>Deregister\<close> goes through its steps whatever fails, collecting the errors.\<close>

fun all_steps :: "(string \<times> ('w \<Rightarrow> (error option, 'w) call)) list \<Rightarrow> error list \<Rightarrow> 'w \<Rightarrow> (error list, 'w) call" where
  "all_steps [] errors w = (Ret errors, w)"
| "all_steps ((what, f) # fs) errors w =
     (case f w of
        (Ret None, w') \<Rightarrow> all_steps fs errors w'
      | (Ret (Some err), w') \<Rightarrow>
          all_steps fs (multierror_Append errors (Errorf (''failed to '' @ what @ '': %v'') [error_string err])) w'
      | (Panic, w') \<Rightarrow> (Panic, w'))"

definition deregister_steps ::
  "('p, 'x) WorkloadWrapper \<Rightarrow> WorkloadManager \<Rightarrow> (string \<times> ('x world \<Rightarrow> (error option, 'x world) call)) list" where
  "deregister_steps ww mgr =
     [(''remove workloads'', removeAllWorkloads ww),
      (''delete manifests directory'', on_disk (deleteWorkloadsDir mgr)),
      (''delete table'', deleteTable ww),
      (''delete volumes directory'', on_disk (deleteVolumeDir mgr)),
      (''remove mapping file'', removeMappingFile ww),
      (''remove services file'', removeServicesFile ww)]"

definition WorkloadManager_Deregister :: "('p, 'x) WorkloadWrapper \<Rightarrow> 'x mworld \<Rightarrow> (error option, 'x mworld) call" where
  "WorkloadManager_Deregister ww m =
     (case on_out (all_steps (deregister_steps ww (wm m)) []) m of
        (Ret errors, m') \<Rightarrow> (Ret (as_error errors), m'\<lparr>wm := (wm m')\<lparr>deregistered := True\<rparr>\<rparr>)
      | (Panic, m') \<Rightarrow> (Panic, m'))"

section \<open>Where the files of a workload are\<close>

text \<open>A workload name that stands for one directory below the workloads directory.\<close>

definition plain_workload :: "WorkloadManager \<Rightarrow> string \<Rightarrow> bool" where
  "plain_workload w name \<longleftrightarrow> clean_dir (workloadsDir w) \<and> plain_elem (strings_ReplaceAll name '' '' ''-'')"

lemma ReplaceAll_space: "strings_ReplaceAll name '' '' ''-'' = map (\<lambda>c. if c = CHR '' '' then CHR ''-'' else c) name"
  by (rule ReplaceAll_char)

lemma plain_elem_files: "plain_elem AuthFileName" "plain_elem WorkloadFileName"
  by (simp_all add: plain_elem_def AuthFileName_def WorkloadFileName_def)

lemma workload_paths:
  assumes "plain_workload w name"
  shows "getWorkloadDirPath w name = workloadsDir w @ slash # strings_ReplaceAll name '' '' ''-''"
    and "clean_dir (getWorkloadDirPath w name)"
    and "getAuthFilePath w name = getWorkloadDirPath w name @ slash # AuthFileName"
    and "getManifestPath w name = getWorkloadDirPath w name @ slash # WorkloadFileName"
proof -
  have p: "clean_dir (workloadsDir w)" "plain_elem (strings_ReplaceAll name '' '' ''-'')"
    using assms by (simp_all add: plain_workload_def)
  show dir: "getWorkloadDirPath w name = workloadsDir w @ slash # strings_ReplaceAll name '' '' ''-''"
    using path_Join_plain(1) [OF p] by (simp add: getWorkloadDirPath_def)
  show c: "clean_dir (getWorkloadDirPath w name)"
    using path_Join_plain(2) [OF p] by (simp add: getWorkloadDirPath_def)
  show "getAuthFilePath w name = getWorkloadDirPath w name @ slash # AuthFileName"
    and "getManifestPath w name = getWorkloadDirPath w name @ slash # WorkloadFileName"
    using path_Join_plain(1) [OF c] plain_elem_files by (simp_all add: getAuthFilePath_def getManifestPath_def)
qed

lemma auth_manifest_differ:
  assumes "plain_workload w name"
  shows "getAuthFilePath w name \<noteq> getManifestPath w name" and "getAuthFilePath w name \<noteq> [slash]"
  using workload_paths [OF assms] clean_dir_not_Nil [OF workload_paths(2) [OF assms]]
  by (auto simp: AuthFileName_def WorkloadFileName_def)

text \<open>
  Two workloads whose names are single path elements and differ after spaces are turned into
  dashes have separate directories: deleting one directory leaves the manifest and the credentials
  of the other workload as they are. The names \<open>a b\<close> and \<open>a-b\<close> share a directory.
\<close>

theorem workload_directories_separate:
  "(plain_workload w name1 \<and> plain_workload w name2 \<and>
    strings_ReplaceAll name1 '' '' ''-'' \<noteq> strings_ReplaceAll name2 '' '' ''-'' \<longrightarrow>
    (let s' = snd (deleteDir (getWorkloadDirPath w name1) s)
     in nodes s' (getManifestPath w name2) = nodes s (getManifestPath w name2) \<and>
        nodes s' (getAuthFilePath w name2) = nodes s (getAuthFilePath w name2))) \<and>
   getWorkloadDirPath w ''a b'' = getWorkloadDirPath w ''a-b''"
proof -
  have "nodes (snd (deleteDir (getWorkloadDirPath w name1) s)) (getWorkloadDirPath w name2 @ slash # base)
      = nodes s (getWorkloadDirPath w name2 @ slash # base)"
    if n1: "plain_workload w name1" and n2: "plain_workload w name2"
      and ne: "strings_ReplaceAll name1 '' '' ''-'' \<noteq> strings_ReplaceAll name2 '' '' ''-''" for base
  proof -
    let ?m = "strings_ReplaceAll name1 '' '' ''-''" and ?n = "strings_ReplaceAll name2 '' '' ''-''"
    have sl: "slash \<notin> set ?m" "slash \<notin> set ?n"
      using n1 n2 by (simp_all add: plain_workload_def plain_elem_def)
    have "\<not> below (workloadsDir w @ slash # ?m) ((workloadsDir w @ slash # ?n) @ slash # base)"
    proof
      assume "below (workloadsDir w @ slash # ?m) ((workloadsDir w @ slash # ?n) @ slash # base)"
      then have "?m = ?n @ slash # base \<or> (\<exists>zs. ?m @ slash # zs = ?n @ slash # base)"
        by (auto simp: below_def prefix_def)
      then have "takeWhile (\<lambda>c. c \<noteq> slash) ?m = takeWhile (\<lambda>c. c \<noteq> slash) ?n"
      proof
        assume "?m = ?n @ slash # base"
        then show ?thesis using sl by simp
      next
        assume "\<exists>zs. ?m @ slash # zs = ?n @ slash # base"
        then obtain zs where "?m @ slash # zs = ?n @ slash # base" by blast
        then have "takeWhile (\<lambda>c. c \<noteq> slash) (?m @ slash # zs) = takeWhile (\<lambda>c. c \<noteq> slash) (?n @ slash # base)"
          by simp
        then show ?thesis using sl by (simp add: takeWhile_tail)
      qed
      moreover have "takeWhile (\<lambda>c. c \<noteq> slash) ?m = ?m" "takeWhile (\<lambda>c. c \<noteq> slash) ?n = ?n"
        using sl by (auto simp: takeWhile_eq_all_conv)
      ultimately show False using ne by simp
    qed
    then show ?thesis
      by (simp add: deleteDir_def RemoveAll_frame workload_paths(1) [OF n1] workload_paths(1) [OF n2])
  qed
  moreover have "getWorkloadDirPath w ''a b'' = getWorkloadDirPath w ''a-b''"
    by (simp add: getWorkloadDirPath_def ReplaceAll_space)
  ultimately show ?thesis
    using workload_paths(3,4) [of w name2] by (auto simp: Let_def)
qed

section \<open>The credentials file\<close>

lemma os_Remove_None: "os_Remove s p = (None, s') \<Longrightarrow> nodes s' p = None"
  by (auto simp: os_Remove_def Let_def set_node_def split: option.splits node.splits if_splits)

lemma deleteFile_None:
  assumes "deleteFile p s = (None, s')"
  shows "nodes s' p = None" and "q \<noteq> p \<Longrightarrow> nodes s' q = nodes s q"
proof -
  have "nodes s' p = None" if "os_Remove s p = (Some err, s')" "os_IsNotExist err" for err
    using that by (auto simp: os_Remove_def Let_def missing_def split: option.splits node.splits if_splits)
  then show "nodes s' p = None"
    using assms by (auto simp: deleteFile_def os_Remove_None split: prod.splits option.splits if_splits)
  have "s' = snd (os_Remove s p)"
    using assms by (auto simp: deleteFile_def split: prod.splits option.splits if_splits)
  then show "q \<noteq> p \<Longrightarrow> nodes s' q = nodes s q"
    by (simp add: os_Remove_frame)
qed

lemma manageAuthFile_nodes:
  assumes "manageAuthFile p a s = (Inr p', s')"
  shows "nodes s' p = (if a = [] then None else Some (File a))" and "q \<noteq> p \<Longrightarrow> nodes s' q = nodes s q"
    and "p' = (if a = [] then [] else p)"
  using assms deleteFile_None [of p s s'] WriteFile_ok(1) [of s p a s']
  by (auto simp: manageAuthFile_def storeFile_def split: if_splits prod.splits option.splits)

text \<open>
  When the credentials file is brought to its configured contents without error, it holds them
  (or is gone, when they are blank), no other path has changed, the path given to podman is empty
  exactly when there are none, and the credentials no longer count as modified.
\<close>

theorem auth_file_settles:
  assumes "manageAuthFile authPath auth s = (Inr used, s')" and "authPath \<noteq> [slash]"
  shows "nodes s' authPath = (if auth = [] then None else Some (File auth)) \<and>
    (\<forall>q. q \<noteq> authPath \<longrightarrow> nodes s' q = nodes s q) \<and>
    used = (if auth = [] then [] else authPath) \<and> \<not> podAuthModified s' authPath auth"
  using manageAuthFile_nodes [OF assms(1)] assms(2)
  by (auto simp: podAuthModified_def os_Stat_def)

theorem auth_file_settles_witness:
  "\<not> podAuthModified (snd (manageAuthFile ''/w/auth.json'' ''{}'' (fs_of [(''/w'', Dir)]))) ''/w/auth.json'' ''{}''"
proof -
  have "manageAuthFile ''/w/auth.json'' ''{}'' (fs_of [(''/w'', Dir)]) =
     (Inr ''/w/auth.json'', snd (manageAuthFile ''/w/auth.json'' ''{}'' (fs_of [(''/w'', Dir)])))"
    by (simp add: manageAuthFile_def storeFile_def WriteFile_def is_dir_def path_Dir_def Let_def)
  from auth_file_settles [OF this] show ?thesis by simp
qed

section \<open>Deploying twice\<close>

text \<open>The disk holds the rendered workload: directory, manifest and credentials.\<close>

definition settled :: "'p mgr_env \<Rightarrow> WorkloadManager \<Rightarrow> Workload_model \<Rightarrow> fs \<Rightarrow> bool" where
  "settled env w workload s \<longleftrightarrow>
     (\<exists>pod y. toPod env w workload = Inr pod \<and> toPodYaml env pod (wl_Configmaps workload) = Inr y \<and>
        nodes s (getManifestPath w (wl_Name workload)) = Some (File y)) \<and>
     nodes s (getAuthFilePath w (wl_Name workload)) =
       (if auth_of workload = [] then None else Some (File (auth_of workload))) \<and>
     nodes s (getWorkloadDirPath w (wl_Name workload)) \<noteq> None"

lemma settled_cong:
  assumes "nodes s' (getManifestPath w (wl_Name wl)) = nodes s (getManifestPath w (wl_Name wl))"
    and "nodes s' (getAuthFilePath w (wl_Name wl)) = nodes s (getAuthFilePath w (wl_Name wl))"
    and "nodes s' (getWorkloadDirPath w (wl_Name wl)) = nodes s (getWorkloadDirPath w (wl_Name wl))"
  shows "settled env w wl s' = settled env w wl s"
  using assms by (simp add: settled_def)

lemma on_out_disk [simp]:
  "on_out (on_disk f) m = (Ret (fst (f (disk (out m)))), m\<lparr>out := (out m)\<lparr>disk := snd (f (disk (out m)))\<rparr>\<rparr>)"
  by (simp add: on_out_def on_disk_def split_beta)

text \<open>Nothing the manager renders or stores depends on the queued events.\<close>

lemma events_irrelevant [simp]:
  "getWorkloadDirPath (w\<lparr>eventsQueue := q\<rparr>) = getWorkloadDirPath w"
  "getAuthFilePath (w\<lparr>eventsQueue := q\<rparr>) = getAuthFilePath w"
  "getManifestPath (w\<lparr>eventsQueue := q\<rparr>) = getManifestPath w"
  "pod_labels (w\<lparr>eventsQueue := q\<rparr>) = pod_labels w"
  "export_container (w\<lparr>eventsQueue := q\<rparr>) = export_container w"
  "plain_workload (w\<lparr>eventsQueue := q\<rparr>) = plain_workload w"
  by (simp_all add: fun_eq_iff getWorkloadDirPath_def getAuthFilePath_def getManifestPath_def pod_labels_def
      export_container_def plain_workload_def Let_def)

lemma toPod_events [simp]: "toPod env (w\<lparr>eventsQueue := q\<rparr>) wl = toPod env w wl"
  by (cases "yaml_Unmarshal env (wl_Specification wl)") (simp_all add: toPod_def)

lemma settled_events [simp]: "settled env (w\<lparr>eventsQueue := q\<rparr>) = settled env w"
  by (simp add: fun_eq_iff settled_def)

lemma deploy_settled:
  assumes "settled env (wm m) workload (disk (out m))" and "plain_workload (wm m) (wl_Name workload)"
  shows "deploy_workload env ww workload m = (Ret None, m)"
proof -
  obtain pod y where "toPod env (wm m) workload = Inr pod" "toPodYaml env pod (wl_Configmaps workload) = Inr y"
    "nodes (disk (out m)) (getManifestPath (wm m) (wl_Name workload)) = Some (File y)"
    using assms(1) by (auto simp: settled_def)
  moreover have "\<not> podAuthModified (disk (out m)) (getAuthFilePath (wm m) (wl_Name workload)) (auth_of workload)"
    using assms auth_manifest_differ(2) [OF assms(2)]
    by (auto simp: settled_def podAuthModified_def os_Stat_def)
  moreover have "ensureWorkloadDirExists (wm m) (wl_Name workload) (disk (out m)) = (None, disk (out m))"
    using assms(1) by (simp add: settled_def ensureWorkloadDirExists_def os_Stat_def)
  ultimately show ?thesis
    by (simp add: deploy_workload_def Let_def podConfigurationModified_def podModified_def)
qed

text \<open>
  C28: A workload whose manifest and credentials on disk are what it renders to is left alone: no
  file is written, the wrapper is not called, nothing is removed or run again, and no error is
  reported.
\<close>

theorem unchanged_workload_untouched:
  assumes "toPod env (wm m) workload = Inr pod" and "toPodYaml env pod (wl_Configmaps workload) = Inr y"
    and "nodes (disk (out m)) (getManifestPath (wm m) (wl_Name workload)) = Some (File y)"
    and "nodes (disk (out m)) (getAuthFilePath (wm m) (wl_Name workload)) =
      (if auth_of workload = [] then None else Some (File (auth_of workload)))"
    and "nodes (disk (out m)) (getWorkloadDirPath (wm m) (wl_Name workload)) = Some Dir"
    and "plain_workload (wm m) (wl_Name workload)"
  shows "deploy_workload env ww workload m = (Ret None, m)"
  using assms by (intro deploy_settled) (simp_all add: settled_def)

text \<open>A wrapper whose operations do not reach into the directories of the manager.\<close>

definition keeps_files :: "('p, 'x) WorkloadWrapper \<Rightarrow> WorkloadManager \<Rightarrow> string \<Rightarrow> bool" where
  "keeps_files ww mgr name \<longleftrightarrow>
     (\<forall>w q pod mp ap. below (getWorkloadDirPath mgr name) q \<longrightarrow>
        nodes (disk (snd (Wr_Remove ww name w))) q = nodes (disk w) q \<and>
        nodes (disk (snd (Wr_Run ww pod mp ap w))) q = nodes (disk w) q)"

lemma below_workload:
  assumes "plain_workload w name"
  shows "below (getWorkloadDirPath w name) (getManifestPath w name)"
    and "below (getWorkloadDirPath w name) (getAuthFilePath w name)"
  using workload_paths [OF assms] by (simp_all add: below_def)

lemma keeps_files_nodes:
  assumes "keeps_files ww mgr name" and "below (getWorkloadDirPath mgr name) q"
  shows "Wr_Remove ww name w = (r, w') \<Longrightarrow> nodes (disk w') q = nodes (disk w) q"
    and "Wr_Run ww pod mp ap w = (r, w') \<Longrightarrow> nodes (disk w') q = nodes (disk w) q"
  using assms unfolding keeps_files_def by (metis snd_conv)+

lemma ensureWorkloadDirExists_None:
  assumes "ensureWorkloadDirExists w name s = (None, s')" and "getWorkloadDirPath w name \<noteq> [slash]"
  shows "nodes s' (getWorkloadDirPath w name) \<noteq> None"
  using assms MkdirAll_ok [of s "getWorkloadDirPath w name" s']
  by (auto simp: ensureWorkloadDirExists_def os_Stat_def is_dir_def Let_def split: if_splits)

text \<open>The state in which \<open>Run\<close> is called is settled.\<close>

lemma stored_settled:
  assumes "toPod env w wl = Inr pod" and "toPodYaml env pod (wl_Configmaps wl) = Inr y"
    and "plain_workload w (wl_Name wl)"
    and "ensureWorkloadDirExists w (wl_Name wl) s = (None, s1)"
    and "storeFile (getManifestPath w (wl_Name wl)) y s1 = (None, s2)"
    and "manageAuthFile (getAuthFilePath w (wl_Name wl)) (auth_of wl) s2 = (Inr used, s3)"
  shows "settled env w wl s3"
proof -
  note p = workload_paths [OF assms(3)]
  have ne: "getWorkloadDirPath w (wl_Name wl) \<noteq> [slash]"
    using p(1) assms(3) clean_dir_not_Nil [of "workloadsDir w"] by (auto simp: plain_workload_def append_eq_Cons_conv)
  have "nodes s2 = (nodes s1)(getManifestPath w (wl_Name wl) \<mapsto> File y)"
    using assms(5) by (auto simp: storeFile_def WriteFile_ok(1))
  moreover have "nodes s1 (getWorkloadDirPath w (wl_Name wl)) \<noteq> None"
    using ensureWorkloadDirExists_None [OF assms(4) ne] .
  ultimately show ?thesis
    using manageAuthFile_nodes [OF assms(6)] auth_manifest_differ(1) [OF assms(3)] assms(1,2) p(3,4)
    by (simp add: settled_def)
qed

text \<open>
  When deploying a workload ends because podman could not run it, the manifest it was to be run
  from is already stored: the next update takes the workload for unchanged, does not run it and
  reports no error.
\<close>

theorem failed_run_not_retried:
  assumes "deploy_workload env ww workload m = (Ret (Some (Errorf ''cannot run workload '%s': %s'' args)), m')"
    and "plain_workload (wm m) (wl_Name workload)" and "keeps_files ww (wm m) (wl_Name workload)"
  shows "deploy_workload env ww workload m' = (Ret None, m') \<and> eventsQueue (wm m') \<noteq> []"
proof -
  let ?n = "wl_Name workload" and ?s = "disk (out m)"
  obtain pod where pod: "toPod env (wm m) workload = Inr pod"
    using assms(1) by (cases "toPod env (wm m) workload") (auto simp: deploy_workload_def Let_def)
  obtain s1 where s1: "ensureWorkloadDirExists (wm m) ?n ?s = (None, s1)"
    using assms(1) pod
    by (cases "ensureWorkloadDirExists (wm m) ?n ?s"; cases "fst (ensureWorkloadDirExists (wm m) ?n ?s)")
      (auto simp: deploy_workload_def Let_def)
  obtain y where y: "toPodYaml env pod (wl_Configmaps workload) = Inr y"
    using assms(1) pod s1 by (cases "toPodYaml env pod (wl_Configmaps workload)") (auto simp: deploy_workload_def Let_def)
  have modified: "podConfigurationModified s1 (getManifestPath (wm m) ?n) y (getAuthFilePath (wm m) ?n) (auth_of workload)"
    using assms(1) pod s1 y by (auto simp: deploy_workload_def Let_def split: if_splits)
  obtain s2 where s2: "storeFile (getManifestPath (wm m) ?n) y s1 = (None, s2)"
    using assms(1) pod s1 y modified
    by (cases "storeFile (getManifestPath (wm m) ?n) y s1"; cases "fst (storeFile (getManifestPath (wm m) ?n) y s1)")
      (auto simp: deploy_workload_def Let_def)
  obtain used s3 where s3: "manageAuthFile (getAuthFilePath (wm m) ?n) (auth_of workload) s2 = (Inr used, s3)"
    using assms(1) pod s1 y modified s2
    by (cases "manageAuthFile (getAuthFilePath (wm m) ?n) (auth_of workload) s2";
        cases "fst (manageAuthFile (getAuthFilePath (wm m) ?n) (auth_of workload) s2)")
      (auto simp: deploy_workload_def Let_def wrap_val_def)
  let ?m3 = "m\<lparr>out := (out m)\<lparr>disk := s3\<rparr>\<rparr>"
  have rest: "check (wrap_err (\<lambda>err. Errorf ''error removing workload %s: %s'' [?n, error_string err])
      (on_out (Wr_Remove ww ?n) ?m3)) (\<lambda>m. run_pod ww pod (getManifestPath (wm ?m3) ?n) used m) =
      (Ret (Some (Errorf ''cannot run workload '%s': %s'' args)), m')"
    using assms(1) pod s1 y modified s2 s3 by (simp add: deploy_workload_def Let_def wrap_val_def)
  then obtain w4 where w4: "Wr_Remove ww ?n (out ?m3) = (Ret None, w4)"
    by (auto simp: on_out_def check_def wrap_err_def split: prod.splits outcome.splits option.splits)
  then obtain err w5 where w5: "Wr_Run ww pod (getManifestPath (wm m) ?n) used w4 = (Ret (Some err), w5)"
    using rest by (auto simp: on_out_def run_pod_def split: prod.splits outcome.splits option.splits)
  have m': "out m' = w5" "wm m' = (wm m)\<lparr>eventsQueue := eventsQueue (wm m) @
      [\<lparr>ev_Message = error_string err, ev_Reason = ''Failed'', ev_Type = EventInfoTypeWarn\<rparr>]\<rparr>"
    using rest w4 w5 by (auto simp: on_out_def run_pod_def)
  have keep: "nodes (disk w5) q = nodes s3 q" if "below (getWorkloadDirPath (wm m) ?n) q" for q
    using keeps_files_nodes(1) [OF assms(3) that w4] keeps_files_nodes(2) [OF assms(3) that w5] by simp
  have "settled env (wm m) workload (disk w5)"
    using stored_settled [OF pod y assms(2) s1 s2 s3] below_workload [OF assms(2)] keep
    by (subst settled_cong [of _ _ _ s3]) simp_all
  then have "settled env (wm m') workload (disk (out m'))" and "plain_workload (wm m') ?n"
    using assms(2) by (simp_all add: m')
  then show ?thesis
    by (simp add: deploy_settled) (simp add: m')
qed

section \<open>Deregistration\<close>

interpretation workload_events: event_queue eventsQueue WorkloadManager_PopEvents
  by unfold_locales (simp_all add: WorkloadManager_PopEvents_def)

lemma all_steps_runs:
  "all_steps steps errors w = (Ret errors', w') \<Longrightarrow>
     w' = fold (\<lambda>(_, f) w. snd (f w)) steps w \<and> prefix errors errors'"
proof (induction steps arbitrary: errors w)
  case Nil
  then show ?case by simp
next
  case (Cons st steps)
  obtain what f where st: "st = (what, f)" by fastforce
  show ?case
    using Cons.prems Cons.IH
    by (fastforce simp: st multierror_Append_def split: prod.splits outcome.splits option.splits dest: append_prefixD)
qed

lemma all_steps_no_error:
  assumes "all_steps steps errors w = (Ret [], w')" and "(what, f) \<in> set steps"
  shows "\<exists>v v'. f v = (Ret None, v')"
  using assms
proof (induction steps errors w rule: all_steps.induct)
  case (2 what' f' fs errors w)
  obtain r w1 where f: "f' w = (r, w1)" by fastforce
  show ?case
  proof (cases "\<exists>err. r = Ret (Some err)")
    case True
    then obtain err where "r = Ret (Some err)" by blast
    then have "prefix (multierror_Append errors (Errorf (''failed to '' @ what' @ '': %v'') [error_string err])) []"
      using 2(3) f by (auto dest: all_steps_runs)
    then show ?thesis by simp
  next
    case False
    then have "r = Ret None"
      using 2(3) f by (cases r) auto
    with 2 f show ?thesis by auto
  qed
qed simp

text \<open>
  Deregistering goes through all six clean-up steps whatever fails on the way: the state it
  leaves is what the steps make of it one after the other. It reports success only when none of
  them failed, and afterwards every further update is ignored.
\<close>

theorem deregister_completes:
  assumes "WorkloadManager_Deregister ww m = (Ret err, m')"
  shows "out m' = fold (\<lambda>(_, step) w. snd (step w)) (deregister_steps ww (wm m)) (out m) \<and>
    (err = None \<longrightarrow> (\<forall>(_, step) \<in> set (deregister_steps ww (wm m)). \<exists>w w'. step w = (Ret None, w'))) \<and>
    WorkloadManager_Update env ww' configuration m' = (Ret None, m')"
proof -
  obtain errors w' where steps: "all_steps (deregister_steps ww (wm m)) [] (out m) = (Ret errors, w')"
    and m': "m' = m\<lparr>out := w', wm := (wm m)\<lparr>deregistered := True\<rparr>\<rparr>" and err: "err = as_error errors"
    using assms by (auto simp: WorkloadManager_Deregister_def on_out_def split: prod.splits outcome.splits)
  moreover have "\<exists>w w'. step w = (Ret None, w')"
    if "err = None" and "(what, step) \<in> set (deregister_steps ww (wm m))" for what step
    using all_steps_no_error [of "deregister_steps ww (wm m)" "[]" "out m" w' what step] that steps err by simp
  ultimately show ?thesis
    using all_steps_runs [OF steps] by (auto simp: WorkloadManager_Update_def)
qed

section \<open>Secrets\<close>

text \<open>Errors are only ever appended.\<close>

lemma put_secrets_errs: "put_secrets ww cs dev errs w = (Ret (errs', rest), w') \<Longrightarrow> prefix errs errs'"
proof (induction cs arbitrary: dev errs w)
  case (Cons c cs)
  from Cons.prems show ?case
    by (auto simp: Let_def split: prod.splits outcome.splits option.splits if_splits
        dest!: Cons.IH dest: append_prefixD)
qed simp

lemma remove_secrets_errs: "remove_secrets ww ns errs w = (Ret errs', w') \<Longrightarrow> prefix errs errs'"
proof (induction ns arbitrary: errs w)
  case (Cons n ns)
  from Cons.prems show ?case
    by (auto split: prod.splits outcome.splits option.splits dest!: Cons.IH dest: append_prefixD)
qed simp

text \<open>
  What the manager relies on in the secret operations of its wrapper, when they succeed: they are
  operations on a map from names to data.
\<close>

locale secret_store =
  fixes ww :: "('p, 'x) WorkloadWrapper"
    and secrets :: "'x world \<Rightarrow> string \<rightharpoonup> string"
  assumes list_names: "Wr_ListSecrets ww w = (Ret (Inr l), w') \<Longrightarrow>
      gomap_ok l \<and> fst ` set l = dom (secrets w) \<and> secrets w' = secrets w"
    and create: "Wr_CreateSecret ww n d w = (Ret None, w') \<Longrightarrow> secrets w' = (secrets w)(n \<mapsto> d)"
    and update: "Wr_UpdateSecret ww n d w = (Ret None, w') \<Longrightarrow> secrets w' = (secrets w)(n \<mapsto> d)"
    and remove: "Wr_RemoveSecret ww n w = (Ret None, w') \<Longrightarrow> secrets w' = (secrets w)(n := None)"
begin

lemma put_secrets_ok:
  assumes "put_secrets ww cs dev errs w = (Ret ([], rest), w')"
  shows "secrets w' = secrets w ++ map_of (rev (map (\<lambda>c. (sec_Name c, sec_Data c)) cs)) \<and>
    fst ` set rest = fst ` set dev - set (map sec_Name cs)"
  using assms
proof (induction cs arbitrary: dev errs w)
  case Nil
  then show ?case by simp
next
  case (Cons c cs)
  let ?known = "map_of dev (sec_Name c) \<noteq> None"
  let ?r = "if ?known then Wr_UpdateSecret ww (sec_Name c) (sec_Data c) w
    else Wr_CreateSecret ww (sec_Name c) (sec_Data c) w"
  let ?dev = "if ?known then map_del dev (sec_Name c) else dev"
  obtain r w1 where r: "?r = (r, w1)" by fastforce
  have "r = Ret None"
  proof (cases r)
    case (Ret e)
    then show ?thesis
    proof (cases e)
      case (Some err)
      then have "put_secrets ww cs ?dev (errs @ [err]) w1 = (Ret ([], rest), w')"
        using Cons.prems r Ret by (simp add: Let_def split: if_splits)
      then show ?thesis using put_secrets_errs by fastforce
    qed simp
  next
    case Panic
    then show ?thesis using Cons.prems r by (simp add: Let_def split: if_splits)
  qed
  with r Cons.prems have rec: "put_secrets ww cs ?dev errs w1 = (Ret ([], rest), w')"
    by (simp add: Let_def split: if_splits)
  have "secrets w1 = (secrets w)(sec_Name c \<mapsto> sec_Data c)"
    using r \<open>r = Ret None\<close> create update by (auto split: if_splits)
  moreover have "fst ` set ?dev = fst ` set dev - {sec_Name c}"
    by (auto simp: map_of_eq_None_iff)
  ultimately show ?case
    using Cons.IH [OF rec] by (auto simp: fun_eq_iff map_add_def split: option.splits)
qed

lemma remove_secrets_ok:
  "remove_secrets ww ns errs w = (Ret [], w') \<Longrightarrow> errs = [] \<and> secrets w' = secrets w |` (- set ns)"
proof (induction ns arbitrary: errs w)
  case Nil
  then show ?case by (simp add: restrict_map_def)
next
  case (Cons n ns)
  obtain r w1 where r: "Wr_RemoveSecret ww n w = (r, w1)" by fastforce
  show ?case
  proof (cases "\<exists>err. r = Ret (Some err)")
    case True
    then show ?thesis using Cons.prems r remove_secrets_errs by fastforce
  next
    case False
    then have "r = Ret None" using Cons.prems r by (cases r) auto
    with r Cons.IH [of errs w1] Cons.prems remove [of n w w1] show ?thesis
      by (auto simp: restrict_map_def fun_eq_iff)
  qed
qed

lemma updateSecrets_converges:
  assumes "updateSecrets env ww cs w = (Ret [], w')" and "is_range (range_names env)"
  shows "secrets w' = map_of (rev (map (\<lambda>c. (sec_Name c, sec_Data c)) cs))"
proof -
  obtain l w1 where l: "Wr_ListSecrets ww w = (Ret (Inr l), w1)"
    using assms(1) by (auto simp: updateSecrets_def split: prod.splits outcome.splits sum.splits)
  then obtain errs rest w2 where put: "put_secrets ww cs l [] w1 = (Ret (errs, rest), w2)"
    and rem: "remove_secrets ww (map fst (range_names env rest)) errs w2 = (Ret [], w')"
    using assms(1) by (auto simp: updateSecrets_def split: prod.splits outcome.splits)
  note rem = remove_secrets_ok [OF rem]
  note put = put_secrets_ok [OF put [simplified conjunct1 [OF rem]]]
  have rest: "set (map fst (range_names env rest)) = dom (secrets w) - set (map sec_Name cs)"
    using put list_names [OF l] range_set [OF assms(2)] by simp
  have dom: "map_of (rev (map (\<lambda>c. (sec_Name c, sec_Data c)) cs)) x = None \<longleftrightarrow> x \<notin> set (map sec_Name cs)" for x
    by (force simp: map_of_eq_None_iff)
  show ?thesis
  proof
    fix x
    show "secrets w' x = map_of (rev (map (\<lambda>c. (sec_Name c, sec_Data c)) cs)) x"
      using rem put rest list_names [OF l] dom [of x]
      by (cases "x \<in> set (map sec_Name cs)")
        (auto simp: restrict_map_def map_add_def domIff split: option.splits)
  qed
qed

end

text \<open>What podman documents of its secrets: a successful call is the operation on a map.\<close>

locale podman_secrets =
  fixes env :: "'e env"
    and store :: "'e \<Rightarrow> string \<rightharpoonup> string"
  assumes list_secrets: "secrets_List (env_podman env) e = (Inr names, e') \<Longrightarrow> set names = dom (store e) \<and> store e' = store e"
    and create_secret: "secrets_Create (env_podman env) n d e = (None, e') \<Longrightarrow> store e' = (store e)(n \<mapsto> d)"
    and remove_secret: "secrets_Remove (env_podman env) n e = (None, e') \<Longrightarrow> store e' = (store e)(n := None)"
begin

lemma ListSecrets_names:
  assumes "podman_ListSecrets (env_podman env) e = (Inr l, e')"
  shows "gomap_ok l \<and> fst ` set l = dom (store e) \<and> store e' = store e"
proof -
  obtain names where names: "secrets_List (env_podman env) e = (Inr names, e')"
    and l: "l = map_fill [] (map (\<lambda>n. (n, ())) names)"
    using assms by (auto simp: podman_ListSecrets_def then_val_def split: prod.splits sum.splits)
  have "fst ` set (map_fill m (map (\<lambda>n. (n, ())) ns)) = fst ` set m \<union> set ns"
    for m :: "(string, unit) gomap" and ns
    by (induction ns arbitrary: m) auto
  then show ?thesis
    using list_secrets [OF names] l by simp
qed

lemma UpdateSecret_replaces:
  assumes "podman_UpdateSecret (env_podman env) n d e = (None, e')"
  shows "store e' = (store e)(n \<mapsto> d)"
proof -
  obtain e1 where "secrets_Remove (env_podman env) n e = (None, e1)" "secrets_Create (env_podman env) n d e1 = (None, e')"
    using assms
    by (auto simp: podman_UpdateSecret_def podman_RemoveSecret_def podman_CreateSecret_def then_do_def
        split: prod.splits option.splits)
  then show ?thesis
    using remove_secret [of n e e1] create_secret [of n d e1 e'] by simp
qed

end

sublocale podman_secrets \<subseteq> wrapped: secret_store "workload_wrapper env" "\<lambda>w. store (outside (ext w))"
proof unfold_locales
  show "gomap_ok l \<and> fst ` set l = dom (store (outside (ext w))) \<and> store (outside (ext w')) = store (outside (ext w))"
    if "Wr_ListSecrets (workload_wrapper env) w = (Ret (Inr l), w')" for w l w'
  proof (rule ListSecrets_names)
    show "podman_ListSecrets (env_podman env) (outside (ext w)) = (Inr l, outside (ext w'))"
      using that by (simp add: workload_wrapper_def Workload_ListSecrets_def on_service_ret)
  qed
  show "store (outside (ext w')) = (store (outside (ext w)))(n \<mapsto> d)"
    if "Wr_CreateSecret (workload_wrapper env) n d w = (Ret None, w')" for n d w w'
    using that create_secret
    by (auto simp: workload_wrapper_def Workload_CreateSecret_def podman_CreateSecret_def dest!: on_service_ret)
  show "store (outside (ext w')) = (store (outside (ext w)))(n \<mapsto> d)"
    if "Wr_UpdateSecret (workload_wrapper env) n d w = (Ret None, w')" for n d w w'
    using that UpdateSecret_replaces
    by (auto simp: workload_wrapper_def Workload_UpdateSecret_def dest!: on_service_ret)
  show "store (outside (ext w')) = (store (outside (ext w)))(n := None)"
    if "Wr_RemoveSecret (workload_wrapper env) n w = (Ret None, w')" for n w w'
    using that remove_secret
    by (auto simp: workload_wrapper_def Workload_RemoveSecret_def podman_RemoveSecret_def dest!: on_service_ret)
qed

context podman_secrets
begin

lemma converges:
  assumes "updateSecrets menv (workload_wrapper env) configSecrets w = (Ret [], w')" and "is_range (range_names menv)"
  shows "store (outside (ext w')) = map_of (rev (map (\<lambda>c. (sec_Name c, sec_Data c)) configSecrets))"
  using assms by (rule wrapped.updateSecrets_converges)

end

text \<open>
  C8: When podman's secrets behave as a map from names to data and updating the secrets reports no
  error, podman holds exactly the configured secrets afterwards: missing ones are created, present
  ones replaced, and the ones that are not configured are gone. Where a name is configured twice
  the later entry wins.
\<close>

theorem secrets_converge:
  assumes "podman_secrets env store" and "is_range (range_names menv)"
    and "updateSecrets menv (workload_wrapper env) configSecrets w = (Ret [], w')"
  shows "store (outside (ext w')) = map_of (rev (map (\<lambda>c. (sec_Name c, sec_Data c)) configSecrets))"
  by (rule podman_secrets.converges [OF assms(1,3,2)])

section \<open>Concrete instances\<close>

text \<open>Secrets kept in memory, and a manager on a wrapper that cannot run pods.\<close>

definition secret_env :: "((string, string) gomap) env" where
  "secret_env = \<lparr>env_podman = calm_podman\<lparr>secrets_List := \<lambda>e. (Inr (map fst e), e),
        secrets_Remove := \<lambda>n e. (None, map_del e n), secrets_Create := \<lambda>n d e. (None, map_put e n d)\<rparr>,
     env_dbus = calm_dbus, env_exec = \<lambda>_ e. (ExecOk, e), env_LookPath = Inr, env_range = \<lambda>m. m\<rparr>"

interpretation in_memory: podman_secrets secret_env map_of
  by unfold_locales (auto simp: secret_env_def calm_podman_def dom_map_of_conv_image_fst)

definition demo_env :: "unit mgr_env" where
  "demo_env = \<lparr>yaml_Unmarshal = \<lambda>_. Inr \<lparr>spec_Volumes = [], spec_Containers = [], spec_other = ()\<rparr>,
     yaml_Marshal = \<lambda>pod. Inr (pod_Name pod), range_infos = \<lambda>m. m, range_names = \<lambda>m. m\<rparr>"

definition demo_manager :: WorkloadManager where
  "demo_manager = \<lparr>workloadsDir = ''/w'', volumesDir = ''/v'', deregistered = False, eventsQueue = [], deviceId = ''dev''\<rparr>"

definition demo_workload :: Workload_model where
  "demo_workload = \<lparr>wl_Configmaps = [], wl_Data = None, wl_ImageRegistries = None, wl_Labels = None, wl_LogCollection = [],
     wl_Metrics = None, wl_Name = ''web'', wl_Namespace = [], wl_Specification = []\<rparr>"

definition broken_wrapper :: "(unit, unit) WorkloadWrapper" where
  "broken_wrapper = \<lparr>Wr_Init = \<lambda>w. (Ret None, w), Wr_List = \<lambda>w. (Ret (Inr []), w), Wr_Remove = \<lambda>_ w. (Ret None, w),
     Wr_Stop = \<lambda>_ w. (Ret None, w), Wr_Run = \<lambda>_ _ _ w. (Ret (Some (ExternalError ''no podman'')), w),
     Wr_RemoveTable = \<lambda>w. (Ret None, w), Wr_RemoveMappingFile = \<lambda>w. (Ret None, w),
     Wr_RemoveServicesFile = \<lambda>w. (Ret None, w), Wr_ListSecrets = \<lambda>w. (Ret (Inr []), w),
     Wr_RemoveSecret = \<lambda>_ w. (Ret None, w), Wr_CreateSecret = \<lambda>_ _ w. (Ret None, w),
     Wr_UpdateSecret = \<lambda>_ _ w. (Ret None, w)\<rparr>"

definition demo_world :: "(string \<times> node) list \<Rightarrow> unit mworld" where
  "demo_world ns = \<lparr>wm = demo_manager, out = \<lparr>disk = fs_of ns, ext = ()\<rparr>\<rparr>"

lemma demo_plain: "plain_workload demo_manager ''web''" "plain_workload demo_manager ''db''"
  by (simp_all add: plain_workload_def demo_manager_def clean_dir_def ReplaceAll_space plain_elem_def)

lemma demo_paths:
  "getManifestPath demo_manager ''web'' = ''/w/web/workload.yaml''"
  "getAuthFilePath demo_manager ''web'' = ''/w/web/auth.json''"
  "getWorkloadDirPath demo_manager ''web'' = ''/w/web''"
  using workload_paths [OF demo_plain(1)]
  by (simp_all add: demo_manager_def ReplaceAll_space AuthFileName_def WorkloadFileName_def)

theorem workload_directories_separate_witness:
  "nodes (snd (deleteDir (getWorkloadDirPath demo_manager ''db'') (fs_of [(''/w/web/workload.yaml'', File ''x'')])))
     ''/w/web/workload.yaml'' = Some (File ''x'')"
  using workload_directories_separate [of demo_manager "''db''" "''web''" "fs_of [(''/w/web/workload.yaml'', File ''x'')]"]
    demo_plain demo_paths by (simp add: ReplaceAll_space Let_def)

theorem unchanged_workload_untouched_witness:
  "deploy_workload demo_env broken_wrapper demo_workload
     (demo_world [(''/w/web/workload.yaml'', File (''web---'' @ [newline])), (''/w/web'', Dir)]) =
   (Ret None, demo_world [(''/w/web/workload.yaml'', File (''web---'' @ [newline])), (''/w/web'', Dir)])"
  by (rule unchanged_workload_untouched)
    (auto simp: demo_world_def demo_env_def demo_workload_def toPod_def toPodYaml_def demo_paths demo_plain auth_of_def)

lemma demo_fails:
  "fst (deploy_workload demo_env broken_wrapper demo_workload (demo_world [(''/w'', Dir)])) =
     Ret (Some (Errorf ''cannot run workload '%s': %s'' [''web'', ''no podman'']))"
  by code_simp

theorem failed_run_not_retried_witness:
  "let m' = snd (deploy_workload demo_env broken_wrapper demo_workload (demo_world [(''/w'', Dir)]))
   in deploy_workload demo_env broken_wrapper demo_workload m' = (Ret None, m') \<and> eventsQueue (wm m') \<noteq> []"
proof -
  have "deploy_workload demo_env broken_wrapper demo_workload (demo_world [(''/w'', Dir)]) =
      (Ret (Some (Errorf ''cannot run workload '%s': %s'' [''web'', ''no podman''])),
       snd (deploy_workload demo_env broken_wrapper demo_workload (demo_world [(''/w'', Dir)])))"
    using demo_fails by (simp add: prod_eq_iff)
  from failed_run_not_retried [OF this] show ?thesis
    by (simp add: Let_def demo_world_def demo_workload_def demo_plain keeps_files_def broken_wrapper_def)
qed

theorem deregister_completes_witness:
  "let m' = snd (WorkloadManager_Deregister broken_wrapper (demo_world [(''/w'', Dir)]))
   in \<forall>configuration. WorkloadManager_Update demo_env broken_wrapper configuration m' = (Ret None, m')"
proof -
  have "WorkloadManager_Deregister broken_wrapper (demo_world [(''/w'', Dir)]) =
      (Ret None, snd (WorkloadManager_Deregister broken_wrapper (demo_world [(''/w'', Dir)])))"
    by (simp add: prod_eq_iff) code_simp
  from deregister_completes [OF this, of demo_env broken_wrapper] show ?thesis by (simp add: Let_def)
qed

definition secret_world :: "(unit, (string, string) gomap) wworld" where
  "secret_world = \<lparr>disk = fs_of [],
     ext = \<lparr>wrapper = NewWorkload \<lparr>timeoutForStopping = 5\<rparr> \<lparr>nft_path = ''nft''\<rparr> example_repo example_manager 15,
            outside = [(''old'', ''1''), (''key'', ''2'')]\<rparr>\<rparr>"

theorem secrets_converge_witness:
  "map_of (outside (ext (snd (updateSecrets demo_env (workload_wrapper secret_env)
      [\<lparr>sec_Data = ''3'', sec_Name = ''key''\<rparr>, \<lparr>sec_Data = ''4'', sec_Name = ''new''\<rparr>] secret_world))))
   = [''key'' \<mapsto> ''3'', ''new'' \<mapsto> ''4'']"
proof -
  let ?cs = "[\<lparr>sec_Data = ''3'', sec_Name = ''key''\<rparr>, \<lparr>sec_Data = ''4'', sec_Name = ''new''\<rparr>]"
  let ?r = "updateSecrets demo_env (workload_wrapper secret_env) ?cs secret_world"
  have "fst ?r = Ret []"
    by code_simp
  then have "?r = (Ret [], snd ?r)"
    by (simp add: prod_eq_iff)
  moreover have "is_range (range_names demo_env)"
    by (simp add: demo_env_def)
  ultimately have "map_of (outside (ext (snd ?r))) = map_of (rev (map (\<lambda>c. (sec_Name c, sec_Data c)) ?cs))"
    by (intro secrets_converge [OF in_memory.podman_secrets_axioms])
  then show ?thesis by (simp add: fun_upd_twist)
qed

end
