(* ===== verification/Hardware.thy ===== *)
theory Hardware
  imports Go_Prelude
begin

text \<open>
  \<open>internal/hardware\<close>: the description of the device that is sent with its registration and its
  heartbeats, made from the inventory (package \<open>assisted-installer-agent\<close>, a parameter).
\<close>

record inventory_Interface =
  inv_IPV4Addresses :: "string list"
  inv_IPV6Addresses :: "string list"
  inv_Name :: string

record inventory =
  inv_Architecture :: string
  inv_ModelName :: string
  inv_Hostname :: string
  inv_Vendor :: string
  inv_Interfaces :: "inventory_Interface list"

record models_CPU =
  cpu_Architecture :: string
  cpu_Flags :: "string list"
  cpu_ModelName :: string

record models_Interface =
  if_Flags :: "string list"
  if_IPV4Addresses :: "string list"
  if_IPV6Addresses :: "string list"

record HardwareInfo =
  hw_CPU :: models_CPU
  hw_Hostname :: string
  hw_Interfaces :: "models_Interface list"
  hw_SystemVendor :: string

text \<open>The loop over the interfaces, which leaves out those without an address.\<close>

fun add_interfaces :: "inventory_Interface list \<Rightarrow> models_Interface list \<Rightarrow> models_Interface list" where
  "add_interfaces [] acc = acc"
| "add_interfaces (i # is) acc =
     (if length (inv_IPV4Addresses i) = 0 \<and> length (inv_IPV6Addresses i) = 0 then add_interfaces is acc
      else add_interfaces is (acc @ [\<lparr>if_Flags = [], if_IPV4Addresses = inv_IPV4Addresses i, if_IPV6Addresses = inv_IPV6Addresses i\<rparr>]))"

definition GetHardwareInformation :: "inventory \<Rightarrow> error + HardwareInfo" where
  "GetHardwareInformation d =
     Inr \<lparr>hw_CPU = \<lparr>cpu_Architecture = inv_Architecture d, cpu_Flags = [], cpu_ModelName = inv_ModelName d\<rparr>,
          hw_Hostname = inv_Hostname d, hw_Interfaces = add_interfaces (inv_Interfaces d) [], hw_SystemVendor = inv_Vendor d\<rparr>"

lemma add_interfaces_filter:
  "add_interfaces is acc =
     acc @ map (\<lambda>i. \<lparr>if_Flags = [], if_IPV4Addresses = inv_IPV4Addresses i, if_IPV6Addresses = inv_IPV6Addresses i\<rparr>)
       (filter (\<lambda>i. inv_IPV4Addresses i \<noteq> [] \<or> inv_IPV6Addresses i \<noteq> []) is)"
  by (induction "is" arbitrary: acc) auto

text \<open>Every reported interface has an address, and every address of the inventory is reported.\<close>

lemma hardware_addresses:
  assumes "GetHardwareInformation d = Inr h"
  shows "\<forall>i \<in> set (hw_Interfaces h). if_IPV4Addresses i @ if_IPV6Addresses i \<noteq> []"
    and "concat (map (\<lambda>i. if_IPV4Addresses i @ if_IPV6Addresses i) (hw_Interfaces h)) =
         concat (map (\<lambda>i. inv_IPV4Addresses i @ inv_IPV6Addresses i) (inv_Interfaces d))"
proof -
  have h: "hw_Interfaces h = add_interfaces (inv_Interfaces d) []"
    using assms by (auto simp: GetHardwareInformation_def)
  then show "\<forall>i \<in> set (hw_Interfaces h). if_IPV4Addresses i @ if_IPV6Addresses i \<noteq> []"
    by (auto simp: add_interfaces_filter)
  have "concat (map (\<lambda>i. if_IPV4Addresses i @ if_IPV6Addresses i) (add_interfaces is [])) =
      concat (map (\<lambda>i. inv_IPV4Addresses i @ inv_IPV6Addresses i) is)" for "is"
    by (induction "is") (auto simp: add_interfaces_filter)
  with h show "concat (map (\<lambda>i. if_IPV4Addresses i @ if_IPV6Addresses i) (hw_Interfaces h)) =
         concat (map (\<lambda>i. inv_IPV4Addresses i @ inv_IPV6Addresses i) (inv_Interfaces d))"
    by simp
qed

end
