(* ===== verification/Registration.thy ===== *)
theory Registration
  imports Workload_Manager Hardware
begin

text \<open>
  \<open>internal/registration\<close>: the client certificate of the device and its registration with the
  operator through the dispatcher. Certificates, keys and certificate requests (package \<open>mtls\<close> of
  the operator, \<open>crypto/x509\<close>) and the dispatcher are parameters; \<open>'k\<close> is the type of a private key.
\<close>

record ('k, 'e) reg_env =
  mtls_ImportFromPem :: "string \<Rightarrow> string \<Rightarrow> error option" \<comment> \<open>certificate and key in PEM\<close>
  mtls_CommonName :: "string \<Rightarrow> string option" \<comment> \<open>of an imported certificate; \<open>None\<close> when there is none\<close>
  mtls_GetKey :: "string \<Rightarrow> 'k option"
  mtls_GetNewKey :: "'e \<Rightarrow> (error + 'k) \<times> 'e"
  mtls_MarshalKeyToPem :: "'k \<Rightarrow> error + string"
  x509_CreateCertificateRequest :: "string \<Rightarrow> 'k \<Rightarrow> 'e \<Rightarrow> (error + string) \<times> 'e"
  pem_EncodeToMemory :: "string \<Rightarrow> string"
  dispatcher_GetConfig :: "'e \<Rightarrow> (error + string \<times> string) \<times> 'e" \<comment> \<open>certificate file and key file\<close>
  dispatcher_Send :: "string \<Rightarrow> string \<Rightarrow> 'e \<Rightarrow> (error + string) \<times> 'e" \<comment> \<open>directive and content\<close>
  dev_inventory :: "'e \<Rightarrow> inventory \<times> 'e"
  json_HardwareInfo :: "HardwareInfo \<Rightarrow> string" \<comment> \<open>encoded as JSON\<close>

section \<open>Certificates\<close>

record CertificateGroup =
  cg_CertPEM :: string
  cg_PrivKeyPEM :: string

record ClientCert =
  cc_keyPath :: string
  cc_certPath :: string
  cc_certGroup :: CertificateGroup

definition CertRegisterCN :: string where
  "CertRegisterCN = ''register''"

definition NewClientCert :: "('k, 'e) reg_env \<Rightarrow> string \<Rightarrow> string \<Rightarrow> fs \<Rightarrow> error + ClientCert" where
  "NewClientCert env certPath keyPath s =
     (case ReadFile s certPath of
        Inl err \<Rightarrow> Inl err
      | Inr certPem \<Rightarrow>
          (case ReadFile s keyPath of
             Inl err \<Rightarrow> Inl err
           | Inr certKey \<Rightarrow>
               (case mtls_ImportFromPem env certPem certKey of
                  Some err \<Rightarrow> Inl err
                | None \<Rightarrow> Inr \<lparr>cc_keyPath = keyPath, cc_certPath = certPath,
                              cc_certGroup = \<lparr>cg_CertPEM = certPem, cg_PrivKeyPEM = certKey\<rparr>\<rparr>)))"

definition IsRegisterCert :: "('k, 'e) reg_env \<Rightarrow> ClientCert \<Rightarrow> error + bool" where
  "IsRegisterCert env c =
     (case mtls_CommonName env (cg_CertPEM (cc_certGroup c)) of
        None \<Rightarrow> Inl (Errorf ''No valid cert'' [])
      | Some cn \<Rightarrow> Inr (cn = CertRegisterCN))"

definition Renew :: "('k, 'e) reg_env \<Rightarrow> string \<Rightarrow> 'k \<Rightarrow> 'e \<Rightarrow> (error + string \<times> string) \<times> 'e" where
  "Renew env deviceID key e =
     (case x509_CreateCertificateRequest env deviceID key e of
        (Inl err, e') \<Rightarrow> (Inl err, e')
      | (Inr csr, e') \<Rightarrow>
          (case mtls_MarshalKeyToPem env key of
             Inl err \<Rightarrow> (Inl (Errorf ''cannot encode new key: %v'' [error_string err]), e')
           | Inr keyPEM \<Rightarrow> (Inr (pem_EncodeToMemory env csr, keyPEM), e')))"

definition CreateDeviceCerts :: "('k, 'e) reg_env \<Rightarrow> string \<Rightarrow> 'e \<Rightarrow> (error + string \<times> string) \<times> 'e" where
  "CreateDeviceCerts env deviceID e =
     (case mtls_GetNewKey env e of (Inl err, e') \<Rightarrow> (Inl err, e') | (Inr key, e') \<Rightarrow> Renew env deviceID key e')"

text \<open>
  The new pair is checked, then the certificate is written, then the key. When the key cannot be
  written, the old certificate is written back.
\<close>

definition WriteCertificate :: "('k, 'e) reg_env \<Rightarrow> string \<Rightarrow> string \<Rightarrow> ClientCert \<Rightarrow> fs \<Rightarrow> (error option \<times> ClientCert) \<times> fs" where
  "WriteCertificate env cert key c s =
     (case mtls_ImportFromPem env cert key of
        Some err \<Rightarrow> ((Some (Errorf ''failing on importing certificate: %v'' [error_string err]), c), s)
      | None \<Rightarrow>
          (case WriteFile s (cc_certPath c) cert of
             (Some err, s1) \<Rightarrow> ((Some err, c), s1)
           | (None, s1) \<Rightarrow>
               (case WriteFile s1 (cc_keyPath c) key of
                  (Some err, s2) \<Rightarrow> ((Some err, c), snd (WriteFile s2 (cc_certPath c) (cg_CertPEM (cc_certGroup c))))
                | (None, s2) \<Rightarrow> ((None, c\<lparr>cc_certGroup := \<lparr>cg_CertPEM = cert, cg_PrivKeyPEM = key\<rparr>\<rparr>), s2))))"

section \<open>Responses of the dispatcher\<close>

record YGGDResponse =
  ygg_StatusCode :: int
  ygg_Body :: "json option" \<comment> \<open>the raw body, absent or a JSON value\<close>
  ygg_Metadata :: "(string, string) gomap"

fun string_map_field :: "(string, string) gomap \<Rightarrow> json \<Rightarrow> (string, string) gomap option" where
  "string_map_field m (JObj kvs) =
     map_option (map_fill m) (all_some (map (\<lambda>(k, v). map_option (Pair k) (json_elem_string v)) kvs))"
| "string_map_field m JNull = Some []"
| "string_map_field m _ = None"

fun ygg_fields :: "(string \<times> json) list \<Rightarrow> YGGDResponse \<Rightarrow> YGGDResponse option" where
  "ygg_fields [] r = Some r"
| "ygg_fields ((k, v) # kvs) r =
     (if key_eq k ''StatusCode'' then
        (case json_int_field (ygg_StatusCode r) v of None \<Rightarrow> None | Some x \<Rightarrow> ygg_fields kvs (r\<lparr>ygg_StatusCode := x\<rparr>))
      else if key_eq k ''Body'' then ygg_fields kvs (r\<lparr>ygg_Body := Some v\<rparr>)
      else if key_eq k ''Metadata'' then
        (case string_map_field (ygg_Metadata r) v of None \<Rightarrow> None | Some x \<Rightarrow> ygg_fields kvs (r\<lparr>ygg_Metadata := x\<rparr>))
      else ygg_fields kvs r)"

definition NewYGGDResponse :: "string \<Rightarrow> error + YGGDResponse" where
  "NewYGGDResponse response =
     (let zero = \<lparr>ygg_StatusCode = 0, ygg_Body = None, ygg_Metadata = []\<rparr>; failed = Inl (ExternalError ''json: cannot unmarshal'') in
      case json_parse response of
        Some (JObj kvs) \<Rightarrow> (case ygg_fields kvs zero of None \<Rightarrow> failed | Some r \<Rightarrow> Inr r)
      | Some JNull \<Rightarrow> Inr zero
      | _ \<Rightarrow> failed)"

text \<open>The certificate in the body: a string under \<open>certificate\<close> in the object under \<open>content\<close>.\<close>

fun message_content :: "(string \<times> json) list \<Rightarrow> json \<Rightarrow> json option" where
  "message_content [] c = Some c"
| "message_content ((k, v) # kvs) c =
     (if key_eq k ''content'' then message_content kvs v
      else if key_eq k ''message_id'' \<or> key_eq k ''directive'' then
        (case json_name_field [] v of None \<Rightarrow> None | Some _ \<Rightarrow> message_content kvs c)
      else message_content kvs c)"

definition response_certificate :: "json option \<Rightarrow> error + string" where
  "response_certificate body =
     (let unreadable = Inl (Errorf ''Cannot unmarshal registration response content: %v'' [''json'']) in
      case (case body of
              Some (JObj kvs) \<Rightarrow> message_content kvs JNull
            | Some JNull \<Rightarrow> Some JNull
            | _ \<Rightarrow> None) of
        None \<Rightarrow> unreadable
      | Some (JObj kvs) \<Rightarrow>
          (case map_of (rev kvs) ''certificate'' of
             None \<Rightarrow> Inl (Errorf ''cannot retrieve certificate from parsedResponse'' [])
           | Some (JStr cert) \<Rightarrow> Inr cert
           | Some _ \<Rightarrow> Inl (Errorf ''cannot parse certificate from response.Content, content=%+v'' [[]]))
      | Some _ \<Rightarrow> Inl (Errorf ''cannot parse message content'' []))"

section \<open>Registration\<close>

record Registration =
  reg_registered :: bool
  reg_RetryAfter :: int
  reg_deviceID :: string
  reg_clientCert :: ClientCert

definition retryAfter :: int where
  "retryAfter = 10"

definition CreateClientCerts :: "('k, 'e) reg_env \<Rightarrow> 'e world \<Rightarrow> (error + ClientCert) \<times> 'e world" where
  "CreateClientCerts env w =
     (case dispatcher_GetConfig env (ext w) of
        (Inl err, e) \<Rightarrow> (Inl err, w\<lparr>ext := e\<rparr>)
      | (Inr (certFile, keyFile), e) \<Rightarrow> (NewClientCert env certFile keyFile (disk w), w\<lparr>ext := e\<rparr>))"

definition NewRegistration :: "('k, 'e) reg_env \<Rightarrow> string \<Rightarrow> 'e world \<Rightarrow> (error + Registration) \<times> 'e world" where
  "NewRegistration env deviceID w =
     (case CreateClientCerts env w of
        (Inl err, w') \<Rightarrow> (Inl err, w')
      | (Inr c, w') \<Rightarrow>
          (Inr \<lparr>reg_registered = False, reg_RetryAfter = retryAfter, reg_deviceID = deviceID, reg_clientCert = c\<rparr>, w'))"

text \<open>A new certificate request and its key: a new key for a registration certificate, else the key in use.\<close>

definition renewCertificate :: "('k, 'e) reg_env \<Rightarrow> Registration \<Rightarrow> 'e \<Rightarrow> (error + string \<times> string) \<times> 'e" where
  "renewCertificate env r e =
     (case IsRegisterCert env (reg_clientCert r) of
        Inl err \<Rightarrow> (Inl err, e)
      | Inr True \<Rightarrow>
          (case CreateDeviceCerts env (reg_deviceID r) e of
             (Inl err, e') \<Rightarrow> (Inl (Errorf ''cannot create device certs: %v'' [error_string err]), e')
           | (Inr (csr, key), e') \<Rightarrow> (Inr (key, csr), e'))
      | Inr False \<Rightarrow>
          (case mtls_GetKey env (cg_PrivKeyPEM (cc_certGroup (reg_clientCert r))) of
             None \<Rightarrow> (Inl (Errorf ''cannot retrieve current key'' []), e)
           | Some k \<Rightarrow>
               (case Renew env (reg_deviceID r) k e of
                  (Inl err, e') \<Rightarrow> (Inl err, e')
                | (Inr (csr, key), e') \<Rightarrow> (Inr (key, csr), e'))))"

definition registration_content :: "string \<Rightarrow> string \<Rightarrow> string" where
  "registration_content hardware csr =
     (if csr = [] then ''{'' else ''{'' @ json_print (JStr ''certificate_request'') @ '':'' @ json_print (JStr csr) @ '','')
     @ json_print (JStr ''hardware'') @ '':'' @ hardware @ ''}''"

definition read_hardware :: "('k, 'e) reg_env \<Rightarrow> 'e \<Rightarrow> (error + HardwareInfo) \<times> 'e" where
  "read_hardware env e = (case dev_inventory env e of (d, e') \<Rightarrow> (GetHardwareInformation d, e'))"

definition registerDeviceOnce ::
  "('k, 'e) reg_env \<Rightarrow> Registration \<Rightarrow> 'e world \<Rightarrow> (error option \<times> Registration) \<times> 'e world" where
  "registerDeviceOnce env r w =
     (case renewCertificate env r (ext w) of
        (Inl err, e1) \<Rightarrow> ((Some err, r), w\<lparr>ext := e1\<rparr>)
      | (Inr (key, csr), e1) \<Rightarrow>
          (case read_hardware env e1 of
             (Inl err, e2) \<Rightarrow> ((Some err, r), w\<lparr>ext := e2\<rparr>)
           | (Inr hardware, e2) \<Rightarrow>
               (case dispatcher_Send env ''registration'' (registration_content (json_HardwareInfo env hardware) csr) e2 of
                  (Inl err, e3) \<Rightarrow> ((Some err, r), w\<lparr>ext := e3\<rparr>)
                | (Inr response, e3) \<Rightarrow>
                    (let w3 = w\<lparr>ext := e3\<rparr> in
                     case NewYGGDResponse response of
                       Inl err \<Rightarrow> ((Some err, r), w3)
                     | Inr parsed \<Rightarrow>
                         if ygg_StatusCode parsed \<ge> 300 then
                           ((Some (Errorf ''cannot register to the operator, status_code=%d, body=%s''
                               [Itoa (ygg_StatusCode parsed), case ygg_Body parsed of None \<Rightarrow> [] | Some b \<Rightarrow> json_print b]), r), w3)
                         else
                           (case response_certificate (ygg_Body parsed) of
                              Inl err \<Rightarrow> ((Some err, r), w3)
                            | Inr cert \<Rightarrow>
                                (case WriteCertificate env cert key (reg_clientCert r) (disk w3) of
                                   ((Some err, c), s) \<Rightarrow> ((Some err, r\<lparr>reg_clientCert := c\<rparr>), w3\<lparr>disk := s\<rparr>)
                                 | ((None, c), s) \<Rightarrow>
                                     ((None, r\<lparr>reg_clientCert := c, reg_registered := True\<rparr>), w3\<lparr>disk := s\<rparr>)))))))"

text \<open>
  \<open>RegisterDevice\<close>: one attempt, then one at each tick of a timer for as long as the configuration
  is the initial one; the list holds what \<open>IsInitialConfig\<close> answers at the ticks.
\<close>

fun registerDeviceWithRetries ::
  "('k, 'e) reg_env \<Rightarrow> bool list \<Rightarrow> Registration \<Rightarrow> 'e world \<Rightarrow> Registration \<times> 'e world" where
  "registerDeviceWithRetries env [] r w = (r, w)"
| "registerDeviceWithRetries env (initial # ticks) r w =
     (if \<not> initial then (r, w)
      else case registerDeviceOnce env r w of ((_, r'), w') \<Rightarrow> registerDeviceWithRetries env ticks r' w')"

definition RegisterDevice ::
  "('k, 'e) reg_env \<Rightarrow> bool list \<Rightarrow> Registration \<Rightarrow> 'e world \<Rightarrow> Registration \<times> 'e world" where
  "RegisterDevice env ticks r w =
     (case registerDeviceOnce env r w of ((_, r'), w') \<Rightarrow> registerDeviceWithRetries env ticks r' w')"

definition IsRegistered :: "Registration \<Rightarrow> bool" where
  "IsRegistered r = reg_registered r"

text \<open>
  \<open>Deregister\<close> runs every component's \<open>Deregister\<close>, whatever fails; a component is its name and its
  operation on the state \<open>'w\<close> of the whole worker.
\<close>

definition Registration_Deregister ::
  "(string \<times> ('w \<Rightarrow> (error option, 'w) call)) list \<Rightarrow> Registration \<Rightarrow> 'w \<Rightarrow> (error option \<times> Registration, 'w) call" where
  "Registration_Deregister deregistrables r w =
     (case all_steps (map (\<lambda>(name, f). (''deregister '' @ name, f)) deregistrables) [] w of
        (Ret errors, w') \<Rightarrow> (Ret (as_error errors, r\<lparr>reg_registered := False\<rparr>), w')
      | (Panic, w') \<Rightarrow> (Panic, w'))"

section \<open>Properties\<close>

text \<open>A write that fails without touching the file.\<close>

definition writes_whole :: "fs \<Rightarrow> bool" where
  "writes_whole s \<longleftrightarrow> list_all (\<lambda>f. case f of FaultShort _ \<Rightarrow> False | _ \<Rightarrow> True) (faults s)"

lemma WriteFile_whole:
  assumes "WriteFile s p c = (Some err, s')" and "writes_whole s"
  shows "nodes s' = nodes s"
  using assms by (auto simp: WriteFile_def writes_whole_def next_fault_def Let_def list_all_iff split: if_splits fault.splits list.splits)

lemma writes_whole_next [simp]: "writes_whole s \<Longrightarrow> writes_whole (snd (WriteFile s p c))"
  by (cases "faults s") (simp_all add: writes_whole_def)

lemma next_fault_nth: "faults s2 = tl (tl xs) \<Longrightarrow> next_fault s2 \<noteq> NoFault \<Longrightarrow> 2 < length xs \<and> xs ! 2 \<noteq> NoFault"
  by (cases xs; cases "tl xs"; cases "tl (tl xs)") (auto simp: next_fault_def)

text \<open>Once a file was written, only a fault of the disk stops a second write.\<close>

lemma WriteFile_again:
  assumes "WriteFile s p c = (None, s1)" and "nodes s2 = (nodes s)(p \<mapsto> File c)" and "next_fault s2 = NoFault"
  shows "fst (WriteFile s2 p d) = None"
proof -
  have p: "\<not> is_dir s p" "is_dir s (path_Dir p)"
    using assms(1) by (auto simp: WriteFile_def Let_def split: if_splits)
  then have "path_Dir p \<noteq> p" by metis
  with p assms(2) have "\<not> is_dir s2 p" "is_dir s2 (path_Dir p)" by (auto simp: is_dir_def)
  then show ?thesis using assms(3) by (simp add: WriteFile_succeeds)
qed

text \<open>
  C29: Where a write either happens or does not, the certificate and the key on disk and in memory
  stay a pair: after \<open>WriteCertificate\<close> they are both the new ones, if it reports success, and both
  the old ones, if it reports an error, unless the disk fails a third time, when the old certificate
  is written back.
\<close>

theorem certificate_pair_consistent:
  assumes "WriteCertificate env cert key c s = ((err, c'), s')" and "writes_whole s" and "cc_certPath c \<noteq> cc_keyPath c"
    and "nodes s (cc_certPath c) = Some (File (cg_CertPEM (cc_certGroup c)))"
    and "nodes s (cc_keyPath c) = Some (File (cg_PrivKeyPEM (cc_certGroup c)))"
  shows "case err of
      None \<Rightarrow> nodes s' (cc_certPath c) = Some (File cert) \<and> nodes s' (cc_keyPath c) = Some (File key) \<and>
        cc_certGroup c' = \<lparr>cg_CertPEM = cert, cg_PrivKeyPEM = key\<rparr> \<and> mtls_ImportFromPem env cert key = None
    | Some _ \<Rightarrow> c' = c \<and> nodes s' (cc_keyPath c) = nodes s (cc_keyPath c) \<and>
        (nodes s' (cc_certPath c) = nodes s (cc_certPath c) \<or>
         nodes s' (cc_certPath c) = Some (File cert) \<and> 2 < length (faults s) \<and> faults s ! 2 \<noteq> NoFault)"
proof (cases "mtls_ImportFromPem env cert key")
  case (Some e)
  then show ?thesis using assms(1) by (auto simp: WriteCertificate_def)
next
  case None
  obtain e1 s1 where w1: "WriteFile s (cc_certPath c) cert = (e1, s1)" by fastforce
  show ?thesis
  proof (cases e1)
    case (Some e)
    then show ?thesis
      using assms(1,2) None w1 WriteFile_whole by (auto simp: WriteCertificate_def)
  next
    case e1: None
    then have n1: "nodes s1 = (nodes s)(cc_certPath c \<mapsto> File cert)" and whole: "writes_whole s1"
      using w1 WriteFile_ok(1) writes_whole_next [OF assms(2), of "cc_certPath c" cert] by auto
    obtain e2 s2 where w2: "WriteFile s1 (cc_keyPath c) key = (e2, s2)" by fastforce
    show ?thesis
    proof (cases e2)
      case e2: None
      then have "nodes s2 = (nodes s1)(cc_keyPath c \<mapsto> File key)" using w2 WriteFile_ok(1) by blast
      then show ?thesis
        using assms(1,3) None w1 e1 w2 e2 n1 by (auto simp: WriteCertificate_def)
    next
      case (Some e)
      then have n2: "nodes s2 = nodes s1" and whole2: "writes_whole s2"
        using w2 WriteFile_whole [OF _ whole] writes_whole_next [OF whole, of "cc_keyPath c" key] by auto
      obtain e3 s3 where w3: "WriteFile s2 (cc_certPath c) (cg_CertPEM (cc_certGroup c)) = (e3, s3)" by fastforce
      have r: "err = Some e" "c' = c" "s' = s3"
        using assms(1) None w1 e1 w2 Some w3 by (auto simp: WriteCertificate_def)
      show ?thesis
      proof (cases e3)
        case e3: None
        then have "nodes s3 = (nodes s2)(cc_certPath c \<mapsto> File (cg_CertPEM (cc_certGroup c)))"
          using w3 WriteFile_ok(1) by blast
        with r n1 n2 assms(3,4) show ?thesis by auto
      next
        case e3: (Some e4)
        then have "nodes s3 = nodes s2" using w3 WriteFile_whole [OF _ whole2] by blast
        moreover have "next_fault s2 \<noteq> NoFault"
          using WriteFile_again [OF w1 [unfolded e1], of s2 "cg_CertPEM (cc_certGroup c)"] w3 e3 n1 n2 by auto
        moreover have "faults s2 = tl (tl (faults s))"
          using w1 w2 faults_calls(1) [of s "cc_certPath c" cert] faults_calls(1) [of s1 "cc_keyPath c" key] by simp
        ultimately show ?thesis using r n1 n2 assms(3) by (auto simp: next_fault_nth)
      qed
    qed
  qed
qed

text \<open>
  C1: An attempt to register succeeds exactly through an accepted answer: the operator replied with
  a status below 300 and a certificate which, with the key of this very request, makes a valid pair,
  and that pair is then in memory, its key on disk and the device registered. After any failure
  the device is as registered as before and keeps the certificate in use.
\<close>

theorem registered_has_certificate:
  assumes "registerDeviceOnce env r w = ((err, r'), w')"
  shows "(err = None \<longrightarrow> IsRegistered r' \<and>
      (\<exists>cert key csr e1 hardware e2 response parsed.
         renewCertificate env r (ext w) = (Inr (key, csr), e1) \<and>
         read_hardware env e1 = (Inr hardware, e2) \<and>
         dispatcher_Send env ''registration'' (registration_content (json_HardwareInfo env hardware) csr) e2 = (Inr response, ext w') \<and>
         NewYGGDResponse response = Inr parsed \<and> ygg_StatusCode parsed < 300 \<and>
         response_certificate (ygg_Body parsed) = Inr cert \<and> mtls_ImportFromPem env cert key = None \<and>
         cc_certGroup (reg_clientCert r') = \<lparr>cg_CertPEM = cert, cg_PrivKeyPEM = key\<rparr> \<and>
         nodes (disk w') (cc_keyPath (reg_clientCert r)) = Some (File key))) \<and>
    (err \<noteq> None \<longrightarrow> IsRegistered r' = IsRegistered r \<and> cc_certGroup (reg_clientCert r') = cc_certGroup (reg_clientCert r))"
proof -
  have w: "cc_certGroup c' = (if e = None then \<lparr>cg_CertPEM = cert, cg_PrivKeyPEM = key\<rparr> else cc_certGroup c) \<and>
      (e = None \<longrightarrow> mtls_ImportFromPem env cert key = None \<and> nodes s' (cc_keyPath c) = Some (File key))"
    if "WriteCertificate env cert key c s = ((e, c'), s')" for cert key c s e c' s'
    using that WriteFile_ok(1)
    by (auto simp: WriteCertificate_def split: option.splits prod.splits)
  show ?thesis
    using assms
    by (auto simp: registerDeviceOnce_def IsRegistered_def Let_def dest: w
        split: prod.splits sum.splits option.splits if_splits)
qed

section \<open>An example\<close>

text \<open>Keys are their own PEM form and a certificate is the key it was issued for, after a letter.\<close>

definition demo_reg_env :: "(string, unit) reg_env" where
  "demo_reg_env =
     \<lparr>mtls_ImportFromPem = (\<lambda>cert key. if tl cert = key then None else Some (ExternalError ''mismatch'')),
      mtls_CommonName = (\<lambda>cert. Some (if hd cert = CHR ''r'' then CertRegisterCN else ''dev'')),
      mtls_GetKey = Some,
      mtls_GetNewKey = (\<lambda>e. (Inr ''new'', e)),
      mtls_MarshalKeyToPem = Inr,
      x509_CreateCertificateRequest = (\<lambda>deviceID key e. (Inr (deviceID @ key), e)),
      pem_EncodeToMemory = (\<lambda>x. x),
      dispatcher_GetConfig = (\<lambda>e. (Inr (''/cert'', ''/key''), e)),
      dispatcher_Send = (\<lambda>directive message e.
        (Inr (json_print (JObj [(''StatusCode'', JNum 200),
                                (''Body'', JObj [(''content'', JObj [(''certificate'', JStr ''dnew'')])])])), e)),
      dev_inventory = (\<lambda>e. (\<lparr>inv_Architecture = [], inv_ModelName = [], inv_Hostname = [], inv_Vendor = [], inv_Interfaces = []\<rparr>, e)),
      json_HardwareInfo = (\<lambda>_. ''{}'')\<rparr>"

definition demo_cert :: ClientCert where
  "demo_cert = \<lparr>cc_keyPath = ''/key'', cc_certPath = ''/cert'', cc_certGroup = \<lparr>cg_CertPEM = ''rold'', cg_PrivKeyPEM = ''old''\<rparr>\<rparr>"

definition demo_reg_world :: "unit world" where
  "demo_reg_world = \<lparr>disk = fs_of [(''/cert'', File ''rold''), (''/key'', File ''old'')], ext = ()\<rparr>"

definition demo_registration :: Registration where
  "demo_registration = \<lparr>reg_registered = False, reg_RetryAfter = retryAfter, reg_deviceID = ''dev'', reg_clientCert = demo_cert\<rparr>"

lemma demo_registers:
  "registerDeviceOnce demo_reg_env demo_registration demo_reg_world =
     ((None, snd (fst (registerDeviceOnce demo_reg_env demo_registration demo_reg_world))),
      snd (registerDeviceOnce demo_reg_env demo_registration demo_reg_world))"
proof -
  have "fst (fst (registerDeviceOnce demo_reg_env demo_registration demo_reg_world)) = None" by code_simp
  then show ?thesis by (metis prod.collapse)
qed

lemma registered_has_certificate_witness:
  "IsRegistered (snd (fst (registerDeviceOnce demo_reg_env demo_registration demo_reg_world))) \<and>
   (\<exists>key. nodes (disk (snd (registerDeviceOnce demo_reg_env demo_registration demo_reg_world))) ''/key'' = Some (File key))"
  using registered_has_certificate [OF demo_registers]
  by (auto simp: demo_registration_def demo_cert_def)

text \<open>The key cannot be written, and the old certificate is restored.\<close>

definition full_disk :: fs where
  "full_disk = (disk demo_reg_world)\<lparr>faults := [NoFault, FaultOpen]\<rparr>"

lemma certificate_pair_consistent_witness:
  "nodes (snd (WriteCertificate demo_reg_env ''dnew'' ''new'' demo_cert full_disk)) ''/cert'' = Some (File ''rold'') \<and>
   nodes (snd (WriteCertificate demo_reg_env ''dnew'' ''new'' demo_cert full_disk)) ''/key'' = Some (File ''old'')"
proof -
  let ?r = "WriteCertificate demo_reg_env ''dnew'' ''new'' demo_cert full_disk"
  have e: "fst (fst ?r) \<noteq> None" by code_simp
  have "case fst (fst ?r) of
      None \<Rightarrow> nodes (snd ?r) (cc_certPath demo_cert) = Some (File ''dnew'') \<and> nodes (snd ?r) (cc_keyPath demo_cert) = Some (File ''new'') \<and>
        cc_certGroup (snd (fst ?r)) = \<lparr>cg_CertPEM = ''dnew'', cg_PrivKeyPEM = ''new''\<rparr> \<and> mtls_ImportFromPem demo_reg_env ''dnew'' ''new'' = None
    | Some _ \<Rightarrow> snd (fst ?r) = demo_cert \<and> nodes (snd ?r) (cc_keyPath demo_cert) = nodes full_disk (cc_keyPath demo_cert) \<and>
        (nodes (snd ?r) (cc_certPath demo_cert) = nodes full_disk (cc_certPath demo_cert) \<or>
         nodes (snd ?r) (cc_certPath demo_cert) = Some (File ''dnew'') \<and> 2 < length (faults full_disk) \<and> faults full_disk ! 2 \<noteq> NoFault)"
    by (rule certificate_pair_consistent)
      (auto simp: full_disk_def demo_reg_world_def demo_cert_def writes_whole_def)
  then show ?thesis using e
    by (auto simp: full_disk_def demo_reg_world_def demo_cert_def)
qed

end
