(* ===== verification/Configuration.thy ===== *)
theory Configuration
  imports Workload_Manager
begin

text \<open>
  \<open>internal/configuration/configuration.go\<close>: the manager that compares an incoming configuration with
  the current one, tells the observers, and keeps it in \<open>device-config.json\<close>.

  The message an observer gets holds pointers to the workloads of the manager's own message, so an
  observer may change them: an observer returns the message as it leaves it. The JSON encoding of
  the message type (declared in the vendored \<open>models\<close> package) is a parameter.
\<close>

record config_codec =
  json_Marshal :: "DeviceConfigurationMessage \<Rightarrow> error + string"
  json_Unmarshal :: "string \<Rightarrow> error + DeviceConfigurationMessage"

record 'x ConfigObserver =
  obs_Init :: "DeviceConfigurationMessage \<Rightarrow> 'x world \<Rightarrow> (error option \<times> DeviceConfigurationMessage, 'x world) call"
  obs_Update :: "DeviceConfigurationMessage \<Rightarrow> 'x world \<Rightarrow> (error option \<times> DeviceConfigurationMessage, 'x world) call"

record 'x ConfigManager =
  cfg_deviceConfiguration :: DeviceConfigurationMessage
  cfg_observers :: "'x ConfigObserver list"
  cfg_deviceConfigFile :: string
  cfg_initialConfig :: bool

definition defaultHeartbeatConfiguration :: HeartbeatConfiguration where
  "defaultHeartbeatConfiguration = \<lparr>hb_HardwareProfile = Some (False, []), hb_PeriodSeconds = 60\<rparr>"

definition defaultDeviceConfiguration :: DeviceConfiguration where
  "defaultDeviceConfiguration = \<lparr>dc_Heartbeat = Some defaultHeartbeatConfiguration, dc_LogCollection = [],
     dc_Metrics = None, dc_Os = None, dc_Storage = None\<rparr>"

definition defaultDeviceConfigurationMessage :: DeviceConfigurationMessage where
  "defaultDeviceConfigurationMessage = \<lparr>dcm_AnsiblePlaybook = [], dcm_Configuration = Some defaultDeviceConfiguration,
     dcm_DeviceID = [], dcm_Secrets = [], dcm_Version = [], dcm_Workloads = [], dcm_WorkloadsMonitoringInterval = 0\<rparr>"

section \<open>Comparing configurations\<close>

text \<open>\<open>reflect.DeepEqual\<close>: structural, maps by their entries whatever the order.\<close>

definition same_map :: "('k, 'v) gomap \<Rightarrow> ('k, 'v) gomap \<Rightarrow> bool" where
  "same_map m m' \<longleftrightarrow> set m = set m'"

definition metrics_equal :: "Metrics \<Rightarrow> Metrics \<Rightarrow> bool" where
  "metrics_equal a b \<longleftrightarrow> a\<lparr>met_Containers := []\<rparr> = b\<lparr>met_Containers := []\<rparr> \<and>
     same_map (met_Containers a) (met_Containers b)"

definition workload_equal :: "Workload_model \<Rightarrow> Workload_model \<Rightarrow> bool" where
  "workload_equal a b \<longleftrightarrow>
     a\<lparr>wl_Labels := None, wl_Metrics := None\<rparr> = b\<lparr>wl_Labels := None, wl_Metrics := None\<rparr> \<and>
     rel_option same_map (wl_Labels a) (wl_Labels b) \<and> rel_option metrics_equal (wl_Metrics a) (wl_Metrics b)"

definition configuration_equal :: "DeviceConfiguration \<Rightarrow> DeviceConfiguration \<Rightarrow> bool" where
  "configuration_equal a b \<longleftrightarrow> a\<lparr>dc_LogCollection := []\<rparr> = b\<lparr>dc_LogCollection := []\<rparr> \<and>
     same_map (dc_LogCollection a) (dc_LogCollection b)"

text \<open>Secrets are compared without their order: by length, and each of \<open>y\<close> with the one of that name in \<open>x\<close>.\<close>

definition isEqualUnorderedSecretLists :: "Secret list \<Rightarrow> Secret list \<Rightarrow> bool" where
  "isEqualUnorderedSecretLists x y =
     (if length x \<noteq> length y then False
      else let secretsMap = map_fill [] (map (\<lambda>s. (sec_Name s, s)) x)
           in list_all (\<lambda>s. case map_of secretsMap (sec_Name s) of None \<Rightarrow> False | Some other \<Rightarrow> s = other) y)"

section \<open>The manager\<close>

definition NewConfigurationManager :: "config_codec \<Rightarrow> string \<Rightarrow> fs \<Rightarrow> 'x ConfigManager" where
  "NewConfigurationManager enc dataDir s =
     (let deviceConfigFile = path_Join [dataDir, ''device-config.json''];
          (deviceConfiguration, initialConfig) =
            (case ReadFile s deviceConfigFile of
               Inl _ \<Rightarrow> (defaultDeviceConfigurationMessage, True)
             | Inr text \<Rightarrow>
                 (case json_Unmarshal enc text of
                    Inl _ \<Rightarrow> (defaultDeviceConfigurationMessage, False)
                  | Inr msg \<Rightarrow> (msg, False)))
      in \<lparr>cfg_deviceConfiguration = deviceConfiguration, cfg_observers = [], cfg_deviceConfigFile = deviceConfigFile,
          cfg_initialConfig = initialConfig\<rparr>)"

text \<open>The observer's \<open>Init\<close> gets the manager's own message and may change its workloads.\<close>

definition RegisterObserver ::
  "'x ConfigObserver \<Rightarrow> 'x ConfigManager \<Rightarrow> 'x world \<Rightarrow> ('x ConfigManager, 'x world) call" where
  "RegisterObserver obs m w =
     (case obs_Init obs (cfg_deviceConfiguration m) w of
        (Ret (_, msg), w') \<Rightarrow>
          (Ret (m\<lparr>cfg_deviceConfiguration := msg, cfg_observers := cfg_observers m @ [obs]\<rparr>), w')
      | (Panic, w') \<Rightarrow> (Panic, w'))"

definition GetDeviceConfiguration :: "'x ConfigManager \<Rightarrow> DeviceConfiguration outcome" where
  "GetDeviceConfiguration m =
     (case dcm_Configuration (cfg_deviceConfiguration m) of None \<Rightarrow> Panic | Some c \<Rightarrow> Ret c)"

definition ConfigManager_GetDeviceID :: "'x ConfigManager \<Rightarrow> string" where
  "ConfigManager_GetDeviceID m = dcm_DeviceID (cfg_deviceConfiguration m)"

definition GetWorkloads :: "'x ConfigManager \<Rightarrow> Workload_model list" where
  "GetWorkloads m = dcm_Workloads (cfg_deviceConfiguration m)"

definition GetSecrets :: "'x ConfigManager \<Rightarrow> Secret list" where
  "GetSecrets m = dcm_Secrets (cfg_deviceConfiguration m)"

definition GetDataTransferInterval :: int where
  "GetDataTransferInterval = 15" \<comment> \<open>seconds\<close>

definition GetConfigurationVersion :: "'x ConfigManager \<Rightarrow> string" where
  "GetConfigurationVersion m = dcm_Version (cfg_deviceConfiguration m)"

definition IsInitialConfig :: "'x ConfigManager \<Rightarrow> bool" where
  "IsInitialConfig m = cfg_initialConfig m"

fun run_observers ::
  "'x ConfigObserver list \<Rightarrow> DeviceConfigurationMessage \<Rightarrow> error list \<Rightarrow> 'x world \<Rightarrow>
   (error list \<times> DeviceConfigurationMessage, 'x world) call" where
  "run_observers [] message errors w = (Ret (errors, message), w)"
| "run_observers (obs # observers) message errors w =
     (case obs_Update obs message w of
        (Ret (None, message'), w') \<Rightarrow> run_observers observers message' errors w'
      | (Ret (Some err, message'), w') \<Rightarrow>
          run_observers observers message'
            (multierror_Append errors (Errorf ''running config observer failed: %s'' [error_string err])) w'
      | (Panic, w') \<Rightarrow> (Panic, w'))"

definition should_update :: "DeviceConfigurationMessage \<Rightarrow> 'x ConfigManager \<Rightarrow> bool" where
  "should_update message m =
     (let current = cfg_deviceConfiguration m;
          configurationEqual = rel_option configuration_equal (dcm_Configuration message) (dcm_Configuration current);
          workloadsEqual = list_all2 workload_equal (dcm_Workloads message) (dcm_Workloads current);
          secretsEqual = isEqualUnorderedSecretLists (dcm_Secrets message) (dcm_Secrets current)
      in IsInitialConfig m \<or> \<not> (configurationEqual \<and> workloadsEqual \<and> secretsEqual))"

text \<open>
  The result, the manager afterwards and the message as the observers have left it. When the file
  cannot be written, the errors of the observers are replaced by that of the write.
\<close>

definition ConfigManager_Update ::
  "config_codec \<Rightarrow> DeviceConfigurationMessage \<Rightarrow> 'x ConfigManager \<Rightarrow> 'x world \<Rightarrow>
   (error option \<times> 'x ConfigManager, 'x world) call" where
  "ConfigManager_Update enc message m w =
     (if \<not> should_update message m then (Ret (None, m), w)
      else
        case run_observers (cfg_observers m) message [] w of
          (Panic, w') \<Rightarrow> (Panic, w')
        | (Ret (errors, message'), w') \<Rightarrow>
            (case json_Marshal enc message' of
               Inl err \<Rightarrow>
                 (Ret (as_error (multierror_Append errors (Errorf ''cannot unmarshal message JSON: %s'' [error_string err])), m), w')
             | Inr text \<Rightarrow>
                 (case WriteFile (disk w') (cfg_deviceConfigFile m) text of
                    (Some err, s') \<Rightarrow>
                      (Ret (as_error (multierror_Append [] (Errorf ''cannot write device config file '%s': %s''
                                        [cfg_deviceConfigFile m, error_string err])), m), w'\<lparr>disk := s'\<rparr>)
                  | (None, s') \<Rightarrow>
                      (Ret (as_error errors, m\<lparr>cfg_deviceConfiguration := message', cfg_initialConfig := False\<rparr>),
                       w'\<lparr>disk := s'\<rparr>))))"

definition ConfigManager_Deregister :: "'x ConfigManager \<Rightarrow> fs \<Rightarrow> error option \<times> fs" where
  "ConfigManager_Deregister m s = os_Remove s (cfg_deviceConfigFile m)"

section \<open>Comparing secrets\<close>

lemma secret_lookup:
  assumes "distinct (map sec_Name x)"
  shows "map_of (map_fill [] (map (\<lambda>s. (sec_Name s, s)) x)) (sec_Name s) = Some t \<longleftrightarrow> t \<in> set x \<and> sec_Name t = sec_Name s"
proof -
  have d: "distinct (map fst (map (\<lambda>s. (sec_Name s, s)) x))"
    using assms by (simp add: comp_def)
  show ?thesis
    unfolding lookup_fill_distinct [OF d] map_of_eq_Some_iff [OF d] by force
qed

lemma secret_lists_same:
  assumes "distinct (map sec_Name x)" and "distinct (map sec_Name y)"
  shows "isEqualUnorderedSecretLists x y \<longleftrightarrow> mset x = mset y"
proof -
  have x: "distinct x" and y: "distinct y"
    using assms by (simp_all add: distinct_map)
  let ?m = "map_fill [] (map (\<lambda>s. (sec_Name s, s)) x)"
  have "list_all (\<lambda>s. case map_of ?m (sec_Name s) of None \<Rightarrow> False | Some other \<Rightarrow> s = other) y \<longleftrightarrow> set y \<subseteq> set x"
  proof -
    have "(case map_of ?m (sec_Name s) of None \<Rightarrow> False | Some other \<Rightarrow> s = other) \<longleftrightarrow> s \<in> set x" for s
    proof -
      have "(case map_of ?m (sec_Name s) of None \<Rightarrow> False | Some other \<Rightarrow> s = other) \<longleftrightarrow> map_of ?m (sec_Name s) = Some s"
        by (cases "map_of ?m (sec_Name s)") auto
      then show ?thesis using secret_lookup [OF assms(1), of s s] by simp
    qed
    then show ?thesis by (auto simp: list_all_iff)
  qed
  moreover have "length x = length y \<and> set y \<subseteq> set x \<longleftrightarrow> mset x = mset y"
  proof
    assume l: "length x = length y \<and> set y \<subseteq> set x"
    then have "card (set y) = card (set x)"
      using x y by (simp add: distinct_card)
    with l have "set y = set x"
      by (intro card_subset_eq) simp_all
    with x y show "mset x = mset y"
      by (simp add: set_eq_iff_mset_eq_distinct)
  qed (auto dest: mset_eq_length mset_eq_setD)
  ultimately show ?thesis
    by (auto simp: isEqualUnorderedSecretLists_def Let_def)
qed

text \<open>
  C27: For secret lists in which no name occurs twice the comparison is equality up to the order.
  Without that it is wrong: a list with two names counts as equal to the list that has one of
  them twice, though not the other way round.
\<close>

theorem secret_lists_equal_iff:
  "(distinct (map sec_Name x) \<and> distinct (map sec_Name y) \<longrightarrow>
      (isEqualUnorderedSecretLists x y \<longleftrightarrow> mset x = mset y)) \<and>
   (let a = \<lparr>sec_Data = d1, sec_Name = ''a''\<rparr>; b = \<lparr>sec_Data = d2, sec_Name = ''b''\<rparr>
    in isEqualUnorderedSecretLists [a, b] [a, a] \<and> \<not> isEqualUnorderedSecretLists [a, a] [a, b])"
proof (intro conjI impI)
  show "isEqualUnorderedSecretLists x y \<longleftrightarrow> mset x = mset y"
    if "distinct (map sec_Name x) \<and> distinct (map sec_Name y)"
    using that by (simp add: secret_lists_same)
qed (simp add: isEqualUnorderedSecretLists_def Let_def)

theorem secret_lists_equal_iff_witness:
  "isEqualUnorderedSecretLists [\<lparr>sec_Data = ''1'', sec_Name = ''a''\<rparr>, \<lparr>sec_Data = ''2'', sec_Name = ''b''\<rparr>]
     [\<lparr>sec_Data = ''2'', sec_Name = ''b''\<rparr>, \<lparr>sec_Data = ''1'', sec_Name = ''a''\<rparr>]"
  by (rule iffD2 [OF mp [OF conjunct1 [OF secret_lists_equal_iff]]]) (simp_all add: add_mset_commute)

section \<open>Applying a configuration\<close>

lemma equal_refl [simp]:
  "same_map m m" "metrics_equal mt mt" "workload_equal wl wl" "configuration_equal c c"
  by (simp_all add: same_map_def metrics_equal_def workload_equal_def configuration_equal_def option.rel_refl)

lemma secrets_equal_refl: "distinct (map sec_Name x) \<Longrightarrow> isEqualUnorderedSecretLists x x"
  by (rule iffD2 [OF secret_lists_same]) simp_all

lemma should_update_same:
  assumes "\<not> cfg_initialConfig m" and "distinct (map sec_Name (dcm_Secrets (cfg_deviceConfiguration m)))"
  shows "\<not> should_update (cfg_deviceConfiguration m) m"
  using assms secrets_equal_refl
  by (simp add: should_update_def Let_def IsInitialConfig_def option.rel_refl list_all2_refl)

text \<open>The observers' calls one after the other, each on the message the one before it left.\<close>

definition keeps_message :: "'x ConfigObserver \<Rightarrow> bool" where
  "keeps_message obs \<longleftrightarrow> (\<forall>msg v r msg' v'. obs_Update obs msg v = (Ret (r, msg'), v') \<longrightarrow> msg' = msg)"

lemma run_observers_no_change:
  assumes "run_observers obs message errors w = (Ret (errors', message'), w')" and "list_all keeps_message obs"
  shows "message' = message"
  using assms
proof (induction obs arbitrary: errors w)
  case (Cons ob obs)
  obtain r w1 where r: "obs_Update ob message w = (r, w1)" by fastforce
  with Cons.prems(1) obtain e msg1 where "r = Ret (e, msg1)"
    by (cases r) auto
  with r have step: "obs_Update ob message w = (Ret (e, msg1), w1)" by simp
  have "keeps_message ob" using Cons.prems(2) by simp
  with step have "msg1 = message" unfolding keeps_message_def by blast
  with Cons step show ?case by (cases e) auto
qed simp

lemma ConfigManager_Update_ok:
  assumes "ConfigManager_Update enc message m w = (Ret (None, m'), w')" and "should_update message m"
  obtains message' js v where "run_observers (cfg_observers m) message [] w = (Ret ([], message'), v)"
    and "json_Marshal enc message' = Inr js" and "nodes (disk w') (cfg_deviceConfigFile m) = Some (File js)"
    and "m' = m\<lparr>cfg_deviceConfiguration := message', cfg_initialConfig := False\<rparr>"
  using assms
  by (auto simp: ConfigManager_Update_def as_error_def multierror_Append_def WriteFile_ok(1)
      split: prod.splits outcome.splits sum.splits option.splits if_splits)


text \<open>
  When the configuration file cannot be written, the update reports that alone: the errors of
  the observers are dropped, and the current configuration is kept, so the message counts as new
  when it comes again.
\<close>

theorem write_failure_hides_observer_errors:
  assumes "should_update message m" and "run_observers (cfg_observers m) message [] w = (Ret (errors, message'), w1)"
    and "json_Marshal enc message' = Inr text" and "WriteFile (disk w1) (cfg_deviceConfigFile m) text = (Some err, s')"
  shows "ConfigManager_Update enc message m w =
    (Ret (Some (MultiError [Errorf ''cannot write device config file '%s': %s'' [cfg_deviceConfigFile m, error_string err]]), m),
     w1\<lparr>disk := s'\<rparr>)"
  using assms by (simp add: ConfigManager_Update_def as_error_def)

section \<open>Concrete instances\<close>

definition demo_message :: DeviceConfigurationMessage where
  "demo_message = defaultDeviceConfigurationMessage\<lparr>dcm_Version := ''2'', dcm_Workloads := [demo_workload]\<rparr>"

definition demo_codec :: config_codec where
  "demo_codec = \<lparr>json_Marshal = \<lambda>_. Inr ''{}'', json_Unmarshal = \<lambda>_. Inr demo_message\<rparr>"

definition failing_observer :: "unit ConfigObserver" where
  "failing_observer = \<lparr>obs_Init = \<lambda>msg w. (Ret (None, msg), w), obs_Update = \<lambda>msg w. (Ret (Some (ExternalError ''down''), msg), w)\<rparr>"

definition demo_config_manager :: "unit ConfigObserver list \<Rightarrow> unit ConfigManager" where
  "demo_config_manager obs = \<lparr>cfg_deviceConfiguration = defaultDeviceConfigurationMessage, cfg_observers = obs,
     cfg_deviceConfigFile = ''/d/device-config.json'', cfg_initialConfig = True\<rparr>"

definition demo_config_world :: "(string \<times> node) list \<Rightarrow> unit world" where
  "demo_config_world ns = \<lparr>disk = fs_of ns, ext = ()\<rparr>"


theorem write_failure_hides_observer_errors_witness:
  "\<exists>err. fst (ConfigManager_Update demo_codec demo_message (demo_config_manager [failing_observer]) (demo_config_world [])) =
     Ret (Some (MultiError [Errorf ''cannot write device config file '%s': %s'' [''/d/device-config.json'', err]]),
          demo_config_manager [failing_observer])"
proof -
  have "WriteFile (disk (demo_config_world [])) (cfg_deviceConfigFile (demo_config_manager [failing_observer])) ''{}''
      = (Some (PathError ''open'' ''/d/device-config.json'' ENOENT), tick (fs_of []))"
    by (simp add: WriteFile_def demo_config_manager_def demo_config_world_def is_dir_def path_Dir_def Let_def missing_def
        list_ex_iff is_file_def)
  from write_failure_hides_observer_errors [OF _ _ _ this, of demo_message _ _ demo_message] show ?thesis
    by (simp add: should_update_def Let_def IsInitialConfig_def demo_config_manager_def demo_config_world_def
        failing_observer_def demo_codec_def)
qed

end
