(* ===== verification/Data_Transfer.thy ===== *)
theory Data_Transfer
  imports Configuration
begin

text \<open>
  \<open>internal/datatransfer\<close>: the monitor that copies the data directories of the running workloads to
  S3 at each tick, and when a workload is removed. AWS sessions and the package \<open>s3sync\<close> are
  parameters, and so is the clock. Times are nanoseconds.
\<close>

section \<open>Base64\<close>

text \<open>\<open>base64.StdEncoding.DecodeString\<close>: line breaks are skipped, padding is required.\<close>

definition base64_value :: "char \<Rightarrow> nat option" where
  "base64_value c =
     (let n = (of_char c :: nat) in
      if 65 \<le> n \<and> n \<le> 90 then Some (n - 65)
      else if 97 \<le> n \<and> n \<le> 122 then Some (n - 71)
      else if 48 \<le> n \<and> n \<le> 57 then Some (n + 4)
      else if c = CHR ''+'' then Some 62
      else if c = CHR ''/'' then Some 63
      else None)"

definition base64_bytes :: "nat \<Rightarrow> nat \<Rightarrow> nat \<Rightarrow> nat \<Rightarrow> string" where
  "base64_bytes a b c d =
     [char_of (a * 4 + b div 16), char_of (b mod 16 * 16 + c div 4), char_of (c mod 4 * 64 + d)]"

fun base64_quads :: "string \<Rightarrow> string option" where
  "base64_quads [] = Some []"
| "base64_quads [a, b, c, d] =
     (if d = CHR ''='' then
        if c = CHR ''='' then
          (case (base64_value a, base64_value b) of
             (Some x, Some y) \<Rightarrow> Some (take 1 (base64_bytes x y 0 0)) | _ \<Rightarrow> None)
        else
          (case (base64_value a, base64_value b, base64_value c) of
             (Some x, Some y, Some z) \<Rightarrow> Some (take 2 (base64_bytes x y z 0)) | _ \<Rightarrow> None)
      else
        (case (base64_value a, base64_value b, base64_value c, base64_value d) of
           (Some x, Some y, Some z, Some u) \<Rightarrow> Some (base64_bytes x y z u) | _ \<Rightarrow> None))"
| "base64_quads (a # b # c # d # rest) =
     (case (base64_value a, base64_value b, base64_value c, base64_value d, base64_quads rest) of
        (Some x, Some y, Some z, Some u, Some bs) \<Rightarrow> Some (base64_bytes x y z u @ bs) | _ \<Rightarrow> None)"
| "base64_quads _ = None"

definition base64_DecodeString :: "string \<Rightarrow> error + string" where
  "base64_DecodeString s =
     (case base64_quads (filter (\<lambda>c. c \<noteq> CHR 0x0A \<and> c \<noteq> CHR 0x0D) s) of
        None \<Rightarrow> Inl (ExternalError ''illegal base64 data'')
      | Some bs \<Rightarrow> Inr bs)"

section \<open>The S3 synchronizer\<close>

record Sync =
  sync_connected :: bool \<comment> \<open>\<open>s3SyncManager\<close> is not nil\<close>
  sync_bucketName :: string
  sync_bucketRegion :: string
  sync_endpoint :: string
  sync_accessKeyBytes :: string
  sync_secretKeyBytes :: string
  sync_caBundle :: string

record 'x sync_env =
  aws_NewSession :: "Sync \<Rightarrow> 'x world \<Rightarrow> error option \<times> 'x world"
  s3sync_Sync :: "Sync \<Rightarrow> string \<Rightarrow> string \<Rightarrow> 'x world \<Rightarrow> error option \<times> 'x world" \<comment> \<open>source directory, destination URL\<close>
  sync_Now :: "'x world \<Rightarrow> int \<times> 'x world"

definition NewSync :: "S3StorageConfiguration \<Rightarrow> error + Sync" where
  "NewSync s3Config =
     (case base64_DecodeString (s3_AwsAccessKeyID s3Config) of
        Inl err \<Rightarrow> Inl err
      | Inr accessKey \<Rightarrow>
          (case base64_DecodeString (s3_AwsSecretAccessKey s3Config) of
             Inl err \<Rightarrow> Inl err
           | Inr secretKey \<Rightarrow>
               (case base64_DecodeString (s3_AwsCaBundle s3Config) of
                  Inl err \<Rightarrow> Inl err
                | Inr ca \<Rightarrow>
                    Inr \<lparr>sync_connected = False, sync_bucketName = s3_BucketName s3Config, sync_bucketRegion = s3_BucketRegion s3Config,
                         sync_endpoint = Sprintf ''https://%s:%d'' [s3_BucketHost s3Config, Itoa (s3_BucketPort s3Config)],
                         sync_accessKeyBytes = accessKey, sync_secretKeyBytes = secretKey, sync_caBundle = ca\<rparr>)))"

definition Sync_Connect :: "'x sync_env \<Rightarrow> Sync \<Rightarrow> 'x world \<Rightarrow> (error option \<times> Sync) \<times> 'x world" where
  "Sync_Connect env s w =
     (if sync_connected s then ((None, s), w)
      else case aws_NewSession env s w of
             (Some err, w') \<Rightarrow> ((Some err, s), w')
           | (None, w') \<Rightarrow> ((None, s\<lparr>sync_connected := True\<rparr>), w'))"

definition s3_target :: "Sync \<Rightarrow> string \<Rightarrow> string" where
  "s3_target s targetPath = Sprintf ''s3://%s/%s'' [sync_bucketName s, targetPath]"

definition Sync_SyncPath :: "'x sync_env \<Rightarrow> Sync \<Rightarrow> string \<Rightarrow> string \<Rightarrow> 'x world \<Rightarrow> (error option, 'x world) call" where
  "Sync_SyncPath env s sourcePath targetPath w =
     (if \<not> sync_connected s then (Panic, w)
      else case s3sync_Sync env s sourcePath (s3_target s targetPath) w of (r, w') \<Rightarrow> (Ret r, w'))"

section \<open>The monitor\<close>

record Monitor =
  mon_ticking :: bool
  lastSuccessfulSyncTimes :: "(string, int) gomap"
  mon_fsSync :: "Sync option"

definition NewMonitor :: Monitor where
  "NewMonitor = \<lparr>mon_ticking = True, lastSuccessfulSyncTimes = [], mon_fsSync = None\<rparr>"

definition Monitor_Deregister :: "Monitor \<Rightarrow> error option \<times> Monitor" where
  "Monitor_Deregister m = (None, m\<lparr>mon_ticking := False\<rparr>)"

definition GetLastSuccessfulSyncTime :: "Monitor \<Rightarrow> string \<Rightarrow> int option" where
  "GetLastSuccessfulSyncTime m workloadName = map_of (lastSuccessfulSyncTimes m) workloadName"

definition HasStorageDefined :: "'y ConfigManager \<Rightarrow> bool outcome" where
  "HasStorageDefined cfg =
     (case GetDeviceConfiguration cfg of
        Panic \<Rightarrow> Panic
      | Ret c \<Rightarrow> Ret (case dc_Storage c of None \<Rightarrow> False | Some s3 \<Rightarrow> s3 \<noteq> None))"

definition getFsSync :: "Monitor \<Rightarrow> error + Sync" where
  "getFsSync m = (case mon_fsSync m of None \<Rightarrow> Inl (Errorf ''cannot get filesync'' []) | Some s \<Rightarrow> Inr s)"

definition SetStorage :: "Sync \<Rightarrow> Monitor \<Rightarrow> Monitor" where
  "SetStorage s m = m\<lparr>mon_fsSync := Some s\<rparr>"

definition storeLastUpdateTime :: "'x sync_env \<Rightarrow> string \<Rightarrow> Monitor \<Rightarrow> 'x mworld \<Rightarrow> Monitor \<times> 'x mworld" where
  "storeLastUpdateTime env workloadName m w =
     (case sync_Now env (out w) of
        (t, v) \<Rightarrow> (m\<lparr>lastSuccessfulSyncTimes := map_put (lastSuccessfulSyncTimes m) workloadName t\<rparr>, w\<lparr>out := v\<rparr>))"

definition data_paths :: "Workload_model \<Rightarrow> DataPath list" where
  "data_paths wd = (case wl_Data wd of None \<Rightarrow> [] | Some ps \<Rightarrow> ps)"

definition getPathsOfWorkload :: "'y ConfigManager \<Rightarrow> string \<Rightarrow> DataPath list" where
  "getPathsOfWorkload cfg workloadName =
     (case find (\<lambda>wd. wl_Name wd = workloadName) (GetWorkloads cfg) of None \<Rightarrow> [] | Some wd \<Rightarrow> data_paths wd)"

definition sync_error :: "string \<Rightarrow> string \<Rightarrow> error" where
  "sync_error source target =
     Errorf ''error while %s'' [Sprintf ''synchronizing [device]%s => [remote]%s'' [source, target]]"

lemma append_sync_error [simp]: "multierror_Append errors (sync_error source target) = errors @ [sync_error source target]"
  by (simp add: sync_error_def)

text \<open>The transfers of one workload: the errors met, and whether there were none.\<close>

fun sync_data_paths ::
  "'x sync_env \<Rightarrow> Sync \<Rightarrow> string \<Rightarrow> DataPath list \<Rightarrow> error list \<Rightarrow> bool \<Rightarrow> 'x mworld \<Rightarrow> (error list \<times> bool, 'x mworld) call" where
  "sync_data_paths env s hostPath [] errors success w = (Ret (errors, success), w)"
| "sync_data_paths env s hostPath (dp # dps) errors success w =
     (let source = path_Join [hostPath, dp_Source dp]
      in case on_out (Sync_SyncPath env s source (dp_Target dp)) w of
           (Panic, w') \<Rightarrow> (Panic, w')
         | (Ret None, w') \<Rightarrow> sync_data_paths env s hostPath dps errors success w'
         | (Ret (Some err), w') \<Rightarrow>
             sync_data_paths env s hostPath dps (multierror_Append errors (sync_error source (dp_Target dp))) False w')"

definition connected_sync :: "'x sync_env \<Rightarrow> Monitor \<Rightarrow> 'x mworld \<Rightarrow> ((error + Sync) \<times> Monitor) \<times> 'x mworld" where
  "connected_sync env m w =
     (case getFsSync m of
        Inl err \<Rightarrow> ((Inl err, m), w)
      | Inr s \<Rightarrow>
          (case Sync_Connect env s (out w) of
             ((Some err, s'), v) \<Rightarrow> ((Inl err, m\<lparr>mon_fsSync := Some s'\<rparr>), w\<lparr>out := v\<rparr>)
           | ((None, s'), v) \<Rightarrow> ((Inr s', m\<lparr>mon_fsSync := Some s'\<rparr>), w\<lparr>out := v\<rparr>)))"

definition syncPathsWorkload ::
  "'x sync_env \<Rightarrow> 'y ConfigManager \<Rightarrow> string \<Rightarrow> Monitor \<Rightarrow> 'x mworld \<Rightarrow> (Monitor, 'x mworld) call" where
  "syncPathsWorkload env cfg workloadName m w =
     (case HasStorageDefined cfg of
        Panic \<Rightarrow> (Panic, w)
      | Ret defined \<Rightarrow>
          if \<not> defined then (Ret m, w)
          else let dataPaths = getPathsOfWorkload cfg workloadName in
            if dataPaths = [] then (Ret m, w)
            else case connected_sync env m w of
                   ((Inl err, m1), w1) \<Rightarrow> (Ret m1, w1)
                 | ((Inr s, m1), w1) \<Rightarrow>
                     (case sync_data_paths env s (GetExportedHostPath (wm w) workloadName) dataPaths [] True w1 of
                        (Panic, w2) \<Rightarrow> (Panic, w2)
                      | (Ret (_, success), w2) \<Rightarrow>
                          if success then (case storeLastUpdateTime env workloadName m1 w2 of (m3, w3) \<Rightarrow> (Ret m3, w3))
                          else (Ret m1, w2)))"

definition Monitor_WorkloadRemoved ::
  "'x sync_env \<Rightarrow> 'y ConfigManager \<Rightarrow> string \<Rightarrow> Monitor \<Rightarrow> 'x mworld \<Rightarrow> (Monitor, 'x mworld) call" where
  "Monitor_WorkloadRemoved env cfg workloadName m w =
     (case syncPathsWorkload env cfg workloadName m w of
        (Panic, w') \<Rightarrow> (Panic, w')
      | (Ret m', w') \<Rightarrow> (Ret (m'\<lparr>lastSuccessfulSyncTimes := map_del (lastSuccessfulSyncTimes m') workloadName\<rparr>), w'))"

definition workloadToDataPaths :: "Workload_model list \<Rightarrow> (string, DataPath list) gomap" where
  "workloadToDataPaths wds = map_fill [] (map (\<lambda>wd. (wl_Name wd, data_paths wd)) (filter (\<lambda>wd. data_paths wd \<noteq> []) wds))"

fun sync_workloads ::
  "'x sync_env \<Rightarrow> Sync \<Rightarrow> (string, DataPath list) gomap \<Rightarrow> WorkloadInfo list \<Rightarrow> error list \<Rightarrow> Monitor \<Rightarrow> 'x mworld \<Rightarrow>
   (error list \<times> Monitor, 'x mworld) call" where
  "sync_workloads env s table [] errors m w = (Ret (errors, m), w)"
| "sync_workloads env s table (i # infos) errors m w =
     (let dataPaths = map_get table (wi_Name i) in
      if dataPaths = [] then sync_workloads env s table infos errors m w
      else case sync_data_paths env s (GetExportedHostPath (wm w) (wi_Name i)) dataPaths errors True w of
             (Panic, w1) \<Rightarrow> (Panic, w1)
           | (Ret (errors', success), w1) \<Rightarrow>
               (if success then
                  (case storeLastUpdateTime env (wi_Name i) m w1 of (m2, w2) \<Rightarrow> sync_workloads env s table infos errors' m2 w2)
                else sync_workloads env s table infos errors' m w1))"

definition syncPaths ::
  "'x sync_env \<Rightarrow> ('p, 'x) WorkloadWrapper \<Rightarrow> 'y ConfigManager \<Rightarrow> Monitor \<Rightarrow> 'x mworld \<Rightarrow> (error option \<times> Monitor, 'x mworld) call" where
  "syncPaths env ww cfg m w =
     (case ListWorkloads ww w of
        (Panic, w1) \<Rightarrow> (Panic, w1)
      | (Ret (Inl err), w1) \<Rightarrow> (Ret (Some err, m), w1)
      | (Ret (Inr infos), w1) \<Rightarrow>
          if infos = [] then (Ret (None, m), w1)
          else
            (case HasStorageDefined cfg of
               Panic \<Rightarrow> (Panic, w1)
             | Ret defined \<Rightarrow>
                 if \<not> defined then (Ret (None, m), w1)
                 else
                   (case connected_sync env m w1 of
                      ((Inl err, m2), w2) \<Rightarrow> (Ret (Some err, m2), w2)
                    | ((Inr s, m2), w2) \<Rightarrow>
                        (case sync_workloads env s (workloadToDataPaths (GetWorkloads cfg)) infos [] m2 w2 of
                           (Panic, w3) \<Rightarrow> (Panic, w3)
                         | (Ret (errors, m3), w3) \<Rightarrow> (Ret (as_error errors, m3), w3)))))"

definition ForceSync where
  "ForceSync env ww cfg m w = syncPaths env ww cfg m w"

text \<open>\<open>Update\<close>, also run by \<open>Init\<close>: a storage that cannot be decoded leaves the one in use.\<close>

definition Monitor_Update :: "string \<Rightarrow> DeviceConfigurationMessage \<Rightarrow> Monitor \<Rightarrow> error option \<times> Monitor" where
  "Monitor_Update deviceID configuration m =
     (case dcm_Configuration configuration of
        None \<Rightarrow> (None, m)
      | Some c \<Rightarrow>
          (case dc_Storage c of
             None \<Rightarrow> (None, m)
           | Some None \<Rightarrow> (None, m)
           | Some (Some s3) \<Rightarrow>
               (case NewSync s3 of
                  Inl err \<Rightarrow> (Some (Errorf ''observer update failed. DeviceID: %s; err: %s'' [deviceID, error_string err]), m)
                | Inr s \<Rightarrow> (None, SetStorage s m))))"

definition Monitor_Init where
  "Monitor_Init deviceID configuration m = Monitor_Update deviceID configuration m"

section \<open>Transfers\<close>

lemma on_out_SyncPath [simp]:
  "sync_connected s \<Longrightarrow> on_out (Sync_SyncPath env s src tgt) w =
     (Ret (fst (s3sync_Sync env s src (s3_target s tgt) (out w))), w\<lparr>out := snd (s3sync_Sync env s src (s3_target s tgt) (out w))\<rparr>)"
  by (simp add: on_out_def Sync_SyncPath_def split_beta)

lemma connected_sync_connected:
  "connected_sync env m w = ((Inr s, m'), w') \<Longrightarrow>
     sync_connected s \<and> wm w' = wm w \<and> lastSuccessfulSyncTimes m' = lastSuccessfulSyncTimes m"
  by (auto simp: connected_sync_def Sync_Connect_def split: sum.splits prod.splits option.splits if_splits)

lemma sync_data_paths_returns:
  "sync_connected s \<Longrightarrow> \<exists>errors' success' w'. sync_data_paths env s hostPath dps errors success w = (Ret (errors', success'), w') \<and> wm w' = wm w"
proof (induction dps arbitrary: errors success w)
  case (Cons dp dps)
  let ?r = "s3sync_Sync env s (path_Join [hostPath, dp_Source dp]) (s3_target s (dp_Target dp)) (out w)"
  show ?case
    using Cons.IH [OF Cons.prems, where w = "w\<lparr>out := snd ?r\<rparr>"] Cons.prems
    by (cases "fst ?r") (auto simp: Let_def)
qed simp

lemma sync_data_paths_errors:
  assumes "sync_connected s" and "sync_data_paths env s hostPath dps errors success w = (Ret (errors', success'), w')"
  shows "prefix errors errors' \<and> wm w' = wm w \<and> (success' \<longrightarrow> success \<and> errors' = errors) \<and> (success \<and> errors' = errors \<longrightarrow> success')"
  using assms(2)
proof (induction dps arbitrary: errors success w)
  case (Cons dp dps)
  let ?r = "s3sync_Sync env s (path_Join [hostPath, dp_Source dp]) (s3_target s (dp_Target dp)) (out w)"
  show ?case
  proof (cases "fst ?r")
    case None
    then have "sync_data_paths env s hostPath dps errors success (w\<lparr>out := snd ?r\<rparr>) = (Ret (errors', success'), w')"
      using Cons.prems assms(1) by (simp add: Let_def)
    note ih = Cons.IH [OF this]
    have "wm w' = wm w" using conjunct1 [OF conjunct2 [OF ih]] by simp
    with ih show ?thesis by blast
  next
    case (Some e)
    let ?e = "sync_error (path_Join [hostPath, dp_Source dp]) (dp_Target dp)"
    have "sync_data_paths env s hostPath dps (errors @ [?e]) False (w\<lparr>out := snd ?r\<rparr>) = (Ret (errors', success'), w')"
      using Some Cons.prems assms(1) by (simp add: Let_def)
    from Cons.IH [OF this] have "prefix (errors @ [?e]) errors'" "wm w' = wm w" "\<not> success'" by simp_all
    then show ?thesis by (auto dest: append_prefixD prefix_length_le)
  qed
qed simp

text \<open>
  What the monitor relies on in the remote store: a transfer without error has stored its
  source at its destination, and neither a transfer nor reading the clock takes that back.
\<close>

locale s3_store =
  fixes env :: "'x sync_env"
    and uploaded :: "'x world \<Rightarrow> string \<Rightarrow> string \<Rightarrow> bool"
  assumes sync_stores: "s3sync_Sync env s src url w = (None, w') \<Longrightarrow> uploaded w' src url"
    and sync_keeps: "uploaded w a b \<Longrightarrow> uploaded (snd (s3sync_Sync env s src url w)) a b"
    and now_keeps: "uploaded w a b \<Longrightarrow> uploaded (snd (sync_Now env w)) a b"
begin

definition all_stored :: "'x world \<Rightarrow> Sync \<Rightarrow> string \<Rightarrow> DataPath list \<Rightarrow> bool" where
  "all_stored w s hostPath dps \<longleftrightarrow>
     (\<forall>dp \<in> set dps. uploaded w (path_Join [hostPath, dp_Source dp]) (s3_target s (dp_Target dp)))"

lemma data_paths_keep:
  assumes "sync_connected s" and "sync_data_paths env s hostPath dps errors success w = (Ret (errors', success'), w')"
    and "uploaded (out w) a b"
  shows "uploaded (out w') a b"
  using assms(2,3)
proof (induction dps arbitrary: errors success w)
  case (Cons dp dps)
  let ?r = "s3sync_Sync env s (path_Join [hostPath, dp_Source dp]) (s3_target s (dp_Target dp)) (out w)"
  have "uploaded (snd ?r) a b" using Cons.prems(2) by (rule sync_keeps)
  with Cons assms(1) show ?case by (cases "fst ?r") (auto simp: Let_def)
qed simp

lemma data_paths_stored:
  assumes "sync_connected s" and "sync_data_paths env s hostPath dps errors success w = (Ret (errors', True), w')"
  shows "all_stored (out w') s hostPath dps"
  using assms(2)
proof (induction dps arbitrary: errors success w)
  case (Cons dp dps)
  let ?src = "path_Join [hostPath, dp_Source dp]" and ?url = "s3_target s (dp_Target dp)"
  let ?r = "s3sync_Sync env s ?src ?url (out w)" and ?w = "w\<lparr>out := snd (s3sync_Sync env s (path_Join [hostPath, dp_Source dp]) (s3_target s (dp_Target dp)) (out w))\<rparr>"
  have ok: "fst ?r = None"
  proof (rule ccontr)
    assume "fst ?r \<noteq> None"
    then obtain e where "fst ?r = Some e" by blast
    with Cons.prems assms(1) obtain errs where "sync_data_paths env s hostPath dps errs False ?w = (Ret (errors', True), w')"
      by (auto simp: Let_def)
    with sync_data_paths_errors [OF assms(1) this] show False by simp
  qed
  then have rest: "sync_data_paths env s hostPath dps errors success ?w = (Ret (errors', True), w')"
    using Cons.prems assms(1) by (simp add: Let_def)
  have "uploaded (out ?w) ?src ?url"
    using sync_stores [of s ?src ?url "out w" "snd ?r"] ok by (cases ?r) simp
  then have "uploaded (out w') ?src ?url" by (rule data_paths_keep [OF assms(1) rest])
  with Cons.IH [OF rest] show ?case by (simp add: all_stored_def)
qed (simp add: all_stored_def)

text \<open>A sweep over the running workloads.\<close>

lemma workloads_synced:
  assumes "sync_connected s" and "sync_workloads env s table infos errors m w = (Ret (errors', m'), w')"
  shows "wm w' = wm w \<and> prefix errors errors' \<and> (\<forall>a b. uploaded (out w) a b \<longrightarrow> uploaded (out w') a b) \<and>
    (\<forall>name. GetLastSuccessfulSyncTime m' name \<noteq> GetLastSuccessfulSyncTime m name \<longrightarrow>
       name \<in> wi_Name ` set infos \<and> map_get table name \<noteq> [] \<and>
       all_stored (out w') s (GetExportedHostPath (wm w) name) (map_get table name)) \<and>
    (\<forall>name. GetLastSuccessfulSyncTime m name \<noteq> None \<longrightarrow> GetLastSuccessfulSyncTime m' name \<noteq> None) \<and>
    (errors' = errors \<longrightarrow> (\<forall>i \<in> set infos. map_get table (wi_Name i) \<noteq> [] \<longrightarrow> GetLastSuccessfulSyncTime m' (wi_Name i) \<noteq> None))"
  using assms(2)
proof (induction infos arbitrary: errors m w)
  case (Cons i infos)
  let ?n = "wi_Name i"
  show ?case
  proof (cases "map_get table ?n = []")
    case True
    then have "sync_workloads env s table infos errors m w = (Ret (errors', m'), w')" using Cons.prems by simp
    from Cons.IH [OF this] True show ?thesis by (auto simp: image_iff)
  next
    case False
    obtain errs success w1 where
      step: "sync_data_paths env s (GetExportedHostPath (wm w) ?n) (map_get table ?n) errors True w = (Ret (errs, success), w1)"
      using sync_data_paths_returns [OF assms(1)] by blast
    note errs = sync_data_paths_errors [OF assms(1) step]
    have keep1: "uploaded (out w) a b \<Longrightarrow> uploaded (out w1) a b" for a b by (rule data_paths_keep [OF assms(1) step])
    show ?thesis
    proof (cases success)
      case True
      obtain t v where now: "sync_Now env (out w1) = (t, v)" by fastforce
      let ?m = "m\<lparr>lastSuccessfulSyncTimes := map_put (lastSuccessfulSyncTimes m) ?n t\<rparr>" and ?w = "w1\<lparr>out := v\<rparr>"
      have rest: "sync_workloads env s table infos errors ?m ?w = (Ret (errors', m'), w')"
        using Cons.prems False step True errs now by (simp add: Let_def storeLastUpdateTime_def)
      have keep2: "uploaded (out w1) a b \<Longrightarrow> uploaded v a b" for a b using now_keeps [of "out w1" a b] now by simp
      have all: "all_stored (out w1) s (GetExportedHostPath (wm w) ?n) (map_get table ?n)"
        using step True by (auto intro: data_paths_stored [OF assms(1)])
      note ih = Cons.IH [OF rest]
      have all': "all_stored (out w') s (GetExportedHostPath (wm w) ?n) (map_get table ?n)"
        using all keep2 ih by (simp add: all_stored_def)
      have last: "GetLastSuccessfulSyncTime ?m name = (if name = ?n then Some t else GetLastSuccessfulSyncTime m name)" for name
        by (simp add: GetLastSuccessfulSyncTime_def)
      have kept: "GetLastSuccessfulSyncTime m' name \<noteq> None" if "name = ?n \<or> GetLastSuccessfulSyncTime m name \<noteq> None" for name
      proof -
        have "GetLastSuccessfulSyncTime ?m name \<noteq> None" using that by (auto simp: last)
        with ih show ?thesis by blast
      qed
      have changed: "name \<in> wi_Name ` set (i # infos) \<and> map_get table name \<noteq> [] \<and>
          all_stored (out w') s (GetExportedHostPath (wm w) name) (map_get table name)"
        if "GetLastSuccessfulSyncTime m' name \<noteq> GetLastSuccessfulSyncTime m name" for name
      proof (cases "name = ?n")
        case other: False
        with that have "GetLastSuccessfulSyncTime m' name \<noteq> GetLastSuccessfulSyncTime ?m name" by (simp add: last)
        with ih errs show ?thesis by simp
      qed (use all' False in simp)
      have all_kept: "GetLastSuccessfulSyncTime m' (wi_Name j) \<noteq> None"
        if "errors' = errors" and "j \<in> set (i # infos)" and "map_get table (wi_Name j) \<noteq> []" for j
        using that ih kept by auto
      show ?thesis using ih errs keep1 keep2 kept changed all_kept by simp
    next
      case fail: False
      then have rest: "sync_workloads env s table infos errs m w1 = (Ret (errors', m'), w')"
        using Cons.prems False step by (simp add: Let_def)
      have grows: "prefix errors errs" "errs \<noteq> errors" using errs fail by auto
      note ih = Cons.IH [OF rest]
      have "errors' \<noteq> errors" using ih grows by (metis prefix_order.antisym)
      with ih errs keep1 grows show ?thesis
        by (auto simp: image_iff intro: prefix_order.trans)
    qed
  qed
qed simp

end

lemma sync_workloads_fsSync:
  "sync_workloads env s table infos errors m w = (Ret (errors', m'), w') \<Longrightarrow> mon_fsSync m' = mon_fsSync m"
  by (induction infos arbitrary: errors m w)
    (auto simp: Let_def storeLastUpdateTime_def split: if_splits prod.splits outcome.splits)

lemma connected_sync_fsSync: "connected_sync env m w = ((Inr s, m'), w') \<Longrightarrow> mon_fsSync m' = Some s"
  by (auto simp: connected_sync_def Sync_Connect_def split: sum.splits prod.splits option.splits if_splits)

lemma connected_sync_failed:
  "connected_sync env m w = ((Inl err, m'), w') \<Longrightarrow> lastSuccessfulSyncTimes m' = lastSuccessfulSyncTimes m"
  by (auto simp: connected_sync_def Sync_Connect_def split: sum.splits prod.splits option.splits if_splits)

text \<open>A sweep reaches the transfers, or leaves the recorded times alone.\<close>

lemma syncPaths_cases:
  assumes "syncPaths env ww cfg m w = (Ret (err, m'), w')"
  obtains (quiet) "lastSuccessfulSyncTimes m' = lastSuccessfulSyncTimes m"
      "err = None \<longrightarrow> (fst (ListWorkloads ww w) = Ret (Inr []) \<or> HasStorageDefined cfg = Ret False)"
  | (sweep) infos w1 s m2 w2 errors where "ListWorkloads ww w = (Ret (Inr infos), w1)" and "connected_sync env m w1 = ((Inr s, m2), w2)"
      and "sync_workloads env s (workloadToDataPaths (GetWorkloads cfg)) infos [] m2 w2 = (Ret (errors, m'), w')" and "err = as_error errors"
  using assms unfolding syncPaths_def
  by (auto dest: connected_sync_failed split: prod.splits outcome.splits sum.splits if_splits)


text \<open>The removal of a workload is its last transfer: afterwards nothing is recorded for it.\<close>

lemma removed_workload_forgotten:
  "Monitor_WorkloadRemoved env cfg name m w = (Ret m', w') \<Longrightarrow> GetLastSuccessfulSyncTime m' name = None"
  by (auto simp: Monitor_WorkloadRemoved_def GetLastSuccessfulSyncTime_def split: prod.splits outcome.splits)

text \<open>
  A transfer is only tried on a connected synchronizer, so the monitor never crashes on one
  that is not: the only way for a sweep to panic is in listing the workloads or on a
  configuration message without a configuration.
\<close>

theorem sync_panics_only_outside:
  assumes "fst (syncPaths env ww cfg m w) = Panic"
  shows "fst (ListWorkloads ww w) = Panic \<or> HasStorageDefined cfg = Panic"
proof (rule ccontr)
  assume no: "\<not> ?thesis"
  have loop: "fst (sync_workloads env s table infos errors m w) \<noteq> Panic" if "sync_connected s" for s table infos errors m w
    using that
  proof (induction infos arbitrary: errors m w)
    case (Cons i infos)
    obtain errors' success' w' where
      "sync_data_paths env s (GetExportedHostPath (wm w) (wi_Name i)) (map_get table (wi_Name i)) errors True w = (Ret (errors', success'), w')"
      using sync_data_paths_returns [OF Cons.prems] by blast
    with Cons show ?case by (simp add: Let_def storeLastUpdateTime_def split_beta)
  qed simp
  obtain r w1 where l: "ListWorkloads ww w = (Ret r, w1)" using no by (cases "ListWorkloads ww w"; cases "fst (ListWorkloads ww w)") auto
  obtain b where h: "HasStorageDefined cfg = Ret b" using no by (cases "HasStorageDefined cfg") auto
  obtain c m2 w2 where c: "connected_sync env m w1 = ((c, m2), w2)" by (metis prod.collapse)
  show False
  proof (cases c)
    case (Inr s)
    with c have "sync_connected s" using connected_sync_connected by blast
    from loop [OF this] have "sync_workloads env s (workloadToDataPaths (GetWorkloads cfg)) infos [] m2 w2 \<noteq> (Panic, w3)" for infos w3
      by (metis fst_conv)
    with assms l h c Inr show False
      by (auto simp: syncPaths_def split: sum.splits if_splits prod.splits outcome.splits)
  qed (use assms l h c in \<open>auto simp: syncPaths_def split: sum.splits if_splits\<close>)
qed

section \<open>The goroutine of the monitor\<close>

text \<open>
  \<open>Start\<close> ranges over the channel of the ticker, which holds one tick; a further one is dropped.
  \<open>Deregister\<close> stops the ticker and leaves the channel open. Other components change the world.
\<close>

record 'x monitor_loop =
  ml_monitor :: Monitor
  ml_world :: "'x mworld"
  ml_pending :: bool
  ml_syncs :: nat \<comment> \<open>the calls of \<open>syncPaths\<close> so far\<close>

inductive monitor_step ::
  "'x sync_env \<Rightarrow> ('p, 'x) WorkloadWrapper \<Rightarrow> 'y ConfigManager \<Rightarrow> 'x monitor_loop \<Rightarrow> 'x monitor_loop \<Rightarrow> bool" for env ww cfg where
  tick: "mon_ticking (ml_monitor s) \<Longrightarrow> monitor_step env ww cfg s (s\<lparr>ml_pending := True\<rparr>)"
| sync: "ml_pending s \<Longrightarrow> syncPaths env ww cfg (ml_monitor s) (ml_world s) = (Ret (err, m), w) \<Longrightarrow>
    monitor_step env ww cfg s (s\<lparr>ml_monitor := m, ml_world := w, ml_pending := False, ml_syncs := Suc (ml_syncs s)\<rparr>)"
| deregister: "monitor_step env ww cfg s (s\<lparr>ml_monitor := snd (Monitor_Deregister (ml_monitor s))\<rparr>)"
| others: "monitor_step env ww cfg s (s\<lparr>ml_world := w\<rparr>)"

lemma sync_workloads_ticking: "sync_workloads env s table infos errors m w = (Ret (errors', m'), w') \<Longrightarrow> mon_ticking m' = mon_ticking m"
  by (induction infos arbitrary: errors m w)
    (auto simp: Let_def storeLastUpdateTime_def split: if_splits prod.splits outcome.splits)

lemma syncPaths_ticking: "syncPaths env ww cfg m w = (Ret (err, m'), w') \<Longrightarrow> mon_ticking m' = mon_ticking m"
  by (auto simp: syncPaths_def connected_sync_def dest!: sync_workloads_ticking
      split: if_splits prod.splits sum.splits outcome.splits option.splits)

text \<open>A deregistered monitor transfers at most once more, for the tick that was waiting.\<close>

theorem deregistered_monitor_quiet:
  assumes "(monitor_step env ww cfg)\<^sup>*\<^sup>* s s'" and "\<not> mon_ticking (ml_monitor s)"
  shows "ml_syncs s' + (if ml_pending s' then 1 else 0) \<le> ml_syncs s + (if ml_pending s then 1 else 0)"
proof -
  have "\<not> mon_ticking (ml_monitor s') \<and> ml_syncs s' + (if ml_pending s' then 1 else 0) \<le> ml_syncs s + (if ml_pending s then 1 else 0)"
    using assms
  proof (induction rule: rtranclp_induct)
    case (step u v)
    from step(2) step(3) [OF step(4)] show ?case
      by (induction rule: monitor_step.induct) (auto simp: Monitor_Deregister_def dest: syncPaths_ticking split: if_splits)
  qed simp
  then show ?thesis ..
qed

section \<open>Concrete instances\<close>

text \<open>A store that keeps what it was given, and a workload with two paths of which one is refused.\<close>

definition memory_s3 :: "((string \<times> string) list) sync_env" where
  "memory_s3 = \<lparr>aws_NewSession = \<lambda>s w. (None, w),
     s3sync_Sync = \<lambda>s src url w. if src = ''/v/db/refused'' then (Some (ExternalError ''denied''), w) else (None, w\<lparr>ext := (src, url) # ext w\<rparr>),
     sync_Now = \<lambda>w. (7, w)\<rparr>"

interpretation memory_s3: s3_store memory_s3 "\<lambda>w src url. (src, url) \<in> set (ext w)"
  by unfold_locales (auto simp: memory_s3_def split: if_splits)

definition demo_data :: "string \<Rightarrow> string list \<Rightarrow> Workload_model" where
  "demo_data name ps = demo_workload\<lparr>wl_Name := name, wl_Data := Some (map (\<lambda>p. \<lparr>dp_Source = p, dp_Target = p\<rparr>) ps)\<rparr>"

definition demo_storage :: S3StorageConfiguration where
  "demo_storage = \<lparr>s3_AwsAccessKeyID = ''a2V5'', s3_AwsCaBundle = [], s3_AwsSecretAccessKey = ''aw=='', s3_BucketHost = ''h'',
     s3_BucketName = ''b'', s3_BucketPort = 443, s3_BucketRegion = []\<rparr>"

definition demo_data_config :: "unit ConfigManager" where
  "demo_data_config = (demo_config_manager [])\<lparr>cfg_deviceConfiguration := defaultDeviceConfigurationMessage
     \<lparr>dcm_Configuration := Some (defaultDeviceConfiguration\<lparr>dc_Storage := Some (Some demo_storage)\<rparr>),
      dcm_Workloads := [demo_data ''web'' [''www''], demo_data ''db'' [''dump'', ''refused'']]\<rparr>\<rparr>"

definition demo_monitor :: Monitor where
  "demo_monitor = snd (Monitor_Update [] (cfg_deviceConfiguration demo_data_config) NewMonitor)"

definition listing :: "string list \<Rightarrow> (unit, 'x) WorkloadWrapper" where
  "listing names = \<lparr>Wr_Init = \<lambda>w. (Ret None, w),
     Wr_List = \<lambda>w. (Ret (Inr (map (\<lambda>n. \<lparr>wi_Id = [], wi_Name = n, wi_Status = ''Running''\<rparr>) names)), w),
     Wr_Remove = \<lambda>_ w. (Ret None, w), Wr_Stop = \<lambda>_ w. (Ret None, w), Wr_Run = \<lambda>_ _ _ w. (Ret None, w),
     Wr_RemoveTable = \<lambda>w. (Ret None, w), Wr_RemoveMappingFile = \<lambda>w. (Ret None, w), Wr_RemoveServicesFile = \<lambda>w. (Ret None, w),
     Wr_ListSecrets = \<lambda>w. (Ret (Inr []), w), Wr_RemoveSecret = \<lambda>_ w. (Ret None, w), Wr_CreateSecret = \<lambda>_ _ w. (Ret None, w),
     Wr_UpdateSecret = \<lambda>_ _ w. (Ret None, w)\<rparr>"

definition demo_data_world :: "((string \<times> string) list) mworld" where
  "demo_data_world = \<lparr>wm = demo_manager\<lparr>volumesDir := ''/v''\<rparr>, out = \<lparr>disk = fs_of [], ext = []\<rparr>\<rparr>"

lemma demo_sync_times:
  "case syncPaths memory_s3 (listing [''web'', ''db'']) demo_data_config demo_monitor demo_data_world of
     (Ret (err, m), w) \<Rightarrow> err \<noteq> None \<and> lastSuccessfulSyncTimes m = [(''web'', 7)]
   | (Panic, w) \<Rightarrow> False"
  by code_simp


text \<open>A tick waits when the monitor is deregistered.\<close>

theorem deregistered_monitor_quiet_witness:
  "\<exists>s. \<not> mon_ticking (ml_monitor s) \<and> (\<nexists>s'. (monitor_step memory_s3 (listing [''web'']) demo_data_config)\<^sup>*\<^sup>* s s' \<and> 1 < ml_syncs s')"
proof -
  let ?s = "\<lparr>ml_monitor = snd (Monitor_Deregister demo_monitor), ml_world = demo_data_world, ml_pending = True, ml_syncs = 0\<rparr>"
  have "\<not> mon_ticking (ml_monitor ?s)" by (simp add: Monitor_Deregister_def)
  with deregistered_monitor_quiet [of memory_s3 "listing [''web'']" demo_data_config ?s] show ?thesis
    by (intro exI [of _ ?s]) fastforce
qed

text \<open>A manager on a message without a configuration panics.\<close>

theorem sync_panics_only_outside_witness:
  "HasStorageDefined ((demo_config_manager [])\<lparr>cfg_deviceConfiguration := defaultDeviceConfigurationMessage\<lparr>dcm_Configuration := None\<rparr>\<rparr>) = Panic"
proof -
  let ?cfg = "(demo_config_manager [])\<lparr>cfg_deviceConfiguration := defaultDeviceConfigurationMessage\<lparr>dcm_Configuration := None\<rparr>\<rparr>"
  have "fst (syncPaths memory_s3 (listing [''web'']) ?cfg demo_monitor demo_data_world) = Panic"
    by code_simp
  from sync_panics_only_outside [OF this] show ?thesis
    by (auto simp: listing_def ListWorkloads_def on_out_def)
qed

end
