(* ===== verification/Device_OS.thy ===== *)
theory Device_OS
  imports Systemd Models
begin

text \<open>
  \<open>internal/os\<close>: the version of the operating system the device runs and is asked to run, and the
  commands of \<open>rpm-ostree\<close> behind it. Running a command is a parameter: its standard output, or an
  error.
\<close>

type_synonym 'e command = "string list \<Rightarrow> 'e \<Rightarrow> (error + string) \<times> 'e"

definition UnknownOsImageId :: string where "UnknownOsImageId = ''unknown''"
definition GreenbootHealthCheckFileName :: string where
  "GreenbootHealthCheckFileName = ''/etc/greenboot/check/required.d/greenboot-health-check.sh''"
definition GreenbooFailFileName :: string where "GreenbooFailFileName = ''/etc/greenboot/red.d/bootfail.sh''"
definition EdgeConfFileName :: string where "EdgeConfFileName = ''/etc/ostree/remotes.d/edge.conf''"

text \<open>The scripts installed for greenboot.\<close>

definition GreenbootFailScript :: string where
  \<open>GreenbootFailScript = strings_Join
     [''#!/bin/bash'',
      [],
      ''echo "greenboot detected a boot failure" >> /var/roothome/greenboot.log'',
      ''date >> /var/roothome/greenboot.log'',
      ''grub2-editenv list | grep boot_counter >> /var/roothome/greenboot.log'',
      ''echo "----------------" >> /var/roothome/greenboot.log'',
      ''echo "" >> /var/roothome/greenboot.log''] [CHR 0x0A]\<close>

definition GreenbootHealthCheckScript :: string where
  \<open>GreenbootHealthCheckScript = strings_Join
     [''#!/bin/bash'',
      [],
      ''#!/bin/bash'',
      [],
      ''if [ -x /usr/libexec/yggdrasil/device-worker ]; then'',
      ''  echo "device-worker found, check passed!"'',
      ''else'',
      ''  echo "device-worker not found, check failed!"'',
      ''  exit 1'',
      ''fi'',
      [],
      ''check_is_service_active(){'',
      ''  n=0'',
      ''  until [[ "$n" -ge 5 ]]'',
      ''  do'',
      ''    if [[ $(systemctl is-active $1) = "active" ]]; then'',
      ''      echo "$1 is active, check passed!"'',
      ''      return'',
      ''    else'',
      ''      echo "$1 is not active, retrying"'',
      ''    fi'',
      ''    n=$((n+1))'',
      ''    sleep 1'',
      ''  done'',
      ''  echo "service $1 is not active"'',
      ''  exit 1'',
      ''}'',
      [],
      [],
      ''check_is_service_active yggdrasild.service'',
      ''check_is_service_active nftables.service'',
      ''check_is_service_active podman.service'',
      ''check_is_service_active podman.socket'',
      [],
      ''exit 0''] [CHR 0x0A]\<close>

text \<open>
  The way times are printed, and what becomes of the world during the graceful reboot, which talks
  to another goroutine over channels (theory \<open>Graceful_Reboot\<close>).
\<close>

record 'e os_env =
  os_run :: "'e command"
  time_String :: "int \<Rightarrow> string"
  gracefulRebootFlow :: "'e \<Rightarrow> 'e"

section \<open>Commands\<close>

definition RpmOstreeStatus :: "'e os_env \<Rightarrow> 'e \<Rightarrow> (error + string) \<times> 'e" where
  "RpmOstreeStatus env e = os_run env [''rpm-ostree'', ''status'', ''--json''] e"

definition IsRpmOstreeAvailable :: "'e os_env \<Rightarrow> 'e \<Rightarrow> bool \<times> 'e" where
  "IsRpmOstreeAvailable env e = (case RpmOstreeStatus env e of (Inl _, e') \<Rightarrow> (False, e') | (Inr _, e') \<Rightarrow> (True, e'))"

definition RpmOstreeUpdatePreview :: "'e os_env \<Rightarrow> 'e \<Rightarrow> (error + string) \<times> 'e" where
  "RpmOstreeUpdatePreview env e = os_run env [''rpm-ostree'', ''update'', ''--preview''] e"

definition only_error :: "(error + 'a) \<times> 'e \<Rightarrow> error option \<times> 'e" where
  "only_error r = (case r of (Inl err, e) \<Rightarrow> (Some err, e) | (Inr _, e) \<Rightarrow> (None, e))"

definition RpmOstreeUpgrade :: "'e os_env \<Rightarrow> 'e \<Rightarrow> error option \<times> 'e" where
  "RpmOstreeUpgrade env e = only_error (os_run env [''rpm-ostree'', ''upgrade''] e)"

definition SystemReboot :: "'e os_env \<Rightarrow> 'e \<Rightarrow> error option \<times> 'e" where
  "SystemReboot env e = only_error (os_run env [''systemctl'', ''reboot''] e)"

text \<open>Creating the file and writing the script are two calls; permission bits are left out.\<close>

definition EnsureScriptExists :: "string \<Rightarrow> string \<Rightarrow> fs \<Rightarrow> error option \<times> fs" where
  "EnsureScriptExists fileName script s =
     (case os_Stat s fileName of
        None \<Rightarrow> (None, s)
      | Some err \<Rightarrow>
          if os_IsNotExist err then
            (case WriteFile s (path_Clean fileName) [] of
               (Some err', s1) \<Rightarrow> (Some err', s1)
             | (None, s1) \<Rightarrow> WriteFile s1 (path_Clean fileName) script)
          else (Some err, s))"

definition set_url :: "string \<Rightarrow> string \<Rightarrow> string" where
  "set_url newURL line = (if strings_Contains line ''url='' then ''url='' @ newURL else line)"

definition UpdateUrlInEdgeRemote :: "string \<Rightarrow> string \<Rightarrow> fs \<Rightarrow> error option \<times> fs" where
  "UpdateUrlInEdgeRemote newURL remoteFileName s =
     (case ReadFile s (path_Clean remoteFileName) of
        Inl err \<Rightarrow> (Some err, s)
      | Inr input \<Rightarrow>
          WriteFile s remoteFileName
            (strings_Join (map (set_url newURL) (split_on (CHR 0x0A) input)) [CHR 0x0A]))"

section \<open>State\<close>

record OS =
  osm_AutomaticallyUpgrade :: bool
  osm_OsCommit :: string
  osm_RequestedOsCommit :: string
  osm_HostedObjectsURL :: string
  osm_LastUpgradeStatus :: string
  osm_LastUpgradeTime :: string
  osm_Enabled :: bool

definition NewOS :: "'e os_env \<Rightarrow> 'e \<Rightarrow> OS \<times> 'e" where
  "NewOS env e =
     (case IsRpmOstreeAvailable env e of
        (osTreeAvailable, e') \<Rightarrow>
          (\<lparr>osm_AutomaticallyUpgrade = True, osm_OsCommit = UnknownOsImageId, osm_RequestedOsCommit = UnknownOsImageId,
            osm_HostedObjectsURL = [], osm_LastUpgradeStatus = [], osm_LastUpgradeTime = [], osm_Enabled = osTreeAvailable\<rparr>, e'))"

record Deployments =
  dep_Checksum :: string
  dep_Timestamp :: int
  dep_Booted :: bool

text \<open>The answer of \<open>rpm-ostree status --json\<close>; a \<open>null\<close> deployment is a nil pointer.\<close>

fun json_bool_field :: "bool \<Rightarrow> json \<Rightarrow> bool option" where
  "json_bool_field old (JBool b) = Some b"
| "json_bool_field old JNull = Some old"
| "json_bool_field old _ = None"

fun deployment_fields :: "(string \<times> json) list \<Rightarrow> Deployments \<Rightarrow> Deployments option" where
  "deployment_fields [] d = Some d"
| "deployment_fields ((k, v) # kvs) d =
     (if key_eq k ''checksum'' then
        (case json_name_field (dep_Checksum d) v of None \<Rightarrow> None | Some x \<Rightarrow> deployment_fields kvs (d\<lparr>dep_Checksum := x\<rparr>))
      else if key_eq k ''timestamp'' then
        (case json_int_field (dep_Timestamp d) v of None \<Rightarrow> None | Some x \<Rightarrow> deployment_fields kvs (d\<lparr>dep_Timestamp := x\<rparr>))
      else if key_eq k ''booted'' then
        (case json_bool_field (dep_Booted d) v of None \<Rightarrow> None | Some x \<Rightarrow> deployment_fields kvs (d\<lparr>dep_Booted := x\<rparr>))
      else deployment_fields kvs d)"

fun deployment_of_json :: "json \<Rightarrow> Deployments option option" where
  "deployment_of_json (JObj kvs) =
     map_option Some (deployment_fields kvs \<lparr>dep_Checksum = [], dep_Timestamp = 0, dep_Booted = False\<rparr>)"
| "deployment_of_json JNull = Some None"
| "deployment_of_json _ = None"

fun deployments_field :: "json \<Rightarrow> Deployments option list option" where
  "deployments_field (JArr vs) = all_some (map deployment_of_json vs)"
| "deployments_field JNull = Some []"
| "deployments_field _ = None"

fun status_fields :: "(string \<times> json) list \<Rightarrow> Deployments option list \<Rightarrow> Deployments option list option" where
  "status_fields [] ds = Some ds"
| "status_fields ((k, v) # kvs) ds =
     (if key_eq k ''deployments'' then (case deployments_field v of None \<Rightarrow> None | Some ds' \<Rightarrow> status_fields kvs ds')
      else status_fields kvs ds)"

definition unmarshal_status :: "string \<Rightarrow> Deployments option list option" where
  "unmarshal_status s =
     (case json_parse s of
        Some (JObj kvs) \<Rightarrow> status_fields kvs []
      | Some JNull \<Rightarrow> Some []
      | _ \<Rightarrow> None)"

text \<open>The body of the loop over the deployments.\<close>

definition note_deployment :: "'e os_env \<Rightarrow> OS \<Rightarrow> Deployments \<Rightarrow> OS" where
  "note_deployment env os d =
     (let t = time_String env (dep_Timestamp d);
          o1 = (if dep_Booted d then
                  (let o0 = os\<lparr>osm_OsCommit := dep_Checksum d\<rparr>
                   in if osm_RequestedOsCommit os = UnknownOsImageId
                      then o0\<lparr>osm_LastUpgradeTime := t, osm_LastUpgradeStatus := ''succeeded''\<rparr> else o0)
                else os)
      in if dep_Checksum d = osm_RequestedOsCommit os
         then o1\<lparr>osm_LastUpgradeTime := t, osm_LastUpgradeStatus := (if \<not> dep_Booted d then ''failed'' else ''succeeded'')\<rparr>
         else o1)"

fun note_deployments :: "'e os_env \<Rightarrow> OS \<Rightarrow> Deployments option list \<Rightarrow> OS outcome" where
  "note_deployments env os [] = Ret os"
| "note_deployments env os (None # ds) = Panic"
| "note_deployments env os (Some d # ds) = note_deployments env (note_deployment env os d) ds"

definition updateOsStatus :: "'e os_env \<Rightarrow> OS \<Rightarrow> 'e \<Rightarrow> (OS, 'e) call" where
  "updateOsStatus env os e =
     (case RpmOstreeStatus env e of
        (Inl _, e') \<Rightarrow> (Ret os, e')
      | (Inr stdout, e') \<Rightarrow>
          (case unmarshal_status stdout of
             None \<Rightarrow> (Ret os, e')
           | Some ds \<Rightarrow> (note_deployments env os ds, e')))"

definition GetUpgradeStatus :: "'e os_env \<Rightarrow> OS \<Rightarrow> 'e \<Rightarrow> (OS \<times> (string \<times> string \<times> string), 'e) call" where
  "GetUpgradeStatus env os e =
     (case (if osm_Enabled os then updateOsStatus env os e else (Ret os, e)) of
        (Ret os', e') \<Rightarrow> (Ret (os', (osm_OsCommit os', osm_LastUpgradeTime os', osm_LastUpgradeStatus os')), e')
      | (Panic, e') \<Rightarrow> (Panic, e'))"

section \<open>Update\<close>

definition updateGreenbootScripts :: "fs \<Rightarrow> error option \<times> fs" where
  "updateGreenbootScripts s =
     (case EnsureScriptExists GreenbootHealthCheckFileName GreenbootHealthCheckScript s of
        (Some err, s1) \<Rightarrow> (Some err, s1)
      | (None, s1) \<Rightarrow> EnsureScriptExists GreenbooFailFileName GreenbootFailScript s1)"

text \<open>From the preview to the reboot, once a new commit is requested.\<close>

definition upgrade_to :: "'e os_env \<Rightarrow> string \<Rightarrow> 'e world \<Rightarrow> (error option, 'e world) call" where
  "upgrade_to env commit w =
     check_val (on_ext (RpmOstreeUpdatePreview env) w) (\<lambda>stdout w.
       if \<not> strings_Contains stdout commit
       then (Ret (Some (Errorf ''cannot find the new commit ID. %s'' [commit])), w)
       else
         check (on_disk (updateGreenbootScripts) w) (\<lambda>w.
         check (on_ext (RpmOstreeUpgrade env) w) (\<lambda>w.
         on_ext (SystemReboot env) (w\<lparr>ext := gracefulRebootFlow env (ext w)\<rparr>))))"

definition OS_Update ::
  "'e os_env \<Rightarrow> DeviceConfigurationMessage \<Rightarrow> OS \<Rightarrow> 'e world \<Rightarrow> (error option \<times> OS, 'e world) call" where
  "OS_Update env configuration os w =
     (case dcm_Configuration configuration of
        None \<Rightarrow> (Panic, w)
      | Some c \<Rightarrow>
          (case dc_Os c of
             None \<Rightarrow> (Ret (None, os), w)
           | Some new \<Rightarrow>
               if \<not> osm_Enabled os then (Ret (None, os), w)
               else
                 (case (if os_HostedObjectsURL new \<noteq> osm_HostedObjectsURL os
                        then UpdateUrlInEdgeRemote (os_HostedObjectsURL new) EdgeConfFileName (disk w) else (None, disk w)) of
                    (Some err, s1) \<Rightarrow> (Ret (Some err, os), w\<lparr>disk := s1\<rparr>)
                  | (None, s1) \<Rightarrow>
                      (let os1 = os\<lparr>osm_HostedObjectsURL := os_HostedObjectsURL new\<rparr>; w1 = w\<lparr>disk := s1\<rparr> in
                       if os_CommitID new = osm_RequestedOsCommit os then (Ret (None, os1), w1)
                       else
                         (let os2 = os1\<lparr>osm_RequestedOsCommit := os_CommitID new\<rparr> in
                          if \<not> osm_AutomaticallyUpgrade os then (Ret (None, os2), w1)
                          else
                            (case upgrade_to env (os_CommitID new) w1 of
                               (Ret err, w2) \<Rightarrow> (Ret (err, os2), w2)
                             | (Panic, w2) \<Rightarrow> (Panic, w2)))))))"

definition OS_Init where
  "OS_Init env configuration os w = OS_Update env configuration os w"

section \<open>Properties\<close>

text \<open>
  Changing the URL in the remote file rewrites exactly the lines that contain \<open>url=\<close>: the file
  keeps its other lines, and doing it again with the same URL, which must not contain a line
  break, changes nothing.
\<close>

theorem edge_remote_lines:
  assumes "UpdateUrlInEdgeRemote newURL f s = (None, s')" and "path_Clean f = f" and "CHR 0x0A \<notin> set newURL"
  shows "\<exists>input outp. nodes s f = Some (File input) \<and> nodes s' = (nodes s)(f \<mapsto> File outp) \<and>
    split_on (CHR 0x0A) outp =
      map (\<lambda>l. if sublist ''url='' l then ''url='' @ newURL else l) (split_on (CHR 0x0A) input) \<and>
    (\<forall>s''. nodes s'' f = Some (File outp) \<longrightarrow> nodes (snd (UpdateUrlInEdgeRemote newURL f (s''\<lparr>faults := []\<rparr>))) f = Some (File outp))"
proof -
  let ?nl = "CHR 0x0A"
  obtain input where input: "nodes s f = Some (File input)"
    using assms by (auto simp: UpdateUrlInEdgeRemote_def ReadFile_Inr split: sum.splits)
  define ls where "ls = split_on ?nl input"
  define outp where "outp = strings_Join (map (set_url newURL) ls) [?nl]"
  have out: "nodes s' = (nodes s)(f \<mapsto> File outp)"
    using assms(1,2) input WriteFile_ok(1) by (simp add: UpdateUrlInEdgeRemote_def ls_def outp_def)
  have ls': "ls \<noteq> []" "list_all (\<lambda>p. ?nl \<notin> set p) (map (set_url newURL) ls)"
    using assms(3) by (auto simp: ls_def list_all_iff set_url_def dest: split_on_parts_no_sep)
  then have split: "split_on ?nl outp = map (set_url newURL) ls"
    unfolding outp_def by (intro split_on_Join) simp_all
  have "strings_Contains (''url='' @ newURL) ''url=''"
    by (simp add: strings_Contains_iff)
  then have "set_url newURL (set_url newURL l) = set_url newURL l" for l
    by (simp add: set_url_def)
  then have again: "strings_Join (map (set_url newURL) (split_on ?nl outp)) [?nl] = outp"
    unfolding split by (simp add: outp_def comp_def)
  have "nodes (snd (UpdateUrlInEdgeRemote newURL f (s''\<lparr>faults := []\<rparr>))) f = Some (File outp)"
    if "nodes s'' f = Some (File outp)" for s''
    using that assms(2) again
    by (auto simp: UpdateUrlInEdgeRemote_def WriteFile_def Let_def set_node_def split: fault.splits)
  with input out split show ?thesis
    by (auto simp: set_url_def [abs_def] strings_Contains_iff ls_def)
qed

text \<open>
  When upgrading to a requested commit fails at any point, the commit already counts as
  requested: the same configuration sent again runs nothing and reports success.
\<close>

theorem failed_upgrade_not_retried:
  assumes "OS_Update env configuration os w = (Ret (Some err, os'), w')" and "osm_RequestedOsCommit os' \<noteq> osm_RequestedOsCommit os"
  shows "OS_Update env configuration os' w'' = (Ret (None, os'), w'')"
  using assms
  by (auto simp: OS_Update_def Let_def split: option.splits prod.splits outcome.splits if_splits)

text \<open>The reboot is the last step, taken only after the upgrade went through.\<close>

lemma upgrade_ok_steps:
  assumes "upgrade_to env commit w = (Ret None, w')"
  obtains stdout w1 w2 w3 where "on_ext (RpmOstreeUpdatePreview env) w = (Ret (Inr stdout), w1)" and "sublist commit stdout"
    and "on_disk (updateGreenbootScripts) w1 = (Ret None, w2)" and "on_ext (RpmOstreeUpgrade env) w2 = (Ret None, w3)"
    and "on_ext (SystemReboot env) (w3\<lparr>ext := gracefulRebootFlow env (ext w3)\<rparr>) = (Ret None, w')"
  using assms unfolding upgrade_to_def by (fastforce simp: call_ok strings_Contains_iff split: if_splits)

section \<open>Concrete instances\<close>

text \<open>An \<open>rpm-ostree\<close> that never knows the requested commit.\<close>

definition blind_os :: "unit os_env" where
  "blind_os = \<lparr>os_run = \<lambda>_ e. (Inr ''{}'', e), 
     time_String = Itoa, gracefulRebootFlow = \<lambda>e. e\<rparr>"

definition os_message :: DeviceConfigurationMessage where
  "os_message = \<lparr>dcm_AnsiblePlaybook = [], dcm_Configuration = Some \<lparr>dc_Heartbeat = None, dc_LogCollection = [], dc_Metrics = None,
     dc_Os = Some \<lparr>os_AutomaticallyUpgrade = True, os_CommitID = ''abc'', os_HostedObjectsURL = []\<rparr>, dc_Storage = None\<rparr>,
     dcm_DeviceID = [], dcm_Secrets = [], dcm_Version = [], dcm_Workloads = [], dcm_WorkloadsMonitoringInterval = 0\<rparr>"

theorem failed_upgrade_not_retried_witness:
  "let os = fst (NewOS blind_os ()); w = \<lparr>disk = fs_of [], ext = ()\<rparr>; os' = os\<lparr>osm_RequestedOsCommit := ''abc''\<rparr>
   in OS_Update blind_os os_message os w = (Ret (Some (Errorf ''cannot find the new commit ID. %s'' [''abc'']), os'), w) \<and>
      OS_Update blind_os os_message os' w = (Ret (None, os'), w)"
proof -
  let ?os = "fst (NewOS blind_os ())" and ?w = "\<lparr>disk = fs_of [], ext = ()\<rparr>"
  let ?os' = "?os\<lparr>osm_RequestedOsCommit := ''abc''\<rparr>"
  have u: "OS_Update blind_os os_message ?os ?w = (Ret (Some (Errorf ''cannot find the new commit ID. %s'' [''abc'']), ?os'), ?w)"
    by (simp add: OS_Update_def os_message_def NewOS_def IsRpmOstreeAvailable_def RpmOstreeStatus_def blind_os_def
        upgrade_to_def RpmOstreeUpdatePreview_def on_ext_def UnknownOsImageId_def Let_def)
  have "OS_Update blind_os os_message ?os' ?w = (Ret (None, ?os'), ?w)"
    by (rule failed_upgrade_not_retried [OF u])
      (simp add: NewOS_def IsRpmOstreeAvailable_def RpmOstreeStatus_def blind_os_def UnknownOsImageId_def)
  with u show ?thesis by (simp add: Let_def)
qed

theorem edge_remote_lines_witness:
  "nodes (snd (UpdateUrlInEdgeRemote ''http://h'' ''/e'' (fs_of [(''/e'', File (''[r]'' @ [CHR 0x0A] @ ''url=x''))]))) ''/e'' =
     Some (File (''[r]'' @ [CHR 0x0A] @ ''url=http://h''))"
proof -
  let ?s = "fs_of [(''/e'', File (''[r]'' @ [CHR 0x0A] @ ''url=x''))]"
  have u: "UpdateUrlInEdgeRemote ''http://h'' ''/e'' ?s = (None, snd (UpdateUrlInEdgeRemote ''http://h'' ''/e'' ?s))"
    by (simp add: UpdateUrlInEdgeRemote_def path_Clean_def ReadFile_def WriteFile_def is_dir_def path_Dir_def Let_def)
  from edge_remote_lines [OF this] obtain input outp where
    io: "nodes ?s ''/e'' = Some (File input)" "nodes (snd (UpdateUrlInEdgeRemote ''http://h'' ''/e'' ?s)) = (nodes ?s)(''/e'' \<mapsto> File outp)"
    "split_on (CHR 0x0A) outp = map (\<lambda>l. if sublist ''url='' l then ''url='' @ ''http://h'' else l) (split_on (CHR 0x0A) input)"
    by (auto simp: path_Clean_def)
  have "sublist ''url='' ''url=x''" "\<not> sublist ''url='' ''[r]''"
    by (simp_all add: strings_Contains_iff [symmetric])
  with io(1,3) have "split_on (CHR 0x0A) outp = [''[r]'', ''url=http://h'']"
    by auto
  then have "outp = strings_Join [''[r]'', ''url=http://h''] [CHR 0x0A]"
    by (metis Join_split_on)
  with io(2) show ?thesis by simp
qed

end
