(* ===== verification/Go_Time.thy ===== *)
theory Go_Time
  imports Go_Prelude
begin

text \<open>
  Go's fixed-width integers and the durations and tickers built on them. A value of type \<open>int32\<close> or
  \<open>int64\<close> is an \<open>int\<close> in the type's range; an operation that can leave it wraps around, which
  \<open>int32\<close> and \<open>int64\<close> do through the machine words of that width.
\<close>

definition int32 :: "int \<Rightarrow> int" where
  "int32 i = sint (word_of_int i :: 32 word)"

definition int64 :: "int \<Rightarrow> int" where
  "int64 i = sint (word_of_int i :: 64 word)"

lemma int32_id [simp]: "- (2 ^ 31) \<le> i \<Longrightarrow> i < 2 ^ 31 \<Longrightarrow> int32 i = i"
  by (simp add: int32_def signed_take_bit_int_eq_self sint_sbintrunc')

lemma int64_id [simp]: "- (2 ^ 63) \<le> i \<Longrightarrow> i < 2 ^ 63 \<Longrightarrow> int64 i = i"
  by (simp add: int64_def signed_take_bit_int_eq_self sint_sbintrunc')

lemma int32_range: "- (2 ^ 31) \<le> int32 i \<and> int32 i < 2 ^ 31"
  using sint_ge [of "word_of_int i :: 32 word"] sint_lt [of "word_of_int i :: 32 word"] by (simp add: int32_def)

lemma int64_range: "- (2 ^ 63) \<le> int64 i \<and> int64 i < 2 ^ 63"
  using sint_ge [of "word_of_int i :: 64 word"] sint_lt [of "word_of_int i :: 64 word"] by (simp add: int64_def)

text \<open>\<open>time.Second * time.Duration(n)\<close> for an \<open>int64\<close> number of seconds, in nanoseconds.\<close>

definition seconds :: "int \<Rightarrow> int" where
  "seconds n = int64 (n * 1000000000)"

lemma seconds_exact: "0 \<le> n \<Longrightarrow> n \<le> 9223372036 \<Longrightarrow> seconds n = n * 1000000000"
  by (simp add: seconds_def)

text \<open>\<open>time.NewTicker\<close> panics on a duration that is not positive.\<close>

definition NewTicker :: "int \<Rightarrow> int outcome" where
  "NewTicker d = (if d \<le> 0 then Panic else Ret d)"

lemma NewTicker_seconds: "0 < n \<Longrightarrow> n \<le> 9223372036 \<Longrightarrow> NewTicker (seconds n) = Ret (n * 1000000000)"
  by (simp add: NewTicker_def seconds_exact)

end
