(* ===== verification/Heartbeat.thy ===== *)
theory Heartbeat
  imports Registration Data_Transfer Device_OS Go_Time
begin

text \<open>
  \<open>internal/heartbeat\<close>: the periodic report of the device. It collects the state of the other
  components, takes their queued events and sends everything through the dispatcher.

  A \<open>HeartbeatData\<close> holds pointers to the other components, so its operations work on the state of
  all of them. The JSON encoding of the report is a parameter.
\<close>

section \<open>The report\<close>

record WorkloadStatus =
  ws_Name :: string
  ws_Status :: string
  ws_LastDataUpload :: "int option" \<comment> \<open>\<open>None\<close> is the zero time\<close>

record UpgradeStatus =
  us_CurrentCommitID :: string
  us_LastUpgradeTime :: string
  us_LastUpgradeStatus :: string

record models_Heartbeat =
  hbm_Status :: string
  hbm_Version :: string
  hbm_Workloads :: "WorkloadStatus list"
  hbm_Hardware :: "HardwareInfo option"
  hbm_Events :: "EventInfo list"
  hbm_Upgrade :: UpgradeStatus

definition HeartbeatStatusUp :: string where
  "HeartbeatStatusUp = ''up''"

record ('x, 'y) HeartbeatData =
  hd_workloads :: "'x mworld" \<comment> \<open>the workload manager, the disk and the rest\<close>
  hd_config :: "'y ConfigManager"
  hd_monitor :: Monitor
  hd_os :: OS
  hd_ansible :: "EventInfo list option" \<comment> \<open>the queue of the ansible manager; \<open>None\<close> is a nil manager\<close>

record ('k, 'p, 'x) hb_env =
  hbe_reg :: "('k, 'x) reg_env"
  hbe_os :: "'x os_env"
  hbe_ww :: "('p, 'x) WorkloadWrapper"
  hbe_Marshal :: "models_Heartbeat \<Rightarrow> error + string"

definition hd_ext :: "('x, 'y) HeartbeatData \<Rightarrow> 'x" where
  "hd_ext d = ext (out (hd_workloads d))"

definition hd_set_ext :: "'x \<Rightarrow> ('x, 'y) HeartbeatData \<Rightarrow> ('x, 'y) HeartbeatData" where
  "hd_set_ext e d = d\<lparr>hd_workloads := (hd_workloads d)\<lparr>out := (out (hd_workloads d))\<lparr>ext := e\<rparr>\<rparr>\<rparr>"

text \<open>A nil \<open>Heartbeat\<close> or \<open>HardwareProfile\<close> of the configuration is dereferenced.\<close>

definition includes_hardware :: "DeviceConfiguration \<Rightarrow> bool outcome" where
  "includes_hardware c =
     (case dc_Heartbeat c of
        None \<Rightarrow> Panic
      | Some h \<Rightarrow> (case hb_HardwareProfile h of None \<Rightarrow> Panic | Some (include, scope) \<Rightarrow> Ret include))"

definition workload_status :: "Monitor \<Rightarrow> WorkloadInfo \<Rightarrow> WorkloadStatus" where
  "workload_status m info = \<lparr>ws_Name = wi_Name info, ws_Status = wi_Status info,
     ws_LastDataUpload = GetLastSuccessfulSyncTime m (wi_Name info)\<rparr>"

definition hardware_info ::
  "('k, 'p, 'x) hb_env \<Rightarrow> bool \<Rightarrow> ('x, 'y) HeartbeatData \<Rightarrow> HardwareInfo option \<times> ('x, 'y) HeartbeatData" where
  "hardware_info env include d =
     (if \<not> include then (None, d)
      else case read_hardware (hbe_reg env) (hd_ext d) of
             (Inl _, e) \<Rightarrow> (None, hd_set_ext e d)
           | (Inr h, e) \<Rightarrow> (Some h, hd_set_ext e d))"

definition pop_ansible :: "('x, 'y) HeartbeatData \<Rightarrow> EventInfo list \<times> ('x, 'y) HeartbeatData" where
  "pop_ansible d = (case hd_ansible d of None \<Rightarrow> ([], d) | Some evs \<Rightarrow> (evs, d\<lparr>hd_ansible := Some []\<rparr>))"

definition pop_workloads :: "('x, 'y) HeartbeatData \<Rightarrow> EventInfo list \<times> ('x, 'y) HeartbeatData" where
  "pop_workloads d =
     (case WorkloadManager_PopEvents (wm (hd_workloads d)) of
        (evs, m) \<Rightarrow> (evs, d\<lparr>hd_workloads := (hd_workloads d)\<lparr>wm := m\<rparr>\<rparr>))"

definition RetrieveInfo ::
  "('k, 'p, 'x) hb_env \<Rightarrow> ('x, 'y) HeartbeatData \<Rightarrow> (models_Heartbeat, ('x, 'y) HeartbeatData) call" where
  "RetrieveInfo env d =
     (case ListWorkloads (hbe_ww env) (hd_workloads d) of
        (Panic, w1) \<Rightarrow> (Panic, d\<lparr>hd_workloads := w1\<rparr>)
      | (Ret listed, w1) \<Rightarrow>
          (let d1 = d\<lparr>hd_workloads := w1\<rparr>;
               workloadStatuses = map (workload_status (hd_monitor d)) (case listed of Inl _ \<Rightarrow> [] | Inr infos \<Rightarrow> infos)
           in case GetDeviceConfiguration (hd_config d) of
                Panic \<Rightarrow> (Panic, d1)
              | Ret config \<Rightarrow>
                  (case includes_hardware config of
                     Panic \<Rightarrow> (Panic, d1)
                   | Ret include \<Rightarrow>
                       (let (hardwareInfo, d2) = hardware_info env include d1;
                            (ansibleEvents, d3) = pop_ansible d2;
                            (workloadEvents, d4) = pop_workloads d3
                        in case GetUpgradeStatus (hbe_os env) (hd_os d4) (hd_ext d4) of
                             (Panic, e) \<Rightarrow> (Panic, hd_set_ext e d4)
                           | (Ret (os', (commit, t, status)), e) \<Rightarrow>
                               (Ret \<lparr>hbm_Status = HeartbeatStatusUp, hbm_Version = GetConfigurationVersion (hd_config d),
                                     hbm_Workloads = workloadStatuses, hbm_Hardware = hardwareInfo,
                                     hbm_Events = workloadEvents @ ansibleEvents,
                                     hbm_Upgrade = \<lparr>us_CurrentCommitID = commit, us_LastUpgradeTime = t, us_LastUpgradeStatus = status\<rparr>\<rparr>,
                                (hd_set_ext e d4)\<lparr>hd_os := os'\<rparr>)))))"

section \<open>The service\<close>

record ('x, 'y) Heartbeat =
  hbs_ticker :: "int option" \<comment> \<open>the period of the running ticker, in nanoseconds\<close>
  hbs_started :: bool \<comment> \<open>\<open>ticker\<close> is not nil\<close>
  hbs_data :: "('x, 'y) HeartbeatData"
  hbs_reg :: "Registration option"

text \<open>The registration passed to the constructor is not stored, and there is no ansible manager.\<close>

definition NewHeartbeatService ::
  "'x mworld \<Rightarrow> 'y ConfigManager \<Rightarrow> Monitor \<Rightarrow> OS \<Rightarrow> Registration \<Rightarrow> ('x, 'y) Heartbeat" where
  "NewHeartbeatService workloadManager configManager dataMonitor osInfo reg =
     \<lparr>hbs_ticker = None, hbs_started = False,
      hbs_data = \<lparr>hd_workloads = workloadManager, hd_config = configManager, hd_monitor = dataMonitor, hd_os = osInfo, hd_ansible = None\<rparr>,
      hbs_reg = None\<rparr>"

definition on_world :: "('x world \<Rightarrow> 'a \<times> 'x world) \<Rightarrow> ('x, 'y) Heartbeat \<Rightarrow> 'a \<times> ('x, 'y) Heartbeat" where
  "on_world f s =
     (let d = hbs_data s in
      case f (out (hd_workloads d)) of
        (a, v) \<Rightarrow> (a, s\<lparr>hbs_data := d\<lparr>hd_workloads := (hd_workloads d)\<lparr>out := v\<rparr>\<rparr>\<rparr>))"

definition dispatch :: "('k, 'p, 'x) hb_env \<Rightarrow> string \<Rightarrow> 'x world \<Rightarrow> (error + string) \<times> 'x world" where
  "dispatch env msg w = (case dispatcher_Send (hbe_reg env) ''heartbeat'' msg (ext w) of (r, e) \<Rightarrow> (r, w\<lparr>ext := e\<rparr>))"

definition heartbeat_send :: "('k, 'p, 'x) hb_env \<Rightarrow> string \<Rightarrow> ('x, 'y) Heartbeat \<Rightarrow> (error option, ('x, 'y) Heartbeat) call" where
  "heartbeat_send env msg s =
     (case on_world (dispatch env msg) s of
        (Inl err, s1) \<Rightarrow> (Ret (Some err), s1)
      | (Inr response, s1) \<Rightarrow>
          (case NewYGGDResponse response of
             Inl err \<Rightarrow> (Ret (Some err), s1)
           | Inr parsed \<Rightarrow>
               if ygg_StatusCode parsed \<noteq> 401 then (Ret None, s1)
               else
                 (case hbs_reg s1 of
                    None \<Rightarrow> (Panic, s1)
                  | Some r \<Rightarrow>
                      (case on_world (RegisterDevice (hbe_reg env) [] r) s1 of
                         (r', s2) \<Rightarrow>
                           (case on_world (dispatch env msg) (s2\<lparr>hbs_reg := Some r'\<rparr>) of
                              (Inl err, s3) \<Rightarrow> (Ret (Some err), s3)
                            | (Inr _, s3) \<Rightarrow> (Ret None, s3))))))"

definition getInterval :: "DeviceConfiguration \<Rightarrow> int" where
  "getInterval config =
     (let interval = (case dc_Heartbeat config of None \<Rightarrow> 60 | Some h \<Rightarrow> hb_PeriodSeconds h)
      in if interval \<le> 0 then 60 else interval)"

definition initTicker :: "int \<Rightarrow> ('x, 'y) Heartbeat \<Rightarrow> (unit, ('x, 'y) Heartbeat) call" where
  "initTicker periodSeconds s =
     (case NewTicker (seconds periodSeconds) of
        Panic \<Rightarrow> (Panic, s)
      | Ret d \<Rightarrow> (Ret (), s\<lparr>hbs_ticker := Some d, hbs_started := True\<rparr>))"

definition HasStarted :: "('x, 'y) Heartbeat \<Rightarrow> bool" where
  "HasStarted s = hbs_started s"

definition stop_ticker :: "('x, 'y) Heartbeat \<Rightarrow> ('x, 'y) Heartbeat" where
  "stop_ticker s = s\<lparr>hbs_ticker := None\<rparr>"

definition Heartbeat_Start :: "('x, 'y) Heartbeat \<Rightarrow> (unit, ('x, 'y) Heartbeat) call" where
  "Heartbeat_Start s =
     (case GetDeviceConfiguration (hd_config (hbs_data s)) of
        Panic \<Rightarrow> (Panic, s)
      | Ret c \<Rightarrow> initTicker (getInterval c) s)"

definition Heartbeat_Init :: "DeviceConfigurationMessage \<Rightarrow> ('x, 'y) Heartbeat \<Rightarrow> (error option, ('x, 'y) Heartbeat) call" where
  "Heartbeat_Init config s = (Ret None, s)"

definition Heartbeat_Update :: "DeviceConfigurationMessage \<Rightarrow> ('x, 'y) Heartbeat \<Rightarrow> (error option, ('x, 'y) Heartbeat) call" where
  "Heartbeat_Update config s =
     (case dcm_Configuration config of
        None \<Rightarrow> (Panic, s)
      | Some c \<Rightarrow>
          (case initTicker (getInterval c) (stop_ticker s) of
             (Panic, s') \<Rightarrow> (Panic, s')
           | (Ret _, s') \<Rightarrow> (Ret None, s')))"

definition pushInformation :: "('k, 'p, 'x) hb_env \<Rightarrow> ('x, 'y) Heartbeat \<Rightarrow> (error option, ('x, 'y) Heartbeat) call" where
  "pushInformation env s =
     (case RetrieveInfo env (hbs_data s) of
        (Panic, d) \<Rightarrow> (Panic, s\<lparr>hbs_data := d\<rparr>)
      | (Ret info, d) \<Rightarrow>
          (let s1 = s\<lparr>hbs_data := d\<rparr> in
           case hbe_Marshal env info of
             Inl err \<Rightarrow> (Ret (Some err), s1)
           | Inr msg \<Rightarrow> heartbeat_send env msg s1))"

definition Heartbeat_Deregister :: "('x, 'y) Heartbeat \<Rightarrow> error option \<times> ('x, 'y) Heartbeat" where
  "Heartbeat_Deregister s = (None, stop_ticker s)"

section \<open>What is reported\<close>

abbreviation queued_events :: "('x, 'y) HeartbeatData \<Rightarrow> EventInfo list" where
  "queued_events d \<equiv> eventsQueue (wm (hd_workloads d)) @ (case hd_ansible d of None \<Rightarrow> [] | Some evs \<Rightarrow> evs)"

text \<open>The two queues of a report taken together are an event queue.\<close>

definition pop_all_events :: "('x, 'y) HeartbeatData \<Rightarrow> EventInfo list \<times> ('x, 'y) HeartbeatData" where
  "pop_all_events d = (let (ansible, d1) = pop_ansible d; (workloads, d2) = pop_workloads d1 in (workloads @ ansible, d2))"

lemma pop_ansible_simps [simp]:
  "fst (pop_ansible d) = (case hd_ansible d of None \<Rightarrow> [] | Some evs \<Rightarrow> evs)"
  "hd_workloads (snd (pop_ansible d)) = hd_workloads d"
  "hd_ansible (snd (pop_ansible d)) = map_option (\<lambda>_. []) (hd_ansible d)"
  by (simp_all add: pop_ansible_def split: option.splits)

lemma pop_workloads_simps [simp]:
  "fst (pop_workloads d) = eventsQueue (wm (hd_workloads d))"
  "eventsQueue (wm (hd_workloads (snd (pop_workloads d)))) = []"
  "hd_ansible (snd (pop_workloads d)) = hd_ansible d"
  by (simp_all add: pop_workloads_def WorkloadManager_PopEvents_def)

interpretation report_events: event_queue queued_events pop_all_events
  by unfold_locales (simp_all add: pop_all_events_def split_beta Let_def split: option.splits)

lemma hd_set_ext_simps [simp]:
  "wm (hd_workloads (hd_set_ext e d)) = wm (hd_workloads d)" "hd_ansible (hd_set_ext e d) = hd_ansible d"
  "hd_config (hd_set_ext e d) = hd_config d" "hd_monitor (hd_set_ext e d) = hd_monitor d" "hd_os (hd_set_ext e d) = hd_os d"
  by (simp_all add: hd_set_ext_def)

lemma hardware_info_keeps [simp]:
  "wm (hd_workloads (snd (hardware_info env b d))) = wm (hd_workloads d)" "hd_ansible (snd (hardware_info env b d)) = hd_ansible d"
  by (simp_all add: hardware_info_def split: prod.splits sum.splits)

lemma ListWorkloads_wm: "wm (snd (ListWorkloads ww w)) = wm w"
  by (simp add: ListWorkloads_def on_out_def split: prod.splits)

lemma RetrieveInfo_events:
  assumes "RetrieveInfo env d = (Ret info, d')"
  shows "hbm_Events info = queued_events d" and "queued_events d' = []"
proof -
  obtain l w1 where l: "ListWorkloads (hbe_ww env) (hd_workloads d) = (Ret l, w1)" and wm: "wm w1 = wm (hd_workloads d)"
    using assms ListWorkloads_wm [of "hbe_ww env" "hd_workloads d"]
    by (cases "ListWorkloads (hbe_ww env) (hd_workloads d)"; cases "fst (ListWorkloads (hbe_ww env) (hd_workloads d))")
      (auto simp: RetrieveInfo_def)
  define d1 where "d1 = d\<lparr>hd_workloads := w1\<rparr>"
  have d1: "queued_events d1 = queued_events d" using wm by (simp add: d1_def)
  obtain b where b: "hbm_Events info = fst (pop_workloads (snd (pop_ansible (snd (hardware_info env b d1))))) @ fst (pop_ansible (snd (hardware_info env b d1)))"
    and d': "wm (hd_workloads d') = wm (hd_workloads (snd (pop_workloads (snd (pop_ansible (snd (hardware_info env b d1)))))))"
      "hd_ansible d' = hd_ansible (snd (pop_workloads (snd (pop_ansible (snd (hardware_info env b d1))))))"
    using assms l by (auto simp: RetrieveInfo_def Let_def d1_def split_beta split: outcome.splits prod.splits)
  show "hbm_Events info = queued_events d" using b d1 by simp
  show "queued_events d' = []" using d' by (simp split: option.splits)
qed

lemma on_world_keeps:
  assumes "on_world f s = (r, s')"
  shows "wm (hd_workloads (hbs_data s')) = wm (hd_workloads (hbs_data s)) \<and> hd_ansible (hbs_data s') = hd_ansible (hbs_data s) \<and>
    hbs_reg s' = hbs_reg s \<and> hbs_ticker s' = hbs_ticker s"
  using assms by (auto simp: on_world_def Let_def split: prod.splits)

lemma heartbeat_send_keeps:
  assumes "heartbeat_send env msg s = (r, s')"
  shows "wm (hd_workloads (hbs_data s')) = wm (hd_workloads (hbs_data s)) \<and> hd_ansible (hbs_data s') = hd_ansible (hbs_data s) \<and>
    hbs_ticker s' = hbs_ticker s \<and> (hbs_reg s = None \<longrightarrow> hbs_reg s' = None)"
  using assms unfolding heartbeat_send_def
  by (auto split: prod.splits sum.splits if_splits option.splits dest!: on_world_keeps)

text \<open>
  Every queued event goes into exactly one heartbeat: a report holds all events queued by the
  workload manager and the ansible manager, in order, and both queues are empty afterwards. This
  holds whatever becomes of the report, so when it cannot be encoded or sent its events are lost.
\<close>

theorem heartbeat_takes_events:
  assumes "pushInformation env s = (Ret r, s')"
  shows "\<exists>info d. RetrieveInfo env (hbs_data s) = (Ret info, d) \<and> hbm_Events info = queued_events (hbs_data s) \<and>
    queued_events (hbs_data s') = [] \<and>
    (r = None \<longrightarrow> (\<exists>msg. hbe_Marshal env info = Inr msg \<and> heartbeat_send env msg (s\<lparr>hbs_data := d\<rparr>) = (Ret None, s')))"
proof -
  obtain info d where i: "RetrieveInfo env (hbs_data s) = (Ret info, d)"
    using assms by (cases "RetrieveInfo env (hbs_data s)"; cases "fst (RetrieveInfo env (hbs_data s))") (auto simp: pushInformation_def)
  note ev = RetrieveInfo_events [OF i]
  show ?thesis
  proof (cases "hbe_Marshal env info")
    case (Inl err)
    with assms i ev show ?thesis by (auto simp: pushInformation_def)
  next
    case (Inr msg)
    then have send: "heartbeat_send env msg (s\<lparr>hbs_data := d\<rparr>) = (Ret r, s')"
      using assms i by (simp add: pushInformation_def)
    from heartbeat_send_keeps [OF this] ev(2) have "queued_events (hbs_data s') = []" by auto
    with i ev(1) Inr send show ?thesis by auto
  qed
qed

section \<open>The life of the service\<close>

text \<open>
  The steps of the service: its own operations, and the other components changing the state it
  reads.
\<close>

inductive heartbeat_step :: "('k, 'p, 'x) hb_env \<Rightarrow> ('x, 'y) Heartbeat \<Rightarrow> ('x, 'y) Heartbeat \<Rightarrow> bool" for env where
  start: "Heartbeat_Start s = (Ret (), s') \<Longrightarrow> heartbeat_step env s s'"
| update: "Heartbeat_Update msg s = (Ret err, s') \<Longrightarrow> heartbeat_step env s s'"
| beat: "hbs_ticker s \<noteq> None \<Longrightarrow> pushInformation env s = (Ret err, s') \<Longrightarrow> heartbeat_step env s s'"
| deregister: "heartbeat_step env s (snd (Heartbeat_Deregister s))"
| others: "heartbeat_step env s (s\<lparr>hbs_data := d\<rparr>)"

lemma initTicker_keeps: "initTicker p s = (Ret (), s') \<Longrightarrow> hbs_reg s' = hbs_reg s \<and> (\<exists>d > 0. hbs_ticker s' = Some d)"
  by (auto simp: initTicker_def NewTicker_def split: if_splits)

definition heartbeat_inv :: "('x, 'y) Heartbeat \<Rightarrow> bool" where
  "heartbeat_inv s \<longleftrightarrow> hbs_reg s = None \<and> (\<forall>d. hbs_ticker s = Some d \<longrightarrow> 0 < d)"

lemma heartbeat_step_inv: "heartbeat_step env s s' \<Longrightarrow> heartbeat_inv s \<Longrightarrow> heartbeat_inv s'"
proof (induction rule: heartbeat_step.induct)
  case (start s s')
  then show ?case
    by (auto simp: Heartbeat_Start_def heartbeat_inv_def split: outcome.splits dest: initTicker_keeps)
next
  case (update msg s err s')
  then show ?case
    by (auto simp: Heartbeat_Update_def heartbeat_inv_def stop_ticker_def split: outcome.splits option.splits prod.splits dest!: initTicker_keeps)
next
  case (beat s err s')
  then show ?case
    by (auto simp: pushInformation_def heartbeat_inv_def Let_def split: outcome.splits prod.splits sum.splits dest!: heartbeat_send_keeps)
qed (auto simp: heartbeat_inv_def Heartbeat_Deregister_def stop_ticker_def)

lemma heartbeat_inv_reachable:
  assumes "(heartbeat_step env)\<^sup>*\<^sup>* (NewHeartbeatService w cfg mon os reg) s"
  shows "heartbeat_inv s"
  using assms
proof (induction rule: rtranclp_induct)
  case base
  then show ?case by (simp add: NewHeartbeatService_def heartbeat_inv_def)
qed (rule heartbeat_step_inv)

text \<open>
  C35: However the service is used after its construction, its ticker runs with a positive period,
  and it never learns the registration it was constructed with: an answer with status 401, which
  should renew the certificate and send the report again, is a nil dereference.
\<close>

theorem unauthorized_heartbeat_panics:
  assumes "(heartbeat_step env)\<^sup>*\<^sup>* (NewHeartbeatService w cfg mon os reg) s"
    and "dispatcher_Send (hbe_reg env) ''heartbeat'' msg (hd_ext (hbs_data s)) = (Inr response, e)"
    and "NewYGGDResponse response = Inr parsed" and "ygg_StatusCode parsed = 401"
  shows "fst (heartbeat_send env msg s) = Panic \<and> (\<forall>d. hbs_ticker s = Some d \<longrightarrow> 0 < d)"
proof -
  have inv: "heartbeat_inv s" using assms(1) by (rule heartbeat_inv_reachable)
  obtain s1 where "on_world (dispatch env msg) s = (Inr response, s1)"
    using assms(2) by (auto simp: on_world_def dispatch_def hd_ext_def Let_def)
  moreover from this inv have "hbs_reg s1 = None" by (simp add: heartbeat_inv_def on_world_keeps)
  ultimately show ?thesis using assms(3,4) inv by (simp add: heartbeat_send_def heartbeat_inv_def)
qed

text \<open>
  The period of the heartbeat is positive whatever the configuration says, and an update
  runs the ticker with it, in nanoseconds. The product is an \<open>int64\<close>: up to 9223372036 seconds
  it is exact, one second more and the update panics.
\<close>

theorem heartbeat_period_bounds:
  assumes "dcm_Configuration config = Some c"
  shows "0 < getInterval c \<and>
    (getInterval c \<le> 9223372036 \<longrightarrow>
       Heartbeat_Update config s = (Ret None, s\<lparr>hbs_ticker := Some (getInterval c * 1000000000), hbs_started := True\<rparr>)) \<and>
    (getInterval c = 9223372037 \<longrightarrow> fst (Heartbeat_Update config s) = Panic)"
proof -
  have "0 < getInterval c" by (simp add: getInterval_def Let_def)
  moreover have "seconds 9223372037 < 0"
    by (simp add: seconds_def int64_def signed_of_int signed_take_bit_eq_if_negative)
  ultimately show ?thesis
    using assms by (auto simp: Heartbeat_Update_def initTicker_def stop_ticker_def NewTicker_def seconds_exact)
qed

text \<open>
  A configuration without a heartbeat section, or without a hardware profile in it, is
  accepted by the update, which starts the ticker, but the first heartbeat that is made with it
  panics.
\<close>

theorem heartbeat_without_profile_panics:
  assumes "dcm_Configuration (cfg_deviceConfiguration (hd_config (hbs_data s))) = Some c"
    and "dc_Heartbeat c = None \<or> (\<exists>h. dc_Heartbeat c = Some h \<and> hb_HardwareProfile h = None)"
    and "getInterval c \<le> 9223372036"
  shows "fst (Heartbeat_Update (cfg_deviceConfiguration (hd_config (hbs_data s))) s) = Ret None \<and>
    fst (pushInformation env s) = Panic"
proof -
  have "0 < getInterval c" by (simp add: getInterval_def Let_def)
  then have "fst (Heartbeat_Update (cfg_deviceConfiguration (hd_config (hbs_data s))) s) = Ret None"
    using assms(1,3) by (simp add: Heartbeat_Update_def initTicker_def NewTicker_seconds)
  moreover have "fst (RetrieveInfo env (hbs_data s)) = Panic"
    using assms(1,2)
    by (auto simp: RetrieveInfo_def GetDeviceConfiguration_def includes_hardware_def Let_def split: prod.splits outcome.splits option.splits)
  ultimately show ?thesis
    by (auto simp: pushInformation_def split: prod.splits outcome.splits)
qed

section \<open>Concrete instances\<close>

text \<open>A dispatcher that answers with a fixed status, or not at all.\<close>

definition status_reg_env :: "int option \<Rightarrow> (string, unit) reg_env" where
  "status_reg_env st = demo_reg_env\<lparr>dispatcher_Send := \<lambda>directive message e.
     (case st of None \<Rightarrow> Inl (ExternalError ''unavailable'')
      | Some st \<Rightarrow> Inr (json_print (JObj [(''StatusCode'', JNum st)])), e)\<rparr>"

definition demo_hb_env :: "int option \<Rightarrow> (string, unit, unit) hb_env" where
  "demo_hb_env st = \<lparr>hbe_reg = status_reg_env st, hbe_os = blind_os, hbe_ww = listing [''web''], hbe_Marshal = \<lambda>_. Inr ''{}''\<rparr>"

definition demo_event :: EventInfo where
  "demo_event = \<lparr>ev_Message = ''m'', ev_Reason = ''Failed'', ev_Type = EventInfoTypeWarn\<rparr>"

definition demo_heartbeat :: "DeviceConfigurationMessage \<Rightarrow> (unit, unit) Heartbeat" where
  "demo_heartbeat msg = NewHeartbeatService
     \<lparr>wm = demo_manager\<lparr>eventsQueue := [demo_event]\<rparr>, out = \<lparr>disk = fs_of [], ext = ()\<rparr>\<rparr>
     ((demo_config_manager [])\<lparr>cfg_deviceConfiguration := msg\<rparr>) NewMonitor (fst (NewOS blind_os ())) demo_registration"

theorem heartbeat_takes_events_witness:
  "\<exists>err s' info d. pushInformation (demo_hb_env None) (demo_heartbeat defaultDeviceConfigurationMessage) = (Ret (Some err), s') \<and>
     RetrieveInfo (demo_hb_env None) (hbs_data (demo_heartbeat defaultDeviceConfigurationMessage)) = (Ret info, d) \<and>
     hbm_Events info = [demo_event] \<and> queued_events (hbs_data s') = []"
proof -
  let ?s = "demo_heartbeat defaultDeviceConfigurationMessage"
  have "fst (pushInformation (demo_hb_env None) ?s) = Ret (Some (ExternalError ''unavailable''))" by code_simp
  then obtain s' where p: "pushInformation (demo_hb_env None) ?s = (Ret (Some (ExternalError ''unavailable'')), s')"
    by (metis prod.collapse)
  have "queued_events (hbs_data ?s) = [demo_event]"
    by (simp add: demo_heartbeat_def NewHeartbeatService_def)
  with heartbeat_takes_events [OF p] p show ?thesis by auto
qed

theorem unauthorized_heartbeat_panics_witness:
  "fst (heartbeat_send (demo_hb_env (Some 401)) ''{}'' (demo_heartbeat defaultDeviceConfigurationMessage)) = Panic"
proof -
  let ?s = "demo_heartbeat defaultDeviceConfigurationMessage" and ?answer = "json_print (JObj [(''StatusCode'', JNum 401)])"
  have run: "(heartbeat_step (demo_hb_env (Some 401)))\<^sup>*\<^sup>* ?s ?s" by simp
  have sent: "dispatcher_Send (hbe_reg (demo_hb_env (Some 401))) ''heartbeat'' ''{}'' (hd_ext (hbs_data ?s)) = (Inr ?answer, ())"
    by (simp add: demo_hb_env_def status_reg_env_def)
  have parsed: "NewYGGDResponse ?answer = Inr \<lparr>ygg_StatusCode = 401, ygg_Body = None, ygg_Metadata = []\<rparr>" by code_simp
  show ?thesis
    using unauthorized_heartbeat_panics [OF run [unfolded demo_heartbeat_def] sent [unfolded demo_heartbeat_def] parsed]
    by (simp add: demo_heartbeat_def)
qed

definition no_profile_message :: "HeartbeatConfiguration option \<Rightarrow> DeviceConfigurationMessage" where
  "no_profile_message h = defaultDeviceConfigurationMessage\<lparr>dcm_Configuration := Some (defaultDeviceConfiguration\<lparr>dc_Heartbeat := h\<rparr>)\<rparr>"

theorem heartbeat_without_profile_panics_witness:
  "fst (Heartbeat_Update (no_profile_message None) (demo_heartbeat (no_profile_message None))) = Ret None \<and>
   fst (pushInformation (demo_hb_env (Some 200)) (demo_heartbeat (no_profile_message None))) = Panic"
  using heartbeat_without_profile_panics [of "demo_heartbeat (no_profile_message None)" "defaultDeviceConfiguration\<lparr>dc_Heartbeat := None\<rparr>"]
  by (simp add: demo_heartbeat_def NewHeartbeatService_def no_profile_message_def getInterval_def)

theorem heartbeat_period_bounds_witness:
  "fst (Heartbeat_Update (no_profile_message (Some \<lparr>hb_HardwareProfile = None, hb_PeriodSeconds = 9223372037\<rparr>))
     (demo_heartbeat defaultDeviceConfigurationMessage)) = Panic"
  using heartbeat_period_bounds [of "no_profile_message (Some \<lparr>hb_HardwareProfile = None, hb_PeriodSeconds = 9223372037\<rparr>)" _
      "demo_heartbeat defaultDeviceConfigurationMessage"]
  by (simp add: no_profile_message_def getInterval_def Let_def)

end
