(* ===== verification/Go_Sha256.thy ===== *)
theory Go_Sha256
  imports Go_Json
begin

text \<open>
  Package \<open>crypto/sha256\<close> as the playbook repository uses it: the digest of a byte string, and its
  hexadecimal form (\<open>fmt.Sprintf("%x", ...)\<close>).
\<close>

unbundle bit_operations_syntax

type_synonym u32 = "32 word"

text \<open>
  The constants of the digest are roots of primes: the first 32 bits behind the binary point of the
  cube roots of the first 64 primes (\<open>sha256_k\<close>), and of the square roots of the first 8
  (\<open>sha256_init\<close>). \<open>root_bits\<close> finds an integer root bit by bit.
\<close>

fun root_bits :: "nat \<Rightarrow> nat \<Rightarrow> nat \<Rightarrow> nat \<Rightarrow> nat" where
  "root_bits k v 0 r = r"
| "root_bits k v (Suc b) r = root_bits k v b (if (r + 2 ^ b) ^ k \<le> v then r + 2 ^ b else r)"

definition root_fraction :: "nat \<Rightarrow> nat \<Rightarrow> u32" where
  "root_fraction k p = of_nat (root_bits k (p * 2 ^ (32 * k)) 37 0)"

definition small_primes :: "nat list" where
  "small_primes = filter (\<lambda>n. list_all (\<lambda>d. n mod d \<noteq> 0) [2..<n]) [2..<312]"

definition sha256_k :: "u32 list" where
  "sha256_k = map (root_fraction 3) small_primes"

definition sha256_init :: "u32 list" where
  "sha256_init = map (\<lambda>i. root_fraction 2 (small_primes ! i)) [0..<8]"

definition ror :: "nat \<Rightarrow> u32 \<Rightarrow> u32" where
  "ror n x = drop_bit n x OR push_bit (32 - n) x"

definition big_endian :: "nat \<Rightarrow> int \<Rightarrow> string" where
  "big_endian n v = map (\<lambda>i. char_of (v div 256 ^ (n - 1 - i))) [0..<n]"

text \<open>A one bit, zeros up to a multiple of 64 bytes, and the length in bits.\<close>

definition sha256_pad :: "string \<Rightarrow> string" where
  "sha256_pad s =
     s @ CHR 0x80 # replicate ((119 - length s mod 64) mod 64) (CHR 0x00) @ big_endian 8 (int (length s) * 8)"

fun be_words :: "string \<Rightarrow> u32 list" where
  "be_words (a # b # c # d # s) =
     word_of_int (((of_char a * 256 + of_char b) * 256 + of_char c) * 256 + of_char d) # be_words s"
| "be_words _ = []"

text \<open>The message schedule, newest word first.\<close>

fun extend :: "nat \<Rightarrow> u32 list \<Rightarrow> u32 list" where
  "extend 0 w = w"
| "extend (Suc n) w =
     (let w2 = w ! 1; w7 = w ! 6; w15 = w ! 14; w16 = w ! 15;
          s0 = ror 7 w15 XOR ror 18 w15 XOR drop_bit 3 w15;
          s1 = ror 17 w2 XOR ror 19 w2 XOR drop_bit 10 w2
      in extend n ((w16 + s0 + w7 + s1) # w))"

fun sha256_round :: "u32 \<times> u32 \<Rightarrow> u32 list \<Rightarrow> u32 list" where
  "sha256_round (k, w) [a, b, c, d, e, f, g, h] =
     (let S1 = ror 6 e XOR ror 11 e XOR ror 25 e;
          ch = (e AND f) XOR (NOT e AND g);
          t1 = h + S1 + ch + k + w;
          S0 = ror 2 a XOR ror 13 a XOR ror 22 a;
          maj = (a AND b) XOR (a AND c) XOR (b AND c)
      in [t1 + S0 + maj, a, b, c, d + t1, e, f, g])"
| "sha256_round _ hs = hs"

definition sha256_block :: "u32 list \<Rightarrow> u32 list \<Rightarrow> u32 list" where
  "sha256_block block hs = map2 (+) hs (fold sha256_round (zip sha256_k (rev (extend 48 (rev block)))) hs)"

fun sha256_blocks :: "nat \<Rightarrow> u32 list \<Rightarrow> u32 list \<Rightarrow> u32 list" where
  "sha256_blocks 0 ws hs = hs"
| "sha256_blocks (Suc n) ws hs = sha256_blocks n (drop 16 ws) (sha256_block (take 16 ws) hs)"

definition sha256_Sum :: "string \<Rightarrow> string" where
  "sha256_Sum s =
     (let p = sha256_pad s
      in concat (map (\<lambda>h. big_endian 4 (uint h)) (sha256_blocks (length p div 64) (be_words p) sha256_init)))"

definition hex_string :: "string \<Rightarrow> string" where
  "hex_string s = concat (map (\<lambda>c. [hexdigit (of_char c div 16), hexdigit (of_char c mod 16)]) s)"

text \<open>\<open>root_bits\<close> is the integer root when it starts with enough bits.\<close>

lemma root_bits_correct:
  assumes "r ^ k \<le> v" and "v < (r + 2 ^ b) ^ k"
  shows "root_bits k v b r ^ k \<le> v \<and> v < Suc (root_bits k v b r) ^ k"
  using assms by (induction k v b r rule: root_bits.induct) (auto simp: add.assoc mult_2 [symmetric])

text \<open>The hexadecimal form contains only hexadecimal digits.\<close>

lemma hex_string_digits: "set (hex_string s) \<subseteq> hexdigit ` {0..<16}"
proof -
  have "of_char c div 16 < (16 :: nat)" for c :: char
    by (cases c) (simp add: of_char_def horner_sum_simps split: bool.split)
  then show ?thesis by (auto simp: hex_string_def)
qed

lemma length_sha256_round [simp]: "length (sha256_round kw hs) = length hs"
  by (cases "(kw, hs)" rule: sha256_round.cases) (simp_all add: Let_def)

lemma length_extend [simp]: "length (extend n w) = length w + n"
  by (induction n w rule: extend.induct) (simp_all add: Let_def)

lemma length_sha256_blocks: "length (sha256_blocks n ws hs) = length hs"
proof (induction n ws hs rule: sha256_blocks.induct)
  case (2 n ws hs)
  have "length (fold sha256_round kws hs) = length hs" for kws by (induction kws arbitrary: hs) simp_all
  then have "length (sha256_block (take 16 ws) hs) = length hs" by (simp add: sha256_block_def)
  with 2 show ?case by simp
qed simp

lemma length_hex_sha256: "length (hex_string (sha256_Sum s)) = 64"
proof -
  have "length (sha256_blocks n ws sha256_init) = 8" for n ws by (simp add: length_sha256_blocks sha256_init_def)
  moreover have "length (hex_string s) = 2 * length s" for s by (simp add: hex_string_def length_concat comp_def sum_list_triv)
  moreover have "length (concat (map (\<lambda>h. big_endian 4 (uint h)) hs)) = 4 * length hs" for hs :: "u32 list"
    by (simp add: length_concat comp_def big_endian_def sum_list_triv)
  ultimately show ?thesis by (simp add: sha256_Sum_def Let_def)
qed

end
