(* ===== verification/Playbook_Mapping.thy ===== *)
theory Playbook_Mapping
  imports Bimap Go_Sha256 Go_FS
begin

text \<open>
  \<open>internal/ansible/mapping\<close>: the repository of playbooks that have been started and not finished.
  A playbook is kept in a file named after the digest of its text; the file's path and the
  modification time of the original playbook are two inverse maps, written to
  \<open>playbook-mapping.json\<close> after every change. Times are nanoseconds, as \<open>UnixNano\<close> gives them.
\<close>

record playbook_mapping =
  pm_ModTime :: int \<comment> \<open>int64\<close>
  pm_FilePath :: string

record playbookRepository =
  pbr_mappingFilePath :: string
  modTimeToPath :: "(int, string) gomap"
  pathToModTime :: "(string, int) gomap"
  pbr_configDir :: string

section \<open>The file\<close>

definition playbook_json :: "playbook_mapping \<Rightarrow> json" where
  "playbook_json m = JObj [(''mod_time'', JNum (pm_ModTime m)), (''file_path'', JStr (pm_FilePath m))]"

definition marshal_playbooks :: "playbook_mapping list \<Rightarrow> string" where
  "marshal_playbooks ms = json_print (if ms = [] then JNull else JArr (map playbook_json ms))"

fun playbook_fields :: "(string \<times> json) list \<Rightarrow> playbook_mapping \<Rightarrow> playbook_mapping option" where
  "playbook_fields [] m = Some m"
| "playbook_fields ((k, v) # kvs) m =
     (if key_eq k ''mod_time'' then
        (case json_int_field (pm_ModTime m) v of None \<Rightarrow> None | Some x \<Rightarrow> playbook_fields kvs (m\<lparr>pm_ModTime := x\<rparr>))
      else if key_eq k ''file_path'' then
        (case json_name_field (pm_FilePath m) v of None \<Rightarrow> None | Some x \<Rightarrow> playbook_fields kvs (m\<lparr>pm_FilePath := x\<rparr>))
      else playbook_fields kvs m)"

fun playbook_of_json :: "json \<Rightarrow> playbook_mapping option" where
  "playbook_of_json (JObj kvs) = playbook_fields kvs \<lparr>pm_ModTime = 0, pm_FilePath = []\<rparr>"
| "playbook_of_json JNull = Some \<lparr>pm_ModTime = 0, pm_FilePath = []\<rparr>"
| "playbook_of_json _ = None"

definition unmarshal_playbooks :: "string \<Rightarrow> playbook_mapping list option" where
  "unmarshal_playbooks s =
     (case json_parse s of
        Some JNull \<Rightarrow> Some []
      | Some (JArr vs) \<Rightarrow> all_some (map playbook_of_json vs)
      | _ \<Rightarrow> None)"

definition playbook_storable :: "playbook_mapping \<Rightarrow> bool" where
  "playbook_storable m \<longleftrightarrow> int64_range (pm_ModTime m) \<and> valid_utf8 (pm_FilePath m)"

lemma playbook_of_json_json: "playbook_storable m \<Longrightarrow> playbook_of_json (playbook_json m) = Some m"
  by (simp add: playbook_json_def playbook_storable_def key_eq_def to_lower_def)

interpretation playbook_codec: codec marshal_playbooks unmarshal_playbooks "list_all playbook_storable"
proof unfold_locales
  fix ms assume ok: "list_all playbook_storable ms"
  show "unmarshal_playbooks (marshal_playbooks ms) = Some ms"
  proof (cases "ms = []")
    case True
    have "json_parse (json_print JNull) = Some JNull" by (rule json_parse_print) simp
    with True show ?thesis by (simp add: marshal_playbooks_def unmarshal_playbooks_def)
  next
    case False
    have "json_parse (json_print (JArr (map playbook_json ms))) = Some (JArr (map playbook_json ms))"
      using ok by (intro json_parse_print)
        (auto simp: list_all_iff playbook_json_def playbook_storable_def valid_utf8_ascii)
    moreover have "all_some (map playbook_of_json (map playbook_json ms)) = Some ms"
      using all_some_map [of ms "\<lambda>m. playbook_of_json (playbook_json m)" "\<lambda>m. m"] ok
      by (simp add: playbook_of_json_json comp_def list_all_iff)
    ultimately show ?thesis
      using False by (simp add: marshal_playbooks_def unmarshal_playbooks_def)
  qed
qed

section \<open>The operations\<close>

definition NewPlaybookRepository :: "fs \<Rightarrow> string \<Rightarrow> error + playbookRepository" where
  "NewPlaybookRepository s configDir =
     (let path = path_Join [configDir, ''playbook-mapping.json''];
          load = (\<lambda>ms. Inr \<lparr>pbr_mappingFilePath = path,
                     modTimeToPath = map_fill [] (map (\<lambda>m. (pm_ModTime m, pm_FilePath m)) ms),
                     pathToModTime = map_fill [] (map (\<lambda>m. (pm_FilePath m, pm_ModTime m)) ms),
                     pbr_configDir = configDir\<rparr>)
      in case ReadFile s path of
           Inl _ \<Rightarrow> load []
         | Inr js \<Rightarrow>
             (case unmarshal_playbooks js of
                None \<Rightarrow> Inl (ExternalError ''json'')
              | Some ms \<Rightarrow> load ms))"

definition GetSha256 :: "string \<Rightarrow> string" where
  "GetSha256 fileContent = hex_string (sha256_Sum fileContent)"

definition playbook_path :: "playbookRepository \<Rightarrow> string \<Rightarrow> string" where
  "playbook_path m fileContent = path_Join [pbr_configDir m, GetSha256 fileContent]"

text \<open>\<open>rng\<close> is the order the run time picks for the \<open>range\<close> over the map.\<close>

definition playbook_persist ::
  "((int, string) gomap \<Rightarrow> (int \<times> string) list) \<Rightarrow> playbookRepository \<Rightarrow> fs \<Rightarrow> error option \<times> fs" where
  "playbook_persist rng m s =
     WriteFile s (pbr_mappingFilePath m)
       (marshal_playbooks (map (\<lambda>(modTime, path). \<lparr>pm_ModTime = modTime, pm_FilePath = path\<rparr>) (rng (modTimeToPath m))))"

definition GetAll :: "((int, string) gomap \<Rightarrow> (int \<times> string) list) \<Rightarrow> playbookRepository \<Rightarrow> (nat, string) gomap" where
  "GetAll rng m =
     (let keys = sort (map fst (rng (modTimeToPath m)))
      in map_fill [] (zip [0..<length keys] (map (map_get (modTimeToPath m)) keys)))"

definition put_playbook :: "string \<Rightarrow> int \<Rightarrow> playbookRepository \<Rightarrow> playbookRepository" where
  "put_playbook path modTime m =
     m\<lparr>modTimeToPath := map_put (modTimeToPath m) modTime path, pathToModTime := map_put (pathToModTime m) path modTime\<rparr>"

text \<open>The time of a path that is not mapped is Go's zero value.\<close>

definition GetModTime :: "playbookRepository \<Rightarrow> string \<Rightarrow> int" where
  "GetModTime m path = (case map_of (pathToModTime m) path of None \<Rightarrow> 0 | Some t \<Rightarrow> t)"

definition drop_playbook :: "string \<Rightarrow> playbookRepository \<Rightarrow> playbookRepository" where
  "drop_playbook path m =
     m\<lparr>modTimeToPath := map_del (modTimeToPath m) (GetModTime m path), pathToModTime := map_del (pathToModTime m) path\<rparr>"

definition playbook_Add where
  "playbook_Add rng fileContent modTime m s =
     (let path = playbook_path m fileContent in
      case WriteFile s path fileContent of
        (Some err, s1) \<Rightarrow> (Some err, m, s1)
      | (None, s1) \<Rightarrow>
          (let m' = put_playbook path modTime m; (err, s2) = playbook_persist rng m' s1 in (err, m', s2)))"

definition playbook_Remove where
  "playbook_Remove rng fileContent m s =
     (let m' = drop_playbook (playbook_path m fileContent) m; (err, s') = playbook_persist rng m' s in (err, m', s'))"

definition playbook_RemoveMappingFile :: "playbookRepository \<Rightarrow> fs \<Rightarrow> error option \<times> fs" where
  "playbook_RemoveMappingFile m s = RemoveAll s (pbr_mappingFilePath m)"

definition GetFilePath :: "playbookRepository \<Rightarrow> int \<Rightarrow> string" where
  "GetFilePath m modTime = map_get (modTimeToPath m) modTime"

definition playbook_Exists :: "playbookRepository \<Rightarrow> int \<Rightarrow> bool" where
  "playbook_Exists m modTime \<longleftrightarrow> map_of (modTimeToPath m) modTime \<noteq> None"

definition playbook_Persist where
  "playbook_Persist rng m s = playbook_persist rng m s"

definition playbook_Size :: "playbookRepository \<Rightarrow> nat" where
  "playbook_Size m = length (pathToModTime m)"

section \<open>The two maps\<close>

text \<open>No playbook may have the time zero, which \<open>Remove\<close> deletes for a playbook it does not know.\<close>

definition playbooks_ok :: "playbookRepository \<Rightarrow> bool" where
  "playbooks_ok m \<longleftrightarrow> inverse_maps (pathToModTime m) (modTimeToPath m) \<and> map_of (modTimeToPath m) 0 = None"

interpretation playbook_repo:
  bimap "\<lambda>m. map_of (pathToModTime m)" "\<lambda>m. map_of (modTimeToPath m)" put_playbook drop_playbook playbooks_ok "\<lambda>t. t \<noteq> 0"
proof unfold_locales
  fix m n
  assume ok: "playbooks_ok m"
  show "playbooks_ok (drop_playbook n m)"
  proof (cases "map_of (pathToModTime m) n")
    case None
    then have "map_del (pathToModTime m) n = pathToModTime m"
      by (metis delete_id map_of_eq_None_iff)
    moreover have "map_del (modTimeToPath m) 0 = modTimeToPath m"
      using ok by (metis playbooks_ok_def delete_id map_of_eq_None_iff)
    ultimately show ?thesis
      using ok None by (simp add: drop_playbook_def GetModTime_def)
  next
    case (Some i)
    with ok show ?thesis
      by (simp add: playbooks_ok_def drop_playbook_def GetModTime_def inverse_maps_del)
  qed
next
  fix m i n
  assume "playbooks_ok m"
  then show "map_of (modTimeToPath m) i = Some n \<longleftrightarrow> map_of (pathToModTime m) n = Some i"
    by (simp add: playbooks_ok_def inverse_maps_iff)
qed (auto simp: playbooks_ok_def put_playbook_def drop_playbook_def GetModTime_def inverse_maps_put)

section \<open>Where playbooks are kept\<close>

lemma GetSha256_plain: "plain_elem (GetSha256 c)" "CHR ''p'' \<notin> set (GetSha256 c)"
proof -
  have sub: "set (GetSha256 c) \<subseteq> hexdigit ` {0..<16}" unfolding GetSha256_def by (rule hex_string_digits)
  have "slash \<notin> hexdigit ` set [0..<16]" "CHR ''p'' \<notin> hexdigit ` set [0..<16]" by code_simp+
  then have "slash \<notin> set (GetSha256 c)" and p: "CHR ''p'' \<notin> set (GetSha256 c)" using sub by auto
  moreover have "length (GetSha256 c) = 64" unfolding GetSha256_def by (rule length_hex_sha256)
  ultimately show "plain_elem (GetSha256 c)" by (auto simp: plain_elem_def)
  show "CHR ''p'' \<notin> set (GetSha256 c)" by (rule p)
qed

definition playbook_dir :: "string \<Rightarrow> playbookRepository \<Rightarrow> bool" where
  "playbook_dir d m \<longleftrightarrow> clean_dir d \<and> pbr_configDir m = d \<and> pbr_mappingFilePath m = path_Join [d, ''playbook-mapping.json'']"

lemma playbook_path_not_file:
  assumes "playbook_dir d m"
  shows "playbook_path m c \<noteq> pbr_mappingFilePath m"
proof -
  have "plain_elem ''playbook-mapping.json''" by (simp add: plain_elem_def)
  then have "playbook_path m c = d @ slash # GetSha256 c" "pbr_mappingFilePath m = d @ slash # ''playbook-mapping.json''"
    using assms GetSha256_plain(1) by (auto simp: playbook_dir_def playbook_path_def path_Join_plain(1))
  moreover have "GetSha256 c \<noteq> ''playbook-mapping.json''" using GetSha256_plain(2) [of c] by auto
  ultimately show ?thesis by simp
qed

section \<open>A restart\<close>

definition playbooks_storable :: "playbookRepository \<Rightarrow> bool" where
  "playbooks_storable m \<longleftrightarrow> list_all (\<lambda>(t, p). int64_range t \<and> valid_utf8 p) (modTimeToPath m)"

lemma GetAll_order:
  assumes "playbooks_ok m" and "playbooks_ok m'" and "map_of (modTimeToPath m') = map_of (modTimeToPath m)"
    and "is_range rng" and "is_range rng'"
  shows "GetAll rng' m' = GetAll rng m"
proof -
  have ok: "gomap_ok (modTimeToPath m)" "gomap_ok (modTimeToPath m')"
    using assms(1,2) by (simp_all add: playbooks_ok_def inverse_maps_def)
  have dist: "distinct (map fst (rng (modTimeToPath m)))" "distinct (map fst (rng' (modTimeToPath m')))"
    using range_distinct [OF assms(4) ok(1)] range_distinct [OF assms(5) ok(2)] by simp_all
  have "fst ` set (modTimeToPath m) = fst ` set (modTimeToPath m')"
    using assms(3) by (metis dom_map_of_conv_image_fst)
  then have "set (map fst (rng (modTimeToPath m))) = set (map fst (rng' (modTimeToPath m')))"
    using range_set [OF assms(4), of "modTimeToPath m"] range_set [OF assms(5), of "modTimeToPath m'"] by simp
  then have "mset (map fst (rng (modTimeToPath m))) = mset (map fst (rng' (modTimeToPath m')))"
    using set_eq_iff_mset_eq_distinct [OF dist] by blast
  then have "sort (map fst (rng (modTimeToPath m))) = sort (map fst (rng' (modTimeToPath m')))"
    by (intro properties_for_sort) simp_all
  moreover have "map_get (modTimeToPath m') = map_get (modTimeToPath m)"
    using assms(3) by (simp add: map_get_def fun_eq_iff)
  ultimately show ?thesis by (simp add: GetAll_def Let_def)
qed

lemma playbooks_reload:
  assumes "playbook_persist rng m s = (None, s')" and "playbook_dir d m" and "playbooks_ok m" and "playbooks_storable m"
    and "is_range rng"
  obtains m' where "NewPlaybookRepository s' d = Inr m'" and "playbooks_ok m'" and "playbook_dir d m'"
    and "map_of (pathToModTime m') = map_of (pathToModTime m)"
    and "\<forall>rng' rng''. is_range rng' \<longrightarrow> is_range rng'' \<longrightarrow> GetAll rng' m' = GetAll rng'' m"
proof -
  let ?ms = "map (\<lambda>(t, p). \<lparr>pm_ModTime = t, pm_FilePath = p\<rparr>) (rng (modTimeToPath m))"
  define m' where "m' = \<lparr>pbr_mappingFilePath = pbr_mappingFilePath m, modTimeToPath = map_fill [] (rng (modTimeToPath m)),
    pathToModTime = map_fill [] (map (\<lambda>(i, n). (n, i)) (rng (modTimeToPath m))), pbr_configDir = d\<rparr>"
  have inv: "inverse_maps (pathToModTime m) (modTimeToPath m)" using assms(3) by (simp add: playbooks_ok_def)
  note reload = reload_inverse_maps [OF inv assms(5)]
  have "ReadFile s' (pbr_mappingFilePath m) = Inr (marshal_playbooks ?ms)"
    using assms(1) unfolding playbook_persist_def by (rule WriteFile_ok(2))
  moreover have "list_all playbook_storable ?ms"
    using assms(4) range_set [OF assms(5), of "modTimeToPath m"]
    by (auto simp: list_all_iff playbooks_storable_def playbook_storable_def)
  moreover have "map ((\<lambda>m. (pm_ModTime m, pm_FilePath m)) \<circ> (\<lambda>(t, p). \<lparr>pm_ModTime = t, pm_FilePath = p\<rparr>)) = (\<lambda>xs. xs)"
    "map ((\<lambda>m. (pm_FilePath m, pm_ModTime m)) \<circ> (\<lambda>(t, p). \<lparr>pm_ModTime = t, pm_FilePath = p\<rparr>)) = map (\<lambda>(i, n). (n, i))"
    by (simp_all add: comp_def case_prod_beta' fun_eq_iff)
  ultimately have new: "NewPlaybookRepository s' d = Inr m'"
    using assms(2) playbook_codec.unmarshal_marshal [of ?ms]
    by (simp add: NewPlaybookRepository_def playbook_dir_def m'_def Let_def)
  have ok: "playbooks_ok m'" and paths: "map_of (pathToModTime m') = map_of (pathToModTime m)"
    and times: "map_of (modTimeToPath m') = map_of (modTimeToPath m)"
    using reload assms(3) by (simp_all add: playbooks_ok_def m'_def)
  show thesis
  proof (rule that [OF new ok _ paths])
    show "playbook_dir d m'" using assms(2) by (simp add: playbook_dir_def m'_def)
    show "\<forall>rng' rng''. is_range rng' \<longrightarrow> is_range rng'' \<longrightarrow> GetAll rng' m' = GetAll rng'' m"
      using GetAll_order [OF assms(3) ok times] by blast
  qed
qed


text \<open>
  A playbook removed from the repository is not pending after a restart, and the others
  are. Its file stays on the disk: the repository never deletes a playbook file.
\<close>

theorem removed_playbook_not_pending:
  assumes "playbook_Remove rng fileContent m s = (None, m', s')" and "playbooks_ok m" and "playbook_dir d m" and "is_range rng"
    and "playbooks_storable m"
  shows "\<exists>m''. NewPlaybookRepository s' d = Inr m'' \<and> playbooks_ok m'' \<and>
    map_of (pathToModTime m'') = (map_of (pathToModTime m))(playbook_path m fileContent := None) \<and>
    nodes s' (playbook_path m fileContent) = nodes s (playbook_path m fileContent)"
proof -
  have m': "m' = drop_playbook (playbook_path m fileContent) m" and p: "playbook_persist rng m' s = (None, s')"
    using assms(1) by (auto simp: playbook_Remove_def Let_def split: prod.splits)
  have ok: "playbooks_ok m'" unfolding m' using assms(2) by (rule playbook_repo.invar_remove)
  have dir: "playbook_dir d m'" using assms(3) by (simp add: m' drop_playbook_def playbook_dir_def)
  have "set (modTimeToPath m') \<subseteq> set (modTimeToPath m)"
    by (auto simp: m' drop_playbook_def AList.delete_eq)
  then have storable: "playbooks_storable m'" using assms(5) by (auto simp: playbooks_storable_def list_all_iff)
  have "playbook_path m fileContent \<noteq> pbr_mappingFilePath m'"
    using playbook_path_not_file [OF assms(3)] by (simp add: m' drop_playbook_def)
  then have "nodes s' (playbook_path m fileContent) = nodes s (playbook_path m fileContent)"
    using p WriteFile_frame [of "playbook_path m fileContent" "pbr_mappingFilePath m'" s] unfolding playbook_persist_def by (metis snd_conv)
  moreover obtain m'' where "NewPlaybookRepository s' d = Inr m''" "playbooks_ok m''"
      "map_of (pathToModTime m'') = map_of (pathToModTime m')"
    using playbooks_reload [OF p dir ok storable assms(4)] .
  moreover have "map_of (pathToModTime m') = (map_of (pathToModTime m))(playbook_path m fileContent := None)"
    by (simp add: m' drop_playbook_def)
  ultimately show ?thesis by metis
qed

section \<open>Concrete instances\<close>

definition demo_playbooks :: "(int, string) gomap \<Rightarrow> playbookRepository" where
  "demo_playbooks ps = \<lparr>pbr_mappingFilePath = ''/p/playbook-mapping.json'', modTimeToPath = ps,
     pathToModTime = map (\<lambda>(t, p). (p, t)) ps, pbr_configDir = ''/p''\<rparr>"

lemma demo_playbooks_simps [simp]:
  "modTimeToPath (demo_playbooks ps) = ps" "pathToModTime (demo_playbooks ps) = map (\<lambda>(t, p). (p, t)) ps"
  "pbr_mappingFilePath (demo_playbooks ps) = ''/p/playbook-mapping.json''"
  by (simp_all add: demo_playbooks_def)

lemma demo_playbook_dir: "playbook_dir ''/p'' (demo_playbooks ps)"
proof -
  have "clean_dir ''/p''" "plain_elem ''playbook-mapping.json''" by (simp_all add: clean_dir_def plain_elem_def)
  then show ?thesis by (simp add: playbook_dir_def demo_playbooks_def path_Join_plain(1))
qed

lemma demo_playbook_path: "playbook_path (demo_playbooks ps) c = ''/p/'' @ GetSha256 c"
  using demo_playbook_dir [of ps] GetSha256_plain(1) [of c] path_Join_plain(1) [of "''/p''" "GetSha256 c"]
  by (simp add: playbook_dir_def playbook_path_def)

lemma demo_playbook_utf8: "valid_utf8 (''/p/'' @ GetSha256 c)"
proof -
  have "list_all (\<lambda>x. code x < 0x80) (''/p/'' @ map hexdigit [0..<16])" by code_simp
  then have "\<forall>x \<in> hexdigit ` {0..<16}. code x < 0x80" and "list_all (\<lambda>x. code x < 0x80) ''/p/''" by (auto simp: list_all_iff)
  moreover have "set (GetSha256 c) \<subseteq> hexdigit ` {0..<16}" unfolding GetSha256_def by (rule hex_string_digits)
  ultimately have "list_all (\<lambda>x. code x < 0x80) (''/p/'' @ GetSha256 c)" by (auto simp: list_all_iff)
  then show ?thesis by (rule valid_utf8_ascii)
qed

lemma demo_write:
  assumes "plain_elem n" and "nodes s ''/p'' = Some Dir" and "faults s = []" and "nodes s (''/p/'' @ n) \<noteq> Some Dir"
  shows "WriteFile s (''/p/'' @ n) c = (None, set_node (tick s) (''/p/'' @ n) (Some (File c)))"
proof -
  have "path_Dir (''/p'' @ slash # n) = ''/p''"
    using assms(1) by (intro path_Dir_append) (auto simp: plain_elem_def)
  then show ?thesis
    using assms by (intro WriteFile_succeeds) (simp_all add: is_dir_def)
qed

definition demo_playbook_disk :: fs where
  "demo_playbook_disk = fs_of [(''/p'', Dir)]"

lemma plain_mapping_file: "plain_elem ''playbook-mapping.json''"
  by (simp add: plain_elem_def)

lemma demo_persist:
  assumes "nodes s ''/p'' = Some Dir" and "faults s = []" and "nodes s ''/p/playbook-mapping.json'' \<noteq> Some Dir"
    and "pbr_mappingFilePath m = ''/p/playbook-mapping.json''"
  shows "\<exists>s'. playbook_persist rng m s = (None, s')"
  using demo_write [OF plain_mapping_file assms(1,2)] assms(3,4) by (simp add: playbook_persist_def)


theorem removed_playbook_not_pending_witness:
  "\<exists>m' s' m''. playbook_Remove (\<lambda>m. m) ''x'' (demo_playbooks [(5, ''/p/'' @ GetSha256 ''x'')]) demo_playbook_disk = (None, m', s') \<and>
     NewPlaybookRepository s' ''/p'' = Inr m'' \<and> map_of (pathToModTime m'') = Map.empty"
proof -
  let ?m = "demo_playbooks [(5, ''/p/'' @ GetSha256 ''x'')]"
  have path: "playbook_path ?m ''x'' = ''/p/'' @ GetSha256 ''x''" by (rule demo_playbook_path)
  obtain s' where p: "playbook_persist (\<lambda>m. m) (drop_playbook (''/p/'' @ GetSha256 ''x'') ?m) demo_playbook_disk = (None, s')"
    using demo_persist [of demo_playbook_disk "drop_playbook (''/p/'' @ GetSha256 ''x'') ?m" "\<lambda>m. m"]
    by (auto simp: demo_playbook_disk_def drop_playbook_def)
  have rem: "playbook_Remove (\<lambda>m. m) ''x'' ?m demo_playbook_disk = (None, drop_playbook (''/p/'' @ GetSha256 ''x'') ?m, s')"
    using p by (simp add: playbook_Remove_def demo_playbook_path Let_def)
  have "playbooks_ok ?m" by (simp add: playbooks_ok_def inverse_maps_def gomap_ok_def)
  moreover have "playbooks_storable ?m"
    using demo_playbook_utf8 [of "''x''"] by (simp add: playbooks_storable_def int64_range_def)
  ultimately obtain m'' where
    "NewPlaybookRepository s' ''/p'' = Inr m''" "map_of (pathToModTime m'') = (map_of (pathToModTime ?m))(''/p/'' @ GetSha256 ''x'' := None)"
    using removed_playbook_not_pending [OF rem _ demo_playbook_dir is_range_id, unfolded path] by blast
  moreover have "(map_of (pathToModTime ?m))(''/p/'' @ GetSha256 ''x'' := None) = Map.empty"
    by simp
  ultimately show ?thesis using rem by metis
qed

end
