(* ===== verification/Ansible_Events.thy ===== *)
theory Ansible_Events
  imports Go_Json "HOL-Library.List_Lexorder" "HOL-Library.Char_ord"
begin

text \<open>
  \<open>internal/ansible/dispatcher\<close> and the event type of \<open>internal/ansible/model/message\<close>: turning the
  results of a playbook run into the job events the playbook dispatcher expects, and writing them
  as one JSON value per line.

  The results come from package \<open>go-ansible\<close>; a pointer in them may be nil and is an \<open>option\<close>, and
  dereferencing a nil pointer is a panic. Fields nobody reads or sets are left out. The order in
  which \<open>range\<close> visits the hosts of a task is a parameter, and so are new UUIDs.
\<close>

section \<open>Results of a run\<close>

record ansible_Duration =
  dur_Start :: string
  dur_End :: string

record PlaysPlay =
  pp_Id :: string
  pp_Duration :: "ansible_Duration option"

record TaskItem =
  ti_Name :: string
  ti_Id :: string
  ti_Duration :: "ansible_Duration option"

record HostsItem =
  hi_Action :: string
  hi_Changed :: bool
  hi_Stdout :: string
  hi_Stderr :: string
  hi_Failed :: bool
  hi_Skipped :: bool

record PlayTask =
  pt_Task :: "TaskItem option"
  pt_Hosts :: "(string, HostsItem option) gomap"

record ansible_Play =
  pl_Play :: "PlaysPlay option"
  pl_Tasks :: "PlayTask list"

record ansible_Stats =
  st_Changed :: int
  st_Failures :: int
  st_Ok :: int

record PlaybookResults =
  res_Plays :: "ansible_Play list option" \<comment> \<open>\<open>None\<close> is the nil slice\<close>
  res_Stats :: "(string, ansible_Stats option) gomap"

section \<open>Job events\<close>

record EventData =
  ed_Changed :: "(string, int) gomap"
  ed_CorrelationId :: "string option"
  ed_ErrorCode :: "string option"
  ed_ErrorDetails :: "string option"
  ed_Failures :: "(string, int) gomap"
  ed_Host :: "string option"
  ed_Ok :: "(string, int) gomap"
  ed_Playbook :: "string option"
  ed_PlaybookUuid :: "string option"
  ed_Res :: "bool option" \<comment> \<open>\<open>Changed\<close> of \<open>Res\<close>\<close>
  ed_Task :: "string option"
  ed_TaskAction :: "string option"
  ed_TaskUuid :: "string option"
  ed_Uuid :: "string option"

record RunnerJobEvent =
  je_Counter :: int
  je_Created :: "string option"
  je_EndLine :: int
  je_Event :: string
  je_EventData :: EventData
  je_RunnerIdent :: "string option"
  je_StartLine :: int
  je_Stderr :: "string option"
  je_Stdout :: "string option"
  je_Uuid :: string

definition no_data :: EventData where
  "no_data = \<lparr>ed_Changed = [], ed_CorrelationId = None, ed_ErrorCode = None, ed_ErrorDetails = None, ed_Failures = [],
     ed_Host = None, ed_Ok = [], ed_Playbook = None, ed_PlaybookUuid = None, ed_Res = None, ed_Task = None,
     ed_TaskAction = None, ed_TaskUuid = None, ed_Uuid = None\<rparr>"

definition job_event :: "string \<Rightarrow> string \<Rightarrow> int \<Rightarrow> string \<Rightarrow> EventData \<Rightarrow> string \<Rightarrow> RunnerJobEvent" where
  "job_event event runnerID counter created d uuid =
     \<lparr>je_Counter = counter, je_Created = Some created, je_EndLine = 0, je_Event = event, je_EventData = d,
      je_RunnerIdent = Some runnerID, je_StartLine = 0, je_Stderr = None, je_Stdout = None, je_Uuid = uuid\<rparr>"

record AnsibleDispatcher =
  ad_deviceID :: string
  ad_msgList :: "RunnerJobEvent list"

definition NewAnsibleDispatcher :: "string \<Rightarrow> AnsibleDispatcher" where
  "NewAnsibleDispatcher deviceIDParam = \<lparr>ad_deviceID = deviceIDParam, ad_msgList = []\<rparr>"

definition GetMsgList :: "AnsibleDispatcher \<Rightarrow> RunnerJobEvent list" where
  "GetMsgList d = ad_msgList d"

definition AddRunnerJobEvent :: "RunnerJobEvent \<Rightarrow> AnsibleDispatcher \<Rightarrow> RunnerJobEvent list \<times> AnsibleDispatcher" where
  "AddRunnerJobEvent event d = (let d' = d\<lparr>ad_msgList := ad_msgList d @ [event]\<rparr> in (ad_msgList d', d'))"

section \<open>Nil pointers\<close>

definition deref :: "'a option \<Rightarrow> ('a \<Rightarrow> 'b outcome) \<Rightarrow> 'b outcome" where
  "deref p f = (case p of None \<Rightarrow> Panic | Some a \<Rightarrow> f a)"

definition out_bind :: "'a outcome \<Rightarrow> ('a \<Rightarrow> 'b outcome) \<Rightarrow> 'b outcome" where
  "out_bind r f = (case r of Panic \<Rightarrow> Panic | Ret a \<Rightarrow> f a)"

lemma deref_simps [simp]: "deref None f = Panic" "deref (Some a) f = f a"
  by (simp_all add: deref_def)

lemma out_bind_simps [simp]: "out_bind Panic f = Panic" "out_bind (Ret a) f = f a"
  by (simp_all add: out_bind_def)

lemma out_bind_Ret: "out_bind r f = Ret b \<longleftrightarrow> (\<exists>a. r = Ret a \<and> f a = Ret b)"
  by (cases r) auto

lemma deref_Ret: "deref p f = Ret b \<longleftrightarrow> (\<exists>a. p = Some a \<and> f a = Ret b)"
  by (cases p) auto

section \<open>The events of a run\<close>

definition playbookOnStats ::
  "((string, ansible_Stats option) gomap \<Rightarrow> (string \<times> ansible_Stats option) list) \<Rightarrow>
   string \<Rightarrow> string \<Rightarrow> int \<Rightarrow> string \<Rightarrow> (string, ansible_Stats option) gomap \<Rightarrow> RunnerJobEvent outcome" where
  "playbookOnStats rng runnerID playbookUUID msgCounter creationTime stats =
     (if list_ex (\<lambda>(host, st). st = None) (rng stats) then Panic
      else
        (let put = (\<lambda>f. map_fill [] (map (\<lambda>(host, st). (host, f (the st))) (rng stats)))
         in Ret (job_event ''playbook_on_stats'' runnerID msgCounter creationTime
                  (no_data\<lparr>ed_PlaybookUuid := Some playbookUUID, ed_Changed := put st_Changed, ed_Ok := put st_Ok,
                           ed_Failures := put st_Failures\<rparr>) [])))"

definition runner_data :: "string \<Rightarrow> string \<Rightarrow> string option \<Rightarrow> TaskItem \<Rightarrow> HostsItem \<Rightarrow> EventData" where
  "runner_data playbookFilename playbookUUID host tasks hosts =
     no_data\<lparr>ed_Playbook := Some playbookFilename, ed_PlaybookUuid := Some playbookUUID, ed_Host := host,
       ed_TaskUuid := Some (ti_Id tasks), ed_Task := Some (ti_Name tasks), ed_TaskAction := Some (hi_Action hosts),
       ed_Res := Some (hi_Changed hosts), ed_Uuid := Some (ti_Id tasks)\<rparr>"

definition RunnerOnOk ::
  "string \<Rightarrow> string \<Rightarrow> string \<Rightarrow> int \<Rightarrow> string option \<Rightarrow> TaskItem \<Rightarrow> HostsItem \<Rightarrow> RunnerJobEvent outcome" where
  "RunnerOnOk runnerID playbookFilename playbookUUID msgCounter host tasks hosts =
     deref (ti_Duration tasks) (\<lambda>d.
       Ret ((job_event ''v2_runner_on_ok'' runnerID msgCounter (dur_Start d)
              (runner_data playbookFilename playbookUUID host tasks hosts) (ti_Id tasks))
            \<lparr>je_Stdout := Some (hi_Stdout hosts)\<rparr>))"

definition RunnerOnFailed ::
  "string \<Rightarrow> string \<Rightarrow> string \<Rightarrow> int \<Rightarrow> string option \<Rightarrow> TaskItem \<Rightarrow> HostsItem \<Rightarrow> RunnerJobEvent outcome" where
  "RunnerOnFailed runnerID playbookFilename playbookUUID msgCounter host tasks hosts =
     deref (ti_Duration tasks) (\<lambda>d.
       Ret ((job_event ''v2_runner_on_failed'' runnerID msgCounter (dur_Start d)
              (runner_data playbookFilename playbookUUID host tasks hosts) (ti_Id tasks))
            \<lparr>je_Stdout := Some (hi_Stdout hosts), je_Stderr := Some (hi_Stderr hosts)\<rparr>))"

definition RunnerOnSkipped ::
  "string \<Rightarrow> string \<Rightarrow> string \<Rightarrow> int \<Rightarrow> string option \<Rightarrow> TaskItem \<Rightarrow> HostsItem \<Rightarrow> RunnerJobEvent outcome" where
  "RunnerOnSkipped runnerID playbookFilename playbookUUID msgCounter host tasks hosts =
     deref (ti_Duration tasks) (\<lambda>d.
       Ret ((job_event ''v2_runner_on_skipped'' runnerID msgCounter (dur_Start d)
              (runner_data playbookFilename playbookUUID host tasks hosts) (ti_Id tasks))
            \<lparr>je_Stdout := Some (hi_Stdout hosts), je_Stderr := Some (hi_Stderr hosts)\<rparr>))"

text \<open>
  The start of a task on a host. The id of a task that occurs more than once gets a counter as its
  suffix; the changed id is stored in the task.
\<close>

definition bump :: "(string, nat) gomap \<Rightarrow> string \<Rightarrow> (string, nat) gomap" where
  "bump m k = map_put m k (Suc (case map_of m k of None \<Rightarrow> 0 | Some n \<Rightarrow> n))"

definition PlaybookOnTaskStart ::
  "string \<Rightarrow> string \<Rightarrow> string \<Rightarrow> int \<Rightarrow> string option \<Rightarrow> TaskItem \<Rightarrow> HostsItem \<Rightarrow> (string, nat) gomap \<Rightarrow> (string, nat) gomap \<Rightarrow>
   (RunnerJobEvent \<times> TaskItem \<times> (string, nat) gomap) outcome" where
  "PlaybookOnTaskStart runnerID playbookFilename playbookUUID msgCounter host tasks hosts taskUUIDs duplicateTaskCount =
     (let (taskUUID, tasks', dup') =
            (case map_of taskUUIDs (ti_Id tasks) of
               None \<Rightarrow> (ti_Id tasks, tasks, duplicateTaskCount)
             | Some occurence \<Rightarrow>
                 if occurence > 1 then
                   (let dup = bump duplicateTaskCount (ti_Id tasks);
                        uuid = ti_Id tasks @ ''_'' @ Itoa (int (the (map_of dup (ti_Id tasks))))
                    in (uuid, tasks\<lparr>ti_Id := uuid\<rparr>, dup))
                 else (ti_Id tasks, tasks, duplicateTaskCount))
      in deref (ti_Duration tasks') (\<lambda>d.
           Ret ((job_event ''playbook_on_task_start'' runnerID msgCounter (dur_Start d)
                  (no_data\<lparr>ed_Playbook := Some playbookFilename, ed_PlaybookUuid := Some playbookUUID, ed_Host := host,
                     ed_TaskUuid := Some taskUUID, ed_Task := Some (ti_Name tasks'), ed_TaskAction := Some (hi_Action hosts),
                     ed_Uuid := Some taskUUID\<rparr>) taskUUID)
                \<lparr>je_Stdout := Some (hi_Stdout hosts)\<rparr>, tasks', dup')))"

text \<open>The hosts of the last task, joined: each task overwrites the string of the one before.\<close>

definition getHostsString ::
  "((string, HostsItem option) gomap \<Rightarrow> (string \<times> HostsItem option) list) \<Rightarrow> PlayTask list \<Rightarrow> string" where
  "getHostsString rng tasks = fold (\<lambda>task hostsString. strings_Join (map fst (rng (pt_Hosts task))) '','') tasks []"

fun countOccurence :: "PlayTask list \<Rightarrow> (string, nat) gomap \<Rightarrow> (string, nat) gomap outcome" where
  "countOccurence [] dict = Ret dict"
| "countOccurence (task # tasks) dict = deref (pt_Task task) (\<lambda>ti. countOccurence tasks (bump dict (ti_Id ti)))"

definition PlaybookOnPlayStart ::
  "((string, HostsItem option) gomap \<Rightarrow> (string \<times> HostsItem option) list) \<Rightarrow> string \<Rightarrow> string \<Rightarrow> int \<Rightarrow> ansible_Play \<Rightarrow>
   RunnerJobEvent outcome" where
  "PlaybookOnPlayStart rng deviceID playbookFilename msgCounter play =
     deref (pl_Play play) (\<lambda>p. deref (pp_Duration p) (\<lambda>d.
       Ret (job_event ''playbook_on_play_start'' deviceID msgCounter (dur_Start d)
             (no_data\<lparr>ed_PlaybookUuid := Some (pp_Id p), ed_Playbook := Some playbookFilename,
                      ed_Host := Some (getHostsString rng (pl_Tasks play)), ed_Uuid := Some (pp_Id p)\<rparr>) (pp_Id p))))"

definition PlaybookOnStart ::
  "((string, HostsItem option) gomap \<Rightarrow> (string \<times> HostsItem option) list) \<Rightarrow> string \<Rightarrow> string \<Rightarrow> string \<Rightarrow> int \<Rightarrow> ansible_Play \<Rightarrow>
   RunnerJobEvent outcome" where
  "PlaybookOnStart rng newUUID deviceID playbookFilename msgCounter play =
     deref (pl_Play play) (\<lambda>p. deref (pp_Duration p) (\<lambda>d.
       Ret (job_event ''playbook_on_start'' deviceID msgCounter (dur_Start d)
             (no_data\<lparr>ed_PlaybookUuid := Some newUUID, ed_Playbook := Some playbookFilename,
                      ed_Host := Some (getHostsString rng (pl_Tasks play)), ed_Uuid := Some (pp_Id p)\<rparr>) newUUID)))"

record transformer_env =
  te_hosts :: "(string, HostsItem option) gomap \<Rightarrow> (string \<times> HostsItem option) list"
  te_stats :: "(string, ansible_Stats option) gomap \<Rightarrow> (string \<times> ansible_Stats option) list"
  te_uuid :: string

definition runner_event ::
  "string \<Rightarrow> string \<Rightarrow> string \<Rightarrow> int \<Rightarrow> string option \<Rightarrow> TaskItem \<Rightarrow> HostsItem \<Rightarrow> RunnerJobEvent outcome" where
  "runner_event runnerID playbookFilename uuid msgCounter host ti hi =
     (if hi_Failed hi then RunnerOnFailed runnerID playbookFilename uuid msgCounter host ti hi
      else if hi_Skipped hi then RunnerOnSkipped runnerID playbookFilename uuid msgCounter host ti hi
      else RunnerOnOk runnerID playbookFilename uuid msgCounter host ti hi)"

text \<open>
  The hosts of a task. The result event of a host points to the id of the task, which the start on
  a later host may change: once the hosts are done it shows the id the task has then.
\<close>

definition show_task_id :: "string \<Rightarrow> RunnerJobEvent \<Rightarrow> RunnerJobEvent" where
  "show_task_id uuid e = e\<lparr>je_EventData := (je_EventData e)\<lparr>ed_TaskUuid := Some uuid, ed_Uuid := Some uuid\<rparr>\<rparr>"

fun host_events ::
  "string \<Rightarrow> string \<Rightarrow> RunnerJobEvent \<Rightarrow> (string, nat) gomap \<Rightarrow> (string \<times> HostsItem option) list \<Rightarrow>
   TaskItem \<Rightarrow> int \<Rightarrow> (string, nat) gomap \<Rightarrow> ((RunnerJobEvent \<times> bool) list \<times> TaskItem \<times> int \<times> (string, nat) gomap) outcome" where
  "host_events deviceID playbook start taskUUIDs [] ti counter dup = Ret ([], ti, counter, dup)"
| "host_events deviceID playbook start taskUUIDs ((name, host) # hosts) ti counter dup =
     deref host (\<lambda>hi.
       out_bind (PlaybookOnTaskStart deviceID playbook (je_Uuid start) (counter + 1) (ed_Host (je_EventData start)) ti hi taskUUIDs dup)
         (\<lambda>(ts, ti1, dup1).
           out_bind (runner_event deviceID playbook (je_Uuid ts) (counter + 2) (ed_Host (je_EventData start)) ti1 hi)
             (\<lambda>re. out_bind (host_events deviceID playbook start taskUUIDs hosts ti1 (counter + 2) dup1)
               (\<lambda>(evs, ti2, counter2, dup2). Ret ((ts, False) # (re, True) # evs, ti2, counter2, dup2)))))"

fun task_events ::
  "transformer_env \<Rightarrow> string \<Rightarrow> string \<Rightarrow> RunnerJobEvent \<Rightarrow> (string, nat) gomap \<Rightarrow> PlayTask list \<Rightarrow>
   int \<Rightarrow> (string, nat) gomap \<Rightarrow> (RunnerJobEvent list \<times> int \<times> (string, nat) gomap) outcome" where
  "task_events env deviceID playbook start taskUUIDs [] counter dup = Ret ([], counter, dup)"
| "task_events env deviceID playbook start taskUUIDs (task # tasks) counter dup =
     deref (pt_Task task) (\<lambda>ti.
       out_bind (host_events deviceID playbook start taskUUIDs (te_hosts env (pt_Hosts task)) ti counter dup)
         (\<lambda>(evs, ti', counter', dup').
           out_bind (task_events env deviceID playbook start taskUUIDs tasks counter' dup')
             (\<lambda>(rest, counter'', dup'').
               Ret (map (\<lambda>(e, result). if result then show_task_id (ti_Id ti') e else e) evs @ rest, counter'', dup''))))"

fun play_events ::
  "transformer_env \<Rightarrow> string \<Rightarrow> string \<Rightarrow> (string, ansible_Stats option) gomap \<Rightarrow> ansible_Play list \<Rightarrow>
   int \<Rightarrow> (string, nat) gomap \<Rightarrow> RunnerJobEvent list outcome" where
  "play_events env deviceID playbook stats [] counter dup = Ret []"
| "play_events env deviceID playbook stats (play # plays) counter dup =
     out_bind (if counter = 1 then out_bind (PlaybookOnStart (te_hosts env) (te_uuid env) deviceID playbook counter play) (\<lambda>e. Ret [e])
               else Ret [])
       (\<lambda>first. out_bind (PlaybookOnPlayStart (te_hosts env) deviceID playbook (counter + 1) play)
         (\<lambda>start. out_bind (countOccurence (pl_Tasks play) [])
           (\<lambda>taskUUIDs. out_bind (task_events env deviceID playbook start taskUUIDs (pl_Tasks play) (counter + 1) dup)
             (\<lambda>(evs, counter', dup'). deref (pl_Play play) (\<lambda>p. deref (pp_Duration p) (\<lambda>d.
               out_bind (playbookOnStats (te_stats env) deviceID playbook (counter' + 1) (dur_End d) stats)
                 (\<lambda>st. out_bind (play_events env deviceID playbook stats plays (counter' + 1) dup')
                   (\<lambda>rest. Ret (first @ start # evs @ st # rest)))))))))"

definition eventTransformer :: "transformer_env \<Rightarrow> string \<Rightarrow> string \<Rightarrow> PlaybookResults \<Rightarrow> RunnerJobEvent list outcome" where
  "eventTransformer env deviceID playbookFilename events =
     play_events env deviceID playbookFilename (res_Stats events) (case res_Plays events of None \<Rightarrow> [] | Some ps \<Rightarrow> ps) 0 []"

definition AddEvent ::
  "transformer_env \<Rightarrow> string \<Rightarrow> PlaybookResults \<Rightarrow> AnsibleDispatcher \<Rightarrow> (RunnerJobEvent list \<times> AnsibleDispatcher) outcome" where
  "AddEvent env playbookFilename event d =
     out_bind (eventTransformer env (ad_deviceID d) playbookFilename event)
       (\<lambda>msgs. let d' = d\<lparr>ad_msgList := ad_msgList d @ msgs\<rparr> in Ret (ad_msgList d', d'))"

definition executor_event :: "string \<Rightarrow> string \<Rightarrow> string \<Rightarrow> EventData \<Rightarrow> RunnerJobEvent" where
  "executor_event event newUUID stdout d =
     \<lparr>je_Counter = -1, je_Created = None, je_EndLine = 0, je_Event = event, je_EventData = d, je_RunnerIdent = None,
      je_StartLine = 0, je_Stderr = None, je_Stdout = Some stdout, je_Uuid = newUUID\<rparr>"

definition ExecutorOnStart :: "string \<Rightarrow> string \<Rightarrow> string \<Rightarrow> RunnerJobEvent" where
  "ExecutorOnStart newUUID correlationID stdout =
     executor_event ''executor_on_start'' newUUID stdout (no_data\<lparr>ed_CorrelationId := Some correlationID\<rparr>)"

definition ExecutorOnFailed :: "string \<Rightarrow> string \<Rightarrow> string \<Rightarrow> string \<Rightarrow> string \<Rightarrow> RunnerJobEvent" where
  "ExecutorOnFailed newUUID correlationID stdout errorCode errorDetails =
     executor_event ''executor_on_failed'' newUUID stdout
       (no_data\<lparr>ed_CorrelationId := Some correlationID, ed_ErrorCode := Some errorCode, ed_ErrorDetails := Some errorDetails\<rparr>)"

section \<open>The message\<close>

text \<open>
  \<open>json.Marshal\<close> of an event: fields in the order of the struct, absent ones left out, maps by
  their keys in order.
\<close>

definition opt_field :: "string \<Rightarrow> ('a \<Rightarrow> json) \<Rightarrow> 'a option \<Rightarrow> (string \<times> json) list" where
  "opt_field key f v = (case v of None \<Rightarrow> [] | Some x \<Rightarrow> [(key, f x)])"

definition counts_field :: "string \<Rightarrow> (string, int) gomap \<Rightarrow> (string \<times> json) list" where
  "counts_field key m = (if m = [] then [] else [(key, JObj (map (\<lambda>(k, n). (k, JNum n)) (sort_key fst m)))])"

definition data_json :: "EventData \<Rightarrow> json" where
  "data_json d = JObj
     (counts_field ''changed'' (ed_Changed d) @
      opt_field ''crc_dispatcher_correlation_id'' JStr (ed_CorrelationId d) @
      opt_field ''crc_dispatcher_error_code'' JStr (ed_ErrorCode d) @
      opt_field ''crc_dispatcher_error_details'' JStr (ed_ErrorDetails d) @
      counts_field ''failures'' (ed_Failures d) @
      opt_field ''host'' JStr (ed_Host d) @
      counts_field ''ok'' (ed_Ok d) @
      opt_field ''playbook'' JStr (ed_Playbook d) @
      opt_field ''playbook_uuid'' JStr (ed_PlaybookUuid d) @
      opt_field ''res'' (\<lambda>c. JObj [(''changed'', JBool c)]) (ed_Res d) @
      opt_field ''task'' JStr (ed_Task d) @
      opt_field ''task_action'' JStr (ed_TaskAction d) @
      opt_field ''task_uuid'' JStr (ed_TaskUuid d) @
      opt_field ''uuid'' JStr (ed_Uuid d))"

definition event_json :: "RunnerJobEvent \<Rightarrow> json" where
  "event_json e = JObj
     ([(''counter'', JNum (je_Counter e))] @
      opt_field ''created'' JStr (je_Created e) @
      [(''end_line'', JNum (je_EndLine e)), (''event'', JStr (je_Event e)), (''event_data'', data_json (je_EventData e))] @
      opt_field ''runner_ident'' JStr (je_RunnerIdent e) @
      [(''start_line'', JNum (je_StartLine e))] @
      opt_field ''stderr'' JStr (je_Stderr e) @
      opt_field ''stdout'' JStr (je_Stdout e) @
      [(''uuid'', JStr (je_Uuid e))])"

fun CreateMessage :: "RunnerJobEvent list \<Rightarrow> string" where
  "CreateMessage [] = []"
| "CreateMessage [e] = json_print (event_json e)"
| "CreateMessage (e # es) = json_print (event_json e) @ [CHR 0x0A] @ CreateMessage es"

record pb_Data =
  pb_MessageId :: string
  pb_Metadata :: "(string, string) gomap"
  pb_Content :: string
  pb_ResponseTo :: string
  pb_Directive :: string

definition ComposeDispatcherMessage :: "string \<Rightarrow> RunnerJobEvent list \<Rightarrow> string \<Rightarrow> string \<Rightarrow> error + pb_Data" where
  "ComposeDispatcherMessage newUUID events returnURL responseTo =
     Inr \<lparr>pb_MessageId = newUUID, pb_Metadata = [], pb_Content = CreateMessage events, pb_ResponseTo = responseTo, pb_Directive = returnURL\<rparr>"

section \<open>One event per line\<close>

abbreviation newline :: char where
  "newline \<equiv> CHR 0x0A"

lemma hexdigit_no_newline: "n < 16 \<Longrightarrow> hexdigit n \<noteq> newline"
proof -
  have "list_all (\<lambda>n. hexdigit n \<noteq> newline) [0..<16]" by code_simp
  then show "n < 16 \<Longrightarrow> hexdigit n \<noteq> newline" by (simp add: list_all_iff)
qed

lemma escape_ascii_no_newline: "newline \<notin> set (escape_ascii c)"
proof -
  have "code c div 16 < 16"
    by (cases c) (simp add: of_char_def horner_sum_simps split: bool.split)
  then have "hexdigit (code c div 16) \<noteq> newline" "hexdigit (code c mod 16) \<noteq> newline"
    by (simp_all add: hexdigit_no_newline)
  then show ?thesis by (auto simp: escape_ascii_def html_safe_def)
qed

lemma byte_in_no_newline: "byte_in lo hi c \<Longrightarrow> 0x80 \<le> lo \<Longrightarrow> c \<noteq> newline"
  by (auto simp: byte_in_def)

lemma utf8_len_no_newline:
  assumes "\<not> code b < 0x80"
  shows "newline \<notin> set (take (utf8_len (b # r)) (b # r))"
proof -
  have b: "b \<noteq> newline" using assms by auto
  consider (two) "byte_in 0xC2 0xDF b" | (three) "\<not> byte_in 0xC2 0xDF b" "byte_in 0xE0 0xEF b"
    | (four) "\<not> byte_in 0xC2 0xDF b" "\<not> byte_in 0xE0 0xEF b" "byte_in 0xF0 0xF4 b"
    | (none) "\<not> byte_in 0xC2 0xDF b" "\<not> byte_in 0xE0 0xEF b" "\<not> byte_in 0xF0 0xF4 b" by blast
  then show ?thesis
  proof cases
    case two
    then show ?thesis using assms b by (cases r) (auto simp: utf8_len.simps dest: byte_in_no_newline)
  next
    case three
    then show ?thesis using assms b
      by (cases r; cases "tl r") (auto simp: utf8_len.simps dest!: byte_in_no_newline split: if_splits)
  next
    case four
    then show ?thesis using assms b
      by (cases r; cases "tl r"; cases "tl (tl r)") (auto simp: utf8_len.simps dest!: byte_in_no_newline split: if_splits)
  qed (use assms in \<open>simp add: utf8_len.simps\<close>)
qed

lemma json_escape_no_newline: "newline \<notin> set (json_escape s)"
proof (induction s rule: json_escape.induct)
  case (1 s)
  show ?case
  proof (cases s)
    case (Cons b r)
    have "hexdigit (code (s ! 2) mod 16) \<noteq> newline" by (simp add: hexdigit_no_newline)
    with 1 Cons escape_ascii_no_newline [of b] utf8_len_no_newline [of b r] show ?thesis
      by (subst json_escape.simps) (auto simp del: utf8_len.simps take_Cons')
  qed simp
qed

lemma Join_no_newline: "(\<And>x. x \<in> set xs \<Longrightarrow> newline \<notin> set x) \<Longrightarrow> newline \<notin> set sep \<Longrightarrow> newline \<notin> set (strings_Join xs sep)"
  by (induction xs sep rule: strings_Join.induct) auto

lemma digits_no_newline: "newline \<notin> set (digits n)"
  using digits_digits [of n] by (auto simp: list_all_iff is_digit_def byte_in_def)

lemma json_print_no_newline: "newline \<notin> set (json_print v)"
proof (induction v rule: json_print.induct)
  case (3 i)
  then show ?case using digits_no_newline by (auto simp: Itoa_def)
next
  case (4 s)
  then show ?case using json_escape_no_newline by (simp add: json_quote_def)
next
  case (5 vs)
  then have "newline \<notin> set (strings_Join (map json_print vs) '','')" by (intro Join_no_newline) auto
  then show ?case by simp
next
  case (6 kvs)
  then have "newline \<notin> set (strings_Join (map (\<lambda>(k, v). json_quote k @ CHR '':'' # json_print v) kvs) '','')"
    using json_escape_no_newline by (intro Join_no_newline) (auto simp: json_quote_def)
  then show ?case by simp
qed simp_all

lemma CreateMessage_Join: "CreateMessage es = strings_Join (map (\<lambda>e. json_print (event_json e)) es) [newline]"
  by (induction es rule: CreateMessage.induct) simp_all

text \<open>
  C39: The message for the dispatcher has one event per line: its lines are the JSON texts of the
  events in order, none of which contains a line break of its own, so every event is read back
  from its line as it was.
\<close>

theorem event_lines_roundtrip:
  assumes "es \<noteq> []" and "list_all (\<lambda>e. json_ok (event_json e)) es"
    and "ComposeDispatcherMessage newUUID es returnURL responseTo = Inr msg"
  shows "map json_parse (split_on newline (pb_Content msg)) = map (\<lambda>e. Some (event_json e)) es \<and>
    pb_Directive msg = returnURL \<and> pb_ResponseTo msg = responseTo"
proof -
  have "split_on newline (CreateMessage es) = map (\<lambda>e. json_print (event_json e)) es"
    unfolding CreateMessage_Join using assms(1) json_print_no_newline
    by (intro split_on_Join) (auto simp: list_all_iff)
  moreover have "map json_parse (map (\<lambda>e. json_print (event_json e)) es) = map (\<lambda>e. Some (event_json e)) es"
    using assms(2) by (auto simp: list_all_iff json_parse_print)
  ultimately show ?thesis using assms(3) by (auto simp: ComposeDispatcherMessage_def)
qed

section \<open>The sequence of events\<close>

definition numbered :: "int \<Rightarrow> RunnerJobEvent list \<Rightarrow> int \<Rightarrow> bool" where
  "numbered i es j \<longleftrightarrow> i \<le> j \<and> map je_Counter es = [i + 1..j] \<and> ''playbook_on_start'' \<notin> set (map je_Event es)"

lemma numbered_append:
  assumes "numbered i es j" and "numbered j fs k"
  shows "numbered i (es @ fs) k"
proof -
  have "[i + 1..j] @ [j + 1..k] = [i + 1..k]"
    using assms by (cases "i = j") (auto simp: numbered_def upto_split2 [of "i + 1" j k])
  with assms show ?thesis by (auto simp: numbered_def)
qed

lemma numbered_Nil [simp]: "numbered i [] i"
  by (simp add: numbered_def)

lemma numbered_one: "je_Counter e = i + 1 \<Longrightarrow> je_Event e \<noteq> ''playbook_on_start'' \<Longrightarrow> numbered i [e] (i + 1)"
  by (simp add: numbered_def)

lemma numbered_ids: "numbered i (map fst evs) j \<Longrightarrow> numbered i (map (\<lambda>(e, r). if r then show_task_id u e else e) evs) j"
proof -
  have "map je_Counter (map (\<lambda>(e, r). if r then show_task_id u e else e) evs) = map je_Counter (map fst evs)"
    by (auto simp: show_task_id_def)
  moreover have "map je_Event (map (\<lambda>(e, r). if r then show_task_id u e else e) evs) = map je_Event (map fst evs)"
    by (auto simp: show_task_id_def)
  ultimately show "numbered i (map fst evs) j \<Longrightarrow> ?thesis" unfolding numbered_def by metis
qed

lemma task_start_number:
  "PlaybookOnTaskStart r p u c h ti hi t d = Ret (e, ti', d') \<Longrightarrow>
     je_Counter e = c \<and> je_Event e \<noteq> ''playbook_on_start'' \<and> ti_Duration ti' = ti_Duration ti"
  by (auto simp: PlaybookOnTaskStart_def Let_def deref_Ret job_event_def split: option.splits if_splits)

lemma runner_event_number:
  "runner_event r p u c h ti hi = Ret e \<Longrightarrow> je_Counter e = c \<and> je_Event e \<noteq> ''playbook_on_start''"
  by (auto simp: runner_event_def RunnerOnOk_def RunnerOnFailed_def RunnerOnSkipped_def deref_Ret job_event_def split: if_splits)

lemma host_events_numbered:
  "host_events dev pb start ids hosts ti c dup = Ret (evs, ti', c', dup') \<Longrightarrow>
     numbered c (map fst evs) c' \<and> length evs = 2 * length hosts"
proof (induction hosts arbitrary: ti c dup evs)
  case (Cons h hosts)
  obtain n host where h: "h = (n, host)" by fastforce
  obtain ts ti1 dup1 re hi rest where
    steps: "PlaybookOnTaskStart dev pb (je_Uuid start) (c + 1) (ed_Host (je_EventData start)) ti hi ids dup = Ret (ts, ti1, dup1)"
      "runner_event dev pb (je_Uuid ts) (c + 2) (ed_Host (je_EventData start)) ti1 hi = Ret re"
      "host_events dev pb start ids hosts ti1 (c + 2) dup1 = Ret (rest, ti', c', dup')"
    and evs: "evs = (ts, False) # (re, True) # rest"
    using Cons.prems by (auto simp: h deref_Ret out_bind_Ret)
  have "numbered c [ts] (c + 1)" using task_start_number [OF steps(1)] by (intro numbered_one) auto
  moreover have "numbered (c + 1) [re] (c + 2)"
    using runner_event_number [OF steps(2)] numbered_one [of re "c + 1"] by (simp add: add.commute)
  ultimately have "numbered c [ts, re] (c + 2)" using numbered_append [of c "[ts]" "c + 1" "[re]"] by simp
  moreover have "numbered (c + 2) (map fst rest) c'" "length rest = 2 * length hosts" using Cons.IH [OF steps(3)] by auto
  ultimately show ?case using numbered_append [of c "[ts, re]" "c + 2" "map fst rest"] by (simp add: evs)
qed simp

lemma task_events_numbered:
  "task_events env dev pb start ids tasks c dup = Ret (evs, c', dup') \<Longrightarrow>
     numbered c evs c' \<and> length evs = (\<Sum>t\<leftarrow>tasks. 2 * length (te_hosts env (pt_Hosts t)))"
proof (induction tasks arbitrary: c dup evs)
  case (Cons t tasks)
  then obtain ti evs1 ti' c1 dup1 rest where
    steps: "host_events dev pb start ids (te_hosts env (pt_Hosts t)) ti c dup = Ret (evs1, ti', c1, dup1)"
      "task_events env dev pb start ids tasks c1 dup1 = Ret (rest, c', dup')"
    and evs: "evs = map (\<lambda>(e, result). if result then show_task_id (ti_Id ti') e else e) evs1 @ rest"
    by (auto simp: deref_Ret out_bind_Ret)
  from host_events_numbered [OF steps(1)] Cons.IH [OF steps(2)] show ?case
    unfolding evs by (auto intro!: numbered_append numbered_ids)
qed simp

lemma play_events_numbered:
  "play_events env dev pb stats plays c dup = Ret evs \<Longrightarrow> 0 \<le> c \<Longrightarrow> c \<noteq> 1 \<Longrightarrow>
     \<exists>c'. numbered c evs c' \<and> length evs = (\<Sum>p\<leftarrow>plays. 2 + (\<Sum>t\<leftarrow>pl_Tasks p. 2 * length (te_hosts env (pt_Hosts t))))"
proof (induction plays arbitrary: c dup evs)
  case (Cons p plays)
  then obtain start ids evs1 c1 dup1 st rest d0 where
    steps: "PlaybookOnPlayStart (te_hosts env) dev pb (c + 1) p = Ret start"
      "task_events env dev pb start ids (pl_Tasks p) (c + 1) dup = Ret (evs1, c1, dup1)"
      "playbookOnStats (te_stats env) dev pb (c1 + 1) d0 stats = Ret st"
      "play_events env dev pb stats plays (c1 + 1) dup1 = Ret rest"
    and evs: "evs = start # evs1 @ st # rest"
    by (auto simp: deref_Ret out_bind_Ret split: if_splits)
  have t: "numbered (c + 1) evs1 c1" "length evs1 = (\<Sum>t\<leftarrow>pl_Tasks p. 2 * length (te_hosts env (pt_Hosts t)))"
    using task_events_numbered [OF steps(2)] by auto
  have "numbered c [start] (c + 1)"
    using steps(1) by (intro numbered_one) (auto simp: PlaybookOnPlayStart_def deref_Ret job_event_def)
  moreover have "numbered c1 [st] (c1 + 1)"
    using steps(3) by (intro numbered_one) (auto simp: playbookOnStats_def job_event_def Let_def split: if_splits)
  ultimately have "numbered c ([start] @ evs1 @ [st]) (c1 + 1)"
    using t(1) by (blast intro: numbered_append)
  moreover obtain c' where "numbered (c1 + 1) rest c'" and l:
    "length rest = (\<Sum>p\<leftarrow>plays. 2 + (\<Sum>t\<leftarrow>pl_Tasks p. 2 * length (te_hosts env (pt_Hosts t))))"
    using Cons.IH [OF steps(4)] t(1) Cons.prems(2) by (auto simp: numbered_def)
  ultimately have "numbered c (([start] @ evs1 @ [st]) @ rest) c'" by (blast intro: numbered_append)
  with l t(2) show ?case by (auto simp: evs)
qed (auto intro: exI [of _ "0 :: int"] numbered_Nil)

section \<open>No panic on complete results\<close>

definition task_complete :: "PlayTask \<Rightarrow> bool" where
  "task_complete t \<longleftrightarrow> (case pt_Task t of None \<Rightarrow> False | Some ti \<Rightarrow> ti_Duration ti \<noteq> None) \<and>
     list_all (\<lambda>(name, h). h \<noteq> None) (pt_Hosts t)"

definition play_complete :: "ansible_Play \<Rightarrow> bool" where
  "play_complete p \<longleftrightarrow> (case pl_Play p of None \<Rightarrow> False | Some q \<Rightarrow> pp_Duration q \<noteq> None) \<and> list_all task_complete (pl_Tasks p)"

definition results_complete :: "PlaybookResults \<Rightarrow> bool" where
  "results_complete r \<longleftrightarrow> (case res_Plays r of None \<Rightarrow> True | Some ps \<Rightarrow> list_all play_complete ps) \<and>
     list_all (\<lambda>(host, st). st \<noteq> None) (res_Stats r)"

lemma task_start_returns:
  assumes "ti_Duration ti \<noteq> None"
  obtains ts ti' dup' where "PlaybookOnTaskStart r p u c h ti hi ids dup = Ret (ts, ti', dup')"
proof -
  obtain d where "ti_Duration ti = Some d" using assms by blast
  then have "\<exists>x. PlaybookOnTaskStart r p u c h ti hi ids dup = Ret x"
    by (simp add: PlaybookOnTaskStart_def Let_def split: option.splits)
  then show thesis using that by (metis prod_cases3)
qed

lemma host_events_return:
  "list_all (\<lambda>(name, h). h \<noteq> None) hosts \<Longrightarrow> ti_Duration ti \<noteq> None \<Longrightarrow>
     \<exists>r. host_events dev pb start ids hosts ti c dup = Ret r"
proof (induction hosts arbitrary: ti c dup)
  case (Cons h hosts)
  obtain n hi where h: "h = (n, Some hi)" using Cons.prems(1) by (cases h) auto
  obtain ts ti1 dup1 where
    s: "PlaybookOnTaskStart dev pb (je_Uuid start) (c + 1) (ed_Host (je_EventData start)) ti hi ids dup = Ret (ts, ti1, dup1)"
    using task_start_returns [OF Cons.prems(2)] by blast
  then have d: "ti_Duration ti1 \<noteq> None" using task_start_number Cons.prems(2) by fastforce
  then have "\<exists>re. runner_event dev pb (je_Uuid ts) (c + 2) (ed_Host (je_EventData start)) ti1 hi = Ret re"
    by (auto simp: runner_event_def RunnerOnOk_def RunnerOnFailed_def RunnerOnSkipped_def)
  then obtain re where "runner_event dev pb (je_Uuid ts) (c + 2) (ed_Host (je_EventData start)) ti1 hi = Ret re" ..
  with Cons.IH [of ti1 "c + 2" dup1] Cons.prems(1) d s h show ?case by auto
qed simp

lemma task_events_return:
  assumes "is_range (te_hosts env)"
  shows "list_all task_complete tasks \<Longrightarrow> \<exists>r. task_events env dev pb start ids tasks c dup = Ret r"
proof (induction tasks arbitrary: c dup)
  case (Cons t tasks)
  then obtain ti where ti: "pt_Task t = Some ti" "ti_Duration ti \<noteq> None"
    by (auto simp: task_complete_def split: option.splits)
  have "list_all (\<lambda>(name, h). h \<noteq> None) (te_hosts env (pt_Hosts t))"
    using Cons.prems range_set [OF assms] by (auto simp: task_complete_def list_all_iff)
  from host_events_return [OF this ti(2), of dev pb start ids c dup]
  obtain evs ti' c' dup' where "host_events dev pb start ids (te_hosts env (pt_Hosts t)) ti c dup = Ret (evs, ti', c', dup')"
    by (metis prod_cases4)
  moreover obtain rest c'' dup'' where "task_events env dev pb start ids tasks c' dup' = Ret (rest, c'', dup'')"
    using Cons.IH [of c' dup'] Cons.prems by (auto simp: split_paired_Ex)
  ultimately show ?case using ti by simp
qed simp

lemma countOccurence_return: "list_all task_complete tasks \<Longrightarrow> \<exists>d. countOccurence tasks dict = Ret d"
  by (induction tasks arbitrary: dict) (auto simp: task_complete_def split: option.splits)

lemma play_events_return:
  assumes "is_range (te_hosts env)" and "is_range (te_stats env)" and "list_all (\<lambda>(host, st). st \<noteq> None) stats"
  shows "list_all play_complete plays \<Longrightarrow> \<exists>evs. play_events env dev pb stats plays c dup = Ret evs"
proof (induction plays arbitrary: c dup)
  case (Cons p plays)
  then obtain q d where q: "pl_Play p = Some q" "pp_Duration q = Some d" and tasks: "list_all task_complete (pl_Tasks p)"
    by (auto simp: play_complete_def split: option.splits)
  obtain ids where ids: "countOccurence (pl_Tasks p) [] = Ret ids" using countOccurence_return [OF tasks] by blast
  obtain start where start: "PlaybookOnPlayStart (te_hosts env) dev pb (c + 1) p = Ret start"
    using q by (simp add: PlaybookOnPlayStart_def)
  obtain evs c' dup' where evs: "task_events env dev pb start ids (pl_Tasks p) (c + 1) dup = Ret (evs, c', dup')"
    using task_events_return [OF assms(1) tasks] by (metis prod_cases3)
  have "\<not> list_ex (\<lambda>(host, st). st = None) (te_stats env stats)"
    using assms(3) range_set [OF assms(2), of stats] by (auto simp: list_ex_iff list_all_iff)
  then obtain st where "playbookOnStats (te_stats env) dev pb (c' + 1) (dur_End d) stats = Ret st"
    by (simp add: playbookOnStats_def Let_def)
  moreover obtain first where
    "(if c = 1 then out_bind (PlaybookOnStart (te_hosts env) (te_uuid env) dev pb c p) (\<lambda>e. Ret [e]) else Ret []) = Ret first"
    using q by (cases "c = 1") (simp_all add: PlaybookOnStart_def)
  moreover obtain rest where "play_events env dev pb stats plays (c' + 1) dup' = Ret rest"
    using Cons by auto
  ultimately show ?case using q ids start evs by simp
qed simp

text \<open>
  For results in which every pointer is set, the transformation into job events does not
  panic, makes two events per play and two per host of a task, and numbers them consecutively
  from one. It never makes the event \<open>playbook_on_start\<close>, although a comment says there is always
  exactly one and it is the first.
\<close>

theorem transformer_events:
  assumes "results_complete r" and "is_range (te_hosts env)" and "is_range (te_stats env)"
  shows "\<exists>msgs. eventTransformer env deviceID playbook r = Ret msgs \<and>
    map je_Counter msgs = [1..int (length msgs)] \<and>
    length msgs = (\<Sum>p\<leftarrow>(case res_Plays r of None \<Rightarrow> [] | Some ps \<Rightarrow> ps). 2 + (\<Sum>t\<leftarrow>pl_Tasks p. 2 * length (pt_Hosts t))) \<and>
    ''playbook_on_start'' \<notin> set (map je_Event msgs)"
proof -
  let ?plays = "case res_Plays r of None \<Rightarrow> [] | Some ps \<Rightarrow> ps"
  have "list_all play_complete ?plays" "list_all (\<lambda>(host, st). st \<noteq> None) (res_Stats r)"
    using assms(1) by (auto simp: results_complete_def split: option.splits)
  then obtain msgs where m: "play_events env deviceID playbook (res_Stats r) ?plays 0 [] = Ret msgs"
    using play_events_return [OF assms(2,3)] by blast
  from play_events_numbered [OF m] obtain c' where c': "numbered 0 msgs c'"
    "length msgs = (\<Sum>p\<leftarrow>?plays. 2 + (\<Sum>t\<leftarrow>pl_Tasks p. 2 * length (te_hosts env (pt_Hosts t))))"
    by auto
  then have counters: "map je_Counter msgs = [1..c']" and "0 \<le> c'" by (simp_all add: numbered_def)
  from arg_cong [OF counters, of length] \<open>0 \<le> c'\<close> have "int (length msgs) = c'" by simp
  with counters c' m range_length [OF assms(2)] show ?thesis
    by (simp add: eventTransformer_def numbered_def)
qed

section \<open>Concrete instances\<close>

definition demo_transformer :: transformer_env where
  "demo_transformer = \<lparr>te_hosts = \<lambda>m. m, te_stats = \<lambda>m. m, te_uuid = ''u''\<rparr>"

definition demo_results :: PlaybookResults where
  "demo_results =
     (let d = Some \<lparr>dur_Start = ''s'', dur_End = ''e''\<rparr>;
          host = Some \<lparr>hi_Action = ''shell'', hi_Changed = True, hi_Stdout = ''out'', hi_Stderr = [], hi_Failed = False, hi_Skipped = False\<rparr>;
          task = \<lparr>pt_Task = Some \<lparr>ti_Name = ''t'', ti_Id = ''id'', ti_Duration = d\<rparr>, pt_Hosts = [(''127.0.0.1'', host)]\<rparr>
      in \<lparr>res_Plays = Some [\<lparr>pl_Play = Some \<lparr>pp_Id = ''p'', pp_Duration = d\<rparr>, pl_Tasks = [task, task]\<rparr>],
          res_Stats = [(''127.0.0.1'', Some \<lparr>st_Changed = 1, st_Failures = 0, st_Ok = 2\<rparr>)]\<rparr>)"

theorem transformer_events_witness:
  "\<exists>msgs. eventTransformer demo_transformer ''dev'' ''/p.yml'' demo_results = Ret msgs \<and> map je_Counter msgs = [1..6]"
proof -
  have "results_complete demo_results"
    by (simp add: demo_results_def results_complete_def play_complete_def task_complete_def Let_def)
  from transformer_events [OF this, of demo_transformer "''dev''" "''/p.yml''"] show ?thesis
    by (auto simp: demo_transformer_def demo_results_def Let_def)
qed

text \<open>A repeated task id gets a number.\<close>

lemma demo_task_ids:
  "(case eventTransformer demo_transformer ''dev'' ''/p.yml'' demo_results of
      Panic \<Rightarrow> [] | Ret msgs \<Rightarrow> map je_Uuid msgs) = [''p'', ''id_1'', ''id_1'', ''id_2'', ''id_2'', []]"
  by code_simp

theorem event_lines_roundtrip_witness:
  "map json_parse (split_on newline (CreateMessage [ExecutorOnStart ''u1'' ''c'' [], ExecutorOnStart ''u2'' ''c'' []])) =
     [Some (event_json (ExecutorOnStart ''u1'' ''c'' [])), Some (event_json (ExecutorOnStart ''u2'' ''c'' []))]"
proof -
  have "json_ok (event_json (ExecutorOnStart u ''c'' []))" if "u = ''u1'' \<or> u = ''u2''" for u
    using that
    by (auto simp: ExecutorOnStart_def executor_event_def event_json_def data_json_def opt_field_def counts_field_def no_data_def
        valid_utf8_ascii)
  then have ok: "list_all (\<lambda>e. json_ok (event_json e)) [ExecutorOnStart ''u1'' ''c'' [], ExecutorOnStart ''u2'' ''c'' []]"
    by simp
  have msg: "ComposeDispatcherMessage [] [ExecutorOnStart ''u1'' ''c'' [], ExecutorOnStart ''u2'' ''c'' []] [] [] =
      Inr \<lparr>pb_MessageId = [], pb_Metadata = [], pb_Content = CreateMessage [ExecutorOnStart ''u1'' ''c'' [], ExecutorOnStart ''u2'' ''c'' []],
           pb_ResponseTo = [], pb_Directive = []\<rparr>"
    by (rule ComposeDispatcherMessage_def)
  show ?thesis using event_lines_roundtrip [OF _ ok msg] by (simp del: CreateMessage.simps)
qed

end
