(* ===== verification/Ansible_Manager.thy ===== *)
theory Ansible_Manager
  imports Playbook_Mapping Ansible_Events Models
begin

text \<open>
  \<open>internal/ansible/ansible_manager.go\<close>: running the playbooks the control plane sends and those left
  over from an earlier run. Running \<open>ansible-playbook\<close>, parsing its output (package \<open>go-ansible\<close>), the
  dispatcher, new UUIDs, modification times and the decoding of messages are parameters.

  \<open>HandlePlaybook\<close> runs a playbook in a goroutine of its own and listens to it on two unbuffered
  channels until the playbook is done or a timeout fires. Its synchronous first part is the
  definition \<open>HandlePlaybook\<close>; the rest is the step relation \<open>playbook_step\<close> of handler and goroutine.
\<close>

record AnsibleManager =
  am_dispatcher :: AnsibleDispatcher
  am_repo :: playbookRepository
  am_eventsQueue :: "EventInfo list"

text \<open>The fields the worker sets of \<open>playbook.AnsiblePlaybookCmd\<close>.\<close>

record AnsiblePlaybookCmd =
  cmd_Playbooks :: "string list"
  cmd_Connection :: string
  cmd_Inventory :: string
  cmd_StdoutCallback :: string

record 'x ansible_env =
  ans_LookPath :: "string \<Rightarrow> error option"
  ans_Run :: "AnsiblePlaybookCmd \<Rightarrow> int \<Rightarrow> 'x world \<Rightarrow> (error option \<times> string) \<times> 'x world"
    \<comment> \<open>command and timeout; error and output\<close>
  ans_JSONParse :: "string \<Rightarrow> error + PlaybookResults"
  ans_Send :: "pb_Data \<Rightarrow> 'x \<Rightarrow> error option \<times> 'x"
  ans_uuid :: string
  ans_decode :: "string \<Rightarrow> error option \<times> DeviceConfigurationMessage"
  ans_ModTime :: "string \<Rightarrow> 'x world \<Rightarrow> int option" \<comment> \<open>\<open>None\<close> when \<open>os.Stat\<close> fails\<close>
  ans_transformer :: transformer_env
  ans_range :: "(int, string) gomap \<Rightarrow> (int \<times> string) list"
  ans_range_all :: "(nat, string) gomap \<Rightarrow> (nat \<times> string) list"

definition crcDispatcherAttribute :: string where "crcDispatcherAttribute = ''crc_dispatcher_correlation_id''"
definition returnURLAttribute :: string where "returnURLAttribute = ''return_url''"
definition NotInstalled :: string where "NotInstalled = ''ANSIBLE_NOT_INSTALLED''"
definition UndefError :: string where "UndefError = ''UNDEFINED_ERROR''"
definition ansible_dataDir :: string where "ansible_dataDir = ''/tmp''"

definition NewAnsibleManager :: "'x ansible_env \<Rightarrow> string \<Rightarrow> fs \<Rightarrow> error + AnsibleManager" where
  "NewAnsibleManager env configDir s =
     (case NewPlaybookRepository s configDir of
        Inl err \<Rightarrow> Inl (Errorf ''ansible manager cannot initialize mapping repository: %w'' [error_string err])
      | Inr repo \<Rightarrow>
          (case ans_LookPath env ''ansible'' of
             Some _ \<Rightarrow> Inl (Errorf ''flotta agent requires the ansible package to be installed'' [])
           | None \<Rightarrow> Inr \<lparr>am_dispatcher = NewAnsibleDispatcher [], am_repo = repo, am_eventsQueue = []\<rparr>))"

definition AddToEventQueue :: "EventInfo \<Rightarrow> AnsibleManager \<Rightarrow> AnsibleManager" where
  "AddToEventQueue event a = a\<lparr>am_eventsQueue := am_eventsQueue a @ [event]\<rparr>"

definition AnsibleManager_PopEvents :: "AnsibleManager \<Rightarrow> EventInfo list \<times> AnsibleManager" where
  "AnsibleManager_PopEvents a = (am_eventsQueue a, a\<lparr>am_eventsQueue := []\<rparr>)"

interpretation ansible_events: event_queue am_eventsQueue AnsibleManager_PopEvents
  by unfold_locales (simp_all add: AnsibleManager_PopEvents_def)

text \<open>\<open>%+v\<close> of a map: its entries sorted by key.\<close>

definition show_map :: "(string, string) gomap \<Rightarrow> string" where
  "show_map m = ''map['' @ strings_Join (map (\<lambda>(k, v). k @ '':'' @ v) (sort_key fst m)) '' '' @ '']''"

definition missingAttributeMsg :: "string \<Rightarrow> (string, string) gomap \<Rightarrow> string" where
  "missingAttributeMsg attribute metadata = ''missing attribute '' @ attribute @ '' in message metadata '' @ show_map metadata"

text \<open>The message is passed to \<open>fmt.Errorf\<close> as its format.\<close>

definition MissingAttributeError :: "string \<Rightarrow> (string, string) gomap \<Rightarrow> error" where
  "MissingAttributeError attribute metadata = Errorf (missingAttributeMsg attribute metadata) []"

definition GetPlaybookCommand :: AnsiblePlaybookCmd where
  "GetPlaybookCommand = \<lparr>cmd_Playbooks = [], cmd_Connection = ''local'', cmd_Inventory = ''127.0.0.1,'', cmd_StdoutCallback = ''json''\<rparr>"

text \<open>The reason of a failure, from the output of the last event.\<close>

definition parseFailure :: "RunnerJobEvent \<Rightarrow> string \<times> string" where
  "parseFailure event =
     (let details = (case je_Stdout event of None \<Rightarrow> ''<nil>'' | Some out \<Rightarrow> out)
      in (if strings_Contains details ''The command was not found or was not executable: ansible-playbook''
          then NotInstalled else UndefError, details))"

section \<open>Sending events\<close>

definition sendEvents ::
  "'x ansible_env \<Rightarrow> PlaybookResults \<Rightarrow> string \<Rightarrow> string \<Rightarrow> string \<Rightarrow> AnsibleManager \<Rightarrow> 'x world \<Rightarrow>
   (error option \<times> AnsibleManager, 'x world) call" where
  "sendEvents env results returnURL responseTo playbookYamlFile a w =
     (if res_Plays results = None
      then (Ret (Some (Errorf ''cannot compose empty message for %s'' [responseTo]), a), w)
      else
        case AddEvent (ans_transformer env) playbookYamlFile results (am_dispatcher a) of
          Panic \<Rightarrow> (Panic, w)
        | Ret (eventList, d) \<Rightarrow>
            (let a' = a\<lparr>am_dispatcher := d\<rparr> in
             case ComposeDispatcherMessage (ans_uuid env) eventList returnURL responseTo of
               Inl err \<Rightarrow> (Ret (Some err, a'), w)
             | Inr message \<Rightarrow>
                 (case ans_Send env message (ext w) of (err, e) \<Rightarrow> (Ret (err, a'), w\<lparr>ext := e\<rparr>))))"

section \<open>Playbooks of an earlier run\<close>

definition execPlaybookSync ::
  "'x ansible_env \<Rightarrow> AnsiblePlaybookCmd \<Rightarrow> int \<Rightarrow> AnsibleManager \<Rightarrow> 'x world \<Rightarrow>
   (PlaybookResults option \<times> error option \<times> AnsibleManager) \<times> 'x world" where
  "execPlaybookSync env playbook timeout a w =
     (case ReadFile (disk w) (hd (cmd_Playbooks playbook)) of
        Inl err \<Rightarrow> ((None, Some err, a), w)
      | Inr fileContent \<Rightarrow>
          (case ans_Run env playbook timeout w of
             ((errRun, outp), w1) \<Rightarrow>
               (case ans_JSONParse env outp of
                  Inl err \<Rightarrow> ((None, Some err, a), w1)
                | Inr results \<Rightarrow>
                    (case playbook_Remove (ans_range env) fileContent (am_repo a) (disk w1) of
                       (_, repo, s) \<Rightarrow> ((Some results, errRun, a\<lparr>am_repo := repo\<rparr>), w1\<lparr>disk := s\<rparr>)))))"

text \<open>
  The loop over the pending playbooks: \<open>Inl err\<close> when it returns at once, because there are no
  results, \<open>Inr\<close> with the errors met otherwise.
\<close>

fun pending_loop ::
  "'x ansible_env \<Rightarrow> string list \<Rightarrow> error list \<Rightarrow> AnsibleManager \<Rightarrow> 'x world \<Rightarrow> ((error + error list) \<times> AnsibleManager) \<times> 'x world" where
  "pending_loop env [] errors a w = ((Inr errors, a), w)"
| "pending_loop env (v # vs) errors a w =
     (case execPlaybookSync env (GetPlaybookCommand\<lparr>cmd_Playbooks := [v]\<rparr>) (300 * 1000000000) a w of
        ((None, Some err, a'), w') \<Rightarrow> ((Inl err, a'), w')
      | ((_, Some err, a'), w') \<Rightarrow> pending_loop env vs (multierror_Append errors err) a' w'
      | ((_, None, a'), w') \<Rightarrow> pending_loop env vs errors a' w')"

definition ExecutePendingPlaybooks ::
  "'x ansible_env \<Rightarrow> AnsibleManager \<Rightarrow> 'x world \<Rightarrow> (error option \<times> AnsibleManager) \<times> 'x world" where
  "ExecutePendingPlaybooks env a w =
     (case pending_loop env (map snd (ans_range_all env (GetAll (ans_range env) (am_repo a)))) [] a w of
        ((Inl err, a'), w') \<Rightarrow> ((Some err, a'), w')
      | ((Inr [], a'), w') \<Rightarrow> ((None, a'), w')
      | ((Inr errors, a'), w') \<Rightarrow>
          ((as_error errors, AddToEventQueue \<lparr>ev_Message = error_string (MultiError errors), ev_Reason = ''Failed'', ev_Type = EventInfoTypeWarn\<rparr> a'), w'))"

section \<open>A playbook of the control plane\<close>

record playbook_job =
  job_cmd :: AnsiblePlaybookCmd
  job_file :: string
  job_modTime :: int
  job_timeout :: int
  job_correlationID :: string
  job_returnURL :: string
  job_responseTo :: string

datatype handler_pc = Selecting | Returned "error option" | Crashed

datatype goroutine_pc =
    Started
  | HasResults PlaybookResults string "error option" \<comment> \<open>results, the playbook's text, and the error of the run\<close>
  | Removing string "error option"
  | Completing "error option"
  | Ended

record 'x playbook_run =
  run_job :: playbook_job
  run_handler :: handler_pc
  run_goroutine :: goroutine_pc
  run_manager :: AnsibleManager
  run_world :: "'x world"

text \<open>
  The part of \<open>HandlePlaybook\<close> up to the start of the goroutine: an error, or the state in which the
  two of them go on. \<open>fileInfo\<close> is used without looking at the error of \<open>os.Stat\<close>.
\<close>

definition HandlePlaybook ::
  "'x ansible_env \<Rightarrow> AnsiblePlaybookCmd \<Rightarrow> pb_Data \<Rightarrow> int \<Rightarrow> AnsibleManager \<Rightarrow> 'x world \<Rightarrow> (error + 'x playbook_run, 'x world) call" where
  "HandlePlaybook env playbookCmd d timeout a w =
     (if pb_Content d = [] then (Ret (Inl (Errorf ''empty message. messageID: %s'' [pb_MessageId d])), w)
      else
        let payloadStr = dcm_AnsiblePlaybook (snd (ans_decode env (pb_Content d))) in
        if payloadStr = [] then (Ret (Inl (Errorf ''missing playbook string in message with messageID: %s'' [pb_MessageId d])), w)
        else
          case map_of (pb_Metadata d) crcDispatcherAttribute of
            None \<Rightarrow> (Ret (Inl (MissingAttributeError crcDispatcherAttribute (pb_Metadata d))), w)
          | Some correlationID \<Rightarrow>
              (case map_of (pb_Metadata d) returnURLAttribute of
                 None \<Rightarrow> (Ret (Inl (Errorf (missingAttributeMsg returnURLAttribute (pb_Metadata d)) [])), w)
               | Some returnURL \<Rightarrow>
                   (let yaml = path_Join [ansible_dataDir, ''ansible_playbook_'' @ pb_MessageId d @ ''.yml''] in
                    case WriteFile (disk w) yaml payloadStr of
                      (Some err, s) \<Rightarrow>
                        (Ret (Inl (Errorf ''cannot create ansible playbook yaml file %s. Error: %v'' [yaml, error_string err])), w\<lparr>disk := s\<rparr>)
                    | (None, s) \<Rightarrow>
                        (let w1 = w\<lparr>disk := s\<rparr>;
                             a1 = a\<lparr>am_dispatcher := snd (AddRunnerJobEvent (ExecutorOnStart (ans_uuid env) correlationID []) (am_dispatcher a))\<rparr>
                         in case ans_ModTime env yaml w1 of
                              None \<Rightarrow> (Panic, w1)
                            | Some modTime \<Rightarrow>
                                (Ret (Inr \<lparr>run_job = \<lparr>job_cmd = playbookCmd\<lparr>cmd_Playbooks := [yaml]\<rparr>, job_file = yaml, job_modTime = modTime, job_timeout = timeout,
                                                     job_correlationID = correlationID, job_returnURL = returnURL,
                                                     job_responseTo = pb_MessageId d\<rparr>,
                                           run_handler = Selecting, run_goroutine = Started, run_manager = a1, run_world = w1\<rparr>), w1)))))"

text \<open>\<open>execPlaybook\<close> from its start to the first thing it sends.\<close>

definition exec_body :: "'x ansible_env \<Rightarrow> playbook_job \<Rightarrow> AnsibleManager \<Rightarrow> 'x world \<Rightarrow> (goroutine_pc \<times> AnsibleManager) \<times> 'x world" where
  "exec_body env job a w =
     (if playbook_Exists (am_repo a) (job_modTime job)
      then ((Completing (Some (Errorf ''playbook of messageID %s is already in execution'' [job_returnURL job])), a), w)
      else
        case ReadFile (disk w) (job_file job) of
          Inl err \<Rightarrow> ((Completing (Some err), a), w)
        | Inr fileContent \<Rightarrow>
            (case playbook_Add (ans_range env) fileContent (job_modTime job) (am_repo a) (disk w) of
               (Some err, repo, s) \<Rightarrow> ((Completing (Some err), a\<lparr>am_repo := repo\<rparr>), w\<lparr>disk := s\<rparr>)
             | (None, repo, s) \<Rightarrow>
                 (case ans_Run env (job_cmd job) (job_timeout job) (w\<lparr>disk := s\<rparr>) of
                    ((errRun, outp), w1) \<Rightarrow>
                      (let a1 = a\<lparr>am_repo := repo\<rparr> in
                       case ans_JSONParse env outp of
                         Inl err \<Rightarrow> ((Completing (Some err), a1), w1)
                       | Inr results \<Rightarrow> ((HasResults results fileContent errRun, a1), w1)))))"

text \<open>The end of the handler: a failure is added to the events; the playbook's file is removed on every return.\<close>

definition note_failure :: "'x ansible_env \<Rightarrow> playbook_job \<Rightarrow> error option \<Rightarrow> AnsibleManager \<Rightarrow> AnsibleManager outcome" where
  "note_failure env job err a =
     (case err of
        None \<Rightarrow> Ret a
      | Some _ \<Rightarrow>
          (let msgList = GetMsgList (am_dispatcher a) in
           if msgList = [] then Panic
           else
             (let (errorCode, errorDetails) = parseFailure (last msgList);
                  onFailed = ExecutorOnFailed (ans_uuid env) (job_correlationID job) [] errorCode errorDetails
              in Ret (a\<lparr>am_dispatcher := snd (AddRunnerJobEvent onFailed (am_dispatcher a))\<rparr>))))"

definition handler_returns :: "error option \<Rightarrow> 'x playbook_run \<Rightarrow> 'x playbook_run" where
  "handler_returns err r =
     r\<lparr>run_handler := Returned err, run_world := (run_world r)\<lparr>disk := snd (os_Remove (disk (run_world r)) (job_file (run_job r)))\<rparr>\<rparr>"

definition timeout_error :: "playbook_job \<Rightarrow> error" where
  "timeout_error job = Errorf ''execution timeout reached for playbook in messageID %s. Error: %v'' [job_responseTo job, ''context deadline exceeded'']"

inductive playbook_step :: "'x ansible_env \<Rightarrow> 'x playbook_run \<Rightarrow> 'x playbook_run \<Rightarrow> bool" for env where
  exec: "run_goroutine r = Started \<Longrightarrow> exec_body env (run_job r) (run_manager r) (run_world r) = ((pc, a), w) \<Longrightarrow>
    playbook_step env r (r\<lparr>run_goroutine := pc, run_manager := a, run_world := w\<rparr>)"
| results: "run_handler r = Selecting \<Longrightarrow> run_goroutine r = HasResults res yaml0 errRun \<Longrightarrow>
    sendEvents env res (job_returnURL (run_job r)) (job_responseTo (run_job r)) (job_file (run_job r)) (run_manager r) (run_world r)
      = (Ret (err, a), w) \<Longrightarrow>
    playbook_step env r (r\<lparr>run_goroutine := Removing yaml0 errRun, run_manager := a, run_world := w\<rparr>)"
| crash: "run_handler r = Selecting \<Longrightarrow> run_goroutine r = HasResults res yaml0 errRun \<Longrightarrow>
    sendEvents env res (job_returnURL (run_job r)) (job_responseTo (run_job r)) (job_file (run_job r)) (run_manager r) (run_world r)
      = (Panic, w) \<Longrightarrow>
    playbook_step env r (r\<lparr>run_handler := Crashed, run_world := w\<rparr>)"
| remove: "run_goroutine r = Removing yaml0 errRun \<Longrightarrow>
    playbook_Remove (ans_range env) yaml0 (am_repo (run_manager r)) (disk (run_world r)) = (err, repo, s) \<Longrightarrow>
    playbook_step env r (r\<lparr>run_goroutine := Completing errRun, run_manager := (run_manager r)\<lparr>am_repo := repo\<rparr>,
      run_world := (run_world r)\<lparr>disk := s\<rparr>\<rparr>)"
| complete: "run_handler r = Selecting \<Longrightarrow> run_goroutine r = Completing err \<Longrightarrow>
    note_failure env (run_job r) err (run_manager r) = Ret a \<Longrightarrow>
    playbook_step env r (handler_returns None (r\<lparr>run_goroutine := Ended, run_manager := a\<rparr>))"
| timeout: "run_handler r = Selecting \<Longrightarrow>
    playbook_step env r (handler_returns (Some (timeout_error (run_job r))) r)"

section \<open>How a run ends\<close>

definition run_inv :: "'x playbook_run \<Rightarrow> bool" where
  "run_inv r \<longleftrightarrow> GetMsgList (am_dispatcher (run_manager r)) \<noteq> [] \<and>
     (run_handler r = Returned None \<longleftrightarrow> run_goroutine r = Ended) \<and>
     (\<forall>err. run_handler r = Returned (Some err) \<longrightarrow> err = timeout_error (run_job r)) \<and>
     (\<forall>res yaml0 err. run_goroutine r = HasResults res yaml0 err \<longrightarrow>
        GetModTime (am_repo (run_manager r)) (playbook_path (am_repo (run_manager r)) yaml0) = job_modTime (run_job r) \<and>
        playbook_Exists (am_repo (run_manager r)) (job_modTime (run_job r)))"

lemma exec_body_cases:
  assumes "exec_body env job a w = ((pc, a'), w')"
  obtains (failed) err where "pc = Completing (Some err)" and "am_dispatcher a' = am_dispatcher a"
  | (ran) res yaml0 err where "pc = HasResults res yaml0 err" and "am_dispatcher a' = am_dispatcher a"
      and "GetModTime (am_repo a') (playbook_path (am_repo a') yaml0) = job_modTime job" and "playbook_Exists (am_repo a') (job_modTime job)"
proof -
  have add: "GetModTime repo (playbook_path repo yaml0) = t \<and> playbook_Exists repo t"
    if "playbook_Add rng yaml0 t m s0 = (None, repo, s)" for rng yaml0 t m s0 repo s
  proof -
    have "repo = put_playbook (playbook_path m yaml0) t m"
      using that by (auto simp: playbook_Add_def Let_def split: prod.splits option.splits)
    moreover from this have "playbook_path repo yaml0 = playbook_path m yaml0" by (simp add: playbook_path_def put_playbook_def)
    ultimately show ?thesis by (simp add: GetModTime_def playbook_Exists_def put_playbook_def)
  qed
  show thesis
    using assms add failed ran
    by (auto simp: exec_body_def Let_def split: if_splits sum.splits prod.splits option.splits)
qed

lemma sendEvents_keeps:
  assumes "sendEvents env res url to f a w = (Ret (err, a'), w')"
  shows "am_repo a' = am_repo a \<and> (GetMsgList (am_dispatcher a) \<noteq> [] \<longrightarrow> GetMsgList (am_dispatcher a') \<noteq> [])"
  using assms
  by (auto simp: sendEvents_def AddEvent_def ComposeDispatcherMessage_def GetMsgList_def Let_def out_bind_Ret
      split: if_splits outcome.splits prod.splits)

lemma note_failure_keeps:
  assumes "note_failure env job err a = Ret a'"
  shows "am_repo a' = am_repo a \<and> (GetMsgList (am_dispatcher a) \<noteq> [] \<longrightarrow> GetMsgList (am_dispatcher a') \<noteq> [])"
  using assms
  by (auto simp: note_failure_def GetMsgList_def AddRunnerJobEvent_def Let_def split: option.splits if_splits prod.splits)

lemma playbook_step_job: "playbook_step env r r' \<Longrightarrow> run_job r' = run_job r"
  by (induction rule: playbook_step.induct) (auto simp: handler_returns_def)

lemma playbook_step_inv:
  assumes "playbook_step env r r'" and "run_inv r"
  shows "run_inv r'"
  using assms
proof (induction rule: playbook_step.induct)
  case (exec r pc a w)
  from exec(2) show ?case
  proof (cases rule: exec_body_cases)
    case (failed err)
    with exec show ?thesis by (auto simp: run_inv_def)
  next
    case (ran res yaml0 err)
    with exec show ?thesis by (auto simp: run_inv_def)
  qed
next
  case (results r res yaml0 errRun err a w)
  with sendEvents_keeps [OF results(3)] show ?case by (auto simp: run_inv_def)
next
  case (complete r err a)
  with note_failure_keeps [OF complete(3)] show ?case by (auto simp: run_inv_def handler_returns_def)
qed (auto simp: run_inv_def handler_returns_def)

text \<open>The steps left: four of the goroutine and the return of the handler.\<close>

fun goroutine_left :: "goroutine_pc \<Rightarrow> nat" where
  "goroutine_left Started = 4"
| "goroutine_left (HasResults _ _ _) = 3"
| "goroutine_left (Removing _ _) = 2"
| "goroutine_left (Completing _) = 1"
| "goroutine_left Ended = 0"

definition steps_left :: "'x playbook_run \<Rightarrow> nat" where
  "steps_left r = goroutine_left (run_goroutine r) + (if run_handler r = Selecting then 1 else 0)"

lemma exec_body_left: "exec_body env job a w = ((pc, a'), w') \<Longrightarrow> goroutine_left pc < 4"
  by (erule exec_body_cases) auto

lemma playbook_step_left: "playbook_step env r r' \<Longrightarrow> steps_left r' < steps_left r"
  by (induction rule: playbook_step.induct) (auto simp: steps_left_def handler_returns_def dest: exec_body_left)

lemma playbook_steps_bound: "(playbook_step env ^^ n) r r' \<Longrightarrow> n + steps_left r' \<le> steps_left r"
proof (induction n arbitrary: r')
  case (Suc n)
  then obtain r1 where "(playbook_step env ^^ n) r r1" "playbook_step env r1 r'" by auto
  with Suc.IH [of r1] playbook_step_left [of env r1 r'] show ?case by simp
qed simp

lemma note_failure_returns: "GetMsgList (am_dispatcher a) \<noteq> [] \<Longrightarrow> \<exists>a'. note_failure env job err a = Ret a'"
  by (auto simp: note_failure_def Let_def split: option.splits prod.splits)

lemma sendEvents_total: "\<exists>err a' w'. sendEvents env res url to f a w = (Ret (err, a'), w') \<or> sendEvents env res url to f a w = (Panic, w')"
  by (cases "sendEvents env res url to f a w"; cases "fst (sendEvents env res url to f a w)") auto

lemma final_run:
  assumes "run_inv r" and "\<forall>r'. \<not> playbook_step env r r'"
  shows "run_handler r = Returned None \<and> run_goroutine r = Ended \<or> run_handler r = Crashed \<or>
    run_handler r = Returned (Some (timeout_error (run_job r))) \<and>
      (\<exists>res yaml0 err. run_goroutine r = HasResults res yaml0 err \<or> run_goroutine r = Completing err)"
proof (cases "run_handler r")
  case Selecting
  then show ?thesis using assms(2) playbook_step.timeout by blast
next
  case (Returned e)
  show ?thesis
  proof (cases "run_goroutine r")
    case Started
    obtain pc a w where "exec_body env (run_job r) (run_manager r) (run_world r) = ((pc, a), w)" by (metis prod.collapse)
    with Started assms(2) show ?thesis using playbook_step.exec by blast
  next
    case (Removing yaml0 errRun)
    obtain err repo s where "playbook_Remove (ans_range env) yaml0 (am_repo (run_manager r)) (disk (run_world r)) = (err, repo, s)"
      by (metis prod.collapse)
    with Removing assms(2) show ?thesis using playbook_step.remove by blast
  qed (use Returned assms(1) in \<open>auto simp: run_inv_def\<close>)
qed simp

text \<open>
  C11: Handling a playbook takes at most five steps of the handler and the goroutine that runs it.
  It ends with both done, or with a crash on incomplete results, or, when the timeout fires
  first, with the goroutine blocked for good on a channel nobody reads. If it was about to
  deliver results then, the playbook is still recorded as pending and runs again at the next
  start of the worker.
\<close>

theorem playbook_run_ends:
  assumes "HandlePlaybook env playbookCmd d timeout a w = (Ret (Inr r0), w0)" and "(playbook_step env ^^ n) r0 r"
  shows "n \<le> 5 \<and> ((\<forall>r'. \<not> playbook_step env r r') \<longrightarrow>
    run_handler r = Returned None \<and> run_goroutine r = Ended \<or> run_handler r = Crashed \<or>
    run_handler r = Returned (Some (timeout_error (run_job r))) \<and>
      (\<exists>err. run_goroutine r = Completing err \<or>
        (\<exists>res yaml0. run_goroutine r = HasResults res yaml0 err \<and>
          GetModTime (am_repo (run_manager r)) (playbook_path (am_repo (run_manager r)) yaml0) = job_modTime (run_job r) \<and>
          playbook_Exists (am_repo (run_manager r)) (job_modTime (run_job r)))))"
proof -
  have r0: "run_inv r0" "steps_left r0 = 5"
    using assms(1)
    by (auto simp: HandlePlaybook_def Let_def run_inv_def steps_left_def GetMsgList_def AddRunnerJobEvent_def
        split: if_splits option.splits prod.splits)
  have "run_inv r" using assms(2) r0(1)
  proof (induction n arbitrary: r)
    case (Suc n)
    then show ?case using playbook_step_inv by fastforce
  qed simp
  moreover have "n \<le> 5" using playbook_steps_bound [OF assms(2)] r0(2) by simp
  ultimately show ?thesis using final_run [of r env] by (auto simp: run_inv_def)
qed

section \<open>What is sent and what is reported\<close>

lemma sendEvents_message:
  assumes "sendEvents env res url to f a w = (Ret (err, a'), w')" and "res_Plays res \<noteq> None"
  obtains msgs where "eventTransformer (ans_transformer env) (ad_deviceID (am_dispatcher a)) f res = Ret msgs"
    and "GetMsgList (am_dispatcher a') = GetMsgList (am_dispatcher a) @ msgs" and "ad_deviceID (am_dispatcher a') = ad_deviceID (am_dispatcher a)"
    and "ans_Send env \<lparr>pb_MessageId = ans_uuid env, pb_Metadata = [], pb_Content = CreateMessage (GetMsgList (am_dispatcher a) @ msgs),
           pb_ResponseTo = to, pb_Directive = url\<rparr> (ext w) = (err, ext w')"
  using assms
  by (auto simp: sendEvents_def AddEvent_def ComposeDispatcherMessage_def GetMsgList_def Let_def out_bind_Ret
      split: outcome.splits prod.splits)

text \<open>
  The list of events is never emptied, so the answer to a playbook contains again the events
  of all playbooks before it: what is sent for the second of two playbooks is the events of the
  first followed by its own.
\<close>

theorem events_sent_again:
  assumes "sendEvents env res1 url1 to1 f1 a w = (Ret (err1, a1), w1)" and "res_Plays res1 \<noteq> None"
    and "sendEvents env res2 url2 to2 f2 a1 v = (Ret (err2, a2), v')" and "res_Plays res2 \<noteq> None"
  shows "\<exists>msgs1 msgs2.
    eventTransformer (ans_transformer env) (ad_deviceID (am_dispatcher a)) f1 res1 = Ret msgs1 \<and>
    eventTransformer (ans_transformer env) (ad_deviceID (am_dispatcher a)) f2 res2 = Ret msgs2 \<and>
    ans_Send env \<lparr>pb_MessageId = ans_uuid env, pb_Metadata = [],
      pb_Content = CreateMessage (GetMsgList (am_dispatcher a) @ msgs1 @ msgs2), pb_ResponseTo = to2, pb_Directive = url2\<rparr> (ext v)
    = (err2, ext v')"
  using assms(1,2)
proof (cases rule: sendEvents_message)
  case (1 msgs1)
  from assms(3,4) show ?thesis
  proof (cases rule: sendEvents_message)
    case (1 msgs2)
    with \<open>eventTransformer _ _ f1 res1 = Ret msgs1\<close> \<open>GetMsgList (am_dispatcher a1) = _\<close> \<open>ad_deviceID (am_dispatcher a1) = _\<close>
    show ?thesis by auto
  qed
qed

lemma execPlaybookSync_queue: "execPlaybookSync env v t a w = ((res, err, a'), w') \<Longrightarrow> am_eventsQueue a' = am_eventsQueue a"
  by (auto simp: execPlaybookSync_def split: sum.splits prod.splits)

lemma pending_loop_queue: "pending_loop env vs errors a w = ((r, a'), w') \<Longrightarrow> am_eventsQueue a' = am_eventsQueue a"
proof (induction vs arbitrary: errors a w)
  case (Cons v vs)
  obtain res err a1 w1 where e: "execPlaybookSync env (GetPlaybookCommand\<lparr>cmd_Playbooks := [v]\<rparr>) (300 * 1000000000) a w = ((res, err, a1), w1)" by (metis prod.collapse)
  note q = execPlaybookSync_queue [OF e]
  show ?case
  proof (cases err)
    case None
    with Cons.prems e have "pending_loop env vs errors a1 w1 = ((r, a'), w')" by (cases res) auto
    from Cons.IH [OF this] q show ?thesis by simp
  next
    case (Some x)
    show ?thesis
    proof (cases res)
      case None
      with Cons.prems e Some q show ?thesis by simp
    next
      case (Some y)
      with Cons.prems e \<open>err = Some x\<close> have "pending_loop env vs (multierror_Append errors x) a1 w1 = ((r, a'), w')" by simp
      from Cons.IH [OF this] q show ?thesis by simp
    qed
  qed
qed simp

lemma pending_loop_append:
  "pending_loop env vs errors a w = ((Inr errors', a'), w') \<Longrightarrow> pending_loop env (vs @ us) errors a w = pending_loop env us errors' a' w'"
proof (induction vs arbitrary: errors a w)
  case (Cons v vs)
  obtain res err a1 w1 where e: "execPlaybookSync env (GetPlaybookCommand\<lparr>cmd_Playbooks := [v]\<rparr>) (300 * 1000000000) a w = ((res, err, a1), w1)" by (metis prod.collapse)
  show ?case using Cons e by (cases err; cases res) auto
qed simp

text \<open>
  When a pending playbook cannot be read or gives no results, the loop over the pending ones
  stops there: the playbooks after it are not run, and the failures of those before it are neither
  in the error returned nor queued as an event.
\<close>

theorem pending_playbooks_abort:
  assumes "map snd (ans_range_all env (GetAll (ans_range env) (am_repo a))) = before @ v # after"
    and "pending_loop env before [] a w = ((Inr errors, a1), w1)"
    and "execPlaybookSync env (GetPlaybookCommand\<lparr>cmd_Playbooks := [v]\<rparr>) (300 * 1000000000) a1 w1 = ((None, Some err, a2), w2)"
  shows "ExecutePendingPlaybooks env a w = ((Some err, a2), w2) \<and> am_eventsQueue a2 = am_eventsQueue a"
proof -
  have "pending_loop env (before @ v # after) [] a w = ((Inl err, a2), w2)"
    using pending_loop_append [OF assms(2), of "v # after"] assms(3) by simp
  then show ?thesis
    using assms(1) pending_loop_queue by (auto simp: ExecutePendingPlaybooks_def)
qed

section \<open>Concrete instances\<close>

definition demo_ansible :: "(string list) ansible_env" where
  "demo_ansible = \<lparr>ans_LookPath = \<lambda>_. None,
     ans_Run = \<lambda>f t w. ((Some (ExternalError ''unreachable''), ''{}''), w\<lparr>ext := cmd_Playbooks f @ ext w\<rparr>),
     ans_JSONParse = \<lambda>_. Inr demo_results, ans_Send = \<lambda>msg e. (None, e), ans_uuid = ''u'',
     ans_decode = \<lambda>_. (None, \<lparr>dcm_AnsiblePlaybook = ''- hosts: all'', dcm_Configuration = None, dcm_DeviceID = [], dcm_Secrets = [],
       dcm_Version = [], dcm_Workloads = [], dcm_WorkloadsMonitoringInterval = 0\<rparr>),
     ans_ModTime = \<lambda>f w. Some 5, ans_transformer = demo_transformer, ans_range = \<lambda>m. m, ans_range_all = \<lambda>m. m\<rparr>"

definition demo_ansible_manager :: "(int, string) gomap \<Rightarrow> AnsibleManager" where
  "demo_ansible_manager ps = \<lparr>am_dispatcher = NewAnsibleDispatcher [], am_repo = demo_playbooks ps, am_eventsQueue = []\<rparr>"

definition demo_ansible_world :: "(string list) world" where
  "demo_ansible_world = \<lparr>disk = fs_of [(''/tmp'', Dir), (''/p'', Dir)], ext = []\<rparr>"

definition demo_data_message :: pb_Data where
  "demo_data_message = \<lparr>pb_MessageId = ''m'', pb_Metadata = [(''crc_dispatcher_correlation_id'', ''c''), (''return_url'', ''r'')],
     pb_Content = ''{}'', pb_ResponseTo = [], pb_Directive = []\<rparr>"

lemma demo_written: "\<exists>s. WriteFile (disk demo_ansible_world) ''/tmp/ansible_playbook_m.yml'' ''- hosts: all'' = (None, s)"
  by (simp add: WriteFile_def demo_ansible_world_def is_dir_def path_Dir_def Let_def)

lemma demo_handled:
  "\<exists>r0 w0. HandlePlaybook demo_ansible GetPlaybookCommand demo_data_message 300 (demo_ansible_manager []) demo_ansible_world = (Ret (Inr r0), w0) \<and>
     run_handler r0 = Selecting \<and> run_goroutine r0 = Started"
proof -
  have p: "path_Join [''/tmp'', ''ansible_playbook_m.yml''] = ''/tmp/ansible_playbook_m.yml''" by code_simp
  obtain s where "WriteFile (disk demo_ansible_world) ''/tmp/ansible_playbook_m.yml'' ''- hosts: all'' = (None, s)"
    using demo_written by blast
  then show ?thesis
    by (simp add: HandlePlaybook_def demo_data_message_def demo_ansible_def crcDispatcherAttribute_def returnURLAttribute_def
        ansible_dataDir_def Let_def p)
qed

theorem playbook_run_ends_witness:
  "\<exists>r0 r w0. HandlePlaybook demo_ansible GetPlaybookCommand demo_data_message 300 (demo_ansible_manager []) demo_ansible_world = (Ret (Inr r0), w0) \<and>
     playbook_step demo_ansible r0 r \<and> run_handler r = Returned (Some (timeout_error (run_job r))) \<and>
     (\<forall>n r'. (playbook_step demo_ansible ^^ n) r0 r' \<longrightarrow> n \<le> 5)"
proof -
  obtain r0 w0 where h: "HandlePlaybook demo_ansible GetPlaybookCommand demo_data_message 300 (demo_ansible_manager []) demo_ansible_world = (Ret (Inr r0), w0)"
    and s: "run_handler r0 = Selecting"
    using demo_handled by blast
  have "playbook_step demo_ansible r0 (handler_returns (Some (timeout_error (run_job r0))) r0)"
    using s by (rule playbook_step.timeout)
  moreover have "n \<le> 5" if "(playbook_step demo_ansible ^^ n) r0 r'" for n r'
    using playbook_run_ends [OF h that] by simp
  ultimately show ?thesis using h by (fastforce simp: handler_returns_def)
qed

theorem events_sent_again_witness:
  "\<exists>a1 a2 w1 w2. sendEvents demo_ansible demo_results [] [] ''/1.yml'' (demo_ansible_manager []) demo_ansible_world = (Ret (None, a1), w1) \<and>
     sendEvents demo_ansible demo_results [] [] ''/2.yml'' a1 w1 = (Ret (None, a2), w2) \<and>
     (\<exists>msgs1 msgs2. eventTransformer demo_transformer [] ''/1.yml'' demo_results = Ret msgs1 \<and>
        eventTransformer demo_transformer [] ''/2.yml'' demo_results = Ret msgs2)"
proof -
  have sends: "\<exists>a' w'. sendEvents demo_ansible demo_results [] [] f a w = (Ret (None, a'), w')" for f a w
  proof -
    have "results_complete demo_results"
      by (simp add: demo_results_def results_complete_def play_complete_def task_complete_def Let_def)
    then obtain msgs where "eventTransformer demo_transformer (ad_deviceID (am_dispatcher a)) f demo_results = Ret msgs"
      using play_events_return [of demo_transformer "res_Stats demo_results"]
      by (fastforce simp: eventTransformer_def results_complete_def demo_transformer_def split: option.splits)
    moreover have "res_Plays demo_results \<noteq> None" by (simp add: demo_results_def Let_def)
    ultimately show ?thesis
      by (simp add: sendEvents_def AddEvent_def ComposeDispatcherMessage_def demo_ansible_def Let_def)
  qed
  obtain a1 w1 where 1: "sendEvents demo_ansible demo_results [] [] ''/1.yml'' (demo_ansible_manager []) demo_ansible_world = (Ret (None, a1), w1)"
    using sends by blast
  obtain a2 w2 where 2: "sendEvents demo_ansible demo_results [] [] ''/2.yml'' a1 w1 = (Ret (None, a2), w2)"
    using sends by blast
  have p: "res_Plays demo_results \<noteq> None" by (simp add: demo_results_def Let_def)
  from events_sent_again [OF 1 p 2 p] 1 2 show ?thesis
    by (auto simp: demo_ansible_def demo_ansible_manager_def NewAnsibleDispatcher_def)
qed

text \<open>A pending playbook whose file is gone.\<close>

theorem pending_playbooks_abort_witness:
  "\<exists>err. ExecutePendingPlaybooks demo_ansible (demo_ansible_manager [(3, ''/p/gone''), (4, ''/p/other'')]) demo_ansible_world =
     ((Some err, demo_ansible_manager [(3, ''/p/gone''), (4, ''/p/other'')]), demo_ansible_world)"
proof -
  let ?a = "demo_ansible_manager [(3, ''/p/gone''), (4, ''/p/other'')]"
  have pending: "map snd (ans_range_all demo_ansible (GetAll (ans_range demo_ansible) (am_repo ?a))) = [] @ ''/p/gone'' # [''/p/other'']"
    by (simp add: demo_ansible_def demo_ansible_manager_def GetAll_def map_get_def upt_rec)
  have "execPlaybookSync demo_ansible (GetPlaybookCommand\<lparr>cmd_Playbooks := [''/p/gone'']\<rparr>) (300 * 1000000000) ?a demo_ansible_world =
      ((None, Some (PathError ''open'' ''/p/gone'' (missing (disk demo_ansible_world) ''/p/gone'')), ?a), demo_ansible_world)"
    by (simp add: execPlaybookSync_def ReadFile_def demo_ansible_world_def)
  from pending_playbooks_abort [OF pending _ this] show ?thesis by auto
qed

end
