(* ===== verification/Metrics_Daemon.thy ===== *)
theory Metrics_Daemon
  imports Metrics_Store Systemd Podman Go_Time
begin

text \<open>
  The rest of \<open>internal/metrics\<close>: the HTTP scraper (\<open>scraper.go\<close>), the daemon that scrapes its targets
  periodically (\<open>daemon.go\<close>), and the two components that choose the targets, for the system
  (\<open>system.go\<close>) and for the workloads (\<open>workload.go\<close>).

  HTTP, gzip and the decoding of the exposition format (\<open>prometheus/common/expfmt\<close>) are parameters.
  Every target runs a loop in a goroutine of its own, so the daemon is a state with a heap of
  targets and the program points of their loops, and a step relation.
\<close>

section \<open>Scraping\<close>

record http_request =
  req_Method :: string
  req_URL :: string
  req_Header :: "(string, string) gomap"

record http_response =
  resp_StatusCode :: int
  resp_Status :: string
  resp_Header :: "(string, string) gomap"
  resp_Body :: string

record ('v, 'e) scrape_env =
  http_parse :: "string \<Rightarrow> error option" \<comment> \<open>the error of \<open>http.NewRequest\<close> on a URL\<close>
  http_Do :: "http_request \<Rightarrow> 'e \<Rightarrow> (error + http_response) \<times> 'e"
  gzip_NewReader :: "string \<Rightarrow> error + string"
  expfmt_Decode :: "string \<Rightarrow> string \<Rightarrow> (error + 'v Sample list) list"
    \<comment> \<open>content type and body; what the calls of \<open>Decode\<close> give up to the end of the input\<close>

definition acceptHeader :: string where
  "acceptHeader = ''application/openmetrics-text; version=0.0.1,text/plain;version=0.0.4;q=0.5,*/*;q=0.1''"

definition UserAgent :: string where
  "UserAgent = ''flotta-device-worker''"

definition NewHTTPScraper :: "('v, 'e) scrape_env \<Rightarrow> string \<Rightarrow> error + http_request" where
  "NewHTTPScraper env url =
     (case http_parse env url of
        Some err \<Rightarrow> Inl err
      | None \<Rightarrow> Inr \<lparr>req_Method = ''GET'', req_URL = url,
          req_Header = [(''Accept'', acceptHeader), (''Accept-Encoding'', ''gzip''), (''User-Agent'', UserAgent)]\<rparr>)"

fun decode_all :: "(error + 'v Sample list) list \<Rightarrow> 'v Sample list \<Rightarrow> error + 'v Sample list" where
  "decode_all [] allSamples = Inr allSamples"
| "decode_all (Inl err # ds) allSamples = Inl err"
| "decode_all (Inr mfSamples # ds) allSamples = decode_all ds (allSamples @ mfSamples)"

definition Scrape :: "('v, 'e) scrape_env \<Rightarrow> http_request \<Rightarrow> 'e \<Rightarrow> (error + 'v Sample list) \<times> 'e" where
  "Scrape env req e =
     (case http_Do env req e of
        (Inl err, e') \<Rightarrow> (Inl err, e')
      | (Inr resp, e') \<Rightarrow>
          if resp_StatusCode resp \<noteq> 200
          then (Inl (Errorf ''server returned HTTP status %s'' [resp_Status resp]), e')
          else
            (case (if map_get (resp_Header resp) ''Content-Encoding'' = ''gzip'' then gzip_NewReader env (resp_Body resp)
                   else Inr (resp_Body resp)) of
               Inl err \<Rightarrow> (Inl err, e')
             | Inr reader \<Rightarrow> (decode_all (expfmt_Decode env (map_get (resp_Header resp) ''Content-Type'') reader) [], e')))"

lemma decode_all_eq:
  "decode_all ds acc = Inr samples \<longleftrightarrow> (\<exists>batches. ds = map Inr batches \<and> samples = acc @ concat batches)"
proof (induction ds acc rule: decode_all.induct)
  case (3 mfSamples ds acc)
  have "(\<exists>batches. Inr mfSamples # ds = map Inr batches \<and> samples = acc @ concat batches) \<longleftrightarrow>
      (\<exists>batches. ds = map Inr batches \<and> samples = (acc @ mfSamples) @ concat batches)"
    by (auto simp: Cons_eq_map_conv)
  with 3 show ?case by simp
qed auto

section \<open>A target\<close>

text \<open>
  A context is numbered by the calls of \<open>Start\<close>; the current one is cancelled exactly when \<open>cancel\<close>
  is nil, an older one always is.
\<close>

record TargetMetric =
  tg_name :: string
  tg_interval :: int
  tg_urls :: "string list"
  tg_scrapers :: "http_request option list" \<comment> \<open>\<open>None\<close> is a nil scraper\<close>
  tg_ctx :: nat
  tg_cancel :: bool \<comment> \<open>\<open>cancel\<close> is not nil\<close>
  tg_store :: bool \<comment> \<open>\<open>store\<close> is not nil\<close>
  tg_latestSuccessRun :: "int option"
  tg_allowList :: SampleFilter

definition metricSource :: string where
  "metricSource = ''metric-source''"

definition NewTargetMetric :: "string \<Rightarrow> int \<Rightarrow> string list \<Rightarrow> bool \<Rightarrow> SampleFilter \<Rightarrow> TargetMetric" where
  "NewTargetMetric targetName interval urls store allowList =
     \<lparr>tg_name = targetName, tg_interval = interval, tg_urls = urls, tg_scrapers = [], tg_ctx = 0, tg_cancel = False,
      tg_store = store, tg_latestSuccessRun = None, tg_allowList = allowList\<rparr>"

definition LatestSuccessRun :: "TargetMetric \<Rightarrow> int option" where
  "LatestSuccessRun tg = tg_latestSuccessRun tg"

definition IsStopped :: "TargetMetric \<Rightarrow> bool" where
  "IsStopped tg \<longleftrightarrow> \<not> tg_cancel tg"

definition Target_Stop :: "TargetMetric \<Rightarrow> TargetMetric" where
  "Target_Stop tg = tg\<lparr>tg_cancel := False\<rparr>"

definition ctx_done :: "TargetMetric \<Rightarrow> nat \<Rightarrow> bool" where
  "ctx_done tg c \<longleftrightarrow> c \<noteq> tg_ctx tg \<or> \<not> tg_cancel tg"

text \<open>A URL that gives no request is logged, and a nil scraper is stored for it.\<close>

definition createScraper :: "('v, 'e) scrape_env \<Rightarrow> TargetMetric \<Rightarrow> TargetMetric" where
  "createScraper env tg =
     tg\<lparr>tg_scrapers := map (\<lambda>url. case NewHTTPScraper env url of Inl _ \<Rightarrow> None | Inr s \<Rightarrow> Some s) (tg_urls tg)\<rparr>"

text \<open>\<open>Start\<close> up to its loop.\<close>

definition Target_Start :: "('v, 'e) scrape_env \<Rightarrow> TargetMetric \<Rightarrow> TargetMetric outcome" where
  "Target_Start env tg =
     (case NewTicker (tg_interval tg) of
        Panic \<Rightarrow> Panic
      | Ret _ \<Rightarrow> Ret ((createScraper env tg)\<lparr>tg_ctx := Suc (tg_ctx tg), tg_cancel := True\<rparr>))"

fun Target_Run :: "('v, 'e) scrape_env \<Rightarrow> SampleFilter \<Rightarrow> http_request option list \<Rightarrow> 'e \<Rightarrow> ('v Sample list, 'e) call" where
  "Target_Run env allowList [] e = (Ret [], e)"
| "Target_Run env allowList (None # scrapers) e = (Panic, e)"
| "Target_Run env allowList (Some s # scrapers) e =
     (case Scrape env s e of
        (Inl _, e') \<Rightarrow> Target_Run env allowList scrapers e'
      | (Inr data, e') \<Rightarrow>
          (case Target_Run env allowList scrapers e' of
             (Ret res, e'') \<Rightarrow> (Ret (Filter allowList data @ res), e'')
           | (Panic, e'') \<Rightarrow> (Panic, e'')))"

type_synonym labels_range = "(string, string) gomap \<Rightarrow> (string \<times> string) list"

definition Target_Store ::
  "('v, 'q, 'e) tsdb_api \<Rightarrow> labels_range \<Rightarrow> int \<Rightarrow> 'v Sample list \<Rightarrow> (string, string) gomap \<Rightarrow> TargetMetric \<Rightarrow> 'e \<Rightarrow>
   (error option \<times> TargetMetric) \<times> 'e" where
  "Target_Store api rng now data labels tg e =
     (if \<not> tg_store tg then ((Some (Errorf ''store interface is not set'' []), tg), e)
      else case AddVector api rng now data labels e of
             (Some err, e') \<Rightarrow> ((Some err, tg), e')
           | (None, e') \<Rightarrow> ((None, tg\<lparr>tg_latestSuccessRun := Some now\<rparr>), e'))"

text \<open>One turn of the loop on a tick or a forced trigger.\<close>

definition getdata ::
  "('v, 'e) scrape_env \<Rightarrow> ('v, 'q, 'e) tsdb_api \<Rightarrow> labels_range \<Rightarrow> int \<Rightarrow> TargetMetric \<Rightarrow> 'e \<Rightarrow> (TargetMetric, 'e) call" where
  "getdata env api rng now tg e =
     (case Target_Run env (tg_allowList tg) (tg_scrapers tg) e of
        (Panic, e') \<Rightarrow> (Panic, e')
      | (Ret data, e') \<Rightarrow>
          (case Target_Store api rng now data [(metricSource, tg_name tg)] tg e' of ((_, tg'), e'') \<Rightarrow> (Ret tg', e'')))"

section \<open>The daemon\<close>

datatype loop_pc =
    Scheduled \<comment> \<open>\<open>go target.Start()\<close> has been executed, the goroutine has not run yet\<close>
  | InSelect nat \<comment> \<open>in the \<open>select\<close>, on this context\<close>
  | Looping \<comment> \<open>data has been fetched; the \<open>select\<close> comes next\<close>
  | Ended

record metricsDaemon =
  md_targets :: "(string, nat) gomap" \<comment> \<open>name to address\<close>
  md_heap :: "TargetMetric list"
  md_loops :: "(nat \<times> loop_pc) list" \<comment> \<open>the goroutines, each with its target\<close>
  md_store :: bool

definition NewMetricsDaemon :: "bool \<Rightarrow> metricsDaemon" where
  "NewMetricsDaemon store = \<lparr>md_targets = [], md_heap = [], md_loops = [], md_store = store\<rparr>"

definition GetTargets :: "((string, nat) gomap \<Rightarrow> (string \<times> nat) list) \<Rightarrow> metricsDaemon \<Rightarrow> string list" where
  "GetTargets rng md = map fst (rng (md_targets md))"

definition startTarget :: "nat \<Rightarrow> metricsDaemon \<Rightarrow> metricsDaemon" where
  "startTarget target md = md\<lparr>md_loops := md_loops md @ [(target, Scheduled)]\<rparr>"

definition Daemon_Start :: "((string, nat) gomap \<Rightarrow> (string \<times> nat) list) \<Rightarrow> metricsDaemon \<Rightarrow> metricsDaemon" where
  "Daemon_Start rng md = fold (\<lambda>(_, target). startTarget target) (rng (md_targets md)) md"

definition DeleteTarget :: "string \<Rightarrow> metricsDaemon \<Rightarrow> metricsDaemon" where
  "DeleteTarget targetName md =
     (case map_of (md_targets md) targetName of
        None \<Rightarrow> md
      | Some target \<Rightarrow>
          md\<lparr>md_targets := map_del (md_targets md) targetName,
             md_heap := (md_heap md)[target := Target_Stop (md_heap md ! target)]\<rparr>)"

definition AddTarget :: "string \<Rightarrow> string list \<Rightarrow> int \<Rightarrow> SampleFilter \<Rightarrow> metricsDaemon \<Rightarrow> metricsDaemon" where
  "AddTarget targetName urls interval allowList md =
     (let md1 = DeleteTarget targetName md; target = length (md_heap md1) in
      startTarget target
        (md1\<lparr>md_heap := md_heap md1 @ [NewTargetMetric targetName interval urls (md_store md) allowList],
             md_targets := map_put (md_targets md1) targetName target\<rparr>))"

text \<open>
  The steps of the loops and the calls of the other components. \<open>Daemon_Start\<close>, which nothing but the
  tests calls, is not among them. Where the source panics there is no step but \<open>daemon_crash\<close>.
\<close>

type_synonym 'e daemon_state = "metricsDaemon \<times> 'e"

definition set_loop :: "nat \<Rightarrow> nat \<Rightarrow> loop_pc \<Rightarrow> TargetMetric \<Rightarrow> metricsDaemon \<Rightarrow> metricsDaemon" where
  "set_loop i target pc tg md = md\<lparr>md_heap := (md_heap md)[target := tg], md_loops := (md_loops md)[i := (target, pc)]\<rparr>"

inductive daemon_step ::
  "('v, 'e) scrape_env \<Rightarrow> ('v, 'q, 'e) tsdb_api \<Rightarrow> labels_range \<Rightarrow> 'e daemon_state \<Rightarrow> 'e daemon_state \<Rightarrow> bool" for env api rng where
  launch: "i < length (md_loops md) \<Longrightarrow> md_loops md ! i = (t, Scheduled) \<Longrightarrow> Target_Start env (md_heap md ! t) = Ret tg \<Longrightarrow>
    daemon_step env api rng (md, e) (set_loop i t (InSelect (tg_ctx tg)) tg md, e)"
| tick: "i < length (md_loops md) \<Longrightarrow> md_loops md ! i = (t, InSelect c) \<Longrightarrow>
    getdata env api rng now (md_heap md ! t) e = (Ret tg, e') \<Longrightarrow>
    daemon_step env api rng (md, e) (set_loop i t Looping tg md, e')"
| again: "i < length (md_loops md) \<Longrightarrow> md_loops md ! i = (t, Looping) \<Longrightarrow>
    daemon_step env api rng (md, e) (set_loop i t (InSelect (tg_ctx (md_heap md ! t))) (md_heap md ! t) md, e)"
| ctx_done: "i < length (md_loops md) \<Longrightarrow> md_loops md ! i = (t, InSelect c) \<Longrightarrow> ctx_done (md_heap md ! t) c \<Longrightarrow>
    daemon_step env api rng (md, e) (set_loop i t Ended (md_heap md ! t) md, e)"
| add: "daemon_step env api rng (md, e) (AddTarget name urls interval allowList md, e)"
| delete: "daemon_step env api rng (md, e) (DeleteTarget name md, e)"

inductive daemon_crash ::
  "('v, 'e) scrape_env \<Rightarrow> ('v, 'q, 'e) tsdb_api \<Rightarrow> labels_range \<Rightarrow> 'e daemon_state \<Rightarrow> bool" for env api rng where
  start: "i < length (md_loops md) \<Longrightarrow> md_loops md ! i = (t, Scheduled) \<Longrightarrow> Target_Start env (md_heap md ! t) = Panic \<Longrightarrow>
    daemon_crash env api rng (md, e)"
| run: "i < length (md_loops md) \<Longrightarrow> md_loops md ! i = (t, InSelect c) \<Longrightarrow>
    getdata env api rng now (md_heap md ! t) e = (Panic, e') \<Longrightarrow> daemon_crash env api rng (md, e)"

section \<open>The invariant of the daemon\<close>

definition loop_ok :: "TargetMetric \<Rightarrow> loop_pc \<Rightarrow> bool" where
  "loop_ok tg pc =
     (case pc of
        Scheduled \<Rightarrow> tg_ctx tg = 0 \<and> \<not> tg_cancel tg
      | InSelect c \<Rightarrow> c = tg_ctx tg
      | Looping \<Rightarrow> True
      | Ended \<Rightarrow> \<not> tg_cancel tg)"

definition daemon_ok :: "metricsDaemon \<Rightarrow> bool" where
  "daemon_ok md \<longleftrightarrow> gomap_ok (md_targets md) \<and>
     (\<forall>n t. map_of (md_targets md) n = Some t \<longrightarrow> t < length (md_heap md) \<and> tg_name (md_heap md ! t) = n) \<and>
     map fst (md_loops md) = [0..<length (md_heap md)] \<and>
     (\<forall>t < length (md_heap md). loop_ok (md_heap md ! t) (snd (md_loops md ! t)))"

lemma daemon_ok_loops:
  assumes "daemon_ok md"
  shows "length (md_loops md) = length (md_heap md)"
    and "i < length (md_heap md) \<Longrightarrow> fst (md_loops md ! i) = i"
proof -
  have m: "map fst (md_loops md) = [0..<length (md_heap md)]" using assms by (simp add: daemon_ok_def)
  then have "length (map fst (md_loops md)) = length [0..<length (md_heap md)]" by simp
  then show l: "length (md_loops md) = length (md_heap md)" by simp
  show "fst (md_loops md ! i) = i" if "i < length (md_heap md)"
  proof -
    have "map fst (md_loops md) ! i = i" using that m by simp
    then show ?thesis using that l by simp
  qed
qed

lemma daemon_ok_at:
  assumes "daemon_ok md" and "i < length (md_loops md)" and "md_loops md ! i = (t, pc)"
  shows "t = i" and "t < length (md_heap md)" and "loop_ok (md_heap md ! t) pc"
proof -
  show t: "t = i" using daemon_ok_loops [OF assms(1)] assms(2,3) by fastforce
  show "t < length (md_heap md)" using t daemon_ok_loops(1) [OF assms(1)] assms(2) by simp
  then show "loop_ok (md_heap md ! t) pc" using assms(1,3) t by (auto simp: daemon_ok_def)
qed

lemma daemon_ok_New [simp, go_inv]: "daemon_ok (NewMetricsDaemon store)"
  by (simp add: daemon_ok_def NewMetricsDaemon_def)

lemma daemon_ok_set_loop:
  assumes "daemon_ok md" and "t < length (md_heap md)" and "tg_name tg = tg_name (md_heap md ! t)" and "loop_ok tg pc"
  shows "daemon_ok (set_loop t t pc tg md)"
proof -
  note l = daemon_ok_loops [OF assms(1)]
  have "map fst ((md_loops md)[t := (t, pc)]) = (map fst (md_loops md))[t := t]" by (simp add: map_update)
  also have "\<dots> = map fst (md_loops md)" using l assms(2) by (metis length_map list_update_id nth_map)
  finally have "map fst ((md_loops md)[t := (t, pc)]) = map fst (md_loops md)" .
  then show ?thesis
    using assms l by (auto simp: daemon_ok_def set_loop_def nth_list_update)
qed

lemma daemon_ok_Delete [simp, go_inv]:
  assumes "daemon_ok md"
  shows "daemon_ok (DeleteTarget name md)"
proof (cases "map_of (md_targets md) name")
  case None
  with assms show ?thesis by (simp add: DeleteTarget_def)
next
  case (Some t)
  then have "t < length (md_heap md)" using assms by (simp add: daemon_ok_def)
  moreover have "loop_ok (Target_Stop tg) pc" if "loop_ok tg pc" for tg pc
    using that by (auto simp: loop_ok_def Target_Stop_def split: loop_pc.splits)
  ultimately show ?thesis
    using assms Some by (auto simp: daemon_ok_def DeleteTarget_def nth_list_update Target_Stop_def)
qed

lemma daemon_ok_Add [simp, go_inv]:
  assumes "daemon_ok md"
  shows "daemon_ok (AddTarget name urls interval allowList md)"
proof -
  let ?d = "DeleteTarget name md"
  have ok: "daemon_ok ?d" using assms by simp
  note l = daemon_ok_loops [OF ok]
  show ?thesis
    using ok l unfolding AddTarget_def Let_def startTarget_def
    by (auto simp: daemon_ok_def nth_append less_Suc_eq NewTargetMetric_def loop_ok_def)
qed

lemma Target_Start_fields:
  "Target_Start env tg = Ret tg' \<Longrightarrow> tg_name tg' = tg_name tg \<and> tg_ctx tg' = Suc (tg_ctx tg) \<and> tg_cancel tg'"
  by (auto simp: Target_Start_def createScraper_def split: outcome.splits)

lemma getdata_fields:
  "getdata env api rng now tg e = (Ret tg', e') \<Longrightarrow> tg_name tg' = tg_name tg \<and> tg_ctx tg' = tg_ctx tg \<and> tg_cancel tg' = tg_cancel tg"
  by (auto simp: getdata_def Target_Store_def split: outcome.splits prod.splits if_splits option.splits)

lemma daemon_step_ok:
  assumes "daemon_step env api rng s s'" and "daemon_ok (fst s)"
  shows "daemon_ok (fst s')"
  using assms
proof (induction rule: daemon_step.induct)
  case (launch i md t tg e)
  then have ok: "daemon_ok md" by simp
  note at = daemon_ok_at [OF ok launch(1,2)]
  show ?case using daemon_ok_set_loop [OF ok at(2)] at(1) Target_Start_fields [OF launch(3)] by (simp add: loop_ok_def)
next
  case (tick i md t c now e tg e')
  then have ok: "daemon_ok md" by simp
  note at = daemon_ok_at [OF ok tick(1,2)]
  show ?case using daemon_ok_set_loop [OF ok at(2)] at(1) getdata_fields [OF tick(3)] by (simp add: loop_ok_def)
next
  case (again i md t e)
  then have ok: "daemon_ok md" by simp
  note at = daemon_ok_at [OF ok again(1,2)]
  show ?case using daemon_ok_set_loop [OF ok at(2)] at(1) by (simp add: loop_ok_def)
next
  case (ctx_done i md t c e)
  then have ok: "daemon_ok md" by simp
  note at = daemon_ok_at [OF ok ctx_done(1,2)]
  show ?case using daemon_ok_set_loop [OF ok at(2)] at(1,3) ctx_done(3) by (simp add: loop_ok_def ctx_done_def)
qed simp_all

lemma daemon_steps_ok: "(daemon_step env api rng)\<^sup>*\<^sup>* s s' \<Longrightarrow> daemon_ok (fst s) \<Longrightarrow> daemon_ok (fst s')"
  by (induction rule: rtranclp_induct) (auto dest: daemon_step_ok)

text \<open>A target that is no longer registered and whose loop has begun keeps its context for good.\<close>

definition detached :: "nat \<Rightarrow> bool \<Rightarrow> nat \<Rightarrow> metricsDaemon \<Rightarrow> bool" where
  "detached t live c md \<longleftrightarrow> t < length (md_heap md) \<and> t \<notin> ran (map_of (md_targets md)) \<and>
     snd (md_loops md ! t) \<noteq> Scheduled \<and> tg_cancel (md_heap md ! t) = live \<and> tg_ctx (md_heap md ! t) = c"

lemma detached_set_loop:
  assumes "detached t live c md" and "daemon_ok md" and "u < length (md_heap md)"
    and "u = t \<longrightarrow> pc \<noteq> Scheduled \<and> tg_cancel tg = live \<and> tg_ctx tg = c"
  shows "detached t live c (set_loop u u pc tg md)"
  using assms daemon_ok_loops(1) [OF assms(2)]
  by (auto simp: detached_def set_loop_def nth_list_update)

lemma detached_Delete:
  assumes "detached t live c md"
  shows "detached t live c (DeleteTarget name md)"
proof (cases "map_of (md_targets md) name")
  case None
  with assms show ?thesis by (simp add: DeleteTarget_def)
next
  case (Some u)
  then have "u \<noteq> t" using assms by (auto simp: detached_def ran_def)
  with Some assms show ?thesis by (auto simp: detached_def DeleteTarget_def ran_def split: if_splits)
qed

lemma detached_step:
  assumes "daemon_step env api rng s s'" and "detached t live c (fst s)" and "daemon_ok (fst s)"
  shows "detached t live c (fst s')"
  using assms
proof (induction rule: daemon_step.induct)
  case (launch i md u tg e)
  then have ok: "daemon_ok md" and d: "detached t live c md" by simp_all
  note at = daemon_ok_at [OF ok launch(1,2)]
  have "u \<noteq> t" using launch(2) at(1) d by (auto simp: detached_def)
  then show ?case using detached_set_loop [OF d ok at(2)] at(1) by simp
next
  case (tick i md u c' now e tg e')
  then have ok: "daemon_ok md" and d: "detached t live c md" by simp_all
  note at = daemon_ok_at [OF ok tick(1,2)]
  show ?case using detached_set_loop [OF d ok at(2)] at(1) getdata_fields [OF tick(3)] d by (simp add: detached_def)
next
  case (again i md u e)
  then have ok: "daemon_ok md" and d: "detached t live c md" by simp_all
  note at = daemon_ok_at [OF ok again(1,2)]
  show ?case using detached_set_loop [OF d ok at(2)] at(1) d by (simp add: detached_def)
next
  case (ctx_done i md u c' e)
  then have ok: "daemon_ok md" and d: "detached t live c md" by simp_all
  note at = daemon_ok_at [OF ok ctx_done(1,2)]
  show ?case using detached_set_loop [OF d ok at(2)] at(1) d by (simp add: detached_def)
next
  case (add md e name urls interval allowList)
  then have "detached t live c (DeleteTarget name md)" and ok: "daemon_ok (DeleteTarget name md)"
    using detached_Delete by simp_all
  then show ?case
    using daemon_ok_loops(1) [OF ok] unfolding AddTarget_def Let_def startTarget_def
    by (auto simp: detached_def nth_append ran_def split: if_splits)
next
  case (delete md e name)
  then show ?case using detached_Delete by simp
qed

lemma detached_steps:
  assumes "(daemon_step env api rng)\<^sup>*\<^sup>* s s'" and "detached t live c (fst s)" and "daemon_ok (fst s)"
  shows "detached t live c (fst s') \<and> daemon_ok (fst s')"
  using assms by (induction rule: rtranclp_induct) (auto dest: detached_step daemon_step_ok)

lemma Delete_detaches:
  assumes "daemon_ok md" and "map_of (md_targets md) name = Some t" and "snd (md_loops md ! t) \<noteq> Scheduled"
  shows "detached t False (tg_ctx (md_heap md ! t)) (DeleteTarget name md)"
proof -
  have t: "t < length (md_heap md)" "tg_name (md_heap md ! t) = name" using assms by (auto simp: daemon_ok_def)
  have "map_of (md_targets md) n \<noteq> Some t" if "n \<noteq> name" for n
    using that assms(1) t(2) unfolding daemon_ok_def by blast
  then show ?thesis using assms t by (auto simp: detached_def DeleteTarget_def Target_Stop_def ran_def)
qed

section \<open>Properties of the daemon\<close>

text \<open>
  C15: The daemon is well-formed in every reachable state: the names of its targets are distinct and
  each is the name of the target it leads to; every target that was ever made has exactly one
  goroutine; a loop waits on the current context of its target, and one that has ended was
  stopped.
\<close>

theorem daemon_well_formed:
  assumes "(daemon_step env api rng)\<^sup>*\<^sup>* (NewMetricsDaemon store, e0) (md, e)"
  shows "gomap_ok (md_targets md) \<and> map fst (md_loops md) = [0..<length (md_heap md)] \<and>
    (\<forall>(name, t) \<in> set (md_targets md). t < length (md_heap md) \<and> tg_name (md_heap md ! t) = name) \<and>
    (\<forall>(t, pc) \<in> set (md_loops md). loop_ok (md_heap md ! t) pc)"
proof -
  have ok: "daemon_ok md" using daemon_steps_ok [OF assms] by simp
  have "t < length (md_heap md) \<and> tg_name (md_heap md ! t) = name" if "(name, t) \<in> set (md_targets md)" for name t
    using ok that by (auto simp: daemon_ok_def gomap_ok_def)
  moreover have "loop_ok (md_heap md ! t) pc" if l: "(t, pc) \<in> set (md_loops md)" for t pc
  proof -
    obtain i where "i < length (md_loops md)" "md_loops md ! i = (t, pc)" using l by (auto simp: in_set_conv_nth)
    then show ?thesis using daemon_ok_at(3) [OF ok] by blast
  qed
  ultimately show ?thesis using ok by (auto simp: daemon_ok_def)
qed

text \<open>
  C16: In every reachable state, deleting a target whose loop has begun stops it: whatever happens
  afterwards it is not registered again and stays stopped, and its loop has ended or can end in
  at most two steps.
\<close>

theorem deleted_target_stops:
  assumes "(daemon_step env api rng)\<^sup>*\<^sup>* (NewMetricsDaemon store, e0) (md, e)"
    and "map_of (md_targets md) name = Some t" and "snd (md_loops md ! t) \<noteq> Scheduled"
    and "(daemon_step env api rng)\<^sup>*\<^sup>* (DeleteTarget name md, e) (md', e')"
  shows "t \<notin> ran (map_of (md_targets md')) \<and> IsStopped (md_heap md' ! t) \<and>
    (\<exists>n md''. n \<le> 2 \<and> (daemon_step env api rng ^^ n) (md', e') (md'', e') \<and> snd (md_loops md'' ! t) = Ended)"
proof -
  have ok: "daemon_ok md" using daemon_steps_ok [OF assms(1)] by simp
  have d: "detached t False (tg_ctx (md_heap md ! t)) md'" and ok': "daemon_ok md'"
    using detached_steps [OF assms(4)] Delete_detaches [OF ok assms(2,3)] ok by simp_all
  have t: "t < length (md_loops md')" "fst (md_loops md' ! t) = t"
    using d daemon_ok_loops [OF ok'] by (auto simp: detached_def)
  have stop: "\<not> tg_cancel (md_heap md' ! t)" using d by (simp add: detached_def)
  have done1: "\<exists>md''. daemon_step env api rng (m, e') (md'', e') \<and> snd (md_loops md'' ! t) = Ended"
    if "t < length (md_loops m)" "md_loops m ! t = (t, InSelect c)" "\<not> tg_cancel (md_heap m ! t)" for m c
    using that daemon_step.ctx_done [OF that(1,2), of env api rng e'] by (fastforce simp: ctx_done_def set_loop_def)
  have "\<exists>n md''. n \<le> 2 \<and> (daemon_step env api rng ^^ n) (md', e') (md'', e') \<and> snd (md_loops md'' ! t) = Ended"
  proof (cases "snd (md_loops md' ! t)")
    case Scheduled
    with d show ?thesis by (simp add: detached_def)
  next
    case (InSelect c)
    with t have "md_loops md' ! t = (t, InSelect c)" by (metis prod.collapse)
    from done1 [OF t(1) this stop] show ?thesis by (metis relpowp_1 one_le_numeral)
  next
    case Looping
    with t have "md_loops md' ! t = (t, Looping)" by (metis prod.collapse)
    note a = daemon_step.again [OF t(1) this, of env api rng e']
    let ?m = "set_loop t t (InSelect (tg_ctx (md_heap md' ! t))) (md_heap md' ! t) md'"
    from t stop obtain md'' where "daemon_step env api rng (?m, e') (md'', e')" "snd (md_loops md'' ! t) = Ended"
      using done1 [of ?m "tg_ctx (md_heap md' ! t)"] by (auto simp: set_loop_def)
    with a have "(daemon_step env api rng ^^ 2) (md', e') (md'', e')"
      by (metis Suc_1 relpowp_1 relpowp_Suc_I)
    with \<open>snd (md_loops md'' ! t) = Ended\<close> show ?thesis by blast
  next
    case Ended
    then show ?thesis by (metis relpowp_0_I zero_le)
  qed
  with d show ?thesis by (simp add: detached_def IsStopped_def)
qed

text \<open>
  Deleting a target before the goroutine of its loop has run does not stop it: the loop then
  begins all the same, and from there on the target, which nobody can reach any more, is scraped
  for as long as the worker runs.
\<close>

theorem unstarted_target_leaks:
  assumes "(daemon_step env api rng)\<^sup>*\<^sup>* (NewMetricsDaemon store, e0) (md, e)"
    and "map_of (md_targets md) name = Some t" and "snd (md_loops md ! t) = Scheduled" and "0 < tg_interval (md_heap md ! t)"
  shows "\<exists>md1. daemon_step env api rng (DeleteTarget name md, e) (md1, e) \<and>
    (\<forall>md' e'. (daemon_step env api rng)\<^sup>*\<^sup>* (md1, e) (md', e') \<longrightarrow>
      t \<notin> ran (map_of (md_targets md')) \<and> \<not> IsStopped (md_heap md' ! t) \<and> snd (md_loops md' ! t) \<in> {InSelect 1, Looping})"
proof -
  have ok: "daemon_ok md" using daemon_steps_ok [OF assms(1)] by simp
  have t: "t < length (md_heap md)" "tg_name (md_heap md ! t) = name" using ok assms(2) by (auto simp: daemon_ok_def)
  have l: "length (md_loops md) = length (md_heap md)" "md_loops md ! t = (t, Scheduled)"
    using daemon_ok_loops [OF ok] t assms(3) by (auto simp: prod_eq_iff)
  let ?d = "DeleteTarget name md"
  have d: "md_heap ?d ! t = Target_Stop (md_heap md ! t)" "md_loops ?d = md_loops md" "length (md_heap ?d) = length (md_heap md)"
    using assms(2) t by (simp_all add: DeleteTarget_def)
  have c0: "tg_ctx (md_heap md ! t) = 0" using daemon_ok_at(3) [OF ok _ l(2)] t l by (simp add: loop_ok_def)
  define tg where "tg = (createScraper env (Target_Stop (md_heap md ! t)))\<lparr>tg_ctx := 1, tg_cancel := True\<rparr>"
  have "Target_Start env (md_heap ?d ! t) = Ret tg"
    using assms(4) c0 by (simp add: d Target_Start_def NewTicker_def tg_def Target_Stop_def)
  then have step: "daemon_step env api rng (?d, e) (set_loop t t (InSelect 1) tg ?d, e)"
    using daemon_step.launch [of t ?d t env tg api rng e] t l d by (simp add: tg_def)
  let ?m = "set_loop t t (InSelect 1) tg ?d"
  have "map_of (md_targets md) n \<noteq> Some t" if "n \<noteq> name" for n
    using that ok t(2) unfolding daemon_ok_def by blast
  then have "t \<notin> ran (map_of (md_targets ?d))" using assms(2) by (auto simp: DeleteTarget_def ran_def)
  then have det: "detached t True 1 ?m" using t l d by (simp add: detached_def set_loop_def tg_def)
  have ok1: "daemon_ok ?m" using daemon_step_ok [OF step] ok by simp
  have "t \<notin> ran (map_of (md_targets md')) \<and> \<not> IsStopped (md_heap md' ! t) \<and> snd (md_loops md' ! t) \<in> {InSelect 1, Looping}"
    if "(daemon_step env api rng)\<^sup>*\<^sup>* (?m, e) (md', e')" for md' e'
  proof -
    from detached_steps [OF that] det ok1 have d': "detached t True 1 md'" and ok': "daemon_ok md'" by simp_all
    have "loop_ok (md_heap md' ! t) (snd (md_loops md' ! t))" using ok' d' by (simp add: daemon_ok_def detached_def)
    with d' show ?thesis by (auto simp: detached_def IsStopped_def loop_ok_def split: loop_pc.splits)
  qed
  with step show ?thesis by blast
qed

lemma Run_nil_scraper: "None \<in> set scrapers \<Longrightarrow> fst (Target_Run env allowList scrapers e) = Panic"
proof (induction env allowList scrapers e rule: Target_Run.induct)
  case (3 env allowList s scrapers e)
  then show ?case by (auto split: sum.splits prod.splits outcome.splits)
qed simp_all

text \<open>
  A target whose interval is not positive crashes the worker as soon as its loop begins, and a
  target one of whose URLs is not valid crashes it at its first turn, because a nil scraper is
  stored for that URL.
\<close>

theorem bad_target_crashes:
  assumes "daemon_ok md"
  shows "(interval \<le> 0 \<longrightarrow> daemon_crash env api rng (AddTarget name urls interval allowList md, e)) \<and>
    (0 < interval \<and> (\<exists>url \<in> set urls. http_parse env url \<noteq> None) \<longrightarrow>
      (\<exists>md'. daemon_step env api rng (AddTarget name urls interval allowList md, e) (md', e) \<and> daemon_crash env api rng (md', e)))"
proof (intro conjI impI)
  let ?m = "AddTarget name urls interval allowList md"
  let ?t = "length (md_heap (DeleteTarget name md))"
  let ?new = "NewTargetMetric name interval urls (md_store md) allowList"
  have "daemon_ok (DeleteTarget name md)" using assms by simp
  note l = daemon_ok_loops(1) [OF this]
  have at: "?t < length (md_loops ?m)" "md_loops ?m ! ?t = (?t, Scheduled)" "md_heap ?m ! ?t = ?new" "?t < length (md_heap ?m)"
    by (simp_all add: AddTarget_def Let_def startTarget_def l nth_append)
  show "daemon_crash env api rng (?m, e)" if "interval \<le> 0"
    using that at by (auto intro!: daemon_crash.start [OF at(1,2)] simp: Target_Start_def NewTicker_def NewTargetMetric_def)
  assume bad: "0 < interval \<and> (\<exists>url \<in> set urls. http_parse env url \<noteq> None)"
  let ?tg = "(createScraper env ?new)\<lparr>tg_ctx := 1, tg_cancel := True\<rparr>"
  have "Target_Start env (md_heap ?m ! ?t) = Ret ?tg"
    using bad by (simp add: at(3) Target_Start_def NewTicker_def NewTargetMetric_def)
  from daemon_step.launch [OF at(1,2) this, of api rng e]
  have step: "daemon_step env api rng (?m, e) (set_loop ?t ?t (InSelect 1) ?tg ?m, e)" by simp
  have "None \<in> set (tg_scrapers ?tg)"
    using bad by (fastforce simp: createScraper_def NewTargetMetric_def NewHTTPScraper_def split: option.splits)
  from Run_nil_scraper [OF this, of env allowList e] have "getdata env api rng now ?tg e = (Panic, snd (getdata env api rng now ?tg e))" for now
    by (auto simp: getdata_def createScraper_def NewTargetMetric_def split: prod.splits outcome.splits)
  then have "daemon_crash env api rng (set_loop ?t ?t (InSelect 1) ?tg ?m, e)"
    using at by (intro daemon_crash.run [where i = ?t and t = ?t and c = 1]) (simp_all add: set_loop_def)
  with step show "\<exists>md'. daemon_step env api rng (?m, e) (md', e) \<and> daemon_crash env api rng (md', e)" by blast
qed

section \<open>What the clients of the daemon rely on\<close>

text \<open>
  The interface \<open>MetricsDaemon\<close> as a contract: what is scraped under a name is what was added last
  under it, until it is deleted, and names do not disturb each other.
\<close>

type_synonym scrape_plan = "string list \<times> int \<times> SampleFilter"

locale metrics_daemon =
  fixes add :: "string \<Rightarrow> string list \<Rightarrow> int \<Rightarrow> SampleFilter \<Rightarrow> 'd \<Rightarrow> 'd"
    and del :: "string \<Rightarrow> 'd \<Rightarrow> 'd"
    and plan :: "'d \<Rightarrow> string \<Rightarrow> scrape_plan option"
    and invar :: "'d \<Rightarrow> bool"
  assumes plan_add: "invar d \<Longrightarrow> plan (add n urls i f d) = (plan d)(n \<mapsto> (urls, i, f))"
    and plan_del: "invar d \<Longrightarrow> plan (del n d) = (plan d)(n := None)"
    and invar_add: "invar d \<Longrightarrow> invar (add n urls i f d)"
    and invar_del: "invar d \<Longrightarrow> invar (del n d)"
begin

lemma plan_del_add: "invar d \<Longrightarrow> plan (del n (add n urls i f d)) = (plan d)(n := None)"
  by (simp add: plan_add plan_del invar_add)

lemma plan_add_twice: "invar d \<Longrightarrow> plan (add n urls' i' f' (add n urls i f d)) = plan (add n urls' i' f' d)"
  by (simp add: plan_add invar_add)

end

definition planned :: "metricsDaemon \<Rightarrow> string \<Rightarrow> scrape_plan option" where
  "planned md n =
     map_option (\<lambda>t. let tg = md_heap md ! t in (tg_urls tg, tg_interval tg, tg_allowList tg)) (map_of (md_targets md) n)"

lemma planned_Delete:
  assumes "daemon_ok md"
  shows "planned (DeleteTarget n md) = (planned md)(n := None)"
proof (cases "map_of (md_targets md) n")
  case None
  then show ?thesis by (simp add: DeleteTarget_def planned_def fun_eq_iff)
next
  case (Some t)
  have inj: "m = n" if "map_of (md_targets md) m = Some t" for m
    using that Some assms unfolding daemon_ok_def by blast
  have "planned (DeleteTarget n md) m = ((planned md)(n := None)) m" for m
  proof (cases "m = n")
    case True
    with Some show ?thesis by (simp add: DeleteTarget_def planned_def)
  next
    case False
    with inj have "map_of (md_targets md) m \<noteq> Some t" by blast
    with Some False show ?thesis
      by (cases "map_of (md_targets md) m") (simp_all add: DeleteTarget_def planned_def Let_def)
  qed
  then show ?thesis by (rule ext)
qed

interpretation daemon: metrics_daemon AddTarget DeleteTarget planned daemon_ok
proof unfold_locales
  fix d n urls i f
  assume ok: "daemon_ok d"
  then have ok1: "daemon_ok (DeleteTarget n d)" by simp
  have "planned (AddTarget n urls i f d) m = ((planned (DeleteTarget n d))(n \<mapsto> (urls, i, f))) m" for m
  proof (cases "m = n")
    case True
    then show ?thesis by (simp add: planned_def AddTarget_def Let_def startTarget_def NewTargetMetric_def)
  next
    case False
    have "t < length (md_heap (DeleteTarget n d))" if "map_of (md_targets (DeleteTarget n d)) m = Some t" for t
      using that ok1 by (simp add: daemon_ok_def)
    with False show ?thesis
      by (cases "map_of (md_targets (DeleteTarget n d)) m")
        (auto simp: planned_def AddTarget_def Let_def startTarget_def nth_append)
  qed
  then show "planned (AddTarget n urls i f d) = (planned d)(n \<mapsto> (urls, i, f))"
    using planned_Delete [OF ok] by (auto simp: fun_eq_iff)
qed (simp_all add: planned_Delete)

section \<open>Concrete instances\<close>

definition demo_scrape :: "(int, unit) scrape_env" where
  "demo_scrape = \<lparr>http_parse = \<lambda>url. if url = ''http://10.0.0.2:90metrics'' then Some (ExternalError ''invalid port'') else None,
     http_Do = \<lambda>_ e. (Inl (ExternalError ''connection refused''), e), gzip_NewReader = Inr, expfmt_Decode = \<lambda>_ _. []\<rparr>"

abbreviation demo_daemon_step :: "unit daemon_state \<Rightarrow> unit daemon_state \<Rightarrow> bool" where
  "demo_daemon_step \<equiv> daemon_step demo_scrape stuck_tsdb (\<lambda>m. m)"

definition demo_daemon :: "string list \<Rightarrow> metricsDaemon" where
  "demo_daemon urls = AddTarget ''web'' urls 60 PermissiveAllowList (NewMetricsDaemon True)"

lemma demo_daemon_at:
  "md_loops (demo_daemon urls) = [(0, Scheduled)]" "map_of (md_targets (demo_daemon urls)) ''web'' = Some 0"
  "md_heap (demo_daemon urls) = [NewTargetMetric ''web'' 60 urls True PermissiveAllowList]"
  by (simp_all add: demo_daemon_def AddTarget_def DeleteTarget_def NewMetricsDaemon_def startTarget_def Let_def)

lemma demo_daemon_reached: "demo_daemon_step (NewMetricsDaemon True, ()) (demo_daemon urls, ())"
  unfolding demo_daemon_def by (rule daemon_step.add)

theorem daemon_well_formed_witness:
  "\<exists>md. demo_daemon_step\<^sup>*\<^sup>* (NewMetricsDaemon True, ()) (md, ()) \<and> map_of (md_targets md) ''web'' = Some 0 \<and>
     tg_name (md_heap md ! 0) = ''web'' \<and> map fst (md_loops md) = [0]"
proof -
  have r: "demo_daemon_step\<^sup>*\<^sup>* (NewMetricsDaemon True, ()) (demo_daemon [], ())"
    by (rule r_into_rtranclp, rule demo_daemon_reached)
  from daemon_well_formed [OF r] have "map fst (md_loops (demo_daemon [])) = [0..<length (md_heap (demo_daemon []))]" by blast
  then have "map fst (md_loops (demo_daemon [])) = [0]" by (simp add: demo_daemon_at)
  with r show ?thesis by (intro exI [of _ "demo_daemon []"]) (simp add: demo_daemon_at NewTargetMetric_def)
qed

theorem deleted_target_stops_witness:
  "\<exists>md. demo_daemon_step\<^sup>*\<^sup>* (NewMetricsDaemon True, ()) (md, ()) \<and> map_of (md_targets md) ''web'' = Some 0 \<and>
     \<not> IsStopped (md_heap md ! 0) \<and> IsStopped (md_heap (DeleteTarget ''web'' md) ! 0)"
proof -
  let ?d = "demo_daemon []"
  let ?tg = "(NewTargetMetric ''web'' 60 [] True PermissiveAllowList)\<lparr>tg_ctx := 1, tg_cancel := True\<rparr>"
  let ?m = "set_loop 0 0 (InSelect 1) ?tg ?d"
  have "Target_Start demo_scrape (md_heap ?d ! 0) = Ret ?tg"
    by (simp add: demo_daemon_at Target_Start_def NewTicker_def createScraper_def NewTargetMetric_def)
  from daemon_step.launch [OF _ _ this, of 0] have launched: "demo_daemon_step (?d, ()) (?m, ())" by (simp add: demo_daemon_at)
  have r: "demo_daemon_step\<^sup>*\<^sup>* (NewMetricsDaemon True, ()) (?m, ())"
    by (rule rtranclp.rtrancl_into_rtrancl [where r = demo_daemon_step, OF _ launched], rule r_into_rtranclp, rule demo_daemon_reached)
  have m: "map_of (md_targets ?m) ''web'' = Some 0" "snd (md_loops ?m ! 0) \<noteq> Scheduled" "\<not> IsStopped (md_heap ?m ! 0)"
    by (simp_all add: set_loop_def demo_daemon_at IsStopped_def)
  from deleted_target_stops [OF r m(1,2) rtranclp.rtrancl_refl] r m show ?thesis by blast
qed

theorem unstarted_target_leaks_witness:
  "\<exists>md1. demo_daemon_step (DeleteTarget ''web'' (demo_daemon []), ()) (md1, ()) \<and> \<not> IsStopped (md_heap md1 ! 0)"
proof -
  have r: "demo_daemon_step\<^sup>*\<^sup>* (NewMetricsDaemon True, ()) (demo_daemon [], ())"
    by (rule r_into_rtranclp, rule demo_daemon_reached)
  from unstarted_target_leaks [OF r, of "''web''" 0] show ?thesis
    by (auto simp: demo_daemon_at NewTargetMetric_def)
qed

text \<open>A metrics path without a leading slash gives a URL with an invalid port.\<close>

theorem bad_target_crashes_witness:
  "daemon_crash demo_scrape stuck_tsdb (\<lambda>m. m) (AddTarget ''system'' [] (- 5) PermissiveAllowList (NewMetricsDaemon True), ()) \<and>
   (\<exists>md'. demo_daemon_step (demo_daemon [''http://10.0.0.2:90metrics''], ()) (md', ()) \<and> daemon_crash demo_scrape stuck_tsdb (\<lambda>m. m) (md', ()))"
proof -
  have ok: "daemon_ok (NewMetricsDaemon True)" by simp
  have "\<exists>url \<in> set [''http://10.0.0.2:90metrics'']. http_parse demo_scrape url \<noteq> None" by (simp add: demo_scrape_def)
  with bad_target_crashes [OF ok, where env = demo_scrape and api = stuck_tsdb and rng = "\<lambda>m. m" and interval = 60
      and urls = "[''http://10.0.0.2:90metrics'']" and e = "()" and name = "''web''" and allowList = PermissiveAllowList]
  have "\<exists>md'. demo_daemon_step (demo_daemon [''http://10.0.0.2:90metrics''], ()) (md', ()) \<and> daemon_crash demo_scrape stuck_tsdb (\<lambda>m. m) (md', ())"
    unfolding demo_daemon_def by simp
  with bad_target_crashes [OF ok, where interval = "- 5"] show ?thesis by simp
qed

end
