(* ===== verification/Metrics_Sources.thy ===== *)
theory Metrics_Sources
  imports Metrics_Daemon
begin

text \<open>
  The two components that tell the daemon what to scrape: \<open>internal/metrics/system.go\<close>, which also
  switches the node exporter on and off, and \<open>internal/metrics/workload.go\<close>. Both know the daemon as
  the interface \<open>MetricsDaemon\<close>: its methods are arguments of their operations, and what the
  operations achieve is proved from the contract of that interface.
\<close>

type_synonym 'd add_target = "string \<Rightarrow> string list \<Rightarrow> int \<Rightarrow> SampleFilter \<Rightarrow> 'd \<Rightarrow> 'd"
type_synonym 'd delete_target = "string \<Rightarrow> 'd \<Rightarrow> 'd"

section \<open>System metrics\<close>

definition systemTargetName :: string where "systemTargetName = ''system''"
definition DefaultSystemMetricsScrapingInterval :: int where "DefaultSystemMetricsScrapingInterval = 60"
definition NodeExporterMetricsEndpoint :: string where "NodeExporterMetricsEndpoint = ''http://localhost:9100/metrics''"

definition defaultSystemMetricsConfiguration :: SystemMetricsConfiguration where
  "defaultSystemMetricsConfiguration =
     \<lparr>sm_AllowList = None, sm_Disabled = False, sm_Interval = DefaultSystemMetricsScrapingInterval\<rparr>"

record SystemMetrics =
  latestSystemConfig :: "SystemMetricsConfiguration option"
  nodeExporter :: systemd

definition NewSystemMetricsWithNodeExporter :: "systemd \<Rightarrow> SystemMetrics" where
  "NewSystemMetricsWithNodeExporter ne = \<lparr>latestSystemConfig = None, nodeExporter = ne\<rparr>"

definition NewSystemMetrics :: "'e dbus_api \<Rightarrow> 'e world \<Rightarrow> (error + SystemMetrics, 'e world) call" where
  "NewSystemMetrics api w =
     (case NewSystemdWithSuffix api (\<lambda>m. m) ''node_exporter'' [] [] ServiceSuffix [] w of
        (Ret (Inl err), w') \<Rightarrow> (Ret (Inl err), w')
      | (Ret (Inr ne), w') \<Rightarrow> (Ret (Inr (NewSystemMetricsWithNodeExporter ne)), w')
      | (Panic, w') \<Rightarrow> (Panic, w'))"

text \<open>A nil configuration is dereferenced.\<close>

definition expectedConfiguration :: "DeviceConfiguration option \<Rightarrow> SystemMetricsConfiguration outcome" where
  "expectedConfiguration config =
     (case config of
        None \<Rightarrow> Panic
      | Some c \<Rightarrow>
          Ret (case Option.bind (dc_Metrics c) mc_System of
                 None \<Rightarrow> defaultSystemMetricsConfiguration
               | Some s \<Rightarrow> if sm_Interval s = 0 then s\<lparr>sm_Interval := DefaultSystemMetricsScrapingInterval\<rparr> else s))"

definition getSampleFilter :: "MetricsAllowList option \<Rightarrow> SampleFilter" where
  "getSampleFilter allowList =
     (case allowList of None \<Rightarrow> DefaultSystemAllowList | Some l \<Rightarrow> NewRestrictiveAllowList (Some l))"

definition ensureNodeExporterDisabled :: "'e dbus_api \<Rightarrow> SystemMetrics \<Rightarrow> 'e world \<Rightarrow> (error option, 'e world) call" where
  "ensureNodeExporterDisabled api sm w =
     check (systemd_Stop api (nodeExporter sm) w) (\<lambda>w. check (systemd_Disable api (nodeExporter sm) w) (\<lambda>w. (Ret None, w)))"

definition ensureNodeExporterEnabled :: "'e dbus_api \<Rightarrow> SystemMetrics \<Rightarrow> 'e world \<Rightarrow> (error option, 'e world) call" where
  "ensureNodeExporterEnabled api sm w =
     check (systemd_Enable api (nodeExporter sm) w) (\<lambda>w. check (systemd_Start api (nodeExporter sm) w) (\<lambda>w. (Ret None, w)))"

definition ensureNodeExporterState ::
  "'e dbus_api \<Rightarrow> SystemMetricsConfiguration \<Rightarrow> SystemMetrics \<Rightarrow> 'e world \<Rightarrow> (error option, 'e world) call" where
  "ensureNodeExporterState api config sm w =
     (if sm_Disabled config then ensureNodeExporterDisabled api sm w else ensureNodeExporterEnabled api sm w)"

definition SystemMetrics_Update ::
  "'d add_target \<Rightarrow> 'd delete_target \<Rightarrow> 'e dbus_api \<Rightarrow> DeviceConfigurationMessage \<Rightarrow> SystemMetrics \<Rightarrow> 'd \<Rightarrow> 'e world \<Rightarrow>
   (error option \<times> SystemMetrics \<times> 'd, 'e world) call" where
  "SystemMetrics_Update add del api config sm d w =
     (case expectedConfiguration (dcm_Configuration config) of
        Panic \<Rightarrow> (Panic, w)
      | Ret new \<Rightarrow>
          if latestSystemConfig sm = Some new then (Ret (None, sm, d), w)
          else
            (case ensureNodeExporterState api new sm w of
               (Panic, w') \<Rightarrow> (Panic, w')
             | (Ret (Some err), w') \<Rightarrow> (Ret (Some err, sm, d), w')
             | (Ret None, w') \<Rightarrow>
                 (Ret (None, sm\<lparr>latestSystemConfig := Some new\<rparr>,
                    if sm_Disabled new then del systemTargetName d
                    else add systemTargetName [NodeExporterMetricsEndpoint] (seconds (sm_Interval new))
                           (getSampleFilter (sm_AllowList new)) d), w')))"

definition SystemMetrics_Init where
  "SystemMetrics_Init add del api config sm d w = SystemMetrics_Update add del api config sm d w"

definition SystemMetrics_Deregister :: "'d delete_target \<Rightarrow> 'd \<Rightarrow> error option \<times> 'd" where
  "SystemMetrics_Deregister del d = (None, del ''system'' d)"

section \<open>Workload metrics\<close>

definition workload_defaultInterval :: int where "workload_defaultInterval = 60"

record WorkloadMetrics =
  wmx_latestConfig :: "Workload_model list"
  wmx_workloadConfig :: "(string, Workload_model) gomap"

definition NewWorkloadMetrics :: WorkloadMetrics where
  "NewWorkloadMetrics = \<lparr>wmx_latestConfig = [], wmx_workloadConfig = []\<rparr>"

definition getWorkload :: "WorkloadMetrics \<Rightarrow> string \<Rightarrow> Workload_model option" where
  "getWorkload wrkM workloadName = map_of (wmx_workloadConfig wrkM) workloadName"

definition WorkloadMetrics_Update :: "DeviceConfigurationMessage \<Rightarrow> WorkloadMetrics \<Rightarrow> error option \<times> WorkloadMetrics" where
  "WorkloadMetrics_Update config wrkM =
     (None, wrkM\<lparr>wmx_latestConfig := dcm_Workloads config,
       wmx_workloadConfig := map_fill [] (map (\<lambda>w. (wl_Name w, w)) (dcm_Workloads config))\<rparr>)"

definition WorkloadMetrics_Init where
  "WorkloadMetrics_Init config wrkM = WorkloadMetrics_Update config wrkM"

definition getPathOrDefault :: "string \<Rightarrow> string" where
  "getPathOrDefault path = (if path = [] then ''/'' else path)"

definition getWorkloadUrls :: "PodReport \<Rightarrow> Metrics \<Rightarrow> string list" where
  "getWorkloadUrls report metrics =
     List.map_filter (\<lambda>container.
       case map_of (met_Containers metrics) (cr_Name container) of
         Some customConfig \<Rightarrow>
           if cm_Disabled customConfig then None
           else Some (Sprintf ''http://%s:%d%s'' [cr_IPAddress container, Itoa (cm_Port customConfig), getPathOrDefault (cm_Path customConfig)])
       | None \<Rightarrow>
           Some (Sprintf ''http://%s:%d%s'' [cr_IPAddress container, Itoa (met_Port metrics), getPathOrDefault (met_Path metrics)]))
       (pr_Containers report)"

definition workload_filter :: "Metrics \<Rightarrow> SampleFilter" where
  "workload_filter metrics =
     (case met_AllowList metrics of None \<Rightarrow> PermissiveAllowList | Some l \<Rightarrow> NewRestrictiveAllowList (Some l))"

definition workload_interval :: "Metrics \<Rightarrow> int" where
  "workload_interval metrics =
     seconds (if met_Interval metrics > 0 then met_Interval metrics else workload_defaultInterval)"

definition WorkloadMetrics_WorkloadRemoved :: "'d delete_target \<Rightarrow> string \<Rightarrow> 'd \<Rightarrow> 'd" where
  "WorkloadMetrics_WorkloadRemoved del workloadName d = del workloadName d"

text \<open>The loop over the pods, with the reports of all of them in \<open>report\<close>.\<close>

fun start_targets ::
  "'d add_target \<Rightarrow> WorkloadMetrics \<Rightarrow> string \<Rightarrow> PodReport list \<Rightarrow> PodReport list \<Rightarrow> 'd \<Rightarrow> 'd" where
  "start_targets add wrkM workloadName report [] d = d"
| "start_targets add wrkM workloadName report (workload # workloads) d =
     start_targets add wrkM workloadName report workloads
       (case Option.bind (getWorkload wrkM workloadName) wl_Metrics of
          None \<Rightarrow> d
        | Some metrics \<Rightarrow>
            add (pr_Name workload) (concat (map (\<lambda>r. getWorkloadUrls r metrics) report))
              (workload_interval metrics) (workload_filter metrics) d)"

definition WorkloadMetrics_WorkloadStarted :: "'d add_target \<Rightarrow> WorkloadMetrics \<Rightarrow> string \<Rightarrow> PodReport list \<Rightarrow> 'd \<Rightarrow> 'd" where
  "WorkloadMetrics_WorkloadStarted add wrkM workloadName report d = start_targets add wrkM workloadName report report d"

section \<open>What they achieve on any daemon\<close>

definition system_plan :: "SystemMetricsConfiguration \<Rightarrow> scrape_plan option" where
  "system_plan c =
     (if sm_Disabled c then None
      else Some ([NodeExporterMetricsEndpoint], seconds (sm_Interval c), getSampleFilter (sm_AllowList c)))"

definition workload_plan :: "Metrics \<Rightarrow> PodReport list \<Rightarrow> scrape_plan" where
  "workload_plan metrics report =
     (concat (map (\<lambda>r. getWorkloadUrls r metrics) report), workload_interval metrics, workload_filter metrics)"

definition system_settled :: "SystemMetrics \<Rightarrow> scrape_plan option \<Rightarrow> bool" where
  "system_settled sm p \<longleftrightarrow> (\<forall>c. latestSystemConfig sm = Some c \<longrightarrow> p = system_plan c)"

context metrics_daemon
begin

lemma system_update:
  assumes "SystemMetrics_Update add del api config sm d w = (Ret (err, sm', d'), w')"
    and "invar d" and "system_settled sm (plan d systemTargetName)"
  shows "invar d' \<and> system_settled sm' (plan d' systemTargetName) \<and>
    (\<forall>n. n \<noteq> systemTargetName \<longrightarrow> plan d' n = plan d n) \<and>
    (err = None \<longrightarrow> (\<exists>new. expectedConfiguration (dcm_Configuration config) = Ret new \<and>
      latestSystemConfig sm' = Some new \<and> plan d' systemTargetName = system_plan new)) \<and>
    (err \<noteq> None \<longrightarrow> sm' = sm \<and> d' = d)"
proof -
  obtain new where new: "expectedConfiguration (dcm_Configuration config) = Ret new"
    using assms(1) by (auto simp: SystemMetrics_Update_def split: outcome.splits)
  show ?thesis
  proof (cases "latestSystemConfig sm = Some new")
    case True
    with assms new show ?thesis by (auto simp: SystemMetrics_Update_def system_settled_def)
  next
    case False
    with assms(1) new have "(err \<noteq> None \<and> sm' = sm \<and> d' = d) \<or> (err = None \<and> sm' = sm\<lparr>latestSystemConfig := Some new\<rparr> \<and>
        d' = (if sm_Disabled new then del systemTargetName d
              else add systemTargetName [NodeExporterMetricsEndpoint] (seconds (sm_Interval new)) (getSampleFilter (sm_AllowList new)) d))"
      by (auto simp: SystemMetrics_Update_def split: outcome.splits prod.splits option.splits)
    with assms new show ?thesis
      by (auto simp: system_settled_def system_plan_def plan_add plan_del invar_add invar_del)
  qed
qed

lemma start_targets_plan:
  assumes "invar d"
  shows "invar (start_targets add wrkM name report ps d) \<and>
    plan (start_targets add wrkM name report ps d) n =
      (case Option.bind (getWorkload wrkM name) wl_Metrics of
         None \<Rightarrow> plan d n
       | Some metrics \<Rightarrow> if n \<in> pr_Name ` set ps then Some (workload_plan metrics report) else plan d n)"
  using assms
proof (induction ps arbitrary: d)
  case (Cons p ps)
  show ?case
  proof (cases "Option.bind (getWorkload wrkM name) wl_Metrics")
    case None
    with Cons.IH [OF Cons.prems] show ?thesis by simp
  next
    case (Some metrics)
    let ?d = "add (pr_Name p) (concat (map (\<lambda>r. getWorkloadUrls r metrics) report)) (workload_interval metrics) (workload_filter metrics) d"
    have "invar ?d" by (rule invar_add [OF Cons.prems])
    from Cons.IH [OF this] Some Cons.prems show ?thesis by (simp add: plan_add workload_plan_def)
  qed
qed (simp split: option.splits)

lemma workload_started:
  assumes "invar d"
  shows "plan (WorkloadMetrics_WorkloadStarted add wrkM name report d) n =
      (case Option.bind (getWorkload wrkM name) wl_Metrics of
         None \<Rightarrow> plan d n
       | Some metrics \<Rightarrow> if n \<in> pr_Name ` set report then Some (workload_plan metrics report) else plan d n)"
    and "invar (WorkloadMetrics_WorkloadStarted add wrkM name report d)"
  using start_targets_plan [OF assms] by (simp_all add: WorkloadMetrics_WorkloadStarted_def)

end

lemma workload_interval_positive:
  assumes "met_Interval metrics < 2 ^ 31"
  shows "0 < workload_interval metrics"
  using assms by (simp add: workload_interval_def workload_defaultInterval_def seconds_exact)

section \<open>Properties\<close>


text \<open>
  Starting a workload with metrics gives each of its pods a target with the configured URLs,
  filter and a positive interval, and leaves the other targets alone; removing a workload whose
  pods all have its name leaves it no target. But the targets share one name space: removing a
  workload called \<open>system\<close> stops the system metrics, and the same configuration sent again does
  not bring them back.
\<close>

theorem workload_targets:
  fixes report :: "PodReport list"
  assumes "daemon_ok d" and "getWorkload wrkM name = Some wl" and "wl_Metrics wl = Some metrics" and "met_Interval metrics < 2 ^ 31"
  defines "d' \<equiv> WorkloadMetrics_WorkloadStarted AddTarget wrkM name report d"
  shows "(\<forall>n. planned d' n = (if n \<in> pr_Name ` set report then Some (workload_plan metrics report) else planned d n)) \<and>
    0 < fst (snd (workload_plan metrics report)) \<and>
    planned (WorkloadMetrics_WorkloadRemoved DeleteTarget name d') = (\<lambda>n. if n = name then None else planned d' n) \<and>
    (latestSystemConfig sm = Some new \<and> expectedConfiguration (dcm_Configuration config) = Ret new \<longrightarrow>
      (let d'' = WorkloadMetrics_WorkloadRemoved DeleteTarget systemTargetName d'
       in planned d'' systemTargetName = None \<and> SystemMetrics_Update AddTarget DeleteTarget api config sm d'' w = (Ret (None, sm, d''), w)))"
proof -
  note st = daemon.workload_started [OF assms(1), of wrkM name report]
  have "planned d' n = (if n \<in> pr_Name ` set report then Some (workload_plan metrics report) else planned d n)" for n
    using st(1) [of n] assms(2,3) by (simp add: d'_def)
  moreover have "0 < fst (snd (workload_plan metrics report))"
    using workload_interval_positive [OF assms(4)] by (simp add: workload_plan_def)
  moreover have del: "planned (WorkloadMetrics_WorkloadRemoved DeleteTarget m d') = (\<lambda>n. if n = m then None else planned d' n)" for m
    using daemon.plan_del [OF st(2)] by (auto simp: d'_def WorkloadMetrics_WorkloadRemoved_def fun_eq_iff)
  ultimately show ?thesis by (simp add: Let_def SystemMetrics_Update_def)
qed

section \<open>Concrete instances\<close>

definition demo_dbus :: "unit dbus_api" where
  "demo_dbus = \<lparr>dbus_Connect = \<lambda>e. (None, e), dbus_Reload = \<lambda>e. (None, e), dbus_StartUnit = \<lambda>_ e. (Inr ''done'', e),
     dbus_StopUnit = \<lambda>_ e. (Inr ''done'', e), dbus_EnableUnitFiles = \<lambda>_ e. (None, e), dbus_DisableUnitFiles = \<lambda>_ e. (None, e)\<rparr>"

definition demo_exporter :: systemd where
  "demo_exporter = \<lparr>svc_Name = ''node_exporter'', svc_RestartSec = 15, svc_Units = [], svc_UnitsContent = [], svc_servicePrefix = [],
     svc_dbusConnection = True, svc_suffix = ServiceSuffix, svc_podSuffix = []\<rparr>"


definition demo_metrics :: Metrics where
  "demo_metrics = \<lparr>met_AllowList = None, met_Containers = [], met_Interval = 5, met_Path = [], met_Port = 80\<rparr>"

definition demo_metrics_workload :: Workload_model where
  "demo_metrics_workload = \<lparr>wl_Configmaps = [], wl_Data = None, wl_ImageRegistries = None, wl_Labels = None, wl_LogCollection = [],
     wl_Metrics = Some demo_metrics, wl_Name = ''web'', wl_Namespace = [], wl_Specification = []\<rparr>"

theorem workload_targets_witness:
  "let wrkM = \<lparr>wmx_latestConfig = [], wmx_workloadConfig = [(''web'', demo_metrics_workload)]\<rparr>;
       report = [\<lparr>pr_Id = ''1'', pr_Name = ''web'', pr_Containers = [\<lparr>cr_IPAddress = ''10.0.0.2'', cr_Id = ''c'', cr_Name = ''srv''\<rparr>]\<rparr>]
   in planned (WorkloadMetrics_WorkloadStarted AddTarget wrkM ''web'' report (NewMetricsDaemon True)) ''web'' =
        Some ([''http://10.0.0.2:80/''], 5000000000, PermissiveAllowList)"
proof -
  let ?wrkM = "\<lparr>wmx_latestConfig = [], wmx_workloadConfig = [(''web'', demo_metrics_workload)]\<rparr>"
  let ?report = "[\<lparr>pr_Id = ''1'', pr_Name = ''web'', pr_Containers = [\<lparr>cr_IPAddress = ''10.0.0.2'', cr_Id = ''c'', cr_Name = ''srv''\<rparr>]\<rparr>]"
  have plan: "workload_plan demo_metrics ?report = ([''http://10.0.0.2:80/''], 5000000000, PermissiveAllowList)"
  proof -
    have "concat (map (\<lambda>r. getWorkloadUrls r demo_metrics) ?report) = [''http://10.0.0.2:80/'']"
      by (simp add: getWorkloadUrls_def map_filter_simps demo_metrics_def getPathOrDefault_def Itoa_def
          digits.simps [of 80] digits.simps [of 8] char_of_def bit_0)
    then show ?thesis
      by (simp add: workload_plan_def workload_interval_def workload_filter_def demo_metrics_def seconds_exact)
  qed
  have "planned (WorkloadMetrics_WorkloadStarted AddTarget ?wrkM ''web'' ?report (NewMetricsDaemon True)) ''web'' =
      Some (workload_plan demo_metrics ?report)"
  proof -
    have "getWorkload ?wrkM ''web'' = Some demo_metrics_workload" by (simp add: getWorkload_def)
    moreover have "wl_Metrics demo_metrics_workload = Some demo_metrics" by (simp add: demo_metrics_workload_def)
    moreover have "met_Interval demo_metrics < 2 ^ 31" by (simp add: demo_metrics_def)
    ultimately show ?thesis
      by (rule spec [OF conjunct1 [OF workload_targets [OF daemon_ok_New]], of _ _ _ _ _ _ "''web''", THEN trans]) simp
  qed
  then show ?thesis by (simp add: plan Let_def)
qed

end
