(* ===== verification/Log_Targets.thy ===== *)
theory Log_Targets
  imports Fifo_Log Workload_Manager Go_Time
begin

text \<open>
  \<open>internal/logs/workload.go\<close> and \<open>workload_writer.go\<close>: which workload's log goes to which transport.
  A transport is its connection and its buffer; writers and transports share buffers by pointer,
  so the transports live in a heap and both refer to them by address. A running log stream of
  podman is a number; its flag says whether its context is still alive.
\<close>

definition SyslogTransport :: string where
  "SyslogTransport = ''syslog''"

record transportLog =
  tl_transport :: syslogTransport
  tl_log :: FIFOLog
  tl_cancel :: bool \<comment> \<open>\<open>cancel\<close> is not nil\<close>
  tl_running :: bool \<comment> \<open>the goroutine that empties the buffer\<close>

definition transportLog_Start :: "transportLog \<Rightarrow> transportLog" where
  "transportLog_Start t = t\<lparr>tl_cancel := True, tl_running := True\<rparr>"

definition transportLog_Stop :: "transportLog \<Rightarrow> transportLog" where
  "transportLog_Stop t = (if tl_cancel t then t\<lparr>tl_running := False\<rparr> else t)"

record WorkloadWriter =
  lw_workloadName :: string
  lw_cancel :: "nat option" \<comment> \<open>the stream whose context it cancels\<close>
  lw_target :: "nat option" \<comment> \<open>the address of the buffer\<close>
  lw_targetName :: string

definition NewWorkloadWriter :: "string \<Rightarrow> WorkloadWriter" where
  "NewWorkloadWriter workload = \<lparr>lw_workloadName = workload, lw_cancel = None, lw_target = None, lw_targetName = []\<rparr>"

definition SetTarget :: "string \<Rightarrow> nat \<Rightarrow> WorkloadWriter \<Rightarrow> WorkloadWriter" where
  "SetTarget name target w = w\<lparr>lw_target := Some target, lw_targetName := name\<rparr>"

record WorkloadsLogsTarget =
  lt_deviceID :: string
  lt_transports :: "(string, nat) gomap"
  lt_wwriter :: "(string, WorkloadWriter) gomap"
  lt_workloadsConfig :: "(string, string) gomap"
  lt_heap :: "transportLog list"
  lt_streams :: "bool list"

definition NewWorkloadsLogsTarget :: WorkloadsLogsTarget where
  "NewWorkloadsLogsTarget = \<lparr>lt_deviceID = [], lt_transports = [], lt_wwriter = [], lt_workloadsConfig = [], lt_heap = [], lt_streams = []\<rparr>"

text \<open>
  What the target needs from outside: dialling (\<open>net.Dial\<close>, protocol and address), the order of
  \<open>range\<close>, and of the workload manager \<open>Logs\<close> (an error, or a new stream) and \<open>ListWorkloads\<close>.
\<close>

record 'w log_env =
  le_dial :: "string \<Rightarrow> string \<Rightarrow> error option"
  le_collections :: "(string, LogsCollectionInformation) gomap \<Rightarrow> (string \<times> LogsCollectionInformation) list"
  le_transports :: "(string, nat) gomap \<Rightarrow> (string \<times> nat) list"
  le_writers :: "(string, WorkloadWriter) gomap \<Rightarrow> (string \<times> WorkloadWriter) list"
  le_Logs :: "string \<Rightarrow> 'w \<Rightarrow> error option \<times> 'w"
  le_List :: "'w \<Rightarrow> (error + WorkloadInfo list, 'w) call"

definition GetCurrentTransports :: "'w log_env \<Rightarrow> WorkloadsLogsTarget \<Rightarrow> string list" where
  "GetCurrentTransports env t = map fst (le_transports env (lt_transports t))"

definition GetCurrentWorkloads :: "'w log_env \<Rightarrow> WorkloadsLogsTarget \<Rightarrow> WorkloadWriter list" where
  "GetCurrentWorkloads env t = map snd (le_writers env (lt_wwriter t))"

definition Writer_Stop :: "WorkloadWriter \<Rightarrow> WorkloadsLogsTarget \<Rightarrow> WorkloadsLogsTarget" where
  "Writer_Stop w t = (case lw_cancel w of None \<Rightarrow> t | Some i \<Rightarrow> t\<lparr>lt_streams := (lt_streams t)[i := False]\<rparr>)"

text \<open>The bodies of the two deletions: the writer is stopped and its entry removed.\<close>

definition drop_writer :: "string \<Rightarrow> WorkloadWriter \<Rightarrow> WorkloadsLogsTarget \<Rightarrow> WorkloadsLogsTarget" where
  "drop_writer key w t = (Writer_Stop w t)\<lparr>lt_wwriter := map_del (lt_wwriter t) key\<rparr>"

definition deleteTargetTransport :: "'w log_env \<Rightarrow> string \<Rightarrow> WorkloadsLogsTarget \<Rightarrow> WorkloadsLogsTarget" where
  "deleteTargetTransport env name t =
     fold (\<lambda>(key, w) t. if lw_targetName w \<noteq> name then t else drop_writer key w t)
       (le_writers env (lt_wwriter t)) (t\<lparr>lt_transports := map_del (lt_transports t) name\<rparr>)"

definition deleteWorkload :: "string \<Rightarrow> WorkloadsLogsTarget \<Rightarrow> WorkloadsLogsTarget" where
  "deleteWorkload name t = (case map_of (lt_wwriter t) name of None \<Rightarrow> t | Some w \<Rightarrow> drop_writer name w t)"

section \<open>Configuration\<close>

text \<open>\<open>int(val.BufferSize * 1024)\<close>, a product of type \<open>int32\<close>.\<close>

definition buffer_limit :: "int \<Rightarrow> int" where
  "buffer_limit bufferSize = int32 (bufferSize * 1024)"

text \<open>
  The loop over the configured collections; it grows the heap and builds the new map. A syslog
  collection without \<open>SyslogConfig\<close> is dereferenced.
\<close>

fun make_transports ::
  "'w log_env \<Rightarrow> string \<Rightarrow> (string \<times> LogsCollectionInformation) list \<Rightarrow> (string, nat) gomap \<Rightarrow> transportLog list \<Rightarrow>
   ((string, nat) gomap \<times> transportLog list) outcome" where
  "make_transports env deviceID [] transports heap = Ret (transports, heap)"
| "make_transports env deviceID ((key, val) # rest) transports heap =
     (if lc_Kind val = SyslogTransport then
        (case lc_SyslogConfig val of
           None \<Rightarrow> Panic
         | Some c \<Rightarrow>
             (case NewSyslogServer (le_dial env) (sc_Address c) (sc_Protocol c) deviceID of
                Inl _ \<Rightarrow> make_transports env deviceID rest transports heap
              | Inr transport \<Rightarrow>
                  (let tlog = transportLog_Start
                         \<lparr>tl_transport = transport, tl_log = NewFIFOLog (buffer_limit (lc_BufferSize val)), tl_cancel = False, tl_running = False\<rparr>
                   in make_transports env deviceID rest (map_put transports key (length heap)) (heap @ [tlog]))))
      else make_transports env deviceID rest transports heap)"

definition log_config :: "Workload_model list \<Rightarrow> (string, string) gomap" where
  "log_config ws = map_fill [] (map (\<lambda>w. (wl_Name w, wl_LogCollection w)) (filter (\<lambda>w. wl_LogCollection w \<noteq> []) ws))"

definition LogsTarget_Update ::
  "'w log_env \<Rightarrow> DeviceConfigurationMessage \<Rightarrow> WorkloadsLogsTarget \<Rightarrow> (error option \<times> WorkloadsLogsTarget) outcome" where
  "LogsTarget_Update env config t =
     (case dcm_Configuration config of
        None \<Rightarrow> Panic
      | Some c \<Rightarrow>
          (case make_transports env (lt_deviceID t) (le_collections env (dc_LogCollection c)) [] (lt_heap t) of
             Panic \<Rightarrow> Panic
           | Ret (transports, heap) \<Rightarrow>
               (let t1 = fold (\<lambda>key t. if map_of transports key = None then deleteTargetTransport env key t else t)
                           (GetCurrentTransports env t) (t\<lparr>lt_heap := heap\<rparr>)
                in Ret (None, t1\<lparr>lt_transports := transports, lt_workloadsConfig := log_config (dcm_Workloads config)\<rparr>))))"

section \<open>Workloads\<close>

definition LogsTarget_WorkloadRemoved :: "string \<Rightarrow> WorkloadsLogsTarget \<Rightarrow> WorkloadsLogsTarget" where
  "LogsTarget_WorkloadRemoved workloadName t = deleteWorkload workloadName t"

text \<open>\<open>writer.Start()\<close> runs after the writer was stored; the map holds a pointer to it.\<close>

definition Writer_Start ::
  "'w log_env \<Rightarrow> string \<Rightarrow> WorkloadWriter \<Rightarrow> WorkloadsLogsTarget \<Rightarrow> 'w \<Rightarrow> (error option \<times> WorkloadsLogsTarget) \<times> 'w" where
  "Writer_Start env key writer t w =
     (case le_Logs env (lw_workloadName writer) w of
        (Some err, w') \<Rightarrow> ((Some err, t), w')
      | (None, w') \<Rightarrow>
          ((None, t\<lparr>lt_streams := lt_streams t @ [True],
                    lt_wwriter := map_put (lt_wwriter t) key (writer\<lparr>lw_cancel := Some (length (lt_streams t))\<rparr>)\<rparr>), w'))"

definition LogsTarget_WorkloadStarted ::
  "'w log_env \<Rightarrow> string \<Rightarrow> WorkloadsLogsTarget \<Rightarrow> 'w \<Rightarrow> WorkloadsLogsTarget \<times> 'w" where
  "LogsTarget_WorkloadStarted env workloadName t w =
     (let t1 = deleteWorkload workloadName t in
      case map_of (lt_workloadsConfig t1) workloadName of
        None \<Rightarrow> (t1, w)
      | Some targetTransport \<Rightarrow>
          (case map_of (lt_transports t1) targetTransport of
             None \<Rightarrow> (t1, w)
           | Some transport \<Rightarrow>
               (let writer = SetTarget targetTransport transport (NewWorkloadWriter workloadName);
                    t2 = t1\<lparr>lt_wwriter := map_put (lt_wwriter t1) workloadName writer\<rparr>
                in case Writer_Start env workloadName writer t2 w of ((_, t3), w') \<Rightarrow> (t3, w'))))"

definition LogsTarget_Init ::
  "'w log_env \<Rightarrow> DeviceConfigurationMessage \<Rightarrow> WorkloadsLogsTarget \<Rightarrow> 'w \<Rightarrow> (error option \<times> WorkloadsLogsTarget, 'w) call" where
  "LogsTarget_Init env config t w =
     (case LogsTarget_Update env config (t\<lparr>lt_deviceID := dcm_DeviceID config\<rparr>) of
        Panic \<Rightarrow> (Panic, w)
      | Ret (Some err, t1) \<Rightarrow> (Ret (Some err, t1), w)
      | Ret (None, t1) \<Rightarrow>
          (case le_List env w of
             (Panic, w1) \<Rightarrow> (Panic, w1)
           | (Ret (Inl err), w1) \<Rightarrow> (Ret (Some err, t1), w1)
           | (Ret (Inr workloads), w1) \<Rightarrow>
               (case fold (\<lambda>wrk (t, w). LogsTarget_WorkloadStarted env (wi_Name wrk) t w) workloads (t1, w1) of
                  (t2, w2) \<Rightarrow> (Ret (None, t2), w2))))"

text \<open>What a stream writes goes to the buffer of its writer, whatever transport has that buffer.\<close>

definition stream_write :: "int \<Rightarrow> string \<Rightarrow> WorkloadWriter \<Rightarrow> WorkloadsLogsTarget \<Rightarrow> (error + int) \<times> WorkloadsLogsTarget" where
  "stream_write now data writer t =
     (case WorkloadWriter_Write now (lw_workloadName writer) data (map_option (\<lambda>a. tl_log (lt_heap t ! a)) (lw_target writer)) of
        (r, target) \<Rightarrow>
          (r, case (lw_target writer, target) of
                (Some a, Some f) \<Rightarrow> t\<lparr>lt_heap := (lt_heap t)[a := (lt_heap t ! a)\<lparr>tl_log := f\<rparr>]\<rparr>
              | _ \<Rightarrow> t))"

section \<open>The invariant\<close>

text \<open>
  Every writer is stored under its workload and has a buffer; the live streams are exactly those of
  the stored writers, one each. Apart from that, every writer belongs to a configured transport.
\<close>

definition logs_ok :: "WorkloadsLogsTarget \<Rightarrow> bool" where
  "logs_ok t \<longleftrightarrow> gomap_ok (lt_wwriter t) \<and>
     (\<forall>k w. map_of (lt_wwriter t) k = Some w \<longrightarrow> lw_workloadName w = k \<and> (\<exists>a < length (lt_heap t). lw_target w = Some a)) \<and>
     (\<forall>k w i. map_of (lt_wwriter t) k = Some w \<and> lw_cancel w = Some i \<longrightarrow> i < length (lt_streams t)) \<and>
     (\<forall>k w k' w' i. map_of (lt_wwriter t) k = Some w \<and> map_of (lt_wwriter t) k' = Some w' \<and> lw_cancel w = Some i \<and> lw_cancel w' = Some i \<longrightarrow> k = k') \<and>
     (\<forall>i < length (lt_streams t). lt_streams t ! i \<longleftrightarrow> (\<exists>k w. map_of (lt_wwriter t) k = Some w \<and> lw_cancel w = Some i))"

definition writers_attached :: "WorkloadsLogsTarget \<Rightarrow> bool" where
  "writers_attached t \<longleftrightarrow> (\<forall>k w. map_of (lt_wwriter t) k = Some w \<longrightarrow> lw_targetName w \<in> fst ` set (lt_transports t))"

lemma Writer_Stop_fields [simp]:
  "lt_wwriter (Writer_Stop w t) = lt_wwriter t" "lt_transports (Writer_Stop w t) = lt_transports t"
  "lt_heap (Writer_Stop w t) = lt_heap t" "lt_workloadsConfig (Writer_Stop w t) = lt_workloadsConfig t"
  "length (lt_streams (Writer_Stop w t)) = length (lt_streams t)"
  by (simp_all add: Writer_Stop_def split: option.splits)

lemma logs_ok_transports [simp]:
  "logs_ok (t\<lparr>lt_transports := ts\<rparr>) = logs_ok t" "logs_ok (t\<lparr>lt_workloadsConfig := wc\<rparr>) = logs_ok t"
  "logs_ok (t\<lparr>lt_deviceID := dev\<rparr>) = logs_ok t"
  by (simp_all add: logs_ok_def)

lemma drop_writer_fields [simp]:
  "lt_wwriter (drop_writer k w t) = map_del (lt_wwriter t) k" "lt_transports (drop_writer k w t) = lt_transports t"
  "lt_heap (drop_writer k w t) = lt_heap t" "lt_workloadsConfig (drop_writer k w t) = lt_workloadsConfig t"
  by (simp_all add: drop_writer_def)

lemma stream_dropped:
  assumes "logs_ok t" and "map_of (lt_wwriter t) k = Some w" and "i < length (lt_streams t)"
  shows "lt_streams (drop_writer k w t) ! i \<longleftrightarrow> (\<exists>k' w'. k' \<noteq> k \<and> map_of (lt_wwriter t) k' = Some w' \<and> lw_cancel w' = Some i)"
proof -
  have alive: "lt_streams t ! i \<longleftrightarrow> (\<exists>k w. map_of (lt_wwriter t) k = Some w \<and> lw_cancel w = Some i)"
    using assms(1,3) by (simp add: logs_ok_def)
  have uniq: "k = k'" if "map_of (lt_wwriter t) k' = Some w'" "lw_cancel w = Some i" "lw_cancel w' = Some i" for k' w'
    using assms(1,2) that unfolding logs_ok_def by blast
  show ?thesis
  proof (cases "lw_cancel w = Some i")
    case True
    with assms(3) uniq show ?thesis by (auto simp: drop_writer_def Writer_Stop_def)
  next
    case False
    then have "lt_streams (drop_writer k w t) ! i = lt_streams t ! i"
      by (cases "lw_cancel w") (simp_all add: drop_writer_def Writer_Stop_def)
    with alive False assms(2) show ?thesis by (metis option.inject)
  qed
qed

lemma drop_writer_ok:
  assumes "logs_ok t" and "map_of (lt_wwriter t) k = Some w"
  shows "logs_ok (drop_writer k w t)"
proof -
  have "length (lt_streams (drop_writer k w t)) = length (lt_streams t)"
    by (simp add: drop_writer_def Writer_Stop_def split: option.splits)
  moreover have "(\<exists>k' w'. ((map_of (lt_wwriter t))(k := None)) k' = Some w' \<and> lw_cancel w' = Some i) \<longleftrightarrow>
      (\<exists>k' w'. k' \<noteq> k \<and> map_of (lt_wwriter t) k' = Some w' \<and> lw_cancel w' = Some i)" for i
    by (auto split: if_splits)
  moreover have "gomap_ok (map_del (lt_wwriter t) k)" using assms(1) by (simp add: logs_ok_def)
  ultimately show ?thesis
    using assms(1) stream_dropped [OF assms] unfolding logs_ok_def drop_writer_fields lookup_del
    by (auto split: if_splits)
qed

lemma deleteWorkload_ok [go_inv]: "logs_ok t \<Longrightarrow> logs_ok (deleteWorkload name t)"
  by (auto simp: deleteWorkload_def drop_writer_ok split: option.splits)

lemma deleteWorkload_attached: "writers_attached t \<Longrightarrow> writers_attached (deleteWorkload name t)"
  by (auto simp: deleteWorkload_def writers_attached_def split: option.splits if_splits)

text \<open>Dropping the writers of one transport out of a list of entries.\<close>

lemma drop_writers:
  fixes name :: string
  assumes "logs_ok t" and "distinct (map fst ps)" and "\<forall>(k, w) \<in> set ps. map_of (lt_wwriter t) k = Some w"
  defines "t' \<equiv> fold (\<lambda>(key, w) t. if lw_targetName w \<noteq> name then t else drop_writer key w t) ps t"
  shows "logs_ok t' \<and> lt_heap t' = lt_heap t \<and> lt_transports t' = lt_transports t \<and>
    map_of (lt_wwriter t') = (\<lambda>k. if \<exists>w. (k, w) \<in> set ps \<and> lw_targetName w = name then None else map_of (lt_wwriter t) k)"
  using assms(1-3) unfolding t'_def
proof (induction ps arbitrary: t)
  case (Cons p ps)
  obtain k w where p: "p = (k, w)" by force
  with Cons.prems have k: "map_of (lt_wwriter t) k = Some w" "k \<notin> fst ` set ps" by auto
  show ?case
  proof (cases "lw_targetName w = name")
    case True
    have "\<forall>(k', w') \<in> set ps. map_of (lt_wwriter (drop_writer k w t)) k' = Some w'"
      using Cons.prems(3) k(2) p by (fastforce simp: image_iff)
    with Cons.IH [OF drop_writer_ok [OF Cons.prems(1) k(1)]] Cons.prems(2) p True k(2) show ?thesis
      by (auto simp: fun_eq_iff image_iff)
  next
    case False
    have "\<not> (\<exists>v. (k, v) \<in> set (p # ps) \<and> lw_targetName v = name)" using False k(2) p by (auto simp: image_iff)
    with Cons.IH [OF Cons.prems(1)] Cons.prems(2,3) p False show ?thesis by (auto simp: fun_eq_iff)
  qed
qed simp

lemma deleteTargetTransport_effect:
  assumes "logs_ok t" and "is_range (le_writers env)"
  shows "logs_ok (deleteTargetTransport env name t) \<and> lt_heap (deleteTargetTransport env name t) = lt_heap t \<and>
    map_of (lt_wwriter (deleteTargetTransport env name t)) =
      (\<lambda>k. case map_of (lt_wwriter t) k of None \<Rightarrow> None | Some w \<Rightarrow> if lw_targetName w = name then None else Some w)"
proof -
  let ?t = "t\<lparr>lt_transports := map_del (lt_transports t) name\<rparr>"
  let ?ps = "le_writers env (lt_wwriter t)"
  have g: "gomap_ok (lt_wwriter t)" using assms(1) by (simp add: logs_ok_def)
  have ok: "logs_ok ?t" using assms(1) by simp
  have d: "distinct (map fst ?ps)" by (rule range_distinct [OF assms(2) g])
  have mem: "(k, w) \<in> set ?ps \<longleftrightarrow> map_of (lt_wwriter t) k = Some w" for k w
    using g range_set [OF assms(2), of "lt_wwriter t"] by (simp add: gomap_ok_def)
  then have "\<forall>(k, w) \<in> set ?ps. map_of (lt_wwriter ?t) k = Some w" by auto
  from drop_writers [OF ok d this, of name] show ?thesis
    by (auto simp: deleteTargetTransport_def mem fun_eq_iff split: option.splits)
qed

lemma delete_transports:
  fixes transports :: "(string, nat) gomap" and keys :: "string list"
  assumes "logs_ok t" and "is_range (le_writers env)"
  defines "t' \<equiv> fold (\<lambda>key t. if map_of transports key = None then deleteTargetTransport env key t else t) keys t"
  shows "logs_ok t' \<and> lt_heap t' = lt_heap t \<and>
    (\<forall>k w. map_of (lt_wwriter t') k = Some w \<longleftrightarrow>
      map_of (lt_wwriter t) k = Some w \<and> (lw_targetName w \<in> set keys \<longrightarrow> map_of transports (lw_targetName w) \<noteq> None))"
  using assms(1) unfolding t'_def
proof (induction keys arbitrary: t)
  case (Cons key keys)
  show ?case
  proof (cases "map_of transports key")
    case None
    note e = deleteTargetTransport_effect [OF Cons.prems assms(2), of key]
    from Cons.IH [of "deleteTargetTransport env key t"] e None show ?thesis
      by (auto split: option.splits if_splits)
  next
    case (Some a)
    with Cons.IH [OF Cons.prems] show ?thesis by auto
  qed
qed simp

lemma make_transports_heap:
  assumes "make_transports env dev cs transports heap = Ret (transports', heap')"
    and "\<forall>k a. map_of transports k = Some a \<longrightarrow> n \<le> a \<and> a < length heap" and "n \<le> length heap"
  shows "(\<exists>added. heap' = heap @ added) \<and> (\<forall>k a. map_of transports' k = Some a \<longrightarrow> n \<le> a \<and> a < length heap')"
  using assms
proof (induction env dev cs transports heap rule: make_transports.induct)
  case (2 env dev key val rest transports heap)
  show ?case
  proof (cases "lc_Kind val = SyslogTransport")
    case False
    from 2(4) False have "make_transports env dev rest transports heap = Ret (transports', heap')" by simp
    from 2(3) [OF False this 2(5,6)] show ?thesis .
  next
    case True
    with 2(4) obtain c where c: "lc_SyslogConfig val = Some c" by (cases "lc_SyslogConfig val") auto
    show ?thesis
    proof (cases "NewSyslogServer (le_dial env) (sc_Address c) (sc_Protocol c) dev")
      case (Inl err)
      from 2(4) True c Inl have "make_transports env dev rest transports heap = Ret (transports', heap')" by simp
      from 2(1) [OF True c Inl this 2(5,6)] show ?thesis .
    next
      case (Inr tr)
      define tl where "tl = transportLog_Start
        \<lparr>tl_transport = tr, tl_log = NewFIFOLog (buffer_limit (lc_BufferSize val)), tl_cancel = False, tl_running = False\<rparr>"
      have rec: "make_transports env dev rest (map_put transports key (length heap)) (heap @ [tl]) = Ret (transports', heap')"
        using 2(4) True c Inr by (simp add: tl_def Let_def)
      have "\<forall>k a. map_of (map_put transports key (length heap)) k = Some a \<longrightarrow> n \<le> a \<and> a < length (heap @ [tl])" "n \<le> length (heap @ [tl])"
        using 2(5,6) by (auto simp: less_Suc_eq)
      from 2(2) [OF True c Inr tl_def rec this] show ?thesis by auto
    qed
  qed
qed auto

text \<open>The whole invariant: addresses of transports are in range as well.\<close>

definition logs_inv :: "WorkloadsLogsTarget \<Rightarrow> bool" where
  "logs_inv t \<longleftrightarrow> logs_ok t \<and> writers_attached t \<and> (\<forall>k a. map_of (lt_transports t) k = Some a \<longrightarrow> a < length (lt_heap t))"

lemma logs_ok_heap: "logs_ok t \<Longrightarrow> logs_ok (t\<lparr>lt_heap := lt_heap t @ added\<rparr>)"
  unfolding logs_ok_def by (simp (no_asm_simp), meson trans_less_add1)

lemma LogsTarget_Update_effect:
  assumes "LogsTarget_Update env config t = Ret (err, t')" and "logs_inv t"
    and "is_range (le_writers env)" and "is_range (le_transports env)"
  shows "logs_inv t'" and "\<exists>added. lt_heap t' = lt_heap t @ added"
    and "map_of (lt_transports t') k = Some a \<Longrightarrow> length (lt_heap t) \<le> a"
    and "map_of (lt_wwriter t') k = Some w \<longleftrightarrow> map_of (lt_wwriter t) k = Some w \<and> lw_targetName w \<in> fst ` set (lt_transports t')"
proof -
  obtain c transports heap where c: "dcm_Configuration config = Some c"
    and m: "make_transports env (lt_deviceID t) (le_collections env (dc_LogCollection c)) [] (lt_heap t) = Ret (transports, heap)"
    using assms(1) by (auto simp: LogsTarget_Update_def split: option.splits outcome.splits)
  obtain added where heap: "heap = lt_heap t @ added"
    and new: "map_of transports k = Some a \<Longrightarrow> length (lt_heap t) \<le> a \<and> a < length heap" for k a
    using make_transports_heap [OF m, of "length (lt_heap t)"] by auto
  define t1 where "t1 = fold (\<lambda>key t. if map_of transports key = None then deleteTargetTransport env key t else t)
    (GetCurrentTransports env t) (t\<lparr>lt_heap := heap\<rparr>)"
  have t': "t' = t1\<lparr>lt_transports := transports, lt_workloadsConfig := log_config (dcm_Workloads config)\<rparr>"
    using assms(1) c m by (simp add: LogsTarget_Update_def t1_def Let_def)
  have keys: "set (GetCurrentTransports env t) = fst ` set (lt_transports t)"
    using range_set [OF assms(4), of "lt_transports t"] by (simp add: GetCurrentTransports_def)
  have "logs_ok (t\<lparr>lt_heap := heap\<rparr>)" using assms(2) heap logs_ok_heap by (simp add: logs_inv_def)
  from delete_transports [OF this assms(3), of transports "GetCurrentTransports env t"]
  have t1: "logs_ok t1" "lt_heap t1 = heap" and "map_of (lt_wwriter t1) k = Some w \<longleftrightarrow> map_of (lt_wwriter t) k = Some w \<and>
      (lw_targetName w \<in> fst ` set (lt_transports t) \<longrightarrow> map_of transports (lw_targetName w) \<noteq> None)" for k w
    by (simp_all add: t1_def keys)
  moreover have "map_of (lt_wwriter t) k = Some w \<Longrightarrow> lw_targetName w \<in> fst ` set (lt_transports t)" for k w
    using assms(2) by (simp add: logs_inv_def writers_attached_def)
  ultimately have wr: "map_of (lt_wwriter t1) k = Some w \<longleftrightarrow> map_of (lt_wwriter t) k = Some w \<and> lw_targetName w \<in> fst ` set transports" for k w
    by (metis map_of_eq_None_iff)
  show "logs_inv t'" using t1 wr new by (auto simp: t' logs_inv_def writers_attached_def)
  show "\<exists>added. lt_heap t' = lt_heap t @ added" using t1 heap by (simp add: t')
  show "map_of (lt_transports t') k = Some a \<Longrightarrow> length (lt_heap t) \<le> a" using new by (simp add: t')
  show "map_of (lt_wwriter t') k = Some w \<longleftrightarrow> map_of (lt_wwriter t) k = Some w \<and> lw_targetName w \<in> fst ` set (lt_transports t')"
    using wr by (simp add: t')
qed

lemma logs_inv_buffer: "logs_inv t \<Longrightarrow> map_of (lt_wwriter t) k = Some w \<Longrightarrow> \<exists>a < length (lt_heap t). lw_target w = Some a"
  unfolding logs_inv_def logs_ok_def by (elim conjE) simp

lemma put_writer_ok:
  assumes "logs_ok t" and "map_of (lt_wwriter t) k = None" and "lw_workloadName w = k" and "lw_target w = Some a" and "a < length (lt_heap t)"
    and "lw_cancel w = None \<and> ss = lt_streams t \<or> lw_cancel w = Some (length (lt_streams t)) \<and> ss = lt_streams t @ [True]"
  shows "logs_ok (t\<lparr>lt_streams := ss, lt_wwriter := map_put (lt_wwriter t) k w\<rparr>)"
proof -
  note ok = assms(1) [unfolded logs_ok_def]
  have g: "gomap_ok (lt_wwriter t)" using ok by blast
  have shape: "lw_workloadName w' = k' \<and> (\<exists>a < length (lt_heap t). lw_target w' = Some a)" if "map_of (lt_wwriter t) k' = Some w'" for k' w'
    using ok that by blast
  have lt: "i < length (lt_streams t)" if "map_of (lt_wwriter t) k' = Some w'" "lw_cancel w' = Some i" for k' w' i
    using ok that by blast
  have uniq: "k' = k''" if "map_of (lt_wwriter t) k' = Some w'" "map_of (lt_wwriter t) k'' = Some w''" "lw_cancel w' = Some i" "lw_cancel w'' = Some i"
    for k' w' k'' w'' i using ok that by blast
  have alive: "lt_streams t ! i \<longleftrightarrow> (\<exists>k w. map_of (lt_wwriter t) k = Some w \<and> lw_cancel w = Some i)" if "i < length (lt_streams t)" for i
    using ok that by blast
  have other: "(\<exists>k' w'. ((map_of (lt_wwriter t))(k \<mapsto> w)) k' = Some w' \<and> lw_cancel w' = Some i) \<longleftrightarrow>
      lw_cancel w = Some i \<or> (\<exists>k' w'. map_of (lt_wwriter t) k' = Some w' \<and> lw_cancel w' = Some i)" for i
  proof -
    have "k' \<noteq> k" if "map_of (lt_wwriter t) k' = Some w'" for k' w' using that assms(2) by auto
    then show ?thesis by (auto split: if_splits)
  qed
  show ?thesis
    unfolding logs_ok_def
  proof (intro conjI allI impI, goal_cases)
    case 1
    show ?case using g by simp
  next
    case (2 k' w')
    then show ?case using assms(3) shape by (auto split: if_splits)
  next
    case (3 k' w')
    then show ?case using assms(4,5) shape by (auto split: if_splits)
  next
    case (4 k' w' i)
    then show ?case using assms(6) lt [of k' w' i] by (auto split: if_splits)
  next
    case (5 k' w' k'' w'' i)
    then show ?case using assms(6) lt uniq by (auto split: if_splits)
  next
    case (6 i)
    from assms(6) show ?case
    proof
      assume "lw_cancel w = None \<and> ss = lt_streams t"
      with 6 alive [of i] other [of i] show ?thesis by simp
    next
      assume s: "lw_cancel w = Some (length (lt_streams t)) \<and> ss = lt_streams t @ [True]"
      show ?thesis
      proof (cases "i < length (lt_streams t)")
        case True
        with s alive [OF True] other [of i] show ?thesis by (simp add: nth_append)
      next
        case False
        with s 6 have "i = length (lt_streams t)" by simp
        with s other [of i] show ?thesis by simp
      qed
    qed
  qed
qed

lemma deleteWorkload_gone: "map_of (lt_wwriter (deleteWorkload name t)) name = None"
  by (simp add: deleteWorkload_def split: option.splits)

lemma deleteWorkload_rest [simp]:
  "lt_transports (deleteWorkload name t) = lt_transports t" "lt_heap (deleteWorkload name t) = lt_heap t"
  "lt_workloadsConfig (deleteWorkload name t) = lt_workloadsConfig t"
  by (simp_all add: deleteWorkload_def split: option.splits)

lemma deleteWorkload_inv [go_inv]: "logs_inv t \<Longrightarrow> logs_inv (deleteWorkload name t)"
  by (simp add: logs_inv_def deleteWorkload_ok deleteWorkload_attached)

lemma WorkloadStarted_inv [go_inv]:
  assumes "logs_inv t" and "LogsTarget_WorkloadStarted env name t w = (t', w')"
  shows "logs_inv t'"
proof -
  let ?t = "deleteWorkload name t"
  have inv: "logs_inv ?t" by (rule deleteWorkload_inv [OF assms(1)])
  show ?thesis
  proof (cases "Option.bind (map_of (lt_workloadsConfig ?t) name) (map_of (lt_transports ?t))")
    case None
    with assms(2) inv show ?thesis
      by (auto simp: LogsTarget_WorkloadStarted_def Let_def bind_eq_None_conv split: option.splits)
  next
    case (Some a)
    then obtain target where target: "map_of (lt_workloadsConfig ?t) name = Some target" "map_of (lt_transports ?t) target = Some a"
      by (auto simp: bind_eq_Some_conv)
    define writer where "writer = SetTarget target a (NewWorkloadWriter name)"
    have a: "a < length (lt_heap ?t)" using inv target(2) by (simp add: logs_inv_def)
    have base: "logs_ok ?t" using inv by (simp add: logs_inv_def)
    have "lw_workloadName writer = name" "lw_target writer = Some a" "lw_cancel writer = None" "lw_targetName writer = target"
      by (simp_all add: writer_def SetTarget_def NewWorkloadWriter_def)
    note w = this put_writer_ok [OF base deleteWorkload_gone _ _ a]
    obtain v ss where v: "t' = ?t\<lparr>lt_streams := ss, lt_wwriter := map_put (lt_wwriter ?t) name v\<rparr>"
      and v': "lw_workloadName v = name" "lw_target v = Some a" "lw_targetName v = target"
        "lw_cancel v = None \<and> ss = lt_streams ?t \<or> lw_cancel v = Some (length (lt_streams ?t)) \<and> ss = lt_streams ?t @ [True]"
    proof (cases "fst (le_Logs env name w)")
      case None
      then have "t' = ?t\<lparr>lt_streams := lt_streams ?t @ [True],
          lt_wwriter := map_put (lt_wwriter ?t) name (writer\<lparr>lw_cancel := Some (length (lt_streams ?t))\<rparr>)\<rparr>"
        using assms(2) target w(1) by (auto simp: LogsTarget_WorkloadStarted_def Let_def Writer_Start_def writer_def [symmetric] split: prod.splits)
      then show thesis using that w(1-4) by simp
    next
      case (Some err)
      then have "t' = ?t\<lparr>lt_wwriter := map_put (lt_wwriter ?t) name writer\<rparr>"
        using assms(2) target w(1) by (auto simp: LogsTarget_WorkloadStarted_def Let_def Writer_Start_def writer_def [symmetric] split: prod.splits)
      then show thesis using that [of writer "lt_streams ?t"] w(1-4) by simp
    qed
    have "logs_ok t'" using w(5) [OF v'(1,2,4)] v by simp
    moreover have "writers_attached t'"
    proof -
      have "lw_targetName v \<in> fst ` set (lt_transports t)"
        using target(2) v'(3) by (force dest: map_of_SomeD)
      then show ?thesis using inv by (auto simp: v logs_inv_def writers_attached_def split: if_splits)
    qed
    ultimately show ?thesis using inv by (simp add: v logs_inv_def)
  qed
qed

section \<open>Properties\<close>

text \<open>The calls the other components make.\<close>

inductive log_step :: "'w log_env \<Rightarrow> WorkloadsLogsTarget \<times> 'w \<Rightarrow> WorkloadsLogsTarget \<times> 'w \<Rightarrow> bool" for env where
  update: "LogsTarget_Update env config t = Ret (err, t') \<Longrightarrow> log_step env (t, w) (t', w)"
| started: "LogsTarget_WorkloadStarted env name t w = (t', w') \<Longrightarrow> log_step env (t, w) (t', w')"
| removed: "log_step env (t, w) (LogsTarget_WorkloadRemoved name t, w)"

lemma logs_inv_New: "logs_inv NewWorkloadsLogsTarget"
  by (simp add: logs_inv_def logs_ok_def writers_attached_def NewWorkloadsLogsTarget_def)

lemma log_step_inv:
  assumes "log_step env s s'" and "logs_inv (fst s)" and "is_range (le_writers env)" and "is_range (le_transports env)"
  shows "logs_inv (fst s')"
  using assms
proof (induction rule: log_step.induct)
  case (update config t err t' w)
  then show ?case using LogsTarget_Update_effect(1) by auto
next
  case (started name t w t' w')
  then show ?case using WorkloadStarted_inv by auto
next
  case (removed t w name)
  then show ?case by (simp add: LogsTarget_WorkloadRemoved_def deleteWorkload_inv)
qed

text \<open>
  C7: Whatever configurations come and whichever workloads start and stop, no log stream is lost
  track of: the streams that still run are exactly those of the stored writers, each writer is
  stored under the name of its workload, writes to an existing buffer and belongs to a transport
  of the current configuration.
\<close>

theorem log_streams_owned:
  assumes "(log_step env)\<^sup>*\<^sup>* (NewWorkloadsLogsTarget, w0) (t, w)" and "is_range (le_writers env)" and "is_range (le_transports env)"
  shows "(\<forall>i < length (lt_streams t). lt_streams t ! i \<longleftrightarrow> (\<exists>name wr. map_of (lt_wwriter t) name = Some wr \<and> lw_cancel wr = Some i)) \<and>
    (\<forall>name wr. map_of (lt_wwriter t) name = Some wr \<longrightarrow> lw_workloadName wr = name \<and>
      (\<exists>a < length (lt_heap t). lw_target wr = Some a) \<and> lw_targetName wr \<in> fst ` set (lt_transports t))"
proof -
  have "logs_inv (fst (t, w))"
    using assms(1)
  proof (induction rule: rtranclp_induct)
    case base
    show ?case by (simp add: logs_inv_New)
  next
    case (step s s')
    then show ?case using log_step_inv [OF step(2) step(3) assms(2,3)] by simp
  qed
  then show ?thesis by (simp add: logs_inv_def logs_ok_def writers_attached_def)
qed

text \<open>
  A configuration update opens a new connection and a new buffer for every transport, but the
  writers that stay keep the old buffers: their log lines go on to the old server over the old
  connection, which is never closed, until their workloads are started again.
\<close>

theorem writers_keep_old_transport:
  assumes "LogsTarget_Update env config t = Ret (err, t')" and "logs_inv t"
    and "is_range (le_writers env)" and "is_range (le_transports env)"
    and "map_of (lt_wwriter t') name = Some wr" and "map_of (lt_transports t') (lw_targetName wr) = Some new"
  shows "\<exists>old. lw_target wr = Some old \<and> old \<noteq> new \<and> map_of (lt_wwriter t) name = Some wr \<and>
    lt_heap t' ! old = lt_heap t ! old \<and> lt_heap (snd (stream_write now data wr t')) ! new = lt_heap t' ! new"
proof -
  note u = LogsTarget_Update_effect [OF assms(1-4)]
  have old: "map_of (lt_wwriter t) name = Some wr" using u(4) assms(5) by blast
  then obtain a where a: "a < length (lt_heap t)" "lw_target wr = Some a"
    using logs_inv_buffer [OF assms(2)] by blast
  have "length (lt_heap t) \<le> new" by (rule u(3) [OF assms(6)])
  moreover obtain ext_heap where "lt_heap t' = lt_heap t @ ext_heap" using u(2) by blast
  ultimately show ?thesis
    using a old by (auto simp: stream_write_def nth_append split: prod.splits option.splits)
qed

text \<open>
  The limit of a buffer is the configured number of KiB as long as that is below 2 GiB. From
  there on the product wraps around: up to 4 GiB it is negative, and such a buffer refuses every
  entry.
\<close>

theorem buffer_limit_bounds:
  "(0 \<le> kib \<and> kib < 2 ^ 21 \<longrightarrow> buffer_limit kib = kib * 1024) \<and>
   (2 ^ 21 \<le> kib \<and> kib < 2 ^ 22 \<longrightarrow> buffer_limit kib < 0 \<and>
     FIFOLog_Write (Some entry) (NewFIFOLog (buffer_limit kib)) = (Some (Errorf ''Buffer is already full'' []), NewFIFOLog (buffer_limit kib)))"
proof (intro conjI impI)
  show "buffer_limit kib = kib * 1024" if "0 \<le> kib \<and> kib < 2 ^ 21"
    using that by (simp add: buffer_limit_def)
next
  assume k: "2 ^ 21 \<le> kib \<and> kib < 2 ^ 22"
  have "buffer_limit kib = kib * 1024 - 2 ^ 32"
  proof -
    have "(word_of_int (kib * 1024) :: 32 word) = word_of_int (kib * 1024 - 2 ^ 32)"
      unfolding word_of_int_eq_iff by (simp add: take_bit_eq_mod)
    then have "int32 (kib * 1024) = int32 (kib * 1024 - 2 ^ 32)"
      unfolding int32_def by (rule arg_cong)
    with k show ?thesis by (simp add: buffer_limit_def)
  qed
  with k show "buffer_limit kib < 0" by simp
  then show "FIFOLog_Write (Some entry) (NewFIFOLog (buffer_limit kib)) = (Some (Errorf ''Buffer is already full'' []), NewFIFOLog (buffer_limit kib))"
    by (simp add: FIFOLog_Write_def NewFIFOLog_def)
qed

section \<open>Concrete instances\<close>

definition demo_log_env :: "unit log_env" where
  "demo_log_env = \<lparr>le_dial = \<lambda>_ _. None, le_collections = \<lambda>m. m, le_transports = \<lambda>m. m, le_writers = \<lambda>m. m,
     le_Logs = \<lambda>_ w. (None, w), le_List = \<lambda>w. (Ret (Inr []), w)\<rparr>"

definition log_workload :: Workload_model where
  "log_workload = demo_workload\<lparr>wl_Name := ''web'', wl_LogCollection := ''syslog''\<rparr>"

definition log_message :: "string \<Rightarrow> DeviceConfigurationMessage" where
  "log_message address = \<lparr>dcm_AnsiblePlaybook = [],
     dcm_Configuration = Some \<lparr>dc_Heartbeat = None,
       dc_LogCollection = [(''syslog'', \<lparr>lc_BufferSize = 5, lc_Kind = ''syslog'', lc_SyslogConfig = Some \<lparr>sc_Address = address, sc_Protocol = []\<rparr>\<rparr>)],
       dc_Metrics = None, dc_Os = None, dc_Storage = None\<rparr>,
     dcm_DeviceID = [], dcm_Secrets = [], dcm_Version = [], dcm_Workloads = [log_workload], dcm_WorkloadsMonitoringInterval = 0\<rparr>"

definition log_transport :: "string \<Rightarrow> transportLog" where
  "log_transport address = \<lparr>tl_transport = \<lparr>syslog_server = address, syslog_protocol = ''tcp'', syslog_hostname = [], connected = True\<rparr>,
     tl_log = NewFIFOLog 5120, tl_cancel = True, tl_running = True\<rparr>"

definition log_writer :: WorkloadWriter where
  "log_writer = \<lparr>lw_workloadName = ''web'', lw_cancel = Some 0, lw_target = Some 0, lw_targetName = ''syslog''\<rparr>"

definition log_state :: "nat \<Rightarrow> transportLog list \<Rightarrow> (string, WorkloadWriter) gomap \<Rightarrow> bool list \<Rightarrow> WorkloadsLogsTarget" where
  "log_state a heap ws ss = \<lparr>lt_deviceID = [], lt_transports = [(''syslog'', a)], lt_wwriter = ws, lt_workloadsConfig = [(''web'', ''syslog'')],
     lt_heap = heap, lt_streams = ss\<rparr>"

lemma demo_make:
  "make_transports demo_log_env [] (le_collections demo_log_env (dc_LogCollection (the (dcm_Configuration (log_message address))))) [] heap =
     Ret ([(''syslog'', length heap)], heap @ [log_transport address])"
  by (simp add: demo_log_env_def log_message_def SyslogTransport_def NewSyslogServer_def Let_def transportLog_Start_def log_transport_def
      buffer_limit_def)

lemma demo_first: "LogsTarget_Update demo_log_env (log_message ''old'') NewWorkloadsLogsTarget = Ret (None, log_state 0 [log_transport ''old''] [] [])"
  using demo_make [of "''old''" "[]"]
  by (simp add: LogsTarget_Update_def log_message_def NewWorkloadsLogsTarget_def log_state_def GetCurrentTransports_def Let_def
      log_config_def log_workload_def) (simp add: demo_log_env_def)

lemma demo_started:
  "LogsTarget_WorkloadStarted demo_log_env ''web'' (log_state 0 [log_transport ''old''] [] []) () =
     (log_state 0 [log_transport ''old''] [(''web'', log_writer)] [True], ())"
  by (simp add: LogsTarget_WorkloadStarted_def log_state_def deleteWorkload_def SetTarget_def NewWorkloadWriter_def Writer_Start_def
      demo_log_env_def log_writer_def Let_def)

lemma demo_second:
  "LogsTarget_Update demo_log_env (log_message ''new'') (log_state 0 [log_transport ''old''] [(''web'', log_writer)] [True]) =
     Ret (None, log_state 1 [log_transport ''old'', log_transport ''new''] [(''web'', log_writer)] [True])"
  using demo_make [of "''new''" "[log_transport ''old'']"]
  by (simp add: LogsTarget_Update_def log_message_def log_state_def GetCurrentTransports_def Let_def
      log_config_def log_workload_def) (simp add: demo_log_env_def)

lemma demo_ranges: "is_range (le_writers demo_log_env)" "is_range (le_transports demo_log_env)"
  by (simp_all add: demo_log_env_def)

lemma demo_logs_reached:
  "(log_step demo_log_env)\<^sup>*\<^sup>* (NewWorkloadsLogsTarget, ()) (log_state 0 [log_transport ''old''] [(''web'', log_writer)] [True], ())"
proof (rule converse_rtranclp_into_rtranclp)
  show "log_step demo_log_env (NewWorkloadsLogsTarget, ()) (log_state 0 [log_transport ''old''] [] [], ())"
    by (rule log_step.update [OF demo_first])
  show "(log_step demo_log_env)\<^sup>*\<^sup>* (log_state 0 [log_transport ''old''] [] [], ()) (log_state 0 [log_transport ''old''] [(''web'', log_writer)] [True], ())"
    by (rule r_into_rtranclp, rule log_step.started [OF demo_started])
qed

theorem log_streams_owned_witness:
  "(log_step demo_log_env)\<^sup>*\<^sup>* (NewWorkloadsLogsTarget, ()) (log_state 0 [log_transport ''old''] [(''web'', log_writer)] [True], ()) \<and>
   (\<exists>wr. map_of (lt_wwriter (log_state 0 [log_transport ''old''] [(''web'', log_writer)] [True])) ''web'' = Some wr \<and> lw_cancel wr = Some 0)"
  using demo_logs_reached log_streams_owned [OF demo_logs_reached demo_ranges]
  by (auto simp: log_state_def split: if_splits)

theorem writers_keep_old_transport_witness:
  "let t' = log_state 1 [log_transport ''old'', log_transport ''new''] [(''web'', log_writer)] [True]
   in LogsTarget_Update demo_log_env (log_message ''new'') (log_state 0 [log_transport ''old''] [(''web'', log_writer)] [True]) = Ret (None, t') \<and>
      lt_heap (snd (stream_write 0 ''line'' log_writer t')) ! 1 = log_transport ''new''"
proof -
  let ?t = "log_state 0 [log_transport ''old''] [(''web'', log_writer)] [True]"
  let ?t' = "log_state 1 [log_transport ''old'', log_transport ''new''] [(''web'', log_writer)] [True]"
  have inv: "logs_inv ?t"
    by (auto simp: logs_inv_def logs_ok_def writers_attached_def log_state_def log_writer_def gomap_ok_def split: if_splits)
  have "map_of (lt_wwriter ?t') ''web'' = Some log_writer" "map_of (lt_transports ?t') (lw_targetName log_writer) = Some 1"
    by (simp_all add: log_state_def log_writer_def)
  from writers_keep_old_transport [OF demo_second inv demo_ranges this, of 0 "''line''"] demo_second show ?thesis
    by (auto simp: log_state_def)
qed

theorem buffer_limit_bounds_witness:
  "buffer_limit 100 = 102400 \<and> buffer_limit 3000000 < 0"
  using buffer_limit_bounds [of 100 undefined] buffer_limit_bounds [of 3000000 undefined] by simp

end
