(* ===== verification/Device_Server.thy ===== *)
theory Device_Server
  imports Ansible_Manager Configuration Registration Remote_Write Go_Time
begin

text \<open>
  \<open>internal/server/deviceserver.go\<close>: the service the dispatcher calls. \<open>Send\<close> answers at once and
  leaves the message to a goroutine, which runs the playbook of the message if it has one and then
  hands the message to the one goroutine that applies configurations, over an unbuffered channel.
  The server is therefore a state with the goroutines of \<open>Send\<close> and a step relation. A playbook is
  one step of it; how its run proceeds is the relation of theory \<open>Ansible_Manager\<close>.
\<close>

section \<open>The time limit of a playbook\<close>

definition getTimeout :: "(string, string) gomap \<Rightarrow> int" where
  "getTimeout metadata =
     (case map_of metadata ''ansible-playbook-timeout'' of
        None \<Rightarrow> 300 * 1000000000
      | Some timeoutStr \<Rightarrow>
          (case ParseInt timeoutStr of
             None \<Rightarrow> 300 * 1000000000
           | Some timeoutVal \<Rightarrow> seconds timeoutVal))"

section \<open>The server\<close>

datatype send_pc = Received pb_Data | Handing DeviceConfigurationMessage

record 'x deviceServer =
  srv_deviceID :: string
  srv_config :: "'x ConfigManager"
  srv_ansible :: "AnsibleManager option" \<comment> \<open>\<open>None\<close> when the manager could not be created\<close>
  srv_world :: "'x world"
  srv_goroutines :: "send_pc list"
  srv_sent :: "pb_Data list" \<comment> \<open>every message received, for the statements below\<close>
  srv_applied :: "DeviceConfigurationMessage list" \<comment> \<open>every message passed to \<open>Update\<close>, in order\<close>

definition NewDeviceServer :: "'x ConfigManager \<Rightarrow> AnsibleManager option \<Rightarrow> 'x world \<Rightarrow> 'x deviceServer" where
  "NewDeviceServer configManager ansibleManager w =
     \<lparr>srv_deviceID = ConfigManager_GetDeviceID configManager, srv_config = configManager, srv_ansible = ansibleManager, srv_world = w,
      srv_goroutines = [], srv_sent = [], srv_applied = []\<rparr>"

definition Send :: "pb_Data \<Rightarrow> 'x deviceServer \<Rightarrow> 'x deviceServer" where
  "Send d s = s\<lparr>srv_goroutines := srv_goroutines s @ [Received d], srv_sent := srv_sent s @ [d]\<rparr>"

definition has_playbook :: "pb_Data \<Rightarrow> bool" where
  "has_playbook d \<longleftrightarrow> map_of (pb_Metadata d) ''ansible-playbook'' = Some ''true''"

text \<open>The message is decoded into a zero value; an error is only logged.\<close>

definition message_of :: "'x ansible_env \<Rightarrow> pb_Data \<Rightarrow> DeviceConfigurationMessage" where
  "message_of env d = snd (ans_decode env (pb_Content d))"

definition hand_over :: "'x ansible_env \<Rightarrow> nat \<Rightarrow> pb_Data \<Rightarrow> 'x deviceServer \<Rightarrow> 'x deviceServer" where
  "hand_over env i d s = s\<lparr>srv_goroutines := (srv_goroutines s)[i := Handing (message_of env d)]\<rparr>"

inductive server_step :: "'x ansible_env \<Rightarrow> config_codec \<Rightarrow> 'x deviceServer \<Rightarrow> 'x deviceServer \<Rightarrow> bool" for env enc where
  send: "server_step env enc s (Send d s)"
| plain: "i < length (srv_goroutines s) \<Longrightarrow> srv_goroutines s ! i = Received d \<Longrightarrow> srv_ansible s = None \<or> \<not> has_playbook d \<Longrightarrow>
    server_step env enc s (hand_over env i d s)"
| refused: "i < length (srv_goroutines s) \<Longrightarrow> srv_goroutines s ! i = Received d \<Longrightarrow> srv_ansible s = Some a \<Longrightarrow> has_playbook d \<Longrightarrow>
    HandlePlaybook env GetPlaybookCommand d (getTimeout (pb_Metadata d)) a (srv_world s) = (Ret (Inl err), w) \<Longrightarrow>
    server_step env enc s (hand_over env i d (s\<lparr>srv_world := w\<rparr>))"
| played: "i < length (srv_goroutines s) \<Longrightarrow> srv_goroutines s ! i = Received d \<Longrightarrow> srv_ansible s = Some a \<Longrightarrow> has_playbook d \<Longrightarrow>
    HandlePlaybook env GetPlaybookCommand d (getTimeout (pb_Metadata d)) a (srv_world s) = (Ret (Inr r0), w0) \<Longrightarrow>
    (playbook_step env)\<^sup>*\<^sup>* r0 r \<Longrightarrow> run_handler r = Returned err \<Longrightarrow>
    server_step env enc s (hand_over env i d (s\<lparr>srv_ansible := Some (run_manager r), srv_world := run_world r\<rparr>))"
| update: "i < length (srv_goroutines s) \<Longrightarrow> srv_goroutines s ! i = Handing msg \<Longrightarrow>
    ConfigManager_Update enc msg (srv_config s) (srv_world s) = (Ret (err, cfg), w) \<Longrightarrow>
    server_step env enc s
      (s\<lparr>srv_goroutines := drop_nth i (srv_goroutines s), srv_config := cfg, srv_world := w, srv_applied := srv_applied s @ [msg]\<rparr>)"

text \<open>A panic in any goroutine ends the worker.\<close>

inductive server_crash :: "'x ansible_env \<Rightarrow> config_codec \<Rightarrow> 'x deviceServer \<Rightarrow> bool" for env enc where
  stat: "i < length (srv_goroutines s) \<Longrightarrow> srv_goroutines s ! i = Received d \<Longrightarrow> srv_ansible s = Some a \<Longrightarrow> has_playbook d \<Longrightarrow>
    HandlePlaybook env GetPlaybookCommand d (getTimeout (pb_Metadata d)) a (srv_world s) = (Panic, w) \<Longrightarrow> server_crash env enc s"
| played: "i < length (srv_goroutines s) \<Longrightarrow> srv_goroutines s ! i = Received d \<Longrightarrow> srv_ansible s = Some a \<Longrightarrow> has_playbook d \<Longrightarrow>
    HandlePlaybook env GetPlaybookCommand d (getTimeout (pb_Metadata d)) a (srv_world s) = (Ret (Inr r0), w0) \<Longrightarrow>
    (playbook_step env)\<^sup>*\<^sup>* r0 r \<Longrightarrow> run_handler r = Crashed \<Longrightarrow> server_crash env enc s"
| update: "i < length (srv_goroutines s) \<Longrightarrow> srv_goroutines s ! i = Handing msg \<Longrightarrow>
    ConfigManager_Update enc msg (srv_config s) (srv_world s) = (Panic, w) \<Longrightarrow> server_crash env enc s"

section \<open>Events of the dispatcher\<close>

datatype Event = RECEIVED_DISCONNECT | OtherEvent

definition NotifyEvent ::
  "(string \<times> ('w \<Rightarrow> (error option, 'w) call)) list \<Rightarrow> Event \<Rightarrow> Registration \<Rightarrow> 'w \<Rightarrow> (Registration, 'w) call" where
  "NotifyEvent deregistrables event r w =
     (if event = RECEIVED_DISCONNECT then
        (case Registration_Deregister deregistrables r w of
           (Ret (_, r'), w') \<Rightarrow> (Ret r', w')
         | (Panic, w') \<Rightarrow> (Panic, w'))
      else (Ret r, w))"

section \<open>Properties\<close>

definition pending_message :: "'x ansible_env \<Rightarrow> send_pc \<Rightarrow> DeviceConfigurationMessage" where
  "pending_message env pc = (case pc of Received d \<Rightarrow> message_of env d | Handing msg \<Rightarrow> msg)"

definition conserved :: "'x ansible_env \<Rightarrow> 'x deviceServer \<Rightarrow> bool" where
  "conserved env s \<longleftrightarrow>
     mset (map (message_of env) (srv_sent s)) = mset (map (pending_message env) (srv_goroutines s)) + mset (srv_applied s)"

lemma conserved_hand_over:
  assumes "conserved env s" and "i < length (srv_goroutines s)" and "srv_goroutines s ! i = Received d"
    and "srv_goroutines s' = srv_goroutines s" and "srv_sent s' = srv_sent s" and "srv_applied s' = srv_applied s"
  shows "conserved env (hand_over env i d s')"
proof -
  have "map (pending_message env) ((srv_goroutines s)[i := Handing (message_of env d)]) = map (pending_message env) (srv_goroutines s)"
    using assms(2,3) by (intro nth_equalityI) (auto simp: nth_list_update pending_message_def)
  with assms show ?thesis by (simp add: conserved_def hand_over_def)
qed

lemma server_step_conserved:
  assumes "server_step env enc s s'" and "conserved env s"
  shows "conserved env s'"
  using assms
proof (induction rule: server_step.induct)
  case (send s d)
  then show ?case by (simp add: conserved_def Send_def pending_message_def)
next
  case (update i s msg err cfg w)
  have "pending_message env (srv_goroutines s ! i) = msg" using update(2) by (simp add: pending_message_def)
  then have "add_mset msg (mset (map (pending_message env) (drop_nth i (srv_goroutines s)))) = mset (map (pending_message env) (srv_goroutines s))"
    using drop_nth_mset [of i "map (pending_message env) (srv_goroutines s)"] update(1) by (simp add: drop_nth_map)
  with update(4) show ?case by (simp add: conserved_def)
qed (auto intro!: conserved_hand_over)

text \<open>
  C4: No message is lost or applied twice: at every moment the messages received are, as a
  multiset, those already applied together with those that goroutines still hold.
\<close>

theorem messages_conserved:
  assumes "(server_step env enc)\<^sup>*\<^sup>* (NewDeviceServer cm am w) s"
  shows "mset (map (message_of env) (srv_sent s)) =
    mset (map (pending_message env) (srv_goroutines s)) + mset (srv_applied s)"
proof -
  have "conserved env s"
    using assms
  proof (induction rule: rtranclp_induct)
    case base
    show ?case by (simp add: conserved_def NewDeviceServer_def)
  next
    case (step s s')
    then show ?case using server_step_conserved by blast
  qed
  then show ?thesis by (simp add: conserved_def)
qed

text \<open>
  But their order is not kept: of two messages received one after the other, the second can be
  applied first, so that the worker ends up with the older configuration.
\<close>

theorem messages_overtake:
  assumes "srv_goroutines s = []" and "\<not> has_playbook d1" and "\<not> has_playbook d2"
    and "ConfigManager_Update enc (message_of env d2) (srv_config s) (srv_world s) = (Ret (e2, cfg2), w2)"
    and "ConfigManager_Update enc (message_of env d1) cfg2 w2 = (Ret (e1, cfg1), w1)"
  shows "\<exists>s'. (server_step env enc)\<^sup>*\<^sup>* (Send d2 (Send d1 s)) s' \<and> srv_goroutines s' = [] \<and>
    srv_applied s' = srv_applied s @ [message_of env d2, message_of env d1] \<and> srv_config s' = cfg1"
proof -
  let ?s2 = "Send d2 (Send d1 s)"
  let ?s3 = "hand_over env 0 d1 ?s2"
  define s4 where "s4 = hand_over env 1 d2 ?s3"
  have "server_step env enc ?s2 ?s3"
    using assms(1,2) by (intro server_step.plain) (simp_all add: Send_def)
  moreover have "server_step env enc ?s3 s4"
    unfolding s4_def using assms(1,3) by (intro server_step.plain) (simp_all add: Send_def hand_over_def)
  moreover have g: "srv_goroutines s4 = [Handing (message_of env d1), Handing (message_of env d2)]"
    and rest: "srv_config s4 = srv_config s" "srv_world s4 = srv_world s" "srv_applied s4 = srv_applied s"
    using assms(1) by (simp_all add: s4_def Send_def hand_over_def)
  define s5 where "s5 = s4\<lparr>srv_goroutines := drop_nth 1 (srv_goroutines s4), srv_config := cfg2, srv_world := w2,
    srv_applied := srv_applied s4 @ [message_of env d2]\<rparr>"
  have "server_step env enc s4 s5"
    unfolding s5_def using g rest assms(4) by (intro server_step.update [of 1]) simp_all
  moreover define s6 where "s6 = s5\<lparr>srv_goroutines := drop_nth 0 (srv_goroutines s5), srv_config := cfg1, srv_world := w1,
    srv_applied := srv_applied s5 @ [message_of env d1]\<rparr>"
  have s5: "srv_goroutines s5 = [Handing (message_of env d1)]" "srv_config s5 = cfg2" "srv_world s5 = w2"
    by (simp_all add: s5_def g drop_nth_def)
  have "server_step env enc s5 s6"
    unfolding s6_def using s5 assms(5) by (intro server_step.update [of 0]) simp_all
  ultimately have "(server_step env enc)\<^sup>*\<^sup>* ?s2 s6" by (meson rtranclp.rtrancl_into_rtrancl rtranclp.rtrancl_refl)
  moreover have "srv_goroutines s6 = []" "srv_applied s6 = srv_applied s @ [message_of env d2, message_of env d1]" "srv_config s6 = cfg1"
    by (simp_all add: s6_def s5 drop_nth_def) (simp add: s5_def rest)
  ultimately show ?thesis by blast
qed

text \<open>
  The metrics store as an observer. Its state is a part of the state \<open>'x\<close> of the worker, which \<open>get\<close>
  reads and \<open>put\<close> writes back.
\<close>

definition tsdb_observer ::
  "('v, 'q, 'e) tsdb_api \<Rightarrow> ('x \<Rightarrow> TSDB \<times> 'e) \<Rightarrow> (TSDB \<times> 'e \<Rightarrow> 'x \<Rightarrow> 'x) \<Rightarrow> 'x ConfigObserver" where
  "tsdb_observer api get put =
     (let call = (\<lambda>upd msg w.
        case upd api msg (fst (get (ext w))) (snd (get (ext w))) of
          (Ret (err, t), e) \<Rightarrow> (Ret (err, msg), w\<lparr>ext := put (t, e) (ext w)\<rparr>)
        | (Panic, e) \<Rightarrow> (Panic, w\<lparr>ext := put (fst (get (ext w)), e) (ext w)\<rparr>))
      in \<lparr>obs_Init = call TSDB_Init, obs_Update = call TSDB_Update\<rparr>)"

lemma tsdb_observer_panics:
  "dcm_Configuration msg = None \<Longrightarrow> \<exists>w'. obs_Update (tsdb_observer api get put) msg w = (Panic, w')"
  by (simp add: tsdb_observer_def TSDB_Update_def Let_def)


lemma seconds_wrapped: "9223372037 \<le> n \<Longrightarrow> n \<le> 18446744073 \<Longrightarrow> seconds n = n * 1000000000 - 2 ^ 64"
proof -
  assume n: "9223372037 \<le> n" "n \<le> 18446744073"
  have "(word_of_int (n * 1000000000) :: 64 word) = word_of_int (n * 1000000000 - 2 ^ 64)"
    unfolding word_of_int_eq_iff by (simp add: take_bit_eq_mod)
  then have "int64 (n * 1000000000) = int64 (n * 1000000000 - 2 ^ 64)"
    unfolding int64_def by (rule arg_cong)
  with n show ?thesis by (simp add: seconds_def)
qed

text \<open>
  The time limit of a playbook is the number of seconds in the metadata, and five minutes
  where there is none or it is not a number; but a number of seconds beyond the range of a
  duration wraps around to a negative limit, which the run has exceeded at once.
\<close>

theorem playbook_timeout_bounds:
  "(map_of md ''ansible-playbook-timeout'' = None \<longrightarrow> getTimeout md = 300000000000) \<and>
   (map_of md ''ansible-playbook-timeout'' = Some str \<and> \<not> list_all (\<lambda>c. is_digit c \<or> c \<in> {CHR ''-'', CHR ''+''}) str \<longrightarrow> getTimeout md = 300000000000) \<and>
   (map_of md ''ansible-playbook-timeout'' = Some (Itoa n) \<and> 0 \<le> n \<and> n \<le> 9223372036 \<longrightarrow> getTimeout md = n * 1000000000) \<and>
   (map_of md ''ansible-playbook-timeout'' = Some (Itoa n) \<and> 9223372037 \<le> n \<and> n \<le> 18446744073 \<longrightarrow> getTimeout md < 0)"
proof (intro conjI impI)
  assume "map_of md ''ansible-playbook-timeout'' = Some str \<and> \<not> list_all (\<lambda>c. is_digit c \<or> c \<in> {CHR ''-'', CHR ''+''}) str"
  moreover from this have "ParseInt str = None" by (cases str) (auto simp: ParseInt_def Let_def list_all_iff)
  ultimately show "getTimeout md = 300000000000" by (simp add: getTimeout_def)
next
  assume n: "map_of md ''ansible-playbook-timeout'' = Some (Itoa n) \<and> 9223372037 \<le> n \<and> n \<le> 18446744073"
  then have "ParseInt (Itoa n) = Some n" by (intro ParseInt_Itoa) (simp_all add: MinInt64_def MaxInt64_def)
  with n show "getTimeout md < 0" using seconds_wrapped [of n] by (simp add: getTimeout_def)
next
  assume n: "map_of md ''ansible-playbook-timeout'' = Some (Itoa n) \<and> 0 \<le> n \<and> n \<le> 9223372036"
  then have "ParseInt (Itoa n) = Some n" by (intro ParseInt_Itoa) (simp_all add: MinInt64_def MaxInt64_def)
  with n show "getTimeout md = n * 1000000000" by (simp add: getTimeout_def seconds_exact)
qed (simp add: getTimeout_def)

section \<open>Concrete instances\<close>

text \<open>The text of a message names its one workload; an empty text has no configuration.\<close>

definition demo_server_env :: "unit ansible_env" where
  "demo_server_env = \<lparr>ans_LookPath = \<lambda>_. None, ans_Run = \<lambda>f t w. ((None, ''{}''), w), ans_JSONParse = \<lambda>_. Inr demo_results,
     ans_Send = \<lambda>msg e. (None, e), ans_uuid = ''u'',
     ans_decode = \<lambda>c. if c = [] then (Some (ExternalError ''unexpected end of JSON input''), demo_message\<lparr>dcm_Configuration := None\<rparr>)
       else (None, demo_message\<lparr>dcm_Workloads := [demo_workload\<lparr>wl_Name := c\<rparr>]\<rparr>),
     ans_ModTime = \<lambda>f w. Some 5, ans_transformer = demo_transformer, ans_range = \<lambda>m. m, ans_range_all = \<lambda>m. m\<rparr>"

definition demo_sent :: "string \<Rightarrow> pb_Data" where
  "demo_sent c = \<lparr>pb_MessageId = ''m'', pb_Metadata = [], pb_Content = c, pb_ResponseTo = [], pb_Directive = []\<rparr>"

definition demo_server :: "unit ConfigObserver list \<Rightarrow> unit deviceServer" where
  "demo_server obs = NewDeviceServer (demo_config_manager obs) None (demo_config_world [(''/d'', Dir)])"

lemma demo_no_playbook [simp]: "\<not> has_playbook (demo_sent c)"
  by (simp add: has_playbook_def demo_sent_def)

theorem messages_conserved_witness:
  "mset (map (message_of demo_server_env) (srv_sent (Send (demo_sent ''a'') (demo_server [])))) =
   mset (map (pending_message demo_server_env) (srv_goroutines (Send (demo_sent ''a'') (demo_server [])))) + mset []"
proof -
  have "(server_step demo_server_env demo_codec)\<^sup>*\<^sup>* (demo_server []) (Send (demo_sent ''a'') (demo_server []))"
    by (rule r_into_rtranclp, rule server_step.send)
  from messages_conserved [OF this [unfolded demo_server_def], folded demo_server_def] show ?thesis
    by (simp add: Send_def demo_server_def NewDeviceServer_def)
qed

lemma no_observers_update: "cfg_observers m = [] \<Longrightarrow> \<exists>err m' w'. ConfigManager_Update enc msg m w = (Ret (err, m'), w') \<and> cfg_observers m' = []"
  by (auto simp: ConfigManager_Update_def split: sum.splits prod.splits option.splits)

theorem messages_overtake_witness:
  "\<exists>s'. (server_step demo_server_env demo_codec)\<^sup>*\<^sup>* (Send (demo_sent ''b'') (Send (demo_sent ''a'') (demo_server []))) s' \<and>
     srv_applied s' = [message_of demo_server_env (demo_sent ''b''), message_of demo_server_env (demo_sent ''a'')]"
proof -
  let ?s = "demo_server []"
  have g: "srv_goroutines ?s = []" "srv_applied ?s = []" "cfg_observers (srv_config ?s) = []"
    by (simp_all add: demo_server_def NewDeviceServer_def demo_config_manager_def)
  obtain e2 cfg2 w2 where u2: "ConfigManager_Update demo_codec (message_of demo_server_env (demo_sent ''b'')) (srv_config ?s) (srv_world ?s) = (Ret (e2, cfg2), w2)"
    and "cfg_observers cfg2 = []"
    using no_observers_update [OF g(3)] by blast
  then obtain e1 cfg1 w1 where u1: "ConfigManager_Update demo_codec (message_of demo_server_env (demo_sent ''a'')) cfg2 w2 = (Ret (e1, cfg1), w1)"
    using no_observers_update by blast
  from messages_overtake [OF g(1) demo_no_playbook demo_no_playbook u2 u1] g(2) show ?thesis by auto
qed

definition demo_tsdb :: TSDB where
  "demo_tsdb = \<lparr>ts_dir = ''/m'', ts_open = True, ts_RetentionDuration = DefaultRetentionDuration, ts_MaxBytes = 0\<rparr>"


theorem playbook_timeout_bounds_witness:
  "getTimeout [(''ansible-playbook-timeout'', Itoa 20)] = 20000000000 \<and> getTimeout [(''ansible-playbook-timeout'', Itoa 9999999999)] < 0"
  using playbook_timeout_bounds [of "[(''ansible-playbook-timeout'', Itoa 20)]" undefined 20]
    playbook_timeout_bounds [of "[(''ansible-playbook-timeout'', Itoa 9999999999)]" undefined 9999999999] by simp

end
