(* ===== verification/Graceful_Reboot.thy ===== *)
theory Graceful_Reboot
  imports Heartbeat Metrics_Sources
begin

text \<open>
  The reboot after an upgrade: \<open>gracefulRebootFlow\<close> in \<open>internal/os/os.go\<close> asks a goroutine of the
  main program (\<open>listenStartGracefulRebootChannel\<close> in \<open>cmd/device-worker/main.go\<close>) to stop the
  components and waits for its answer for ten seconds at most. Both channels are unbuffered: a send
  and its receive are one step of the two goroutines together.
\<close>

section \<open>Stopping the components\<close>

record ('x, 'y) components =
  co_workloads :: "'x mworld"
  co_monitor :: Monitor
  co_daemon :: metricsDaemon
  co_tsdb :: TSDB
  co_heartbeat :: "('x, 'y) Heartbeat"

definition stop_workloads :: "('p, 'x) WorkloadWrapper \<Rightarrow> ('x, 'y) components \<Rightarrow> (error option, ('x, 'y) components) call" where
  "stop_workloads ww c = (case StopWorkloads ww (co_workloads c) of (r, m) \<Rightarrow> (r, c\<lparr>co_workloads := m\<rparr>))"

definition stop_monitor :: "('x, 'y) components \<Rightarrow> (error option, ('x, 'y) components) call" where
  "stop_monitor c = (case Monitor_Deregister (co_monitor c) of (r, m) \<Rightarrow> (Ret r, c\<lparr>co_monitor := m\<rparr>))"

definition stop_system_metrics :: "('x, 'y) components \<Rightarrow> (error option, ('x, 'y) components) call" where
  "stop_system_metrics c = (case SystemMetrics_Deregister DeleteTarget (co_daemon c) of (r, d) \<Rightarrow> (Ret r, c\<lparr>co_daemon := d\<rparr>))"

definition stop_store :: "('v, 'q, 'x) tsdb_api \<Rightarrow> ('x, 'y) components \<Rightarrow> (error option, ('x, 'y) components) call" where
  "stop_store api c =
     (case TSDB_Deregister api (co_tsdb c) (out (co_workloads c)) of
        ((r, t), w) \<Rightarrow> (Ret r, c\<lparr>co_tsdb := t, co_workloads := (co_workloads c)\<lparr>out := w\<rparr>\<rparr>))"

definition stop_heartbeat :: "('x, 'y) components \<Rightarrow> (error option, ('x, 'y) components) call" where
  "stop_heartbeat c = (case Heartbeat_Deregister (co_heartbeat c) of (r, h) \<Rightarrow> (Ret r, c\<lparr>co_heartbeat := h\<rparr>))"

text \<open>The body of the listener up to the wait for playbooks; an error there is fatal for the worker.\<close>

definition stop_components ::
  "('p, 'x) WorkloadWrapper \<Rightarrow> ('v, 'q, 'x) tsdb_api \<Rightarrow> ('x, 'y) components \<Rightarrow> (error option, ('x, 'y) components) call" where
  "stop_components ww api c =
     check (stop_workloads ww c) (\<lambda>c.
     check (stop_monitor c) (\<lambda>c.
     check (stop_system_metrics c) (\<lambda>c.
     check (stop_store api c) (\<lambda>c.
     check (stop_heartbeat c) (\<lambda>c. (Ret None, c))))))"

section \<open>The two goroutines\<close>

text \<open>
  The one that applies a configuration, which runs \<open>gracefulRebootFlow\<close>: at start-up this is the main
  goroutine, which starts the listener only after the observers have been registered.
\<close>

datatype updater_pc = Idle | Requesting | Waiting | Rebooting

datatype listener_pc = NotStarted | Listening | Stopping | Answering | Dead

record ('x, 'y) reboot_state =
  rb_updater :: updater_pc
  rb_listener :: listener_pc
  rb_playbooks :: nat \<comment> \<open>playbooks being run, the counter of the wait group\<close>
  rb_components :: "('x, 'y) components"

inductive reboot_step ::
  "('p, 'x) WorkloadWrapper \<Rightarrow> ('v, 'q, 'x) tsdb_api \<Rightarrow> ('x, 'y) reboot_state \<Rightarrow> ('x, 'y) reboot_state \<Rightarrow> bool" for ww api where
  started: "rb_updater s = Idle \<Longrightarrow> rb_listener s = NotStarted \<Longrightarrow> reboot_step ww api s (s\<lparr>rb_listener := Listening\<rparr>)"
| upgraded: "rb_updater s = Idle \<Longrightarrow> rb_listener s \<noteq> Dead \<Longrightarrow> reboot_step ww api s (s\<lparr>rb_updater := Requesting\<rparr>)"
| request: "rb_updater s = Requesting \<Longrightarrow> rb_listener s = Listening \<Longrightarrow>
    reboot_step ww api s (s\<lparr>rb_updater := Waiting, rb_listener := Stopping\<rparr>)"
| stopped: "rb_listener s = Stopping \<Longrightarrow> stop_components ww api (rb_components s) = (Ret None, c) \<Longrightarrow> rb_playbooks s = 0 \<Longrightarrow>
    reboot_step ww api s (s\<lparr>rb_listener := Answering, rb_components := c\<rparr>)"
| fatal: "rb_listener s = Stopping \<Longrightarrow> stop_components ww api (rb_components s) = (r, c) \<Longrightarrow> r \<noteq> Ret None \<Longrightarrow>
    reboot_step ww api s (s\<lparr>rb_listener := Dead, rb_components := c\<rparr>)"
| answer: "rb_updater s = Waiting \<Longrightarrow> rb_listener s = Answering \<Longrightarrow>
    reboot_step ww api s (s\<lparr>rb_updater := Rebooting, rb_listener := Listening\<rparr>)"
| timeout: "rb_updater s = Waiting \<Longrightarrow> rb_listener s \<noteq> Dead \<Longrightarrow> reboot_step ww api s (s\<lparr>rb_updater := Rebooting\<rparr>)"
| returned: "rb_updater s = Rebooting \<Longrightarrow> rb_listener s \<noteq> Dead \<Longrightarrow> reboot_step ww api s (s\<lparr>rb_updater := Idle\<rparr>)"
| playbook_started: "rb_listener s \<noteq> Dead \<Longrightarrow> rb_listener s \<noteq> NotStarted \<Longrightarrow> reboot_step ww api s (s\<lparr>rb_playbooks := Suc (rb_playbooks s)\<rparr>)"
| playbook_done: "rb_listener s \<noteq> Dead \<Longrightarrow> rb_playbooks s = Suc n \<Longrightarrow> reboot_step ww api s (s\<lparr>rb_playbooks := n\<rparr>)"

inductive_simps reboot_step_blocked: "reboot_step ww api s s'"

text \<open>\<open>gracefulRebootFlow\<close> cannot return any more, whatever the goroutines do.\<close>

definition flow_blocked :: "('x, 'y) reboot_state \<Rightarrow> bool" where
  "flow_blocked s \<longleftrightarrow> rb_updater s = Requesting \<and> rb_listener s \<in> {NotStarted, Answering}"

lemma flow_blocked_step: "flow_blocked s \<Longrightarrow> reboot_step ww api s s' \<Longrightarrow> flow_blocked s'"
  by (erule reboot_step.cases) (auto simp: flow_blocked_def)

lemma flow_blocked_forever: "(reboot_step ww api)\<^sup>*\<^sup>* s s' \<Longrightarrow> flow_blocked s \<Longrightarrow> flow_blocked s'"
  by (induction rule: rtranclp_induct) (auto dest: flow_blocked_step)

text \<open>
  C31: A requested reboot goes on as long as the listener is there to hear it: from every state with
  the request pending and the listener listening, where stopping the components succeeds and no
  playbook runs, the flow ends within three steps. If the listener has not been started yet, as when
  a stored configuration is applied at start-up, or still wants to answer a request that has timed
  out, the flow never ends.
\<close>

theorem reboot_flow_ends:
  "(rb_updater s = Requesting \<and> rb_listener s = Listening \<and> rb_playbooks s = 0 \<and> fst (stop_components ww api (rb_components s)) = Ret None \<longrightarrow>
     (\<exists>s'. (reboot_step ww api ^^ 3) s s' \<and> rb_updater s' = Rebooting \<and> rb_listener s' = Listening \<and>
       rb_components s' = snd (stop_components ww api (rb_components s)))) \<and>
   (rb_updater s = Requesting \<and> (rb_listener s = NotStarted \<or> rb_listener s = Answering) \<longrightarrow>
     (\<forall>s'. (reboot_step ww api)\<^sup>*\<^sup>* s s' \<longrightarrow> rb_updater s' = Requesting))"
proof (intro conjI impI allI)
  assume a: "rb_updater s = Requesting \<and> rb_listener s = Listening \<and> rb_playbooks s = 0 \<and> fst (stop_components ww api (rb_components s)) = Ret None"
  then obtain c where c: "stop_components ww api (rb_components s) = (Ret None, c)" by (metis prod.collapse)
  let ?s1 = "s\<lparr>rb_updater := Waiting, rb_listener := Stopping\<rparr>"
  let ?s2 = "?s1\<lparr>rb_listener := Answering, rb_components := c\<rparr>"
  let ?s3 = "?s2\<lparr>rb_updater := Rebooting, rb_listener := Listening\<rparr>"
  have "reboot_step ww api s ?s1" using a by (intro reboot_step.request) simp_all
  moreover have "reboot_step ww api ?s1 ?s2" using a c by (intro reboot_step.stopped) simp_all
  moreover have "reboot_step ww api ?s2 ?s3" by (intro reboot_step.answer) simp_all
  ultimately have "(reboot_step ww api ^^ 3) s ?s3" by (auto simp: numeral_3_eq_3)
  then show "\<exists>s'. (reboot_step ww api ^^ 3) s s' \<and> rb_updater s' = Rebooting \<and> rb_listener s' = Listening \<and>
      rb_components s' = snd (stop_components ww api (rb_components s))"
    using c by (intro exI [of _ ?s3]) simp
next
  fix s'
  assume "rb_updater s = Requesting \<and> (rb_listener s = NotStarted \<or> rb_listener s = Answering)" "(reboot_step ww api)\<^sup>*\<^sup>* s s'"
  then show "rb_updater s' = Requesting"
    using flow_blocked_forever [of ww api s s'] by (auto simp: flow_blocked_def)
qed

text \<open>
  Once the listener has stopped the components, no data transfer and no heartbeat is due any
  more, nothing is scraped for the system, the metrics database is closed, and the metrics it held
  are deleted from the disk, sent or not: what was collected before an upgrade is lost with the
  reboot.
\<close>

theorem graceful_reboot_stops:
  assumes "stop_components ww api c = (Ret None, c')" and "daemon_ok (co_daemon c)"
  shows "\<not> mon_ticking (co_monitor c') \<and> hbs_ticker (co_heartbeat c') = None \<and> planned (co_daemon c') systemTargetName = None \<and>
    \<not> ts_open (co_tsdb c') \<and> nodes (disk (out (co_workloads c'))) (ts_dir (co_tsdb c)) = None"
proof -
  from assms(1) obtain c1 c2 c3 c4 where "stop_workloads ww c = (Ret None, c1)" "stop_monitor c1 = (Ret None, c2)"
    "stop_system_metrics c2 = (Ret None, c3)" "stop_store api c3 = (Ret None, c4)" "stop_heartbeat c4 = (Ret None, c')"
    unfolding stop_components_def by (auto simp: check_ok)
  note c = this
  have 1: "co_tsdb c1 = co_tsdb c" "co_daemon c1 = co_daemon c"
    using c(1) by (auto simp: stop_workloads_def split: prod.splits)
  have 2: "\<not> mon_ticking (co_monitor c2)" "co_tsdb c2 = co_tsdb c1" "co_daemon c2 = co_daemon c1"
    using c(2) by (auto simp: stop_monitor_def Monitor_Deregister_def)
  have 3: "co_monitor c3 = co_monitor c2" "co_tsdb c3 = co_tsdb c2" "co_daemon c3 = DeleteTarget systemTargetName (co_daemon c2)"
    using c(3) by (auto simp: stop_system_metrics_def SystemMetrics_Deregister_def systemTargetName_def)
  have 4: "co_monitor c4 = co_monitor c3" "co_daemon c4 = co_daemon c3" "\<not> ts_open (co_tsdb c4)"
    "nodes (disk (out (co_workloads c4))) (ts_dir (co_tsdb c3)) = None"
    using c(4) by (auto simp: stop_store_def TSDB_Deregister_def TSDB_Close_def RemoveAll_ok split: prod.splits option.splits)
  have "c' = c4\<lparr>co_heartbeat := stop_ticker (co_heartbeat c4)\<rparr>"
    using c(5) by (auto simp: stop_heartbeat_def Heartbeat_Deregister_def)
  with 1 2 3 4 daemon.plan_del [OF assms(2), of systemTargetName] show ?thesis by (simp add: stop_ticker_def)
qed

text \<open>
  After a request that timed out, the next upgrade can block the worker for good: the listener
  is still waiting for somebody to take its answer.
\<close>

theorem second_reboot_blocks:
  assumes "rb_updater s = Requesting" and "rb_listener s = Listening" and "rb_playbooks s = 0"
    and "fst (stop_components ww api (rb_components s)) = Ret None"
  shows "\<exists>s'. (reboot_step ww api)\<^sup>*\<^sup>* s s' \<and> rb_updater s' = Requesting \<and>
    (\<forall>s''. (reboot_step ww api)\<^sup>*\<^sup>* s' s'' \<longrightarrow> rb_updater s'' = Requesting \<and> rb_listener s'' = Answering)"
proof -
  obtain c where c: "stop_components ww api (rb_components s) = (Ret None, c)" using assms(4) by (metis prod.collapse)
  let ?s1 = "s\<lparr>rb_updater := Waiting, rb_listener := Stopping\<rparr>"
  let ?s2 = "?s1\<lparr>rb_updater := Rebooting\<rparr>"
  let ?s3 = "?s2\<lparr>rb_listener := Answering, rb_components := c\<rparr>"
  let ?s4 = "?s3\<lparr>rb_updater := Idle\<rparr>"
  let ?s5 = "?s4\<lparr>rb_updater := Requesting\<rparr>"
  have "reboot_step ww api s ?s1" using assms by (intro reboot_step.request)
  moreover have "reboot_step ww api ?s1 ?s2" by (intro reboot_step.timeout) simp_all
  moreover have "reboot_step ww api ?s2 ?s3" using assms c by (intro reboot_step.stopped) simp_all
  moreover have "reboot_step ww api ?s3 ?s4" by (intro reboot_step.returned) simp_all
  moreover have "reboot_step ww api ?s4 ?s5" by (intro reboot_step.upgraded) simp_all
  ultimately have "(reboot_step ww api)\<^sup>*\<^sup>* s ?s5" by (meson rtranclp.rtrancl_into_rtrancl rtranclp.rtrancl_refl)
  moreover have "rb_updater s'' = Requesting \<and> rb_listener s'' = Answering" if "(reboot_step ww api)\<^sup>*\<^sup>* ?s5 s''" for s''
    using that
  proof (induction rule: rtranclp_induct)
    case (step s1 s2)
    from step(2,3) show ?case by (cases rule: reboot_step.cases) auto
  qed simp
  moreover have "rb_updater ?s5 = Requesting" by simp
  ultimately show ?thesis by blast
qed

section \<open>Concrete instances\<close>

definition demo_components :: "(unit, unit) components" where
  "demo_components = \<lparr>co_workloads = demo_world [(''/m'', Dir), (''/m/wal'', File ''x'')], co_monitor = NewMonitor,
     co_daemon = NewMetricsDaemon True,
     co_tsdb = \<lparr>ts_dir = ''/m'', ts_open = True, ts_RetentionDuration = DefaultRetentionDuration, ts_MaxBytes = 0\<rparr>,
     co_heartbeat = demo_heartbeat (no_profile_message None)\<rparr>"

lemma demo_stops: "\<exists>c'. stop_components broken_wrapper stuck_tsdb demo_components = (Ret None, c')"
  by (simp add: stop_components_def stop_workloads_def StopWorkloads_def stopAllWorkloads_def all_workloads_def on_out_def
      stop_monitor_def Monitor_Deregister_def stop_system_metrics_def SystemMetrics_Deregister_def stop_store_def TSDB_Deregister_def
      TSDB_Close_def stop_heartbeat_def Heartbeat_Deregister_def demo_components_def broken_wrapper_def stuck_tsdb_def demo_world_def
      RemoveAll_def Let_def)

definition demo_reboot :: "listener_pc \<Rightarrow> (unit, unit) reboot_state" where
  "demo_reboot l = \<lparr>rb_updater = Requesting, rb_listener = l, rb_playbooks = 0, rb_components = demo_components\<rparr>"

lemma demo_reboot_stops: "fst (stop_components broken_wrapper stuck_tsdb (rb_components (demo_reboot l))) = Ret None"
  using demo_stops by (auto simp: demo_reboot_def)

theorem reboot_flow_ends_witness:
  "(\<exists>s'. (reboot_step broken_wrapper stuck_tsdb ^^ 3) (demo_reboot Listening) s' \<and> rb_updater s' = Rebooting) \<and>
   (\<nexists>s'. (reboot_step broken_wrapper stuck_tsdb)\<^sup>*\<^sup>* (demo_reboot NotStarted) s' \<and> rb_updater s' \<noteq> Requesting)"
proof -
  have d: "rb_updater (demo_reboot l) = Requesting" "rb_listener (demo_reboot l) = l" "rb_playbooks (demo_reboot l) = 0" for l
    by (simp_all add: demo_reboot_def)
  show ?thesis
    using reboot_flow_ends [of "demo_reboot Listening" broken_wrapper stuck_tsdb]
      reboot_flow_ends [of "demo_reboot NotStarted" broken_wrapper stuck_tsdb] demo_reboot_stops d by blast
qed

theorem graceful_reboot_stops_witness:
  "\<exists>c'. stop_components broken_wrapper stuck_tsdb demo_components = (Ret None, c') \<and> \<not> ts_open (co_tsdb c') \<and>
     nodes (disk (out (co_workloads c'))) ''/m'' = None"
proof -
  obtain c' where c': "stop_components broken_wrapper stuck_tsdb demo_components = (Ret None, c')" using demo_stops by blast
  have "daemon_ok (co_daemon demo_components)" by (simp add: demo_components_def)
  from graceful_reboot_stops [OF c' this] c' show ?thesis by (auto simp: demo_components_def)
qed

theorem second_reboot_blocks_witness:
  "\<exists>s'. (reboot_step broken_wrapper stuck_tsdb)\<^sup>*\<^sup>* (demo_reboot Listening) s' \<and> rb_updater s' = Requesting \<and>
    (\<forall>s''. (reboot_step broken_wrapper stuck_tsdb)\<^sup>*\<^sup>* s' s'' \<longrightarrow> rb_updater s'' = Requesting \<and> rb_listener s'' = Answering)"
  using second_reboot_blocks [of "demo_reboot Listening", OF _ _ _ demo_reboot_stops] by (simp add: demo_reboot_def)

end
