(* ===== verification/Worker.thy ===== *)
theory Worker
  imports Device_Server Graceful_Reboot
begin

text \<open>
  How \<open>cmd/device-worker/main.go\<close> puts the components together: what is deregistered when the
  device is disconnected, what is closed on a signal, and the workload manager as an observer of
  the configuration.
\<close>

section \<open>Disconnecting\<close>

type_synonym ('x, 'y) worker = "('x, 'y) components \<times> 'y ConfigManager"

definition on_components ::
  "(('x, 'y) components \<Rightarrow> (error option, ('x, 'y) components) call) \<Rightarrow> ('x, 'y) worker \<Rightarrow> (error option, ('x, 'y) worker) call" where
  "on_components f s = (case f (fst s) of (r, c) \<Rightarrow> (r, (c, snd s)))"

definition deregister_workloads :: "('p, 'x) WorkloadWrapper \<Rightarrow> ('x, 'y) components \<Rightarrow> (error option, ('x, 'y) components) call" where
  "deregister_workloads ww c = (case WorkloadManager_Deregister ww (co_workloads c) of (r, m) \<Rightarrow> (r, c\<lparr>co_workloads := m\<rparr>))"

definition deregister_configuration :: "('x, 'y) worker \<Rightarrow> (error option, ('x, 'y) worker) call" where
  "deregister_configuration s =
     (let m = co_workloads (fst s) in
      case ConfigManager_Deregister (snd s) (disk (out m)) of
        (r, d) \<Rightarrow> (Ret r, ((fst s)\<lparr>co_workloads := m\<lparr>out := (out m)\<lparr>disk := d\<rparr>\<rparr>\<rparr>, snd s)))"

text \<open>The arguments of \<open>reg.DeregisterLater\<close>, in order.\<close>

definition deregistrables ::
  "('p, 'x) WorkloadWrapper \<Rightarrow> ('v, 'q, 'x) tsdb_api \<Rightarrow> (string \<times> (('x, 'y) worker \<Rightarrow> (error option, ('x, 'y) worker) call)) list" where
  "deregistrables ww api =
     [(''workload manager'', on_components (deregister_workloads ww)),
      (''configuration manager'', deregister_configuration),
      (''heartbeat'', on_components stop_heartbeat),
      (''data transfer'', on_components stop_monitor),
      (''system metrics'', on_components stop_system_metrics),
      (''metrics storage'', on_components (stop_store api))]"

text \<open>On a signal the store is closed and the running playbooks are waited for.\<close>

definition closeComponents :: "('v, 'q, 'e) tsdb_api \<Rightarrow> TSDB \<Rightarrow> 'e \<Rightarrow> TSDB \<times> 'e" where
  "closeComponents api t e = (case TSDB_Close api t e of ((_, t'), e') \<Rightarrow> (t', e'))"

lemma fold_step: "fold (\<lambda>(_, f) w. snd (f w)) ((n, f) # fs) w = fold (\<lambda>(_, f) w. snd (f w)) fs (snd (f w))"
  by simp

lemma disconnect_effects:
  assumes "NotifyEvent (deregistrables ww api) RECEIVED_DISCONNECT r s = (Ret r', s')" and "daemon_ok (co_daemon (fst s))"
  shows "\<not> IsRegistered r' \<and> deregistered (wm (co_workloads (fst s'))) \<and> hbs_ticker (co_heartbeat (fst s')) = None \<and>
    \<not> mon_ticking (co_monitor (fst s')) \<and> planned (co_daemon (fst s')) systemTargetName = None"
proof -
  let ?steps = "map (\<lambda>(name, f). (''deregister '' @ name, f)) (deregistrables ww api)"
  obtain errors where steps: "all_steps ?steps [] s = (Ret errors, s')" and r': "r' = r\<lparr>reg_registered := False\<rparr>"
    using assms(1) by (auto simp: NotifyEvent_def Registration_Deregister_def split: prod.splits outcome.splits)
  have s': "s' = fold (\<lambda>(_, f) w. snd (f w)) ?steps s" using all_steps_runs [OF steps] by simp
  define s1 where "s1 = snd (on_components (deregister_workloads ww) s)"
  define s2 where "s2 = snd (deregister_configuration s1)"
  define s3 where "s3 = snd (on_components stop_heartbeat s2)"
  define s4 where "s4 = snd (on_components stop_monitor s3)"
  define s5 where "s5 = snd (on_components stop_system_metrics s4)"
  have fin: "s' = snd (on_components (stop_store api) s5)"
    unfolding s' s5_def s4_def s3_def s2_def s1_def by (simp add: deregistrables_def)
  have "fst (on_components (deregister_workloads ww) s) \<noteq> Panic"
    using steps by (auto simp: deregistrables_def split: prod.splits)
  then have 1: "deregistered (wm (co_workloads (fst s1)))" "co_daemon (fst s1) = co_daemon (fst s)"
    by (auto simp: s1_def on_components_def deregister_workloads_def WorkloadManager_Deregister_def split: prod.splits outcome.splits)
  have 2: "wm (co_workloads (fst s2)) = wm (co_workloads (fst s1))" "co_daemon (fst s2) = co_daemon (fst s1)"
    by (auto simp: s2_def deregister_configuration_def Let_def split: prod.splits)
  have 3: "co_workloads (fst s3) = co_workloads (fst s2)" "co_daemon (fst s3) = co_daemon (fst s2)" "hbs_ticker (co_heartbeat (fst s3)) = None"
    by (simp_all add: s3_def on_components_def stop_heartbeat_def Heartbeat_Deregister_def stop_ticker_def)
  have 4: "co_workloads (fst s4) = co_workloads (fst s3)" "co_daemon (fst s4) = co_daemon (fst s3)" "co_heartbeat (fst s4) = co_heartbeat (fst s3)"
    "\<not> mon_ticking (co_monitor (fst s4))"
    by (simp_all add: s4_def on_components_def stop_monitor_def Monitor_Deregister_def)
  have 5: "co_workloads (fst s5) = co_workloads (fst s4)" "co_daemon (fst s5) = DeleteTarget systemTargetName (co_daemon (fst s4))"
    "co_heartbeat (fst s5) = co_heartbeat (fst s4)" "co_monitor (fst s5) = co_monitor (fst s4)"
    by (simp_all add: s5_def on_components_def stop_system_metrics_def SystemMetrics_Deregister_def systemTargetName_def)
  have 6: "wm (co_workloads (fst s')) = wm (co_workloads (fst s5))" "co_daemon (fst s') = co_daemon (fst s5)"
    "co_heartbeat (fst s') = co_heartbeat (fst s5)" "co_monitor (fst s') = co_monitor (fst s5)"
    unfolding fin by (auto simp: on_components_def stop_store_def split: prod.splits)
  have "daemon_ok (co_daemon (fst s4))" using assms(2) 1 2 3 4 by simp
  then have "planned (co_daemon (fst s')) systemTargetName = None"
    using 5(2) 6(2) daemon.plan_del [of "co_daemon (fst s4)" systemTargetName] by simp
  then show ?thesis using 1 2 3 4 5 6 by (simp add: r' IsRegistered_def)
qed


section \<open>The workload manager as an observer\<close>

definition workloads_observer ::
  "'p mgr_env \<Rightarrow> ('p, 'x) WorkloadWrapper \<Rightarrow> (WorkloadManager \<times> 'x) ConfigObserver" where
  "workloads_observer env ww =
     (let call = (\<lambda>upd msg w.
        case upd env ww msg \<lparr>wm = fst (ext w), out = \<lparr>disk = disk w, ext = snd (ext w)\<rparr>\<rparr> of
          (r, m) \<Rightarrow>
            (case r of Ret err \<Rightarrow> Ret (err, after_Update env (fst (ext w)) msg) | Panic \<Rightarrow> Panic,
             \<lparr>disk = disk (out m), ext = (wm m, ext (out m))\<rparr>))
      in \<lparr>obs_Init = call WorkloadManager_Init, obs_Update = call WorkloadManager_Update\<rparr>)"

lemma run_observers_append:
  assumes "run_observers (xs @ ys) msg errors w = (Ret (errors', msg'), w')"
  shows "\<exists>errors1 msg1 w1. run_observers xs msg errors w = (Ret (errors1, msg1), w1) \<and> run_observers ys msg1 errors1 w1 = (Ret (errors', msg'), w')"
  using assms
proof (induction xs arbitrary: msg errors w)
  case (Cons x xs)
  obtain r w1 where r: "obs_Update x msg w = (r, w1)" by fastforce
  with Cons.prems obtain e msg1 where "r = Ret (e, msg1)" by (cases r) auto
  with r Cons show ?case by (cases e) auto
qed simp

lemma workloads_observer_message:
  assumes "obs_Update (workloads_observer env ww) msg w = (Ret (err, msg'), w')"
  shows "msg' = after_Update env (fst (ext w)) msg"
  using assms by (auto simp: workloads_observer_def Let_def split: prod.splits outcome.splits)

lemma credentials_label: "auth_of wl \<noteq> [] \<Longrightarrow> ''io.containers.autoupdate.authfile'' \<in> fst ` set (pod_labels mgr wl)"
  by (simp add: pod_labels_def Let_def)

text \<open>
  C37: Rendering a workload writes its labels into the message that the configuration manager keeps.
  For a workload with labels and registry credentials rendering adds a label, so the same
  message sent again counts as a new configuration, every time, and all observers run
  again.
\<close>

theorem labels_never_settle:
  assumes "ConfigManager_Update enc msg m w = (Ret (None, m'), w')" and "should_update msg m"
    and "cfg_observers m = before @ workloads_observer env ww # after"
    and "list_all keeps_message before" and "list_all keeps_message after"
    and "wl \<in> set (dcm_Workloads msg)" and "wl_Labels wl = Some labels" and "yaml_Unmarshal env (wl_Specification wl) = Inr spec"
    and "auth_of wl \<noteq> []" and "''io.containers.autoupdate.authfile'' \<notin> fst ` set labels"
    and "\<forall>r v. run_observers before msg [] w = (Ret r, v) \<longrightarrow> \<not> deregistered (fst (ext v))"
  shows "should_update msg m'"
proof -
  obtain message' js v where run: "run_observers (cfg_observers m) msg [] w = (Ret ([], message'), v)"
    and m': "m' = m\<lparr>cfg_deviceConfiguration := message', cfg_initialConfig := False\<rparr>"
    using assms(1,2) by (rule ConfigManager_Update_ok)
  obtain errors1 msg1 w1 where b: "run_observers before msg [] w = (Ret (errors1, msg1), w1)"
    and r: "run_observers (workloads_observer env ww # after) msg1 errors1 w1 = (Ret ([], message'), v)"
    using run_observers_append run unfolding assms(3) by blast
  have msg1: "msg1 = msg" by (rule run_observers_no_change [OF b assms(4)])
  obtain e msg2 w2 errors2 where o: "obs_Update (workloads_observer env ww) msg w1 = (Ret (e, msg2), w2)"
    and a: "run_observers after msg2 errors2 w2 = (Ret ([], message'), v)"
    using r unfolding msg1 by (auto split: prod.splits outcome.splits option.splits)
  have m2: "message' = msg2" by (rule run_observers_no_change [OF a assms(5)])
  let ?mgr = "fst (ext w1)"
  have d: "\<not> deregistered ?mgr" using assms(11) b by blast
  have ws: "dcm_Workloads message' = map (after_toPod env ?mgr) (dcm_Workloads msg)"
    using workloads_observer_message [OF o] d by (simp add: m2 after_Update_def)
  have "after_toPod env ?mgr wl = wl\<lparr>wl_Labels := Some (pod_labels ?mgr wl)\<rparr>"
    using assms(7,8) by (simp add: after_toPod_def)
  moreover have "\<not> same_map labels (pod_labels ?mgr wl)" using credentials_label [OF assms(9)] assms(10) by (auto simp: same_map_def)
  ultimately have "\<not> workload_equal wl (after_toPod env ?mgr wl)"
    using assms(7) by (simp add: workload_equal_def)
  then have "\<not> list_all2 workload_equal (dcm_Workloads msg) (dcm_Workloads message')"
    using assms(6) unfolding ws by (auto simp: list_all2_conv_all_nth in_set_conv_nth)
  then show ?thesis by (simp add: m' should_update_def Let_def)
qed

section \<open>Concrete instances\<close>

lemma all_steps_total:
  assumes "\<forall>(n, f) \<in> set steps. \<forall>w. fst (f w) \<noteq> Panic"
  shows "\<exists>errors' w'. all_steps steps errors w = (Ret errors', w')"
  using assms
proof (induction steps arbitrary: errors w)
  case (Cons st steps)
  obtain n f where st: "st = (n, f)" by force
  obtain r w1 where f: "f w = (r, w1)" by force
  with Cons.prems st have "r \<noteq> Panic" by (metis (mono_tags, lifting) case_prodD fst_conv list.set_intros(1))
  then obtain e where "r = Ret e" by (cases r) auto
  with Cons st f show ?case by (cases e) auto
qed simp

lemma demo_deregister: "fst (WorkloadManager_Deregister broken_wrapper m) \<noteq> Panic"
proof -
  have "\<forall>(n, f) \<in> set (deregister_steps broken_wrapper (wm m)). \<forall>w. fst (f w) \<noteq> Panic"
    by (auto simp: deregister_steps_def removeAllWorkloads_def all_workloads_def deleteTable_def removeMappingFile_def
        removeServicesFile_def on_disk_def broken_wrapper_def split: prod.splits)
  from all_steps_total [OF this] obtain errors w' where "all_steps (deregister_steps broken_wrapper (wm m)) [] (out m) = (Ret errors, w')"
    by blast
  then show ?thesis by (simp add: WorkloadManager_Deregister_def on_out_def)
qed


definition labelled_workload :: Workload_model where
  "labelled_workload = demo_workload\<lparr>wl_Labels := Some [(''app'', ''web'')], wl_ImageRegistries := Some \<lparr>ir_AuthFile = ''{}''\<rparr>\<rparr>"

definition labelled_message :: DeviceConfigurationMessage where
  "labelled_message = demo_message\<lparr>dcm_Workloads := [labelled_workload]\<rparr>"

definition working_wrapper :: "(unit, unit) WorkloadWrapper" where
  "working_wrapper = broken_wrapper\<lparr>Wr_Run := \<lambda>_ _ _ w. (Ret None, w)\<rparr>"

definition labelled_manager :: "(WorkloadManager \<times> unit) ConfigManager" where
  "labelled_manager = \<lparr>cfg_deviceConfiguration = defaultDeviceConfigurationMessage, cfg_observers = [workloads_observer demo_env working_wrapper],
     cfg_deviceConfigFile = ''/d/device-config.json'', cfg_initialConfig = True\<rparr>"

definition labelled_world :: "(WorkloadManager \<times> unit) world" where
  "labelled_world = \<lparr>disk = fs_of [(''/d'', Dir), (''/w'', Dir), (''/v'', Dir)], ext = (demo_manager, ())\<rparr>"

lemma labelled_update:
  "case fst (ConfigManager_Update demo_codec labelled_message labelled_manager labelled_world) of Ret (err, _) \<Rightarrow> err = None | Panic \<Rightarrow> False"
  by code_simp

theorem labels_never_settle_witness:
  "\<exists>m' w'. ConfigManager_Update demo_codec labelled_message labelled_manager labelled_world = (Ret (None, m'), w') \<and>
     should_update labelled_message m'"
proof -
  obtain m' w' where u: "ConfigManager_Update demo_codec labelled_message labelled_manager labelled_world = (Ret (None, m'), w')"
    using labelled_update
    by (cases "ConfigManager_Update demo_codec labelled_message labelled_manager labelled_world") (auto split: outcome.splits)
  have "should_update labelled_message m'"
  proof (rule labels_never_settle [OF u])
    show "should_update labelled_message labelled_manager"
      by (simp add: should_update_def Let_def IsInitialConfig_def labelled_manager_def)
    show "cfg_observers labelled_manager = [] @ workloads_observer demo_env working_wrapper # []" by (simp add: labelled_manager_def)
    show "labelled_workload \<in> set (dcm_Workloads labelled_message)" by (simp add: labelled_message_def)
    show "wl_Labels labelled_workload = Some [(''app'', ''web'')]" by (simp add: labelled_workload_def)
    show "yaml_Unmarshal demo_env (wl_Specification labelled_workload) = Inr \<lparr>spec_Volumes = [], spec_Containers = [], spec_other = ()\<rparr>"
      by (simp add: demo_env_def)
    show "auth_of labelled_workload \<noteq> []" by (simp add: auth_of_def labelled_workload_def)
  qed (simp_all add: labelled_world_def demo_manager_def)
  with u show ?thesis by blast
qed

end
