(* ===== verification/Pod_Streams.thy ===== *)
theory Pod_Streams
  imports Wrapper
begin

text \<open>
  The goroutines behind \<open>Events\<close> and \<open>containerLog\<close> of \<open>internal/workload/podman/podman.go\<close>, and the one of
  \<open>newWorkloadInstance\<close> in \<open>internal/workload/wrapper.go\<close> that tells the observers, as step relations: what
  arrives, in which order, and what closing a channel does.
\<close>

section \<open>Pod events\<close>

text \<open>
  The channel \<open>events\<close> is unbuffered: a send is one step of its sender and the goroutine that tells the
  observers. Every pod found at the start is announced by a goroutine of its own; the events of
  podman go through \<open>evchan\<close>, of capacity 1000, and one translating goroutine. The bindings'
  \<open>system.Events\<close> closes \<open>evchan\<close> when podman ends the stream; receiving from a closed channel gives the
  zero event at once. The last four fields record what happened, for the statements below.
\<close>

record ('o, 'e) event_state =
  es_workload :: "'o Workload"
  es_announcements :: "PodmanEvent list" \<comment> \<open>goroutines waiting to send\<close>
  es_evchan :: "podman_msg list"
  es_closed :: bool \<comment> \<open>\<open>system.Events\<close> has closed \<open>evchan\<close>\<close>
  es_next :: "PodmanEvent option" \<comment> \<open>what the translator wants to send\<close>
  es_outside :: 'e
  es_announced :: "PodmanEvent list"
  es_translated :: "PodmanEvent list"
  es_received :: "PodmanEvent list"
  es_told :: "('o \<times> notification) list"

definition evchan_capacity :: nat where
  "evchan_capacity = 1000"

text \<open>The state \<open>newWorkloadInstance\<close> leaves: podman is listed once, for the announcements.\<close>

definition start_events :: "'e podman_api \<Rightarrow> 'o Workload \<Rightarrow> 'e \<Rightarrow> ('o, 'e) event_state" where
  "start_events api ww e =
     (case podman_Events api e of
        (evs, e') \<Rightarrow> \<lparr>es_workload = ww, es_announcements = evs, es_evchan = [], es_closed = False, es_next = None, es_outside = e',
           es_announced = [], es_translated = [], es_received = [], es_told = []\<rparr>)"

lemma start_events_empty:
  "es_workload (start_events api ww e) = ww" "es_evchan (start_events api ww e) = []" "\<not> es_closed (start_events api ww e)"
  "es_next (start_events api ww e) = None" "es_translated (start_events api ww e) = []" "es_told (start_events api ww e) = []"
  by (cases "podman_Events api e", simp add: start_events_def)+

definition receive_event :: "PodmanEvent \<Rightarrow> ('o, 'e) event_state \<Rightarrow> ('o, 'e) event_state" where
  "receive_event ev s = s\<lparr>es_received := es_received s @ [ev], es_told := es_told s @ observer_turn (es_workload s) ev\<rparr>"

definition translate_event :: "'e podman_api \<Rightarrow> podman_msg \<Rightarrow> ('o, 'e) event_state \<Rightarrow> ('o, 'e) event_state" where
  "translate_event api msg s =
     (case event_turn api msg (es_outside s) of
        (r, e) \<Rightarrow> s\<lparr>es_next := r, es_outside := e,
                    es_translated := es_translated s @ (case r of None \<Rightarrow> [] | Some ev \<Rightarrow> [ev])\<rparr>)"

text \<open>The zero value of an event.\<close>

definition zero_msg :: podman_msg where
  "zero_msg = \<lparr>msg_Action = [], msg_ID = [], msg_Attributes = []\<rparr>"

inductive event_step :: "'e podman_api \<Rightarrow> ('o, 'e) event_state \<Rightarrow> ('o, 'e) event_state \<Rightarrow> bool" for api where
  report: "\<not> es_closed s \<Longrightarrow> length (es_evchan s) < evchan_capacity \<Longrightarrow> event_step api s (s\<lparr>es_evchan := es_evchan s @ [msg]\<rparr>)"
| translate: "es_next s = None \<Longrightarrow> es_evchan s = msg # rest \<Longrightarrow> event_step api s (translate_event api msg (s\<lparr>es_evchan := rest\<rparr>))"
| stream_ends: "\<not> es_closed s \<Longrightarrow> event_step api s (s\<lparr>es_closed := True\<rparr>)"
| translate_zero: "es_next s = None \<Longrightarrow> es_evchan s = [] \<Longrightarrow> es_closed s \<Longrightarrow> event_step api s (translate_event api zero_msg s)"
| send: "es_next s = Some ev \<Longrightarrow> event_step api s ((receive_event ev s)\<lparr>es_next := None\<rparr>)"
| announce: "i < length (es_announcements s) \<Longrightarrow>
    event_step api s ((receive_event (es_announcements s ! i) s)
      \<lparr>es_announcements := drop_nth i (es_announcements s), es_announced := es_announced s @ [es_announcements s ! i]\<rparr>)"
| register: "event_step api s (s\<lparr>es_workload := Workload_RegisterObserver obs (es_workload s)\<rparr>)"

text \<open>
  What is received is a shuffle of the announcements sent so far and of the translated events; the
  translated ones keep the order in which podman reported them, and no announcement is lost
  before it is received.
\<close>

definition sent_events :: "('o, 'e) event_state \<Rightarrow> PodmanEvent list" where
  "sent_events s = (if es_next s = None then es_translated s else butlast (es_translated s))"

definition events_ok :: "PodmanEvent list \<Rightarrow> ('o, 'e) event_state \<Rightarrow> bool" where
  "events_ok initial s \<longleftrightarrow>
     es_received s \<in> shuffles (es_announced s) (sent_events s) \<and>
     mset (es_announced s) + mset (es_announcements s) = mset initial \<and>
     (\<forall>ev. es_next s = Some ev \<longrightarrow> es_translated s \<noteq> [] \<and> last (es_translated s) = ev) \<and>
     length (es_evchan s) \<le> evchan_capacity"

lemma shuffles_snoc: "zs \<in> shuffles xs ys \<Longrightarrow> zs @ [y] \<in> shuffles xs (ys @ [y])"
  by (induction zs arbitrary: xs ys) (auto simp: Cons_in_shuffles_iff)

lemma shuffles_snoc_left: "zs \<in> shuffles xs ys \<Longrightarrow> zs @ [x] \<in> shuffles (xs @ [x]) ys"
  using shuffles_snoc shuffles_commutes by metis

lemma translate_zero_msg: "es_next s = None \<Longrightarrow> translate_event api zero_msg s = s"
  by (simp add: translate_event_def event_turn_def zero_msg_def podmanStart_def podmanRemove_def podmanStop_def)

lemma event_step_ok:
  assumes "event_step api s s'" and "events_ok initial s"
  shows "events_ok initial s'"
  using assms
proof (induction rule: event_step.induct)
  case (translate s msg rest)
  obtain r e where t: "event_turn api msg (es_outside s) = (r, e)" by fastforce
  show ?case
    using translate t by (cases r) (auto simp: events_ok_def translate_event_def sent_events_def)
next
  case (send s ev)
  then have e: "es_translated s = butlast (es_translated s) @ [ev]" by (auto simp: events_ok_def append_butlast_last_id)
  have "es_received s \<in> shuffles (es_announced s) (butlast (es_translated s))"
    using send by (simp add: events_ok_def sent_events_def)
  then have "es_received s @ [ev] \<in> shuffles (es_announced s) (es_translated s)" by (subst e) (rule shuffles_snoc)
  with send show ?case by (simp add: events_ok_def receive_event_def sent_events_def)
next
  case (announce i s)
  let ?ev = "es_announcements s ! i"
  have "mset (es_announced s @ [?ev]) + mset (drop_nth i (es_announcements s)) = mset (es_announced s) + mset (es_announcements s)"
    by (simp flip: drop_nth_mset [OF announce(1)])
  with announce show ?case by (auto simp: events_ok_def receive_event_def sent_events_def shuffles_snoc_left)
qed (auto simp: events_ok_def sent_events_def translate_zero_msg)

lemma start_events_ok: "events_ok (es_announcements (start_events api ww e)) (start_events api ww e)"
  by (auto simp: start_events_def events_ok_def sent_events_def split: prod.splits)


section \<open>Announcements without an audience\<close>

text \<open>What an observer is told of an event.\<close>

definition note_of :: "PodmanEvent \<Rightarrow> notification \<Rightarrow> bool" where
  "note_of ev n \<longleftrightarrow>
     pe_Event ev = StartedContainer \<and> n = WorkloadStarted (pe_WorkloadName ev) [pe_Report ev] \<or>
     pe_Event ev = StoppedContainer \<and> n = WorkloadRemoved (pe_WorkloadName ev)"

lemma observer_turn_notes: "(obs, n) \<in> set (observer_turn ww ev) \<Longrightarrow> note_of ev n"
  by (auto simp: observer_turn_def note_of_def split: if_splits)

lemma observer_turn_nobody: "ww_observers ww = [] \<Longrightarrow> observer_turn ww ev = []"
  by (simp add: observer_turn_def)

lemma announce_all:
  assumes "ww_observers (es_workload s) = []"
  shows "\<exists>s'. (event_step api)\<^sup>*\<^sup>* s s' \<and> es_announcements s' = [] \<and> es_announced s' = es_announced s @ es_announcements s \<and>
    es_told s' = es_told s \<and> es_next s' = es_next s \<and> es_translated s' = es_translated s"
  using assms
proof (induction "es_announcements s" arbitrary: s)
  case Nil
  then show ?case by (intro exI [of _ s]) simp
next
  case (Cons ev evs)
  let ?s1 = "(receive_event ev s)\<lparr>es_announcements := evs, es_announced := es_announced s @ [ev]\<rparr>"
  have a: "es_announcements s = ev # evs" using Cons(2) by simp
  have "event_step api s ?s1" using event_step.announce [of 0 s api] by (simp add: a drop_nth_def)
  moreover obtain s' where "(event_step api)\<^sup>*\<^sup>* ?s1 s'" and "es_announcements s' = []" and "es_announced s' = es_announced s @ ev # evs"
    and "es_told s' = es_told ?s1 \<and> es_next s' = es_next ?s1 \<and> es_translated s' = es_translated ?s1"
    using Cons(1) [of ?s1] Cons(3) by (auto simp: receive_event_def)
  moreover have "es_told ?s1 = es_told s" using Cons(3) by (simp add: receive_event_def observer_turn_nobody)
  ultimately show ?case
    by (intro exI [of _ s']) (auto simp: a receive_event_def intro: converse_rtranclp_into_rtranclp)
qed

definition only_reports :: "('o, 'e) event_state \<Rightarrow> bool" where
  "only_reports s \<longleftrightarrow> es_announcements s = [] \<and> (\<forall>ev. es_next s = Some ev \<longrightarrow> ev \<in> set (es_translated s)) \<and>
     (\<forall>n \<in> snd ` set (es_told s). \<exists>ev \<in> set (es_translated s). note_of ev n)"

lemma only_reports_step: "event_step api s s' \<Longrightarrow> only_reports s \<Longrightarrow> only_reports s'"
proof (induction rule: event_step.induct)
  case (translate s msg rest)
  obtain r e where "event_turn api msg (es_outside s) = (r, e)" by fastforce
  with translate show ?case by (cases r) (fastforce simp: only_reports_def translate_event_def)+
next
  case (send s ev)
  have "note_of ev x" if "x \<in> snd ` set (observer_turn (es_workload s) ev)" for x
    using that observer_turn_notes by fastforce
  with send show ?case by (fastforce simp: only_reports_def receive_event_def)
qed (auto simp: only_reports_def translate_zero_msg)

text \<open>
  The announcements of the running pods can be lost: \<open>newWorkloadInstance\<close> starts the goroutine that
  tells the observers before anybody has registered, so all announcements may have been received
  and told to nobody. From then on the observers only ever hear of what podman reports anew.
\<close>

theorem announcements_lost:
  "\<exists>s. (event_step api)\<^sup>*\<^sup>* (start_events api (NewWorkload p n m sm interval) e) s \<and>
     es_announced s = fst (podman_Events api e) \<and> es_announcements s = [] \<and> es_told s = [] \<and>
     (\<nexists>s' obs x. (event_step api)\<^sup>*\<^sup>* s s' \<and> (obs, x) \<in> set (es_told s') \<and> (\<nexists>ev. ev \<in> set (es_translated s') \<and> note_of ev x))"
  (is "\<exists>s. (event_step api)\<^sup>*\<^sup>* ?s0 s \<and> _ s")
proof -
  have "ww_observers (es_workload ?s0) = []" by (simp add: start_events_empty NewWorkload_def)
  from announce_all [OF this, of api] obtain s where s: "(event_step api)\<^sup>*\<^sup>* ?s0 s \<and> es_announcements s = [] \<and>
      es_announced s = es_announced ?s0 @ es_announcements ?s0 \<and> es_told s = es_told ?s0 \<and> es_next s = es_next ?s0 \<and>
      es_translated s = es_translated ?s0" ..
  then have r: "only_reports s" by (simp add: only_reports_def start_events_def split: prod.splits)
  have "only_reports s'" if "(event_step api)\<^sup>*\<^sup>* s s'" for s'
    using that r by (induction rule: rtranclp_induct) (auto intro: only_reports_step)
  then have "\<nexists>s' obs x. (event_step api)\<^sup>*\<^sup>* s s' \<and> (obs, x) \<in> set (es_told s') \<and> (\<nexists>ev. ev \<in> set (es_translated s') \<and> note_of ev x)"
    unfolding only_reports_def by (metis image_eqI snd_conv)
  with s show ?thesis by (intro exI [of _ s]) (simp add: start_events_def split: prod.splits)
qed

lemma started_events_started: "ev \<in> set (fst (started_events api wrks e)) \<Longrightarrow> pe_Event ev = StartedContainer"
  by (induction api wrks e rule: started_events.induct) (auto split: prod.splits sum.splits)

text \<open>
  The announcement of a pod can also be overtaken: when the pod stops right after the start, its
  observers may hear of the stop first and of the start last.
\<close>

theorem announcement_overtaken:
  fixes msg :: podman_msg
  assumes "podman_Events api e = ([ev], e1)" and "msg_Action msg = podmanRemove"
    and "map_get (msg_Attributes msg) ''name'' = pe_WorkloadName ev"
  shows "\<exists>s. (event_step api)\<^sup>*\<^sup>* (start_events api (NewWorkload p n m sm interval) e) s \<and>
    es_told s = [(obs, WorkloadRemoved (pe_WorkloadName ev)), (obs, WorkloadStarted (pe_WorkloadName ev) [pe_Report ev])]"
  (is "\<exists>s. (event_step api)\<^sup>*\<^sup>* ?s0 s \<and> _ s")
proof -
  let ?stop = "\<lparr>pe_Event = StoppedContainer, pe_WorkloadName = pe_WorkloadName ev, pe_Report = None\<rparr>"
  have ev: "pe_Event ev = StartedContainer"
  proof -
    obtain wrks e' where "fst (started_events api wrks e') = [ev]"
      using assms(1) by (auto simp: podman_Events_def split: prod.splits sum.splits) (metis fst_conv)
    then show ?thesis by (intro started_events_started [of ev api wrks e']) simp
  qed
  have turn: "event_turn api msg x = (Some ?stop, x)" for x
    using assms(2,3) by (simp add: event_turn_def podmanStart_def podmanRemove_def)
  define s0 where "s0 = ?s0"
  define s1 where "s1 = s0\<lparr>es_workload := Workload_RegisterObserver obs (es_workload s0)\<rparr>"
  define s2 where "s2 = s1\<lparr>es_evchan := [msg]\<rparr>"
  define s3 where "s3 = translate_event api msg (s2\<lparr>es_evchan := []\<rparr>)"
  define s4 where "s4 = (receive_event ?stop s3)\<lparr>es_next := None\<rparr>"
  define s5 where "s5 = (receive_event ev s4)\<lparr>es_announcements := [], es_announced := [ev]\<rparr>"
  have s0: "es_workload s0 = NewWorkload p n m sm interval" "es_announcements s0 = [ev]" "es_evchan s0 = []" "\<not> es_closed s0" "es_next s0 = None" "es_told s0 = []" "es_announced s0 = []"
    using assms(1) by (simp_all add: s0_def start_events_def)
  note defs = s5_def s4_def s3_def s2_def s1_def receive_event_def translate_event_def turn
  have "event_step api s0 s1" using event_step.register [of api s0 obs] by (simp add: s1_def s0)
  moreover have "event_step api s1 s2" using event_step.report [of s1 api msg] by (simp add: s2_def s1_def s0 evchan_capacity_def)
  moreover have "event_step api s2 s3" unfolding s3_def by (rule event_step.translate) (simp_all add: s2_def s1_def s0)
  moreover have "event_step api s3 s4" unfolding s4_def by (rule event_step.send) (simp add: defs)
  moreover have "event_step api s4 s5"
    using event_step.announce [of 0 s4 api] by (simp add: s5_def) (simp add: defs s0 drop_nth_def)
  ultimately have "(event_step api)\<^sup>*\<^sup>* s0 s5" by (meson rtranclp.rtrancl_into_rtrancl rtranclp.rtrancl_refl)
  moreover have "es_told s5 = [(obs, WorkloadRemoved (pe_WorkloadName ev)), (obs, WorkloadStarted (pe_WorkloadName ev) [pe_Report ev])]"
    by (simp add: defs s0 observer_turn_def Workload_RegisterObserver_def NewWorkload_def ev StartedContainer_def StoppedContainer_def)
  ultimately show ?thesis unfolding s0_def by blast
qed

section \<open>After the end of the stream\<close>

definition spinning :: "('o, 'e) event_state \<Rightarrow> bool" where
  "spinning s \<longleftrightarrow> es_closed s \<and> es_evchan s = [] \<and> es_next s = None"

lemma spinning_self: "spinning s \<Longrightarrow> event_step api s s"
  using event_step.translate_zero [of s api] by (simp add: spinning_def translate_zero_msg)

lemma spinning_step: "event_step api s s' \<Longrightarrow> spinning s \<Longrightarrow> spinning s' \<and> es_translated s' = es_translated s"
  by (induction rule: event_step.induct) (auto simp: spinning_def translate_zero_msg receive_event_def)

text \<open>
  C32: When podman ends the stream of events, as it does when it is restarted, the worker never hears of
  a pod again: once the buffered events are translated, the translator is at work at every
  moment, on zero events that lead nowhere.
\<close>

theorem ended_stream_spins:
  assumes "(event_step api)\<^sup>*\<^sup>* (start_events api ww e) s" and "es_closed s" and "es_evchan s = []" and "es_next s = None"
    and "(event_step api)\<^sup>*\<^sup>* s s'"
  shows "event_step api s' s' \<and> translate_event api zero_msg s' = s' \<and> es_translated s' = es_translated s"
proof -
  have "spinning s' \<and> es_translated s' = es_translated s"
    using assms(5)
  proof (induction rule: rtranclp_induct)
    case base
    show ?case using assms(2-4) by (simp add: spinning_def)
  next
    case (step u v)
    then show ?case using spinning_step by metis
  qed
  then show ?thesis using spinning_self [of s'] translate_zero_msg [of s'] by (simp add: spinning_def)
qed

section \<open>Container logs\<close>

text \<open>
  \<open>containerLog\<close> runs two goroutines: the bindings' \<open>containers.Logs\<close>, which sends every line it reads from
  podman to one of two channels of capacity 100, and the pump, which writes the lines to the buffer
  of the container until the context is cancelled and then closes both channels. The loop of
  \<open>Logs\<close> reads the buffer. \<open>containers.Logs\<close> does not watch the context: it returns at the end of the
  log or on an error, at a moment of its own. Sending on a closed channel panics.
\<close>

record log_pump =
  lp_stdout :: "string list"
  lp_stderr :: "string list"
  lp_closed :: bool \<comment> \<open>the pump has closed the channels and ended\<close>
  lp_cancelled :: bool
  lp_reading :: bool \<comment> \<open>\<open>containers.Logs\<close> has not returned\<close>
  lp_buffer :: string
  lp_forwarded :: "string list" \<comment> \<open>what the loop of \<open>Logs\<close> has written to the log writer\<close>
  lp_crashed :: bool
  lp_sent_out :: "string list"
  lp_sent_err :: "string list"
  lp_written :: "string list" \<comment> \<open>the lines written to the buffer\<close>

definition containerLog :: log_pump where
  "containerLog = \<lparr>lp_stdout = [], lp_stderr = [], lp_closed = False, lp_cancelled = False, lp_reading = True, lp_buffer = [],
     lp_forwarded = [], lp_crashed = False, lp_sent_out = [], lp_sent_err = [], lp_written = []\<rparr>"

definition line_capacity :: nat where
  "line_capacity = 100"

definition write_line :: "string \<Rightarrow> log_pump \<Rightarrow> log_pump" where
  "write_line l s = s\<lparr>lp_buffer := lp_buffer s @ l, lp_written := lp_written s @ [l]\<rparr>"

inductive pump_step :: "string \<Rightarrow> log_pump \<Rightarrow> log_pump \<Rightarrow> bool" for containerID where
  out_line: "\<not> lp_crashed s \<Longrightarrow> lp_reading s \<Longrightarrow> \<not> lp_closed s \<Longrightarrow> length (lp_stdout s) < line_capacity \<Longrightarrow>
    pump_step containerID s (s\<lparr>lp_stdout := lp_stdout s @ [l], lp_sent_out := lp_sent_out s @ [l]\<rparr>)"
| err_line: "\<not> lp_crashed s \<Longrightarrow> lp_reading s \<Longrightarrow> \<not> lp_closed s \<Longrightarrow> length (lp_stderr s) < line_capacity \<Longrightarrow>
    pump_step containerID s (s\<lparr>lp_stderr := lp_stderr s @ [l], lp_sent_err := lp_sent_err s @ [l]\<rparr>)"
| send_closed: "\<not> lp_crashed s \<Longrightarrow> lp_reading s \<Longrightarrow> lp_closed s \<Longrightarrow> pump_step containerID s (s\<lparr>lp_crashed := True\<rparr>)"
| returned: "\<not> lp_crashed s \<Longrightarrow> lp_reading s \<Longrightarrow> pump_step containerID s (s\<lparr>lp_reading := False\<rparr>)"
| take_out: "\<not> lp_crashed s \<Longrightarrow> \<not> lp_closed s \<Longrightarrow> lp_stdout s = l # ls \<Longrightarrow> pump_step containerID s (write_line l (s\<lparr>lp_stdout := ls\<rparr>))"
| take_err: "\<not> lp_crashed s \<Longrightarrow> \<not> lp_closed s \<Longrightarrow> lp_stderr s = l # ls \<Longrightarrow> pump_step containerID s (write_line l (s\<lparr>lp_stderr := ls\<rparr>))"
| read: "\<not> lp_crashed s \<Longrightarrow> logs_turn [(containerID, lp_buffer s)] = (ls, [(containerID, rest)]) \<Longrightarrow>
    pump_step containerID s (s\<lparr>lp_buffer := rest, lp_forwarded := lp_forwarded s @ ls\<rparr>)"
| cancel: "\<not> lp_crashed s \<Longrightarrow> pump_step containerID s (s\<lparr>lp_cancelled := True\<rparr>)"
| close: "\<not> lp_crashed s \<Longrightarrow> \<not> lp_closed s \<Longrightarrow> lp_cancelled s \<Longrightarrow> pump_step containerID s (s\<lparr>lp_closed := True\<rparr>)"

text \<open>Reading leaves an end of the text.\<close>

lemma ReadLine_suffix: "ReadLine txt = (l, p, rest) \<Longrightarrow> suffix rest txt"
  by (auto simp: ReadLine_def Let_def suffix_drop split: if_splits)

lemma drain_lines_suffix: "drain_lines acc t = (r, rest) \<Longrightarrow> suffix rest t"
proof (induction acc t rule: drain_lines.induct)
  case (1 acc t)
  obtain l p rest1 where l: "ReadLine t = (l, p, rest1)" by (cases "ReadLine t") auto
  with 1(2) have "rest = rest1 \<or> (l \<noteq> [] \<and> drain_lines (if p then acc else acc @ l) rest1 = (r, rest))"
    by (subst (asm) drain_lines.simps) (auto split: if_splits)
  with 1(1) l have "suffix rest rest1" by auto
  then show ?case using ReadLine_suffix [OF l] by (rule suffix_order.trans)
qed

definition pump_ok :: "log_pump \<Rightarrow> bool" where
  "pump_ok s \<longleftrightarrow>
     (\<exists>a b. lp_sent_out s = a @ lp_stdout s \<and> lp_sent_err s = b @ lp_stderr s \<and> lp_written s \<in> shuffles a b) \<and>
     length (lp_stdout s) \<le> line_capacity \<and> length (lp_stderr s) \<le> line_capacity \<and>
     suffix (lp_buffer s) (concat (lp_written s)) \<and> (lp_crashed s \<longrightarrow> lp_cancelled s) \<and> (lp_closed s \<longrightarrow> lp_cancelled s)"

lemma pump_ok_start: "pump_ok containerLog"
  by (simp add: pump_ok_def containerLog_def line_capacity_def)

lemma suffix_snoc: "suffix xs ys \<Longrightarrow> suffix (xs @ zs) (ys @ zs)"
  by (auto simp: suffix_def)

lemma pump_step_ok:
  assumes "pump_step containerID s s'" and "pump_ok s"
  shows "pump_ok s'"
  using assms
proof (induction rule: pump_step.induct)
  case (take_out s l ls)
  then obtain a b where "lp_sent_out s = (a @ [l]) @ ls" "lp_sent_err s = b @ lp_stderr s" "lp_written s @ [l] \<in> shuffles (a @ [l]) b"
    by (auto simp: pump_ok_def shuffles_snoc_left)
  with take_out show ?case unfolding pump_ok_def by (auto simp: write_line_def suffix_snoc)
next
  case (take_err s l ls)
  then obtain a b where "lp_sent_out s = a @ lp_stdout s" "lp_sent_err s = (b @ [l]) @ ls" "lp_written s @ [l] \<in> shuffles a (b @ [l])"
    by (auto simp: pump_ok_def shuffles_snoc)
  with take_err show ?case unfolding pump_ok_def by (auto simp: write_line_def suffix_snoc)
next
  case (read s ls rest)
  then have "suffix rest (lp_buffer s)" by (auto simp: Let_def dest: drain_lines_suffix split: prod.splits)
  with read show ?case unfolding pump_ok_def by (auto intro: suffix_order.trans)
qed (auto simp: pump_ok_def)

text \<open>
  The lines of a container reach its buffer in order: what has been written is a shuffle of what was
  taken from the two channels, each in the order sent, no channel holds more than 100 lines, and
  the buffer is an end of the text written. A crash comes only after a cancel.
\<close>

theorem log_lines_in_order:
  assumes "(pump_step containerID)\<^sup>*\<^sup>* containerLog s"
  shows "\<exists>a b. lp_sent_out s = a @ lp_stdout s \<and> lp_sent_err s = b @ lp_stderr s \<and> lp_written s \<in> shuffles a b \<and>
    length (lp_stdout s) \<le> line_capacity \<and> length (lp_stderr s) \<le> line_capacity \<and> suffix (lp_buffer s) (concat (lp_written s))"
proof -
  have "pump_ok s"
    using assms by (induction rule: rtranclp_induct) (rule pump_ok_start, rule pump_step_ok)
  then show ?thesis by (auto simp: pump_ok_def)
qed

text \<open>
  C33: Cancelling the logs of a container that is still being followed can crash the worker: the pump
  closes the channels, and the next line of the container is sent to a closed channel. Without a
  cancel there is no crash.
\<close>

theorem cancelled_logs_crash:
  assumes "(pump_step containerID)\<^sup>*\<^sup>* containerLog s"
  shows "((\<exists>s'. (pump_step containerID)\<^sup>*\<^sup>* s s' \<and> lp_crashed s') \<longleftrightarrow> lp_crashed s \<or> lp_reading s) \<and>
    \<not> (lp_crashed s \<and> \<not> lp_cancelled s)"
proof (intro conjI iffI)
  have "pump_ok s"
    using assms by (induction rule: rtranclp_induct) (rule pump_ok_start, rule pump_step_ok)
  then show "\<not> (lp_crashed s \<and> \<not> lp_cancelled s)" by (simp add: pump_ok_def)
next
  assume "\<exists>s'. (pump_step containerID)\<^sup>*\<^sup>* s s' \<and> lp_crashed s'"
  then obtain s' where s': "(pump_step containerID)\<^sup>*\<^sup>* s s'" "lp_crashed s'" by blast
  from s'(1) have "lp_crashed s' \<or> lp_reading s' \<longrightarrow> lp_crashed s \<or> lp_reading s"
    by (induction rule: rtranclp_induct) (auto elim!: pump_step.cases simp: write_line_def)
  with s'(2) show "lp_crashed s \<or> lp_reading s" by simp
next
  assume c: "lp_crashed s \<or> lp_reading s"
  show "\<exists>s'. (pump_step containerID)\<^sup>*\<^sup>* s s' \<and> lp_crashed s'"
  proof (cases "lp_crashed s")
    case False
    let ?s1 = "s\<lparr>lp_cancelled := True\<rparr>" and ?s2 = "s\<lparr>lp_cancelled := True, lp_closed := True\<rparr>"
    have "(pump_step containerID)\<^sup>*\<^sup>* ?s1 ?s2"
    proof (cases "lp_closed s")
      case open_channels: False
      then show ?thesis using pump_step.close [of ?s1 containerID] False by (auto intro!: r_into_rtranclp)
    next
      case True
      then have "?s1 = ?s2" by simp
      then show ?thesis by simp
    qed
    moreover have "pump_step containerID s ?s1" by (rule pump_step.cancel) (rule False)
    moreover have "pump_step containerID ?s2 (?s2\<lparr>lp_crashed := True\<rparr>)"
      by (rule pump_step.send_closed) (use False c in simp_all)
    ultimately have "(pump_step containerID)\<^sup>*\<^sup>* s (?s2\<lparr>lp_crashed := True\<rparr>)"
      by (meson converse_rtranclp_into_rtranclp rtranclp.rtrancl_into_rtrancl)
    then show ?thesis by (intro exI [of _ "?s2\<lparr>lp_crashed := True\<rparr>"]) simp
  qed blast
qed

section \<open>Concrete instances\<close>

text \<open>One pod runs when the worker starts.\<close>

definition busy_podman :: "unit podman_api" where
  "busy_podman = calm_podman\<lparr>pods_List := \<lambda>e. (Inr [\<lparr>entry_Id = ''id1'', entry_Name = ''web'', entry_Status = ''Running''\<rparr>], e)\<rparr>"

definition web_started :: PodmanEvent where
  "web_started = \<lparr>pe_Event = StartedContainer, pe_WorkloadName = ''web'',
     pe_Report = Some \<lparr>pr_Id = ''id1'', pr_Name = ''id1'', pr_Containers = []\<rparr>\<rparr>"

lemma busy_events: "podman_Events busy_podman () = ([web_started], ())"
  by (simp add: podman_Events_def podman_List_def busy_podman_def calm_podman_def getPodReportforId_def web_started_def)

definition quiet_workload :: "unit Workload" where
  "quiet_workload = NewWorkload \<lparr>timeoutForStopping = 5\<rparr> \<lparr>nft_path = ''nft''\<rparr> example_repo \<lparr>svcFilePath = [], services = []\<rparr> 15"


theorem announcement_overtaken_witness:
  "\<exists>s. (event_step busy_podman)\<^sup>*\<^sup>* (start_events busy_podman quiet_workload ()) s \<and>
     map snd (es_told s) = [WorkloadRemoved ''web'', WorkloadStarted ''web'' [pe_Report web_started]]"
proof -
  have "map_get (msg_Attributes \<lparr>msg_Action = podmanRemove, msg_ID = ''id1'', msg_Attributes = [(''name'', ''web'')]\<rparr>) ''name'' =
      pe_WorkloadName web_started"
    by (simp add: map_get_def web_started_def)
  from announcement_overtaken [OF busy_events _ this, of "\<lparr>timeoutForStopping = 5\<rparr>" "\<lparr>nft_path = ''nft''\<rparr>" example_repo
      "\<lparr>svcFilePath = [], services = []\<rparr>" 15 "()"]
  obtain s where "(event_step busy_podman)\<^sup>*\<^sup>* (start_events busy_podman quiet_workload ()) s"
    "es_told s = [((), WorkloadRemoved (pe_WorkloadName web_started)), ((), WorkloadStarted (pe_WorkloadName web_started) [pe_Report web_started])]"
    unfolding quiet_workload_def by auto
  then show ?thesis by (intro exI [of _ s]) (simp add: web_started_def)
qed

text \<open>The stream ends with an event in the buffer.\<close>

theorem ended_stream_spins_witness:
  "\<exists>s. (event_step calm_podman)\<^sup>*\<^sup>* (start_events calm_podman quiet_workload ()) s \<and> es_closed s \<and>
     event_step calm_podman s s \<and> es_translated s = []"
proof -
  let ?s0 = "start_events calm_podman quiet_workload ()" let ?t = "?s0\<lparr>es_closed := True\<rparr>"
  note s0 = start_events_empty [of calm_podman quiet_workload "()"]
  have r: "(event_step calm_podman)\<^sup>*\<^sup>* ?s0 ?t" using event_step.stream_ends [OF s0(3)] by blast
  from ended_stream_spins [OF r _ _ _ rtranclp.rtrancl_refl] s0 have "event_step calm_podman ?t ?t" by simp
  with r s0 show ?thesis by (intro exI [of _ ?t]) simp
qed

text \<open>A line is being followed.\<close>

theorem log_lines_in_order_witness:
  "\<exists>s. (pump_step ''c'')\<^sup>*\<^sup>* containerLog s \<and> lp_written s = [''hi''] \<and> suffix (lp_buffer s) ''hi''"
proof -
  let ?s1 = "containerLog\<lparr>lp_stdout := [''hi''], lp_sent_out := [''hi'']\<rparr>"
  let ?s2 = "write_line ''hi'' (?s1\<lparr>lp_stdout := []\<rparr>)"
  have "pump_step ''c'' containerLog ?s1"
    using pump_step.out_line [of containerLog "''c''" "''hi''"] by (simp add: containerLog_def line_capacity_def)
  moreover have "pump_step ''c'' ?s1 ?s2" by (rule pump_step.take_out) (simp_all add: containerLog_def)
  ultimately have r: "(pump_step ''c'')\<^sup>*\<^sup>* containerLog ?s2" by (meson rtranclp.rtrancl_into_rtrancl rtranclp.rtrancl_refl)
  from log_lines_in_order [OF r] have "suffix (lp_buffer ?s2) (concat (lp_written ?s2))" by blast
  with r show ?thesis by (intro exI [of _ ?s2]) (simp add: write_line_def containerLog_def)
qed

theorem cancelled_logs_crash_witness:
  "\<exists>s'. (pump_step ''c'')\<^sup>*\<^sup>* containerLog s' \<and> lp_crashed s'"
  using cancelled_logs_crash [of "''c''" containerLog] by (simp add: containerLog_def)

end
