(* ===== verification/Startup.thy ===== *)
theory Startup
  imports Worker Log_Targets Remote_Write
begin

text \<open>
  \<open>main\<close> in \<open>cmd/device-worker/main.go\<close>: the worker registers with the dispatcher, builds its components
  one after the other, makes them observers of the configuration (which applies the stored configuration
  to each of them at once), runs the pending playbooks, and either starts the heartbeats or registers
  the device before it serves.

  The pointers to the components are the fields of \<open>parts\<close>, \<open>None\<close> while a component does not exist.
  The observers work on this state; the dispatcher, the listener, systemd, podman, the metrics
  database and the rest of the outside come from \<open>main_env\<close>.
\<close>

section \<open>The state of the process\<close>

text \<open>Who is told about started and removed workloads.\<close>

datatype wl_observer = LogsObserver | MetricsObserver | MonitorObserver

type_synonym 'e wl_process = "(wl_observer, 'e) process"

text \<open>
  The heartbeat service reads the configuration manager but not its observers; its copy of the
  manager has none.
\<close>

record 'e parts =
  pt_tsdb :: "TSDB option"
  pt_daemon :: "metricsDaemon option"
  pt_wlmetrics :: "WorkloadMetrics option"
  pt_system :: "SystemMetrics option"
  pt_workloads :: "(WorkloadManager \<times> wl_observer Workload) option"
  pt_logs :: "WorkloadsLogsTarget option"
  pt_remote :: "RemoteWrite option"
  pt_os :: "OS option"
  pt_rebooting :: bool \<comment> \<open>\<open>gracefulRebootFlow\<close> has been called\<close>
  pt_monitor :: "Monitor option"
  pt_heartbeat :: "('e wl_process, unit) Heartbeat option"
  pt_outside :: 'e

type_synonym 'e pworld = "'e parts world"

text \<open>Before \<open>main\<close> nothing exists.\<close>

definition no_parts :: "'e \<Rightarrow> 'e parts" where
  "no_parts e = \<lparr>pt_tsdb = None, pt_daemon = None, pt_wlmetrics = None, pt_system = None, pt_workloads = None, pt_logs = None,
     pt_remote = None, pt_os = None, pt_rebooting = False, pt_monitor = None, pt_heartbeat = None, pt_outside = e\<rparr>"

text \<open>
  What \<open>main\<close> needs from outside: the environment variables, \<open>grpc.Dial\<close>, \<open>Register\<close> of the dispatcher
  (registered, and the address to listen on), \<open>net.Listen\<close>, and the parameters of the components.
\<close>

record ('p, 'v, 'q, 'k, 'e) main_env =
  me_environ :: "(string, string) gomap"
  me_Dial :: "string \<Rightarrow> error option"
  me_Register :: "'e \<Rightarrow> (error + bool \<times> string) \<times> 'e"
  me_Listen :: "string \<Rightarrow> error option"
  me_codec :: config_codec
  me_tsdb :: "('v, 'q, 'e) tsdb_api"
  me_wrapper :: "'e env"
  me_manager :: "'p mgr_env"
  me_dial_syslog :: "string \<Rightarrow> string \<Rightarrow> error option"
  me_rw :: rw_env
  me_command :: "'e command"
  me_time_String :: "int \<Rightarrow> string"
  me_reg :: "('k, 'e) reg_env"
  me_ansible :: "'e ansible_env"

section \<open>Access to the parts\<close>

text \<open>A call on the disk and the outside, and a call on the workload manager.\<close>

definition on_raw :: "('e world \<Rightarrow> 'a \<times> 'e world) \<Rightarrow> 'e pworld \<Rightarrow> 'a \<times> 'e pworld" where
  "on_raw f w =
     (case f \<lparr>disk = disk w, ext = pt_outside (ext w)\<rparr> of
        (r, v) \<Rightarrow> (r, w\<lparr>disk := disk v, ext := (ext w)\<lparr>pt_outside := ext v\<rparr>\<rparr>))"

definition set_parts :: "('e parts \<Rightarrow> 'e parts) \<Rightarrow> 'e pworld \<Rightarrow> 'e pworld" where
  "set_parts f w = w\<lparr>ext := f (ext w)\<rparr>"

text \<open>
  A method of a component as an observer: a call on a nil pointer panics, else the component, the
  message and the outside change.
\<close>

type_synonym ('c, 'e) part_op =
  "DeviceConfigurationMessage \<Rightarrow> 'c \<Rightarrow> 'e world \<Rightarrow> (error option \<times> DeviceConfigurationMessage \<times> 'c, 'e world) call"

definition on_part ::
  "('e parts \<Rightarrow> 'c option) \<Rightarrow> ('c \<Rightarrow> 'e parts \<Rightarrow> 'e parts) \<Rightarrow> ('c, 'e) part_op \<Rightarrow>
   DeviceConfigurationMessage \<Rightarrow> 'e pworld \<Rightarrow> (error option \<times> DeviceConfigurationMessage, 'e pworld) call" where
  "on_part get put f msg w =
     (case get (ext w) of
        None \<Rightarrow> (Panic, w)
      | Some c \<Rightarrow>
          (case on_raw (f msg c) w of
             (Ret (err, msg', c'), w') \<Rightarrow> (Ret (err, msg'), set_parts (put c') w')
           | (Panic, w') \<Rightarrow> (Panic, w')))"

text \<open>An operation that leaves the message alone.\<close>

definition keeping :: "(DeviceConfigurationMessage \<Rightarrow> 'c \<Rightarrow> 'e world \<Rightarrow> (error option \<times> 'c, 'e world) call) \<Rightarrow> ('c, 'e) part_op" where
  "keeping f msg c w =
     (case f msg c w of (Ret (err, c'), w') \<Rightarrow> (Ret (err, msg, c'), w') | (Panic, w') \<Rightarrow> (Panic, w'))"

fun both :: "'a option \<Rightarrow> 'b option \<Rightarrow> ('a \<times> 'b) option" where
  "both (Some a) (Some b) = Some (a, b)"
| "both _ _ = None"

section \<open>The observers of the configuration\<close>

definition tsdb_part :: "('c \<Rightarrow> 'e \<Rightarrow> ('a, 'e) call) \<Rightarrow> 'c \<Rightarrow> 'e world \<Rightarrow> ('a, 'e world) call" where
  "tsdb_part f c w = (case f c (ext w) of (r, e) \<Rightarrow> (r, w\<lparr>ext := e\<rparr>))"

definition store_observer :: "('p, 'v, 'q, 'k, 'e) main_env \<Rightarrow> 'e parts ConfigObserver" where
  "store_observer env =
     (let call = (\<lambda>f. on_part pt_tsdb (\<lambda>c p. p\<lparr>pt_tsdb := Some c\<rparr>) (keeping (\<lambda>msg. tsdb_part (f (me_tsdb env) msg))))
      in \<lparr>obs_Init = call TSDB_Init, obs_Update = call TSDB_Update\<rparr>)"

definition workload_metrics_observer :: "'e parts ConfigObserver" where
  "workload_metrics_observer =
     (let call = (\<lambda>f. on_part pt_wlmetrics (\<lambda>c p. p\<lparr>pt_wlmetrics := Some c\<rparr>) (keeping (\<lambda>msg c w. (Ret (f msg c), w))))
      in \<lparr>obs_Init = call WorkloadMetrics_Init, obs_Update = call WorkloadMetrics_Update\<rparr>)"

text \<open>The system metrics hold the daemon.\<close>

definition system_metrics_observer :: "('p, 'v, 'q, 'k, 'e) main_env \<Rightarrow> 'e parts ConfigObserver" where
  "system_metrics_observer env =
     (let call = (\<lambda>f. on_part (\<lambda>p. both (pt_system p) (pt_daemon p)) (\<lambda>(sm, d) p. p\<lparr>pt_system := Some sm, pt_daemon := Some d\<rparr>)
                    (keeping (\<lambda>msg (sm, d). f AddTarget DeleteTarget (env_dbus (me_wrapper env)) msg sm d)))
      in \<lparr>obs_Init = call SystemMetrics_Init, obs_Update = call SystemMetrics_Update\<rparr>)"

text \<open>The log target lists the workloads and opens their logs through the workload manager.\<close>

definition worker_logs :: "('p, 'v, 'q, 'k, 'e) main_env \<Rightarrow> 'e wl_process world log_env" where
  "worker_logs env =
     \<lparr>le_dial = me_dial_syslog env, le_collections = (\<lambda>m. m), le_transports = (\<lambda>m. m), le_writers = (\<lambda>m. m),
      le_Logs = (\<lambda>name w.
        case podman_Logs (env_podman (me_wrapper env)) name (outside (ext w)) of
          (r, e) \<Rightarrow> (case r of Inl err \<Rightarrow> Some err | Inr _ \<Rightarrow> None, w\<lparr>ext := (ext w)\<lparr>outside := e\<rparr>\<rparr>)),
      le_List = Workload_List (me_wrapper env)\<rparr>"

definition logs_observer :: "('p, 'v, 'q, 'k, 'e) main_env \<Rightarrow> 'e parts ConfigObserver" where
  "logs_observer env =
     (let call = (\<lambda>f. on_part (\<lambda>p. both (pt_logs p) (pt_workloads p)) (\<lambda>(t, wl) p. p\<lparr>pt_logs := Some t, pt_workloads := Some wl\<rparr>)
                    (keeping (\<lambda>msg (t, mgr, wrap) w.
                       case f msg t \<lparr>disk = disk w, ext = \<lparr>wrapper = wrap, outside = ext w\<rparr>\<rparr> of
                         (r, u) \<Rightarrow> (case r of Ret (err, t') \<Rightarrow> Ret (err, t', mgr, wrapper (ext u)) | Panic \<Rightarrow> Panic,
                                    \<lparr>disk = disk u, ext = outside (ext u)\<rparr>))))
      in \<lparr>obs_Init = call (LogsTarget_Init (worker_logs env)),
          obs_Update = call (\<lambda>msg t w. (LogsTarget_Update (worker_logs env) msg t, w))\<rparr>)"

text \<open>The workload manager changes the labels in the message.\<close>

definition manager_observer :: "('p, 'v, 'q, 'k, 'e) main_env \<Rightarrow> 'e parts ConfigObserver" where
  "manager_observer env =
     (let call = (\<lambda>f. on_part pt_workloads (\<lambda>wl p. p\<lparr>pt_workloads := Some wl\<rparr>)
                    (\<lambda>msg (mgr, wrap) w.
                       case f (me_manager env) (workload_wrapper (me_wrapper env)) msg
                              \<lparr>wm = mgr, out = \<lparr>disk = disk w, ext = \<lparr>wrapper = wrap, outside = ext w\<rparr>\<rparr>\<rparr> of
                         (r, m) \<Rightarrow>
                           (case r of Ret err \<Rightarrow> Ret (err, after_Update (me_manager env) mgr msg, wm m, wrapper (ext (out m))) | Panic \<Rightarrow> Panic,
                            \<lparr>disk = disk (out m), ext = outside (ext (out m))\<rparr>)))
      in \<lparr>obs_Init = call WorkloadManager_Init, obs_Update = call WorkloadManager_Update\<rparr>)"

definition remote_write_observer :: "('p, 'v, 'q, 'k, 'e) main_env \<Rightarrow> 'e parts ConfigObserver" where
  "remote_write_observer env =
     (let call = (\<lambda>f. on_part pt_remote (\<lambda>c p. p\<lparr>pt_remote := Some c\<rparr>)
                    (keeping (\<lambda>msg c w. case f (me_rw env) msg c (disk w) of (r, s) \<Rightarrow> (Ret r, w\<lparr>disk := s\<rparr>))))
      in \<lparr>obs_Init = call RemoteWrite_Init, obs_Update = call RemoteWrite_Update\<rparr>)"

text \<open>The operating system notes in a flag that it asks for a graceful reboot.\<close>

definition worker_os :: "('p, 'v, 'q, 'k, 'e) main_env \<Rightarrow> ('e \<times> bool) os_env" where
  "worker_os env =
     \<lparr>os_run = (\<lambda>args (e, b). case me_command env args e of (r, e') \<Rightarrow> (r, (e', b))),
      time_String = me_time_String env, gracefulRebootFlow = (\<lambda>(e, b). (e, True))\<rparr>"

definition os_observer :: "('p, 'v, 'q, 'k, 'e) main_env \<Rightarrow> 'e parts ConfigObserver" where
  "os_observer env =
     (let call = (\<lambda>f. on_part (\<lambda>p. map_option (\<lambda>os. (os, pt_rebooting p)) (pt_os p)) (\<lambda>(os, b) p. p\<lparr>pt_os := Some os, pt_rebooting := b\<rparr>)
                    (keeping (\<lambda>msg (os, b) w.
                       case f (worker_os env) msg os \<lparr>disk = disk w, ext = (ext w, b)\<rparr> of
                         (r, u) \<Rightarrow> (case r of Ret (err, os') \<Rightarrow> Ret (err, os', snd (ext u)) | Panic \<Rightarrow> Panic,
                                    \<lparr>disk = disk u, ext = fst (ext u)\<rparr>))))
      in \<lparr>obs_Init = call OS_Init, obs_Update = call OS_Update\<rparr>)"

definition monitor_observer :: "'e parts ConfigObserver" where
  "monitor_observer =
     (let call = (\<lambda>f. on_part (\<lambda>p. both (pt_monitor p) (pt_workloads p)) (\<lambda>(m, wl) p. p\<lparr>pt_monitor := Some m, pt_workloads := Some wl\<rparr>)
                    (keeping (\<lambda>msg (m, mgr, wrap) w.
                       case f (GetDeviceID mgr) msg m of (err, m') \<Rightarrow> (Ret (err, m', mgr, wrap), w))))
      in \<lparr>obs_Init = call Monitor_Init, obs_Update = call Monitor_Update\<rparr>)"

definition heartbeat_observer :: "'e parts ConfigObserver" where
  "heartbeat_observer =
     (let call = (\<lambda>f. on_part pt_heartbeat (\<lambda>c p. p\<lparr>pt_heartbeat := Some c\<rparr>)
                    (keeping (\<lambda>msg h w.
                       case f msg h of (Ret err, h') \<Rightarrow> (Ret (err, h'), w) | (Panic, h') \<Rightarrow> (Panic, w))))
      in \<lparr>obs_Init = call Heartbeat_Init, obs_Update = call Heartbeat_Update\<rparr>)"

text \<open>In the order in which \<open>main\<close> registers them.\<close>

definition worker_observers :: "('p, 'v, 'q, 'k, 'e) main_env \<Rightarrow> 'e parts ConfigObserver list" where
  "worker_observers env =
     [store_observer env, workload_metrics_observer, system_metrics_observer env, logs_observer env, manager_observer env,
      remote_write_observer env, os_observer env, monitor_observer, heartbeat_observer]"

section \<open>The main program\<close>

text \<open>
  How \<open>main\<close> ends before it serves, or the worker that serves: \<open>log.Fatal\<close> with its message, a panic,
  or a wait that never ends. The first and the last keep the state left behind.
\<close>

datatype ('r, 'w) main_result = Fatal string 'w | Crashed | Blocked | Serving 'r 'w

definition or_fatal ::
  "(error \<Rightarrow> string) \<Rightarrow> (error + 'a, 'w) call \<Rightarrow> ('a \<Rightarrow> 'w \<Rightarrow> ('r, 'w) main_result) \<Rightarrow> ('r, 'w) main_result" where
  "or_fatal say r k =
     (case r of
        (Ret (Inl err), w) \<Rightarrow> Fatal (say err) w
      | (Ret (Inr a), w) \<Rightarrow> k a w
      | (Panic, _) \<Rightarrow> Crashed)"

definition observe ::
  "'e parts ConfigObserver \<Rightarrow> 'e parts ConfigManager \<Rightarrow> 'e pworld \<Rightarrow>
   ('e parts ConfigManager \<Rightarrow> 'e pworld \<Rightarrow> ('r, 'e pworld) main_result) \<Rightarrow> ('r, 'e pworld) main_result" where
  "observe obs m w k =
     (case RegisterObserver obs m w of
        (Ret m', w') \<Rightarrow> k m' w'
      | (Panic, _) \<Rightarrow> Crashed)"

definition os_LookupEnv :: "('p, 'v, 'q, 'k, 'e) main_env \<Rightarrow> string \<Rightarrow> string \<Rightarrow> string" where
  "os_LookupEnv env name dflt = (case map_of (me_environ env) name of None \<Rightarrow> dflt | Some v \<Rightarrow> v)"

definition defaultDataDir :: string where
  "defaultDataDir = ''/var/local/yggdrasil''"

definition dir_error :: "error option \<times> fs \<Rightarrow> 'e pworld \<Rightarrow> (error + unit, 'e pworld) call" where
  "dir_error r w = (case r of (e, s) \<Rightarrow> (Ret (case e of None \<Rightarrow> Inr () | Some err \<Rightarrow> Inl err), w\<lparr>disk := s\<rparr>))"

text \<open>From the environment to the listening socket.\<close>

definition connect_dispatcher ::
  "('p, 'v, 'q, 'k, 'e) main_env \<Rightarrow> 'e pworld \<Rightarrow> ('e pworld \<Rightarrow> ('r, 'e pworld) main_result) \<Rightarrow> ('r, 'e pworld) main_result" where
  "connect_dispatcher env w k =
     (case map_of (me_environ env) ''YGG_SOCKET_ADDR'' of
        None \<Rightarrow> Fatal ''missing YGG_SOCKET_ADDR environment variable'' w
      | Some addr \<Rightarrow>
          (case me_Dial env addr of
             Some err \<Rightarrow> Fatal (error_string err) w
           | None \<Rightarrow>
               or_fatal error_string (on_raw (on_ext (me_Register env)) w) (\<lambda>(registered, address) w.
               if \<not> registered then Fatal ''yggdrasil registration failed'' w
               else case me_Listen env address of
                      Some err \<Rightarrow> Fatal (Sprintf ''cannot start listening on %s err: %v'' [address, error_string err]) w
                    | None \<Rightarrow> k w)))"

text \<open>\<open>wl.RegisterObserver\<close>.\<close>

definition tell_workloads :: "wl_observer \<Rightarrow> 'e pworld \<Rightarrow> 'e pworld" where
  "tell_workloads obs = set_parts (\<lambda>p. p\<lparr>pt_workloads := map_option (\<lambda>(mgr, wrap). (mgr, Workload_RegisterObserver obs wrap)) (pt_workloads p)\<rparr>)"

definition new_manager ::
  "('p, 'v, 'q, 'k, 'e) main_env \<Rightarrow> string \<Rightarrow> string \<Rightarrow> 'e world \<Rightarrow> (error + WorkloadManager \<times> wl_observer Workload, 'e world) call" where
  "new_manager env dataDir devId w =
     (case NewWorkloadManager TYPE('p) (me_wrapper env) dataDir devId w of
        (Ret (Inl err), w') \<Rightarrow> (Ret (Inl err), w')
      | (Ret (Inr m), w') \<Rightarrow> (Ret (Inr (wm m, wrapper (ext (out m)))), w')
      | (Panic, w') \<Rightarrow> (Panic, w'))"

text \<open>The metrics: the store, the daemon and the two sources of targets.\<close>

definition start_metrics ::
  "('p, 'v, 'q, 'k, 'e) main_env \<Rightarrow> string \<Rightarrow> string \<Rightarrow> 'e parts ConfigManager \<Rightarrow> 'e pworld \<Rightarrow>
   ('e parts ConfigManager \<Rightarrow> 'e pworld \<Rightarrow> ('r, 'e pworld) main_result) \<Rightarrow> ('r, 'e pworld) main_result" where
  "start_metrics env dataDir devId cfg w k =
     or_fatal (\<lambda>err. Sprintf ''cannot initialize TSDB, err: %v'' [error_string err])
       (on_raw (\<lambda>w. case NewTSDB (me_tsdb env) dataDir w of (r, w') \<Rightarrow> (Ret r, w')) w) (\<lambda>t w.
     observe (store_observer env) cfg (set_parts (\<lambda>p. p\<lparr>pt_tsdb := Some t\<rparr>) w) (\<lambda>cfg w.
     observe workload_metrics_observer cfg
       (set_parts (\<lambda>p. p\<lparr>pt_daemon := Some (NewMetricsDaemon True), pt_wlmetrics := Some NewWorkloadMetrics\<rparr>) w) (\<lambda>cfg w.
     or_fatal (\<lambda>err. Sprintf ''cannot initialize system metrics. DeviceID: %s; err: %v'' [devId, error_string err])
       (on_raw (NewSystemMetrics (env_dbus (me_wrapper env))) w) (\<lambda>sm w.
     observe (system_metrics_observer env) cfg (set_parts (\<lambda>p. p\<lparr>pt_system := Some sm\<rparr>) w) k))))"

text \<open>
  The workload manager, the logs, remote write, the operating system and data transfer. A reboot
  asked for by the stored configuration waits for a listener that has not been started yet.
\<close>

definition start_workloads ::
  "('p, 'v, 'q, 'k, 'e) main_env \<Rightarrow> string \<Rightarrow> string \<Rightarrow> 'e parts ConfigManager \<Rightarrow> 'e pworld \<Rightarrow>
   ('e parts ConfigManager \<Rightarrow> 'e pworld \<Rightarrow> ('r, 'e pworld) main_result) \<Rightarrow> ('r, 'e pworld) main_result" where
  "start_workloads env dataDir devId cfg w k =
     or_fatal (\<lambda>err. Sprintf ''cannot start Workload Manager. DeviceID: %s; err: %v'' [devId, error_string err])
       (on_raw (new_manager env dataDir devId) w) (\<lambda>wl w.
     observe (logs_observer env) cfg (set_parts (\<lambda>p. p\<lparr>pt_workloads := Some wl, pt_logs := Some NewWorkloadsLogsTarget\<rparr>) w) (\<lambda>cfg w.
     observe (manager_observer env) cfg (tell_workloads LogsObserver w) (\<lambda>cfg w.
     let w = tell_workloads MetricsObserver w in
     observe (remote_write_observer env) cfg
       (set_parts (\<lambda>p. p\<lparr>pt_remote := Some (NewRemoteWrite dataDir devId (disk w))\<rparr>) w) (\<lambda>cfg w.
     case NewOS (worker_os env) (pt_outside (ext w), False) of
       (os, e) \<Rightarrow>
         observe (os_observer env) cfg (set_parts (\<lambda>p. p\<lparr>pt_os := Some os, pt_outside := fst e\<rparr>) w) (\<lambda>cfg w.
         if pt_rebooting (ext w) then Blocked
         else observe monitor_observer cfg (tell_workloads MonitorObserver (set_parts (\<lambda>p. p\<lparr>pt_monitor := Some NewMonitor\<rparr>) w)) k)))))"

text \<open>What the heartbeat service sees of the other components when it is created.\<close>

definition config_view :: "'x ConfigManager \<Rightarrow> 'y ConfigManager" where
  "config_view m = \<lparr>cfg_deviceConfiguration = cfg_deviceConfiguration m, cfg_observers = [],
     cfg_deviceConfigFile = cfg_deviceConfigFile m, cfg_initialConfig = cfg_initialConfig m\<rparr>"

definition new_heartbeat :: "'e parts ConfigManager \<Rightarrow> Registration \<Rightarrow> 'e pworld \<Rightarrow> 'e pworld" where
  "new_heartbeat cfg reg w =
     (case (pt_workloads (ext w), pt_monitor (ext w), pt_os (ext w)) of
        (Some (mgr, wrap), Some mon, Some os) \<Rightarrow>
          set_parts (\<lambda>p. p\<lparr>pt_heartbeat := Some (NewHeartbeatService
            \<lparr>wm = mgr, out = \<lparr>disk = disk w, ext = \<lparr>wrapper = wrap, outside = pt_outside (ext w)\<rparr>\<rparr>\<rparr> (config_view cfg) mon os reg)\<rparr>) w
      | _ \<Rightarrow> set_parts (\<lambda>p. p\<lparr>pt_heartbeat := None\<rparr>) w)"

text \<open>The ansible manager is \<open>None\<close> when it cannot be created; else the pending playbooks run first.\<close>

definition start_ansible :: "('p, 'v, 'q, 'k, 'e) main_env \<Rightarrow> string \<Rightarrow> 'e pworld \<Rightarrow> AnsibleManager option \<times> 'e pworld" where
  "start_ansible env dir w =
     (case NewAnsibleManager (me_ansible env) dir (disk w) of
        Inl _ \<Rightarrow> (None, w)
      | Inr a \<Rightarrow> on_raw (\<lambda>w. case ExecutePendingPlaybooks (me_ansible env) a w of ((_, a'), w') \<Rightarrow> (Some a', w')) w)"

text \<open>
  The last step before serving: heartbeats for a device with a configuration, else the first
  attempt to register (the timer of the further ones starts with it).
\<close>

definition go_online ::
  "('p, 'v, 'q, 'k, 'e) main_env \<Rightarrow> 'e parts ConfigManager \<Rightarrow> AnsibleManager option \<Rightarrow> Registration \<Rightarrow> 'e pworld \<Rightarrow>
   ('e parts deviceServer \<times> Registration, 'e pworld) main_result" where
  "go_online env cfg ansible reg w =
     (if \<not> IsInitialConfig cfg then
        (case pt_heartbeat (ext w) of
           None \<Rightarrow> Crashed
         | Some h \<Rightarrow>
             (case Heartbeat_Start h of
                (Panic, _) \<Rightarrow> Crashed
              | (Ret _, h') \<Rightarrow>
                  (let w' = set_parts (\<lambda>p. p\<lparr>pt_heartbeat := Some h'\<rparr>) w
                   in Serving (NewDeviceServer cfg ansible w', reg) w')))
      else
        (case on_raw (RegisterDevice (me_reg env) [] reg) w of
           (reg', w') \<Rightarrow> Serving (NewDeviceServer cfg ansible w', reg') w'))"

text \<open>Registration, heartbeats and ansible, then online.\<close>

definition start_services ::
  "('p, 'v, 'q, 'k, 'e) main_env \<Rightarrow> string \<Rightarrow> string \<Rightarrow> 'e parts ConfigManager \<Rightarrow> 'e pworld \<Rightarrow>
   ('e parts deviceServer \<times> Registration, 'e pworld) main_result" where
  "start_services env dataDirPlaybook devId cfg w =
     or_fatal (\<lambda>err. Sprintf ''cannot start registration process:  DeviceID: %s; err: %v'' [devId, error_string err])
       (on_raw (\<lambda>w. case NewRegistration (me_reg env) devId w of (r, w') \<Rightarrow> (Ret r, w')) w) (\<lambda>reg w.
     observe heartbeat_observer cfg (new_heartbeat cfg reg w) (\<lambda>cfg w.
     or_fatal (\<lambda>err. Sprintf ''cannot create directory: %v'' [error_string err])
       (dir_error (MkdirAll (disk w) dataDirPlaybook) w) (\<lambda>_ w.
     case start_ansible env dataDirPlaybook w of (ansible, w) \<Rightarrow> go_online env cfg ansible reg w)))"

definition worker_main ::
  "('p, 'v, 'q, 'k, 'e) main_env \<Rightarrow> 'e pworld \<Rightarrow> ('e parts deviceServer \<times> Registration, 'e pworld) main_result" where
  "worker_main env w =
     (let baseDataDir = os_LookupEnv env ''YGG_CONFIG_DIR'' defaultDataDir;
          dataDir = path_Join [baseDataDir, ''device''];
          devId = os_LookupEnv env ''YGG_CLIENT_ID'' ''unknown''
      in connect_dispatcher env w (\<lambda>w.
         or_fatal (\<lambda>err. error_string (Errorf ''cannot create directory: %w'' [error_string err]))
           (dir_error (MkdirAll (disk w) dataDir) w) (\<lambda>_ w.
         start_metrics env dataDir devId (NewConfigurationManager (me_codec env) dataDir (disk w)) w (\<lambda>cfg w.
         start_workloads env dataDir devId cfg w (\<lambda>cfg w.
         start_services env (path_Join [baseDataDir, ''devicePlaybooks'']) devId cfg w)))))"

section \<open>What the observers do to the configuration\<close>

text \<open>The configuration up to the labels of the workloads.\<close>

definition unlabelled :: "DeviceConfigurationMessage \<Rightarrow> DeviceConfigurationMessage" where
  "unlabelled msg = msg\<lparr>dcm_Workloads := map (\<lambda>wl. wl\<lparr>wl_Labels := None\<rparr>) (dcm_Workloads msg)\<rparr>"

lemma unlabelled_after_Update: "unlabelled (after_Update env mgr msg) = unlabelled msg"
  by (auto simp: unlabelled_def after_Update_def after_toPod_def comp_def split: sum.splits option.splits)

text \<open>An observer whose \<open>Init\<close> changes labels at most, and leaves the reboot flag alone.\<close>

definition init_ok :: "'e parts ConfigObserver \<Rightarrow> bool" where
  "init_ok obs \<longleftrightarrow> (\<forall>msg w err msg' w'. obs_Init obs msg w = (Ret (err, msg'), w') \<longrightarrow> unlabelled msg' = unlabelled msg)"

definition init_calm :: "'e parts ConfigObserver \<Rightarrow> bool" where
  "init_calm obs \<longleftrightarrow> (\<forall>msg w. pt_rebooting (ext (snd (obs_Init obs msg w))) = pt_rebooting (ext w))"

lemma rebooting_raw [simp]: "pt_rebooting (ext (snd (on_raw f w))) = pt_rebooting (ext w)"
  by (simp add: on_raw_def split: prod.splits)

lemma on_part_message:
  assumes "on_part get upd f msg w = (Ret (err, msg'), w')"
    and "\<And>c v e m c' v'. f msg c v = (Ret (e, m, c'), v') \<Longrightarrow> unlabelled m = unlabelled msg"
  shows "unlabelled msg' = unlabelled msg"
  using assms(1) by (auto simp: on_part_def on_raw_def dest!: assms(2) split: option.splits prod.splits outcome.splits)

lemma keeping_message: "keeping f msg c v = (Ret (e, m, c'), v') \<Longrightarrow> unlabelled m = unlabelled msg"
  by (auto simp: keeping_def split: prod.splits outcome.splits)

lemma on_part_calm:
  assumes "\<And>c p. pt_rebooting (upd c p) = pt_rebooting p"
  shows "pt_rebooting (ext (snd (on_part get upd f msg w))) = pt_rebooting (ext w)"
proof (cases "get (ext w)")
  case (Some c)
  obtain r w1 where r: "on_raw (f msg c) w = (r, w1)" by fastforce
  then have "pt_rebooting (ext w1) = pt_rebooting (ext w)" using rebooting_raw [of "f msg c" w] by simp
  with Some r assms show ?thesis by (auto simp: on_part_def set_parts_def split: outcome.splits)
qed (simp add: on_part_def)

lemmas observer_defs = store_observer_def workload_metrics_observer_def system_metrics_observer_def logs_observer_def
  remote_write_observer_def os_observer_def monitor_observer_def heartbeat_observer_def Let_def

lemma manager_init_ok: "init_ok (manager_observer env)"
  by (auto simp: init_ok_def manager_observer_def Let_def unlabelled_after_Update split: prod.splits outcome.splits
      elim!: on_part_message)

lemma observers_ok:
  "init_ok (store_observer env)" "init_ok workload_metrics_observer" "init_ok (system_metrics_observer env)"
  "init_ok (logs_observer env)" "init_ok (manager_observer env)" "init_ok (remote_write_observer env)"
  "init_ok (os_observer env)" "init_ok monitor_observer" "init_ok heartbeat_observer"
  by (rule manager_init_ok | (auto simp: init_ok_def observer_defs elim!: on_part_message dest: keeping_message)[1])+

lemma calm_observers:
  "init_calm (store_observer env)" "init_calm workload_metrics_observer" "init_calm (system_metrics_observer env)"
  "init_calm (logs_observer env)" "init_calm (manager_observer env)" "init_calm (remote_write_observer env)"
  "init_calm monitor_observer" "init_calm heartbeat_observer"
  by (auto simp: init_calm_def observer_defs manager_observer_def intro!: on_part_calm split: prod.splits)

section \<open>What the stages of the start-up do\<close>

text \<open>Neither fatal nor crashed.\<close>

fun finished :: "('r, 'w) main_result \<Rightarrow> bool" where
  "finished (Fatal _ _) = False"
| "finished Crashed = False"
| "finished Blocked = True"
| "finished (Serving _ _) = True"

definition grown :: "'x ConfigManager \<Rightarrow> 'x ConfigObserver list \<Rightarrow> 'x ConfigManager \<Rightarrow> bool" where
  "grown m obs m' \<longleftrightarrow> cfg_observers m' = cfg_observers m @ obs \<and> cfg_initialConfig m' = cfg_initialConfig m \<and>
     cfg_deviceConfigFile m' = cfg_deviceConfigFile m \<and>
     unlabelled (cfg_deviceConfiguration m') = unlabelled (cfg_deviceConfiguration m)"

lemma grown_trans: "grown m xs m1 \<Longrightarrow> grown m1 ys m2 \<Longrightarrow> grown m (xs @ ys) m2"
  by (simp add: grown_def)

text \<open>What a result promises when it is neither fatal nor a crash; the rules follow the stages.\<close>

definition ensures :: "('r, 'w) main_result \<Rightarrow> (('r, 'w) main_result \<Rightarrow> bool) \<Rightarrow> bool" where
  "ensures R Q \<longleftrightarrow> (finished R \<longrightarrow> Q R)"

lemma ensuresD: "ensures R Q \<Longrightarrow> finished R \<Longrightarrow> Q R"
  by (simp add: ensures_def)

lemma ensures_Fatal [simp]: "ensures (Fatal s w) Q" and ensures_Crashed [simp]: "ensures Crashed Q"
  by (simp_all add: ensures_def)

lemma ensures_or_fatal:
  assumes "\<And>a w. r = (Ret (Inr a), w) \<Longrightarrow> ensures (k a w) Q"
  shows "ensures (or_fatal say r k) Q"
  using assms by (auto simp: or_fatal_def split: prod.splits outcome.splits sum.splits)

lemma register_grown:
  assumes "RegisterObserver obs m w = (Ret m', w')" and "init_ok obs"
  shows "grown m [obs] m'"
proof -
  obtain err msg where "obs_Init obs (cfg_deviceConfiguration m) w = (Ret (err, msg), w')"
    and "m' = m\<lparr>cfg_deviceConfiguration := msg, cfg_observers := cfg_observers m @ [obs]\<rparr>"
    using assms(1) by (auto simp: RegisterObserver_def split: prod.splits outcome.splits)
  moreover from this(1) have "unlabelled msg = unlabelled (cfg_deviceConfiguration m)"
    using assms(2) unfolding init_ok_def by blast
  ultimately show ?thesis by (simp add: grown_def)
qed

lemma RegisterObserver_calm:
  assumes "RegisterObserver obs m w = (r, w')" and "init_calm obs"
  shows "pt_rebooting (ext w') = pt_rebooting (ext w)"
proof -
  have "w' = snd (obs_Init obs (cfg_deviceConfiguration m) w)"
    using assms(1) by (auto simp: RegisterObserver_def split: prod.splits outcome.splits)
  then show ?thesis using assms(2) by (simp add: init_calm_def)
qed

lemma ensures_observe:
  assumes "init_ok obs"
    and "\<And>m' w'. RegisterObserver obs m w = (Ret m', w') \<Longrightarrow> grown m [obs] m' \<Longrightarrow> ensures (k m' w') Q"
  shows "ensures (observe obs m w k) Q"
proof (cases "RegisterObserver obs m w")
  case (Pair r w')
  then show ?thesis using assms register_grown [of obs m w _ w'] by (cases r) (simp_all add: observe_def)
qed

text \<open>The same for an observer that does not ask for a reboot.\<close>

lemma ensures_observe_calm:
  assumes "init_ok obs" and "init_calm obs"
    and "\<And>m' w'. grown m [obs] m' \<Longrightarrow> pt_rebooting (ext w') = pt_rebooting (ext w) \<Longrightarrow> ensures (k m' w') Q"
  shows "ensures (observe obs m w k) Q"
  by (rule ensures_observe [OF assms(1)]) (auto dest: RegisterObserver_calm [OF _ assms(2)] intro: assms(3))

lemma ensures_connect:
  assumes "\<And>w1. disk w1 = disk w \<Longrightarrow> pt_rebooting (ext w1) = pt_rebooting (ext w) \<Longrightarrow> ensures (k w1) Q"
  shows "ensures (connect_dispatcher env w k) Q"
proof -
  have "ensures (k w1) Q" if "on_raw (on_ext (me_Register env)) w = (r, w1)" for r w1
  proof (rule assms)
    show "disk w1 = disk w" using that by (auto simp: on_raw_def on_ext_def split: prod.splits)
    show "pt_rebooting (ext w1) = pt_rebooting (ext w)" using rebooting_raw [of "on_ext (me_Register env)" w] that by simp
  qed
  then show ?thesis
    unfolding connect_dispatcher_def by (auto intro!: ensures_or_fatal split: option.splits prod.splits)
qed

lemma set_parts_simps [simp]: "disk (set_parts f w) = disk w" "ext (set_parts f w) = f (ext w)"
  by (simp_all add: set_parts_def)

lemma tell_workloads_simps [simp]: "pt_rebooting (ext (tell_workloads obs w)) = pt_rebooting (ext w)"
  by (simp add: tell_workloads_def)

lemma raw_calm: "on_raw f w = (r, w') \<Longrightarrow> pt_rebooting (ext w') = pt_rebooting (ext w)"
  using rebooting_raw [of f w] by simp

lemma ensures_start_metrics:
  assumes "\<And>cfg1 w1. grown cfg [store_observer env, workload_metrics_observer, system_metrics_observer env] cfg1 \<Longrightarrow>
    pt_rebooting (ext w1) = pt_rebooting (ext w) \<Longrightarrow> ensures (k cfg1 w1) Q"
  shows "ensures (start_metrics env dataDir devId cfg w k) Q"
  unfolding start_metrics_def
  by (intro ensures_or_fatal ensures_observe_calm observers_ok calm_observers assms)
    (auto dest!: raw_calm simp: grown_def)

text \<open>
  \<open>start_workloads\<close> goes on to the end, or \<open>Init\<close> of the operating system has asked for a reboot, which
  only a configuration with a commit can make it do.
\<close>

definition wants_commit :: "DeviceConfigurationMessage \<Rightarrow> bool" where
  "wants_commit msg \<longleftrightarrow> (\<exists>c new. dcm_Configuration msg = Some c \<and> dc_Os c = Some new \<and> os_CommitID new \<noteq> UnknownOsImageId)"

lemma wants_commit_unlabelled: "unlabelled msg = unlabelled msg' \<Longrightarrow> wants_commit msg = wants_commit msg'"
  by (metis (no_types, lifting) wants_commit_def unlabelled_def DeviceConfigurationMessage.select_convs(2)
      DeviceConfigurationMessage.surjective DeviceConfigurationMessage.update_convs(6))

lemma OS_Init_flag:
  assumes "OS_Init env msg os w = (r, w')" and "osm_RequestedOsCommit os = UnknownOsImageId" and "ext w' \<noteq> ext w"
  shows "wants_commit msg"
  using assms
  by (auto simp: OS_Init_def OS_Update_def wants_commit_def Let_def split: option.splits prod.splits if_splits)

lemma NewOS_unknown: "osm_RequestedOsCommit (fst (NewOS env e)) = UnknownOsImageId"
  by (simp add: NewOS_def split: prod.splits)

lemma register_os_flag:
  assumes "RegisterObserver (os_observer env) m (set_parts (\<lambda>p. p\<lparr>pt_os := Some os, pt_outside := e\<rparr>) w) = (Ret m', w')"
    and "osm_RequestedOsCommit os = UnknownOsImageId" and "\<not> pt_rebooting (ext w)" and "pt_rebooting (ext w')"
  shows "wants_commit (cfg_deviceConfiguration m)"
proof -
  let ?v = "\<lparr>disk = disk w, ext = (e, False)\<rparr>"
  obtain r u where i: "OS_Init (worker_os env) (cfg_deviceConfiguration m) os ?v = (r, u)" by fastforce
  then have "snd (ext u)"
    using assms(1,3,4)
    by (auto simp: RegisterObserver_def os_observer_def on_part_def on_raw_def keeping_def Let_def set_parts_def
        split: prod.splits outcome.splits)
  then have "ext u \<noteq> ext ?v" by auto
  then show ?thesis by (rule OS_Init_flag [OF i assms(2)])
qed

lemma ensures_start_workloads:
  fixes w :: "'e pworld"
  assumes "\<not> pt_rebooting (ext w)"
    and "\<And>cfg1 w1. grown cfg [logs_observer env, manager_observer env, remote_write_observer env, os_observer env, monitor_observer] cfg1 \<Longrightarrow>
      \<not> pt_rebooting (ext w1) \<Longrightarrow> ensures (k cfg1 w1) Q"
    and "wants_commit (cfg_deviceConfiguration cfg) \<Longrightarrow> Q Blocked"
  shows "ensures (start_workloads env dataDir devId cfg w k) Q"
  unfolding start_workloads_def Let_def split_beta
proof (rule ensures_or_fatal, rule ensures_observe_calm [OF observers_ok(4) calm_observers(4)],
    rule ensures_observe_calm [OF observers_ok(5) calm_observers(5)], rule ensures_observe_calm [OF observers_ok(6) calm_observers(6)])
  fix wl and w1 w2 w3 w4 :: "'e pworld" and c1 c2 c3
  let ?o = "NewOS (worker_os env) (pt_outside (ext w4), False)"
  let ?v = "set_parts (\<lambda>p. p\<lparr>pt_os := Some (fst ?o), pt_outside := fst (snd ?o)\<rparr>) w4"
  assume calm: "on_raw (new_manager env dataDir devId) w = (Ret (Inr wl), w1)"
      "pt_rebooting (ext w2) = pt_rebooting (ext (set_parts (\<lambda>p. p\<lparr>pt_workloads := Some wl, pt_logs := Some NewWorkloadsLogsTarget\<rparr>) w1))"
      "pt_rebooting (ext w3) = pt_rebooting (ext (tell_workloads LogsObserver w2))"
      "pt_rebooting (ext w4) = pt_rebooting (ext (set_parts (\<lambda>p. p\<lparr>pt_remote :=
         Some (NewRemoteWrite dataDir devId (disk (tell_workloads MetricsObserver w3)))\<rparr>) (tell_workloads MetricsObserver w3)))"
    and g: "grown cfg [logs_observer env] c1" "grown c1 [manager_observer env] c2" "grown c2 [remote_write_observer env] c3"
  have calm4: "\<not> pt_rebooting (ext w4)" using calm assms(1) raw_calm by (fastforce dest: raw_calm)
  have g3: "grown cfg ([logs_observer env] @ [manager_observer env] @ [remote_write_observer env]) c3"
    using g by (metis grown_trans)
  show "ensures (observe (os_observer env) c3 ?v (\<lambda>cfg w. if pt_rebooting (ext w) then Blocked
      else observe monitor_observer cfg (tell_workloads MonitorObserver (set_parts (\<lambda>p. p\<lparr>pt_monitor := Some NewMonitor\<rparr>) w)) k)) Q"
  proof (rule ensures_observe [OF observers_ok(7)])
    fix c4 and w5 :: "'e pworld"
    assume r: "RegisterObserver (os_observer env) c3 ?v = (Ret c4, w5)" and g4: "grown c3 [os_observer env] c4"
    show "ensures (if pt_rebooting (ext w5) then Blocked
      else observe monitor_observer c4 (tell_workloads MonitorObserver (set_parts (\<lambda>p. p\<lparr>pt_monitor := Some NewMonitor\<rparr>) w5)) k) Q"
    proof (cases "pt_rebooting (ext w5)")
      case True
      have "wants_commit (cfg_deviceConfiguration c3)" by (rule register_os_flag [OF r NewOS_unknown calm4 True])
      then have "wants_commit (cfg_deviceConfiguration cfg)" using wants_commit_unlabelled g3 unfolding grown_def by blast
      with True assms(3) show ?thesis by (simp add: ensures_def)
    next
      case False
      have "ensures (observe monitor_observer c4 (tell_workloads MonitorObserver (set_parts (\<lambda>p. p\<lparr>pt_monitor := Some NewMonitor\<rparr>) w5)) k) Q"
      proof (rule ensures_observe_calm [OF observers_ok(8) calm_observers(7)])
        fix c5 and w6 :: "'e pworld"
        assume g5: "grown c4 [monitor_observer] c5"
          and "pt_rebooting (ext w6) = pt_rebooting (ext (tell_workloads MonitorObserver (set_parts (\<lambda>p. p\<lparr>pt_monitor := Some NewMonitor\<rparr>) w5)))"
        with False have "\<not> pt_rebooting (ext w6)" by simp
        moreover note grown_trans [OF grown_trans [OF g3 g4] g5]
        ultimately show "ensures (k c5 w6) Q" by (intro assms(2)) simp_all
      qed
      with False show ?thesis by simp
    qed
  qed
qed

text \<open>
  What the configuration manager loads depends on the file as it is before \<open>main\<close>: making the data
  directory changes no file.
\<close>

lemma MkdirAll_same_files: "nodes (snd (MkdirAll s p)) q = Some (File c) \<longleftrightarrow> nodes s q = Some (File c)"
  using MkdirAll_files [of s q c p] by (auto simp: MkdirAll_def Let_def split: if_splits)

definition stored_configuration :: "config_codec \<Rightarrow> string \<Rightarrow> fs \<Rightarrow> DeviceConfigurationMessage \<times> bool" where
  "stored_configuration enc f s =
     (case nodes s f of
        Some (File text) \<Rightarrow> (case json_Unmarshal enc text of Inl _ \<Rightarrow> (defaultDeviceConfigurationMessage, False) | Inr msg \<Rightarrow> (msg, False))
      | _ \<Rightarrow> (defaultDeviceConfigurationMessage, True))"

lemma NewConfigurationManager_stored:
  "NewConfigurationManager enc dataDir s =
     (let f = path_Join [dataDir, ''device-config.json''] in
      \<lparr>cfg_deviceConfiguration = fst (stored_configuration enc f s), cfg_observers = [], cfg_deviceConfigFile = f,
       cfg_initialConfig = snd (stored_configuration enc f s)\<rparr>)"
  by (auto simp: NewConfigurationManager_def stored_configuration_def ReadFile_def Let_def split: option.splits node.splits sum.splits)

lemma stored_configuration_Mkdir: "stored_configuration enc f (snd (MkdirAll s p)) = stored_configuration enc f s"
proof (cases "\<exists>c. nodes s f = Some (File c)")
  case False
  then have "\<nexists>c. nodes (snd (MkdirAll s p)) f = Some (File c)" by (simp add: MkdirAll_same_files)
  with False show ?thesis by (auto simp: stored_configuration_def split: option.splits node.splits)
qed (auto simp: stored_configuration_def MkdirAll_files)

section \<open>Properties\<close>

text \<open>
  The heartbeat service that \<open>go_online\<close> starts, on the configuration the manager has.
\<close>

definition online :: "'e parts deviceServer \<Rightarrow> Registration \<Rightarrow> 'e pworld \<Rightarrow> bool" where
  "online srv reg w \<longleftrightarrow>
     (if IsInitialConfig (srv_config srv) then \<not> pt_rebooting (ext w)
      else \<not> IsRegistered reg \<and>
        (\<exists>h c. pt_heartbeat (ext w) = Some h \<and> dcm_Configuration (cfg_deviceConfiguration (srv_config srv)) = Some c \<and>
           hbs_ticker h = Some (seconds (getInterval c))))"

lemma new_heartbeat_simps [simp]: "pt_rebooting (ext (new_heartbeat cfg reg w)) = pt_rebooting (ext w)"
  by (simp add: new_heartbeat_def split: option.splits prod.splits)

text \<open>The service as \<open>go_online\<close> finds it: created, not ticking, with the configuration of the manager.\<close>

definition heartbeat_ready :: "'e parts ConfigManager \<Rightarrow> 'e pworld \<Rightarrow> bool" where
  "heartbeat_ready cfg w \<longleftrightarrow> (\<forall>h. pt_heartbeat (ext w) = Some h \<longrightarrow> hbs_ticker h = None \<and>
     cfg_deviceConfiguration (hd_config (hbs_data h)) = cfg_deviceConfiguration cfg)"

lemma register_heartbeat:
  assumes "RegisterObserver heartbeat_observer cfg (new_heartbeat cfg reg w) = (Ret cfg', w')"
  shows "heartbeat_ready cfg' w'"
  using assms
  by (auto simp: RegisterObserver_def heartbeat_observer_def Heartbeat_Init_def on_part_def on_raw_def keeping_def new_heartbeat_def
      heartbeat_ready_def NewHeartbeatService_def config_view_def Let_def
      split: prod.splits outcome.splits option.splits)

lemma go_online_Serving:
  assumes "go_online env cfg ansible reg w = R" and "finished R" and "heartbeat_ready cfg w" and "\<not> pt_rebooting (ext w)"
    and "\<not> IsRegistered reg"
  shows "\<exists>srv reg' w'. R = Serving (srv, reg') w' \<and> srv_config srv = cfg \<and> srv_goroutines srv = [] \<and> srv_world srv = w' \<and>
    online srv reg' w'"
proof (cases "IsInitialConfig cfg")
  case True
  obtain reg' w' where r: "on_raw (RegisterDevice (me_reg env) [] reg) w = (reg', w')" by fastforce
  then have "pt_rebooting (ext w') = pt_rebooting (ext w)" by (rule raw_calm)
  moreover have "R = Serving (NewDeviceServer cfg ansible w', reg') w'" using r True assms(1) by (simp add: go_online_def)
  ultimately show ?thesis using True assms(4) by (intro exI conjI) (assumption | simp add: online_def NewDeviceServer_def)+
next
  case False
  then obtain h h' where h: "pt_heartbeat (ext w) = Some h" "Heartbeat_Start h = (Ret (), h')"
    and R: "R = Serving (NewDeviceServer cfg ansible (set_parts (\<lambda>p. p\<lparr>pt_heartbeat := Some h'\<rparr>) w), reg)
      (set_parts (\<lambda>p. p\<lparr>pt_heartbeat := Some h'\<rparr>) w)"
    using assms(1,2) by (auto simp: go_online_def Let_def split: option.splits outcome.splits prod.splits)
  then have "\<exists>c. dcm_Configuration (cfg_deviceConfiguration cfg) = Some c \<and> hbs_ticker h' = Some (seconds (getInterval c))"
    using assms(3) by (auto simp: heartbeat_ready_def Heartbeat_Start_def GetDeviceConfiguration_def initTicker_def NewTicker_def
        split: option.splits outcome.splits if_splits)
  with R False assms(5) show ?thesis by (intro exI conjI) (assumption | auto simp: online_def NewDeviceServer_def)+
qed

definition config_file :: "('p, 'v, 'q, 'k, 'e) main_env \<Rightarrow> string" where
  "config_file env = path_Join [path_Join [os_LookupEnv env ''YGG_CONFIG_DIR'' defaultDataDir, ''device''], ''device-config.json'']"

text \<open>What a start-up that is neither fatal nor a crash comes to, given what was stored.\<close>

definition startup_result ::
  "('p, 'v, 'q, 'k, 'e) main_env \<Rightarrow> DeviceConfigurationMessage \<times> bool \<Rightarrow>
   ('e parts deviceServer \<times> Registration, 'e pworld) main_result \<Rightarrow> bool" where
  "startup_result env loaded R \<longleftrightarrow>
     (case R of
        Blocked \<Rightarrow> wants_commit (fst loaded)
      | Serving (srv, reg) w' \<Rightarrow>
          cfg_observers (srv_config srv) = worker_observers env \<and> cfg_deviceConfigFile (srv_config srv) = config_file env \<and>
          IsInitialConfig (srv_config srv) = snd loaded \<and>
          unlabelled (cfg_deviceConfiguration (srv_config srv)) = unlabelled (fst loaded) \<and>
          srv_goroutines srv = [] \<and> srv_world srv = w' \<and> online srv reg w'
      | _ \<Rightarrow> False)"

lemma NewRegistration_unregistered: "NewRegistration env devId w = (Inr reg, w') \<Longrightarrow> \<not> IsRegistered reg"
  by (auto simp: NewRegistration_def IsRegistered_def split: prod.splits sum.splits)

lemma ensures_go_online:
  assumes "heartbeat_ready cfg w" and "\<not> pt_rebooting (ext w)" and "\<not> IsRegistered reg"
    and "\<And>srv reg' w'. srv_config srv = cfg \<Longrightarrow> srv_goroutines srv = [] \<Longrightarrow> srv_world srv = w' \<Longrightarrow> online srv reg' w' \<Longrightarrow> Q (Serving (srv, reg') w')"
  shows "ensures (go_online env cfg ansible reg w) Q"
  unfolding ensures_def using go_online_Serving [OF refl _ assms(1-3)] assms(4) by (metis (no_types, lifting))

text \<open>Making a directory and running the playbooks leave the components alone.\<close>

lemma ansible_parts:
  assumes "start_ansible env dir w = (a, w')"
  shows "pt_heartbeat (ext w') = pt_heartbeat (ext w) \<and> pt_rebooting (ext w') = pt_rebooting (ext w)"
  using assms by (auto simp: start_ansible_def on_raw_def split: sum.splits prod.splits)

lemma dir_error_world: "dir_error r w = (x, w') \<Longrightarrow> ext w' = ext w \<and> disk w' = snd r"
  by (auto simp: dir_error_def split: prod.splits)

lemma heartbeat_ready_ext: "ext w' = ext w \<or> pt_heartbeat (ext w') = pt_heartbeat (ext w) \<Longrightarrow> heartbeat_ready cfg w \<Longrightarrow> heartbeat_ready cfg w'"
  by (auto simp: heartbeat_ready_def)

lemma ensures_start_services:
  assumes "\<not> pt_rebooting (ext w)"
    and "\<And>srv reg w'. grown cfg [heartbeat_observer] (srv_config srv) \<Longrightarrow> srv_goroutines srv = [] \<Longrightarrow> srv_world srv = w' \<Longrightarrow>
      online srv reg w' \<Longrightarrow> Q (Serving (srv, reg) w')"
  shows "ensures (start_services env dir devId cfg w) Q"
  unfolding start_services_def
proof (intro ensures_or_fatal ensures_observe observers_ok)
  fix reg w1 cfg' w2 x w3
  assume r: "on_raw (\<lambda>w. case NewRegistration (me_reg env) devId w of (r, w') \<Rightarrow> (Ret r, w')) w = (Ret (Inr reg), w1)"
    and o: "RegisterObserver heartbeat_observer cfg (new_heartbeat cfg reg w1) = (Ret cfg', w2)"
    and g: "grown cfg [heartbeat_observer] cfg'" and d: "dir_error (MkdirAll (disk w2) dir) w2 = (Ret (Inr x), w3)"
  obtain ansible w4 where a: "start_ansible env dir w3 = (ansible, w4)" by fastforce
  have "\<not> IsRegistered reg"
    using r by (auto simp: on_raw_def split: prod.splits dest: NewRegistration_unregistered)
  moreover have "pt_rebooting (ext w4) = pt_rebooting (ext w)"
    using ansible_parts [OF a] dir_error_world [OF d] RegisterObserver_calm [OF o calm_observers(8)] raw_calm [OF r] by simp
  moreover have "heartbeat_ready cfg' w4"
    using register_heartbeat [OF o] ansible_parts [OF a] dir_error_world [OF d] by (simp add: heartbeat_ready_def)
  ultimately have "ensures (go_online env cfg' ansible reg w4) Q"
    using assms g by (intro ensures_go_online) auto
  with a show "ensures (case start_ansible env dir w3 of (ansible, w) \<Rightarrow> go_online env cfg' ansible reg w) Q" by simp
qed

text \<open>What becomes of a start-up that is neither fatal nor a crash.\<close>

lemma startup_result_holds:
  fixes env :: "('p, 'v, 'q, 'k, 'e) main_env"
  assumes "finished (worker_main env \<lparr>disk = d, ext = no_parts e\<rparr>)"
  shows "startup_result env (stored_configuration (me_codec env) (config_file env) d) (worker_main env \<lparr>disk = d, ext = no_parts e\<rparr>)"
proof (rule ensuresD [OF _ assms])
  let ?w = "\<lparr>disk = d, ext = no_parts e\<rparr>" and ?loaded = "stored_configuration (me_codec env) (config_file env) d"
  let ?Q = "startup_result env ?loaded" and ?dir = "path_Join [os_LookupEnv env ''YGG_CONFIG_DIR'' defaultDataDir, ''device'']"
  show "ensures (worker_main env ?w) ?Q"
    unfolding worker_main_def Let_def
  proof (rule ensures_connect, rule ensures_or_fatal, rule ensures_start_metrics)
    fix w1 w2 w3 :: "'e pworld" and x1 c1
    let ?m = "NewConfigurationManager (me_codec env) ?dir (disk w2) :: 'e parts ConfigManager"
    assume w1: "disk w1 = disk ?w" "pt_rebooting (ext w1) = pt_rebooting (ext ?w)"
      and w2: "dir_error (MkdirAll (disk w1) ?dir) w1 = (Ret (Inr x1), w2)"
      and g1: "grown ?m [store_observer env, workload_metrics_observer, system_metrics_observer env] c1"
      and w3: "pt_rebooting (ext w3) = pt_rebooting (ext w2)"
    have "disk w2 = snd (MkdirAll d ?dir)" using dir_error_world [OF w2] w1 by simp
    then have m: "cfg_deviceConfiguration ?m = fst ?loaded" "cfg_initialConfig ?m = snd ?loaded"
        "cfg_deviceConfigFile ?m = config_file env" "cfg_observers ?m = []"
      by (simp_all add: NewConfigurationManager_stored stored_configuration_Mkdir config_file_def Let_def)
    have calm: "\<not> pt_rebooting (ext w3)" using w3 dir_error_world [OF w2] w1 by (simp add: no_parts_def)
    show "ensures (start_workloads env ?dir (os_LookupEnv env ''YGG_CLIENT_ID'' ''unknown'') c1 w3
      (start_services env (path_Join [os_LookupEnv env ''YGG_CONFIG_DIR'' defaultDataDir, ''devicePlaybooks'']) (os_LookupEnv env ''YGG_CLIENT_ID'' ''unknown''))) ?Q"
    proof (rule ensures_start_workloads [OF calm])
      assume "wants_commit (cfg_deviceConfiguration c1)"
      moreover have "unlabelled (cfg_deviceConfiguration c1) = unlabelled (fst ?loaded)" using g1 m unfolding grown_def by simp
      ultimately have "wants_commit (fst ?loaded)" using wants_commit_unlabelled by blast
      then show "?Q Blocked" by (simp add: startup_result_def)
    next
      fix c2 and w4 :: "'e pworld"
      assume g2: "grown c1 [logs_observer env, manager_observer env, remote_write_observer env, os_observer env, monitor_observer] c2"
        and w4: "\<not> pt_rebooting (ext w4)"
      note g = grown_trans [OF grown_trans [OF g1 g2]]
      show "ensures (start_services env (path_Join [os_LookupEnv env ''YGG_CONFIG_DIR'' defaultDataDir, ''devicePlaybooks''])
          (os_LookupEnv env ''YGG_CLIENT_ID'' ''unknown'') c2 w4) ?Q"
      proof (rule ensures_start_services [OF w4])
        fix srv reg and w' :: "'e pworld"
        assume "grown c2 [heartbeat_observer] (srv_config srv)" and s: "srv_goroutines srv = []" "srv_world srv = w'" "online srv reg w'"
        from g [OF this(1)] have "cfg_observers (srv_config srv) = worker_observers env"
            "cfg_deviceConfigFile (srv_config srv) = config_file env" "IsInitialConfig (srv_config srv) = snd ?loaded"
            "unlabelled (cfg_deviceConfiguration (srv_config srv)) = unlabelled (fst ?loaded)"
          using m by (simp_all add: grown_def worker_observers_def IsInitialConfig_def)
        with s show "?Q (Serving (srv, reg) w')" by (simp add: startup_result_def)
      qed
    qed
  qed
qed


text \<open>
  C34: A configuration file that cannot be decoded, as a failed write of the configuration leaves one behind,
  counts as a configuration: the worker goes on with the default one, which has no workloads, sends
  heartbeats every minute and does not register.
\<close>

theorem unreadable_configuration_accepted:
  assumes "worker_main env \<lparr>disk = d, ext = no_parts e\<rparr> = Serving (srv, reg) w'"
    and "nodes d (config_file env) = Some (File text)" and "json_Unmarshal (me_codec env) text = Inl err"
  shows "cfg_deviceConfiguration (srv_config srv) = defaultDeviceConfigurationMessage \<and> \<not> IsInitialConfig (srv_config srv) \<and>
    \<not> IsRegistered reg \<and> (\<exists>h. pt_heartbeat (ext w') = Some h \<and> hbs_ticker h = Some 60000000000)"
proof -
  have "startup_result env (defaultDeviceConfigurationMessage, False) (Serving (srv, reg) w')"
    using startup_result_holds [of env d e] assms by (simp add: stored_configuration_def)
  then have r: "unlabelled (cfg_deviceConfiguration (srv_config srv)) = unlabelled defaultDeviceConfigurationMessage"
      "\<not> IsInitialConfig (srv_config srv)" "online srv reg w'"
    by (simp_all add: startup_result_def)
  then have d: "cfg_deviceConfiguration (srv_config srv) = defaultDeviceConfigurationMessage"
    by (cases "cfg_deviceConfiguration (srv_config srv)") (simp add: unlabelled_def defaultDeviceConfigurationMessage_def)
  have "seconds (getInterval defaultDeviceConfiguration) = 60000000000"
    by (simp add: getInterval_def defaultDeviceConfiguration_def defaultHeartbeatConfiguration_def seconds_exact)
  with r d show ?thesis by (auto simp: online_def defaultDeviceConfigurationMessage_def)
qed

section \<open>Concrete instances\<close>

text \<open>A device whose configuration file is empty, and one that starts for the first time.\<close>

definition demo_main :: "(unit, int, unit, string, unit) main_env" where
  "demo_main =
     \<lparr>me_environ = [(''YGG_SOCKET_ADDR'', ''s''), (''YGG_CONFIG_DIR'', ''/d''), (''YGG_CLIENT_ID'', ''dev'')],
      me_Dial = \<lambda>_. None, me_Register = \<lambda>e. (Inr (True, ''w''), e), me_Listen = \<lambda>_. None,
      me_codec = demo_codec\<lparr>json_Unmarshal := \<lambda>c. if c = [] then Inl (ExternalError ''unexpected end of JSON input'') else Inr demo_message\<rparr>,
      me_tsdb = stuck_tsdb\<lparr>tsdb_Open := \<lambda>_ _ e. (None, e)\<rparr>,
      me_wrapper = \<lparr>env_podman = calm_podman\<lparr>pods_List := \<lambda>e. (Inr [], e)\<rparr>, env_dbus = calm_dbus, env_exec = \<lambda>argv e. (ExecOk, e),
        env_LookPath = \<lambda>c. Inr c, env_range = \<lambda>m. m\<rparr>,
      me_manager = demo_env, me_dial_syslog = \<lambda>_ _. None, me_rw = demo_rw_env,
      me_command = \<lambda>_ e. (Inl (ExternalError ''not found''), e), me_time_String = \<lambda>_. [],
      me_reg = demo_reg_env, me_ansible = demo_server_env\<rparr>"

definition demo_boot :: "(string \<times> node) list \<Rightarrow> unit pworld" where
  "demo_boot files = \<lparr>disk = fs_of ([(''/d'', Dir), (''/cert'', File ''rold''), (''/key'', File ''old'')] @ files), ext = no_parts ()\<rparr>"

definition empty_config :: "(string \<times> node) list" where
  "empty_config = [(''/d/device'', Dir), (''/d/device/device-config.json'', File [])]"

fun serves :: "('r, 'w) main_result \<Rightarrow> bool" where
  "serves (Serving _ _) = True"
| "serves _ = False"

lemma servesE: "serves R \<Longrightarrow> (\<And>srv reg w. R = Serving (srv, reg) w \<Longrightarrow> P) \<Longrightarrow> P"
  by (cases R rule: serves.cases) auto

lemma first_start: "serves (worker_main demo_main (demo_boot []))"
  by code_simp

lemma empty_config_start: "serves (worker_main demo_main (demo_boot empty_config))"
  by code_simp

lemma demo_config_file: "config_file demo_main = ''/d/device/device-config.json''"
  by code_simp


theorem unreadable_configuration_accepted_witness:
  "\<exists>srv reg w'. worker_main demo_main (demo_boot empty_config) = Serving (srv, reg) w' \<and> \<not> IsRegistered reg \<and>
     GetWorkloads (srv_config srv) = []"
proof -
  obtain srv reg w' where s: "worker_main demo_main (demo_boot empty_config) = Serving (srv, reg) w'"
    using servesE [OF empty_config_start] .
  have "nodes (disk (demo_boot empty_config)) (config_file demo_main) = Some (File [])"
    unfolding demo_config_file by (simp add: demo_boot_def empty_config_def fs_of_def)
  moreover have "json_Unmarshal (me_codec demo_main) [] = Inl (ExternalError ''unexpected end of JSON input'')"
    by (simp add: demo_main_def)
  ultimately show ?thesis
    using unreadable_configuration_accepted [of demo_main "disk (demo_boot empty_config)" "()" srv reg w' "[]"] s
    by (simp add: demo_boot_def GetWorkloads_def defaultDeviceConfigurationMessage_def)
qed

end
