(* ===== verification/Wrapper_Invariant.thy ===== *)
theory Wrapper_Invariant
  imports Workload_Manager
begin

text \<open>
  What every operation of the workload wrapper keeps, the workload manager keeps: the contract of a
  \<open>WorkloadWrapper\<close> with an invariant on its state, its consequences for every operation of the
  manager on every branch, and the instance for the wrapper of \<open>wrapper.go\<close>.
\<close>

lemma wrap_val_snd [simp]: "snd (wrap_val f r) = snd r"
  by (cases r) (auto simp: wrap_val_def split: outcome.splits sum.splits)

section \<open>The contract\<close>

locale wrapper_invariant =
  fixes ww :: "('p, 'x) WorkloadWrapper" and invar :: "'x \<Rightarrow> bool"
  assumes init_keeps: "invar (ext w) \<Longrightarrow> invar (ext (snd (Wr_Init ww w)))"
    and list_keeps: "invar (ext w) \<Longrightarrow> invar (ext (snd (Wr_List ww w)))"
    and remove_keeps: "invar (ext w) \<Longrightarrow> invar (ext (snd (Wr_Remove ww name w)))"
    and stop_keeps: "invar (ext w) \<Longrightarrow> invar (ext (snd (Wr_Stop ww name w)))"
    and run_keeps: "invar (ext w) \<Longrightarrow> invar (ext (snd (Wr_Run ww pod manifest auth w)))"
    and table_keeps: "invar (ext w) \<Longrightarrow> invar (ext (snd (Wr_RemoveTable ww w)))"
    and mapping_keeps: "invar (ext w) \<Longrightarrow> invar (ext (snd (Wr_RemoveMappingFile ww w)))"
    and services_keeps: "invar (ext w) \<Longrightarrow> invar (ext (snd (Wr_RemoveServicesFile ww w)))"
    and secrets_keeps: "invar (ext w) \<Longrightarrow> invar (ext (snd (Wr_ListSecrets ww w)))"
    and remove_secret_keeps: "invar (ext w) \<Longrightarrow> invar (ext (snd (Wr_RemoveSecret ww name w)))"
    and create_secret_keeps: "invar (ext w) \<Longrightarrow> invar (ext (snd (Wr_CreateSecret ww name d w)))"
    and update_secret_keeps: "invar (ext w) \<Longrightarrow> invar (ext (snd (Wr_UpdateSecret ww name d w)))"
begin

lemmas op_keeps = init_keeps list_keeps remove_keeps stop_keeps run_keeps table_keeps mapping_keeps services_keeps
  secrets_keeps remove_secret_keeps create_secret_keeps update_secret_keeps

lemma keeps_result: "invar (ext (snd c)) \<Longrightarrow> c = (r, w') \<Longrightarrow> invar (ext w')"
  by simp

lemmas op_results = op_keeps [THEN keeps_result]

lemma on_out_keeps:
  assumes "\<And>w. invar (ext w) \<Longrightarrow> invar (ext (snd (f w)))" and "invar (ext (out m))"
  shows "invar (ext (out (snd (on_out f m))))"
  using assms by (simp add: on_out_def split_beta)

lemma on_out_result:
  assumes "on_out f m = (r, m')" and "invar (ext (out m))" and "\<And>w. invar (ext w) \<Longrightarrow> invar (ext (snd (f w)))"
  shows "invar (ext (out m'))"
  using on_out_keeps [of f m] assms by simp

lemma put_secrets_keeps: "invar (ext w) \<Longrightarrow> invar (ext (snd (put_secrets ww cs known errs w)))"
proof (induction cs arbitrary: known errs w)
  case (Cons c cs)
  then show ?case
    by (auto simp: Let_def split: prod.splits outcome.splits option.splits dest: update_secret_keeps [THEN keeps_result] create_secret_keeps [THEN keeps_result])
qed simp

lemma remove_secrets_keeps: "invar (ext w) \<Longrightarrow> invar (ext (snd (remove_secrets ww names errs w)))"
  by (induction names arbitrary: errs w)
    (auto split: prod.splits outcome.splits option.splits dest: remove_secret_keeps [THEN keeps_result])

lemma updateSecrets_keeps: "invar (ext w) \<Longrightarrow> invar (ext (snd (updateSecrets env ww secrets w)))"
  by (auto simp: updateSecrets_def intro!: remove_secrets_keeps split: prod.splits outcome.splits sum.splits
      dest: secrets_keeps [THEN keeps_result] put_secrets_keeps [THEN keeps_result])

lemma run_pod_keeps: "invar (ext (out m)) \<Longrightarrow> invar (ext (out (snd (run_pod ww pod manifest auth m))))"
  using on_out_keeps [of "Wr_Run ww pod manifest auth" m] run_keeps
  by (auto simp: run_pod_def split: prod.splits outcome.splits option.splits)

lemma disk_keeps: "invar (ext (out m)) \<Longrightarrow> invar (ext (out (snd (on_out (on_disk f) m))))"
  by (simp add: on_out_def on_disk_def split_beta)

lemmas seq_keeps =
  check_keeps [where P = "\<lambda>m. invar (ext (out m))"] check_val_keeps [where P = "\<lambda>m. invar (ext (out m))"]

lemma deploy_workload_keeps:
  assumes "invar (ext (out m))"
  shows "invar (ext (out (snd (deploy_workload env ww workload m))))"
proof (cases "toPod env (wm m) workload")
  case (Inr pod)
  show ?thesis
    unfolding deploy_workload_def Let_def Inr sum.case
    by (rule seq_keeps)
      (auto simp: assms disk_keeps on_out_keeps remove_keeps run_pod_keeps split: sum.split intro!: seq_keeps)
qed (simp add: deploy_workload_def assms)

lemma deploy_all_keeps: "invar (ext (out m)) \<Longrightarrow> invar (ext (out (snd (deploy_all env ww workloads errors m))))"
proof (induction workloads arbitrary: errors m)
  case (Cons workload workloads)
  obtain r m1 where d: "deploy_workload env ww workload m = (r, m1)" by fastforce
  then have "invar (ext (out m1))" using deploy_workload_keeps [OF Cons.prems, of env workload] by simp
  with d Cons.IH show ?case by (auto split: outcome.split option.split)
qed simp

lemma indexWorkloads_keeps: "invar (ext w) \<Longrightarrow> invar (ext (snd (indexWorkloads ww w)))"
  by (auto simp: indexWorkloads_def split: prod.splits outcome.splits sum.splits dest: list_keeps [THEN keeps_result])

lemma remove_stale_keeps: "invar (ext w) \<Longrightarrow> invar (ext (snd (remove_stale ww mgr configured names errors w)))"
proof (induction names arbitrary: errors w)
  case (Cons name names)
  obtain e1 s1 where d: "deleteDir (getWorkloadDirPath mgr name) (disk w) = (e1, s1)" by fastforce
  obtain r w1 where r: "Wr_Remove ww name (w\<lparr>disk := s1\<rparr>) = (r, w1)" by fastforce
  then have "invar (ext w1)" using remove_keeps [of "w\<lparr>disk := s1\<rparr>" name] Cons.prems by simp
  with d r Cons show ?case by (auto simp: Let_def split: outcome.split option.split)
qed simp

lemma drop_unconfigured_keeps:
  assumes "invar (ext (out m))"
  shows "invar (ext (out (snd (drop_unconfigured env ww configured errors m))))"
proof -
  obtain r m1 where i: "on_out (indexWorkloads ww) m = (r, m1)" by fastforce
  then have "invar (ext (out m1))" using assms indexWorkloads_keeps by (rule on_out_result)
  with i show ?thesis by (auto simp: drop_unconfigured_def intro!: on_out_keeps remove_stale_keeps split: outcome.split sum.split)
qed

theorem Update_keeps:
  assumes "invar (ext (out m))"
  shows "invar (ext (out (snd (WorkloadManager_Update env ww msg m))))"
proof -
  obtain r1 m1 where u: "on_out (updateSecrets env ww (dcm_Secrets msg)) m = (r1, m1)" by fastforce
  then have m1: "invar (ext (out m1))" using assms updateSecrets_keeps by (rule on_out_result)
  have m2: "invar (ext (out m2))" if "deploy_all env ww ws errs m1 = (r, m2)" for r m2 ws errs
    using deploy_all_keeps [OF m1, of env ws errs] that by simp
  have m3: "invar (ext (out m3))" if "deploy_all env ww ws errs m1 = (r, m2)" and "drop_unconfigured env ww cs es m2 = (r', m3)" for r m2 ws errs cs es r' m3
    using drop_unconfigured_keeps [OF m2 [OF that(1)], of env cs es] that(2) by simp
  show ?thesis
    using assms u m1 m2 m3 by (auto simp: WorkloadManager_Update_def split: prod.split outcome.split)
qed

lemma Init_keeps: "invar (ext (out m)) \<Longrightarrow> invar (ext (out (snd (WorkloadManager_Init env ww msg m))))"
  unfolding WorkloadManager_Init_def by (rule Update_keeps)

lemma over_workloads_keeps:
  assumes "\<And>name w. invar (ext w) \<Longrightarrow> invar (ext (snd (f name w)))" and "invar (ext w)"
  shows "invar (ext (snd (over_workloads f infos res w)))"
  using assms(2)
proof (induction infos arbitrary: res w)
  case (Cons i infos)
  obtain r w1 where f: "f (wi_Name i) w = (r, w1)" by fastforce
  then have "invar (ext w1)" using assms(1) [OF Cons.prems, of "wi_Name i"] by simp
  with f Cons.IH show ?case by (auto split: outcome.split option.split)
qed simp

lemma all_workloads_keeps:
  assumes "\<And>name w. invar (ext w) \<Longrightarrow> invar (ext (snd (f name w)))" and "invar (ext w)"
  shows "invar (ext (snd (all_workloads ww f w)))"
proof -
  obtain r w1 where l: "Wr_List ww w = (r, w1)" by fastforce
  then have w1: "invar (ext w1)" using list_keeps [OF assms(2)] by simp
  have "invar (ext w2)" if "over_workloads f infos res w1 = (r', w2)" for infos res r' w2
    using over_workloads_keeps [of f w1 infos res] assms(1) w1 that by simp
  with l w1 show ?thesis by (auto simp: all_workloads_def split: prod.split outcome.split sum.split)
qed

lemma StopWorkloads_keeps: "invar (ext (out m)) \<Longrightarrow> invar (ext (out (snd (StopWorkloads ww m))))"
  unfolding StopWorkloads_def stopAllWorkloads_def by (intro on_out_keeps all_workloads_keeps stop_keeps)

lemma ListWorkloads_keeps: "invar (ext (out m)) \<Longrightarrow> invar (ext (out (snd (ListWorkloads ww m))))"
  unfolding ListWorkloads_def by (intro on_out_keeps list_keeps)

lemma all_steps_keeps:
  assumes "\<And>f w. f \<in> snd ` set steps \<Longrightarrow> invar (ext w) \<Longrightarrow> invar (ext (snd (f w)))" and "invar (ext w)"
  shows "invar (ext (snd (all_steps steps errors w)))"
  using assms
proof (induction steps arbitrary: errors w)
  case (Cons st steps)
  obtain what f where st: "st = (what, f)" by fastforce
  obtain r w1 where f: "f w = (r, w1)" by fastforce
  then have "invar (ext w1)" using Cons.prems(1) [of f w] Cons.prems(2) st by simp
  with st f Cons.IH Cons.prems(1) show ?case by (auto split: outcome.split option.split)
qed simp

lemma deregister_steps_keep:
  assumes "f \<in> snd ` set (deregister_steps ww mgr)" and "invar (ext w)"
  shows "invar (ext (snd (f w)))"
proof -
  have "invar (ext (snd (all_workloads ww (Wr_Remove ww) w)))" using remove_keeps assms(2) by (rule all_workloads_keeps)
  then show ?thesis
    using assms op_keeps(6-8) [OF assms(2)]
    by (auto simp: deregister_steps_def removeAllWorkloads_def deleteTable_def removeMappingFile_def removeServicesFile_def
        on_disk_def split_beta)
qed

lemma Deregister_keeps:
  assumes "invar (ext (out m))"
  shows "invar (ext (out (snd (WorkloadManager_Deregister ww m))))"
proof -
  obtain r m1 where s: "on_out (all_steps (deregister_steps ww (wm m)) []) m = (r, m1)" by fastforce
  have "invar (ext (out m1))" using s assms
  proof (rule on_out_result)
    show "invar (ext (snd (all_steps (deregister_steps ww (wm m)) [] w)))" if "invar (ext w)" for w
      using deregister_steps_keep that by (rule all_steps_keeps)
  qed
  with s show ?thesis by (auto simp: WorkloadManager_Deregister_def split: outcome.split)
qed

end

section \<open>The wrapper of the program\<close>

text \<open>
  Well-formed: both maps of the mapping repository and the services have distinct keys, every service
  with a connection is stored under its own name, and the observers are the given ones.
\<close>

definition wrapper_ok :: "'o list \<Rightarrow> 'o Workload \<Rightarrow> bool" where
  "wrapper_ok os wrap \<longleftrightarrow> ww_observers wrap = os \<and>
     gomap_ok (idToName (ww_mappingRepository wrap)) \<and> gomap_ok (nameToId (ww_mappingRepository wrap)) \<and>
     gomap_ok (services (ww_serviceManager wrap)) \<and>
     (\<forall>name svc. map_of (services (ww_serviceManager wrap)) name = Some (Some svc) \<and> svc_dbusConnection svc \<longrightarrow> svc_Name svc = name)"

lemma wrapper_ok_update:
  "wrapper_ok os wrap \<Longrightarrow> wrapper_ok os (wrap\<lparr>ww_mappingRepository := mem_Add name ident (ww_mappingRepository wrap)\<rparr>)"
  "wrapper_ok os wrap \<Longrightarrow> wrapper_ok os (wrap\<lparr>ww_mappingRepository := mem_Remove name (ww_mappingRepository wrap)\<rparr>)"
  "wrapper_ok os wrap \<Longrightarrow> wrapper_ok os (wrap\<lparr>ww_serviceManager :=
     (ww_serviceManager wrap)\<lparr>services := map_put (services (ww_serviceManager wrap)) (svc_Name svc) (Some svc)\<rparr>\<rparr>)"
  "wrapper_ok os wrap \<Longrightarrow> wrapper_ok os (wrap\<lparr>ww_serviceManager :=
     (ww_serviceManager wrap)\<lparr>services := map_del (services (ww_serviceManager wrap)) name\<rparr>\<rparr>)"
  by (auto simp: wrapper_ok_def mem_Add_def mem_Remove_def Let_def split: if_splits)

lemma loaded_services: "map_of (map_fill [] (map (\<lambda>(k, t). (k, map_option restored t)) kts)) name = Some (Some svc) \<Longrightarrow> \<not> svc_dbusConnection svc"
proof -
  assume "map_of (map_fill [] (map (\<lambda>(k, t). (k, map_option restored t)) kts)) name = Some (Some svc)"
  then obtain t where "Some svc = map_option restored t"
    by (auto simp: lookup_fill dest!: map_of_SomeD)
  then show ?thesis by (cases t) (simp_all add: restored_def)
qed

lemma wrapper_ok_New:
  assumes "NewMappingRepository s dir = Inr m" and "NewSystemdManager s' dir' = Inr sm"
  shows "wrapper_ok [] (NewWorkload p n m sm interval)"
proof -
  have "gomap_ok (services sm)" and "\<And>name svc. map_of (services sm) name = Some (Some svc) \<Longrightarrow> \<not> svc_dbusConnection svc"
    using assms(2) by (auto dest!: loaded_services simp: NewSystemdManager_def Let_def split: sum.splits option.splits)
  moreover have "gomap_ok (idToName m)" "gomap_ok (nameToId m)"
    using assms(1) by (auto simp: NewMappingRepository_def Let_def split: sum.splits option.splits)
  ultimately show ?thesis by (auto simp: wrapper_ok_def NewWorkload_def)
qed

text \<open>The operations that only reach outside leave the wrapper alone.\<close>

lemma outside_keeps:
  "wrapper (ext (snd (on_outside f w))) = the_ww w" "wrapper (ext (snd (on_service g w))) = the_ww w"
  "wrapper (ext (snd (on_disk h w))) = the_ww w"
  by (simp_all add: on_outside_def on_service_eq on_disk_def split_beta)

lemma mapping_keeps:
  assumes "wrapper_ok os (the_ww w)"
  shows "wrapper_ok os (wrapper (ext (snd (on_mapping (mappingRepository_Add rng name ident) w))))"
    and "wrapper_ok os (wrapper (ext (snd (on_mapping (mappingRepository_Remove rng name) w))))"
  using wrapper_ok_update(1,2) [OF assms]
  by (simp_all add: on_mapping_def set_ww_def Let_def split_beta)

lemma manager_keeps:
  assumes "wrapper_ok os (the_ww w)"
  shows "wrapper_ok os (wrapper (ext (snd (on_manager (systemdManager_Add svc) w))))"
    and "wrapper_ok os (wrapper (ext (snd (on_manager (systemdManager_Remove svc) w))))"
  using wrapper_ok_update(3,4) [OF assms]
  by (simp_all add: on_manager_def set_ww_def Let_def split_beta)

lemmas ok_keeps =
  check_keeps [where P = "\<lambda>w. wrapper_ok os (the_ww w)"] check_val_keeps [where P = "\<lambda>w. wrapper_ok os (the_ww w)"]
  ignore_keeps [where P = "\<lambda>w. wrapper_ok os (the_ww w)"] for os

lemma applyNetworkConfiguration_keeps:
  "wrapper_ok os (the_ww w) \<Longrightarrow> wrapper_ok os (wrapper (ext (snd (applyNetworkConfiguration env pod w))))"
  by (auto simp: applyNetworkConfiguration_def outside_keeps split: sum.split intro!: ok_keeps)

lemma Workload_Run_keeps:
  "wrapper_ok os (the_ww w) \<Longrightarrow> wrapper_ok os (wrapper (ext (snd (Workload_Run env pod manifest auth w))))"
  unfolding Workload_Run_def createService_def
  by (intro ok_keeps) (auto simp: outside_keeps mapping_keeps manager_keeps applyNetworkConfiguration_keeps first_pod_def
      split: list.split intro!: ok_keeps)

lemma Workload_Remove_keeps:
  "wrapper_ok os (the_ww w) \<Longrightarrow> wrapper_ok os (wrapper (ext (snd (Workload_Remove env name w))))"
  unfolding Workload_Remove_def Let_def removeService_def
  by (intro ok_keeps) (auto simp: outside_keeps mapping_keeps manager_keeps split: option.split intro!: ok_keeps)

lemma Workload_Init_keeps:
  "wrapper_ok os (the_ww w) \<Longrightarrow> wrapper_ok os (wrapper (ext (snd (Workload_Init env w))))"
  unfolding Workload_Init_def by (intro ok_keeps) (simp_all add: outside_keeps)

interpretation program_wrapper: wrapper_invariant "workload_wrapper env" "\<lambda>p. wrapper_ok os (wrapper p)" for env os
proof unfold_locales
  show "wrapper_ok os (wrapper (ext (snd (Wr_List (workload_wrapper env) w))))" if "wrapper_ok os (wrapper (ext w))" for w
    using that outside_keeps(2) [of "podman_List (env_podman env)" w]
    by (auto simp: workload_wrapper_def Workload_List_def split: prod.split outcome.split sum.split)
qed (simp_all add: workload_wrapper_def Workload_Init_keeps Workload_Remove_keeps Workload_Run_keeps Workload_Stop_def
  Workload_RemoveTable_def Workload_RemoveMappingFile_def Workload_RemoveServicesFile_def Workload_ListSecrets_def
  Workload_RemoveSecret_def Workload_CreateSecret_def Workload_UpdateSecret_def outside_keeps)

end
