(* ===== verification/Worker_Run.thy ===== *)
theory Worker_Run
  imports Startup Data_Transfer Wrapper_Invariant
begin

text \<open>
  The worker while it serves: messages of the dispatcher, pod events told to the three observers of
  the workloads, scrapes and data transfers, as one step relation on the state \<open>parts\<close> of the process,
  and an invariant that all of them keep.
\<close>

section \<open>Pod events\<close>

text \<open>Calls that change one part, and parameters that only see the outside.\<close>

definition on_component ::
  "('e parts \<Rightarrow> 'c option) \<Rightarrow> ('c \<Rightarrow> 'e parts \<Rightarrow> 'e parts) \<Rightarrow> ('c \<Rightarrow> 'e world \<Rightarrow> ('c, 'e world) call) \<Rightarrow>
   'e pworld \<Rightarrow> (unit, 'e pworld) call" where
  "on_component get put f w =
     (case get (ext w) of
        None \<Rightarrow> (Panic, w)
      | Some c \<Rightarrow>
          (case on_raw (f c) w of
             (Ret c', w') \<Rightarrow> (Ret (), set_parts (put c') w')
           | (Panic, w') \<Rightarrow> (Panic, w')))"

definition at_outside :: "('e world \<Rightarrow> 'a \<times> 'e world) \<Rightarrow> ('o, 'e) wworld \<Rightarrow> 'a \<times> ('o, 'e) wworld" where
  "at_outside f w =
     (case f \<lparr>disk = disk w, ext = outside (ext w)\<rparr> of (r, v) \<Rightarrow> (r, w\<lparr>disk := disk v, ext := (ext w)\<lparr>outside := ext v\<rparr>\<rparr>))"

definition worker_sync :: "'e sync_env \<Rightarrow> 'e wl_process sync_env" where
  "worker_sync senv =
     \<lparr>aws_NewSession = (\<lambda>s. at_outside (aws_NewSession senv s)),
      s3sync_Sync = (\<lambda>s src dst. at_outside (s3sync_Sync senv s src dst)), sync_Now = at_outside (sync_Now senv)\<rparr>"

text \<open>What each observer does with a notification.\<close>

definition logs_notified ::
  "('p, 'v, 'q, 'k, 'e) main_env \<Rightarrow> notification \<Rightarrow> WorkloadsLogsTarget \<times> WorkloadManager \<times> wl_observer Workload \<Rightarrow> 'e world \<Rightarrow>
   (WorkloadsLogsTarget \<times> WorkloadManager \<times> wl_observer Workload, 'e world) call" where
  "logs_notified env n c w =
     (case c of (t, mgr, wrap) \<Rightarrow>
        (case n of
           WorkloadRemoved name \<Rightarrow> (Ret (LogsTarget_WorkloadRemoved name t, mgr, wrap), w)
         | WorkloadStarted name _ \<Rightarrow>
             (case LogsTarget_WorkloadStarted (worker_logs env) name t \<lparr>disk = disk w, ext = \<lparr>wrapper = wrap, outside = ext w\<rparr>\<rparr> of
                (t', u) \<Rightarrow> (Ret (t', mgr, wrapper (ext u)), \<lparr>disk = disk u, ext = outside (ext u)\<rparr>))))"

text \<open>A nil report is dereferenced when the workload has metrics.\<close>

definition metrics_notified ::
  "notification \<Rightarrow> WorkloadMetrics \<times> metricsDaemon \<Rightarrow> 'e world \<Rightarrow> (WorkloadMetrics \<times> metricsDaemon, 'e world) call" where
  "metrics_notified n c w =
     (case c of (wrkM, d) \<Rightarrow>
        (case n of
           WorkloadRemoved name \<Rightarrow> (Ret (wrkM, WorkloadMetrics_WorkloadRemoved DeleteTarget name d), w)
         | WorkloadStarted name reports \<Rightarrow>
             (if Option.bind (getWorkload wrkM name) wl_Metrics \<noteq> None \<and> None \<in> set reports then (Panic, w)
              else (Ret (wrkM, WorkloadMetrics_WorkloadStarted AddTarget wrkM name (map the reports) d), w))))"

definition monitor_notified ::
  "('p, 'v, 'q, 'k, 'e) main_env \<Rightarrow> 'e sync_env \<Rightarrow> 'y ConfigManager \<Rightarrow> notification \<Rightarrow>
   Monitor \<times> WorkloadManager \<times> wl_observer Workload \<Rightarrow> 'e world \<Rightarrow>
   (Monitor \<times> WorkloadManager \<times> wl_observer Workload, 'e world) call" where
  "monitor_notified env senv cfg n c w =
     (case c of (m, mgr, wrap) \<Rightarrow>
        (case n of
           WorkloadRemoved name \<Rightarrow>
             (case Monitor_WorkloadRemoved (worker_sync senv) cfg name m
                     \<lparr>wm = mgr, out = \<lparr>disk = disk w, ext = \<lparr>wrapper = wrap, outside = ext w\<rparr>\<rparr>\<rparr> of
                (r, u) \<Rightarrow> (case r of Ret m' \<Rightarrow> Ret (m', wm u, wrapper (ext (out u))) | Panic \<Rightarrow> Panic,
                           \<lparr>disk = disk (out u), ext = outside (ext (out u))\<rparr>))
         | WorkloadStarted _ _ \<Rightarrow> (Ret (m, mgr, wrap), w)))"

definition notify ::
  "('p, 'v, 'q, 'k, 'e) main_env \<Rightarrow> 'e sync_env \<Rightarrow> 'y ConfigManager \<Rightarrow> wl_observer \<Rightarrow> notification \<Rightarrow> 'e pworld \<Rightarrow> (unit, 'e pworld) call" where
  "notify env senv cfg obs n =
     (case obs of
        LogsObserver \<Rightarrow>
          on_component (\<lambda>p. both (pt_logs p) (pt_workloads p)) (\<lambda>(t, wl) p. p\<lparr>pt_logs := Some t, pt_workloads := Some wl\<rparr>) (logs_notified env n)
      | MetricsObserver \<Rightarrow>
          on_component (\<lambda>p. both (pt_wlmetrics p) (pt_daemon p)) (\<lambda>(wrkM, d) p. p\<lparr>pt_wlmetrics := Some wrkM, pt_daemon := Some d\<rparr>) (metrics_notified n)
      | MonitorObserver \<Rightarrow>
          on_component (\<lambda>p. both (pt_monitor p) (pt_workloads p)) (\<lambda>(m, wl) p. p\<lparr>pt_monitor := Some m, pt_workloads := Some wl\<rparr>)
            (monitor_notified env senv cfg n))"

fun tell_all ::
  "('p, 'v, 'q, 'k, 'e) main_env \<Rightarrow> 'e sync_env \<Rightarrow> 'y ConfigManager \<Rightarrow> (wl_observer \<times> notification) list \<Rightarrow> 'e pworld \<Rightarrow> (unit, 'e pworld) call" where
  "tell_all env senv cfg [] w = (Ret (), w)"
| "tell_all env senv cfg ((obs, n) # ns) w =
     (case notify env senv cfg obs n w of
        (Ret _, w') \<Rightarrow> tell_all env senv cfg ns w'
      | (Panic, w') \<Rightarrow> (Panic, w'))"

text \<open>An event reaches the observers registered with the workload wrapper.\<close>

definition pod_event ::
  "('p, 'v, 'q, 'k, 'e) main_env \<Rightarrow> 'e sync_env \<Rightarrow> 'y ConfigManager \<Rightarrow> PodmanEvent \<Rightarrow> 'e pworld \<Rightarrow> (unit, 'e pworld) call" where
  "pod_event env senv cfg ev w =
     (case pt_workloads (ext w) of
        None \<Rightarrow> (Ret (), w)
      | Some (mgr, wrap) \<Rightarrow> tell_all env senv cfg (observer_turn wrap ev) w)"

section \<open>The steps of the worker\<close>

text \<open>Ansible changes files and the outside only.\<close>

definition worker_ansible :: "('p, 'v, 'q, 'k, 'e) main_env \<Rightarrow> 'e parts ansible_env" where
  "worker_ansible env =
     (let a = me_ansible env in
      \<lparr>ans_LookPath = ans_LookPath a, ans_Run = (\<lambda>cmd timeout. on_raw (ans_Run a cmd timeout)), ans_JSONParse = ans_JSONParse a,
       ans_Send = (\<lambda>d p. case ans_Send a d (pt_outside p) of (err, e) \<Rightarrow> (err, p\<lparr>pt_outside := e\<rparr>)), ans_uuid = ans_uuid a,
       ans_decode = ans_decode a, ans_ModTime = (\<lambda>file0 w. ans_ModTime a file0 \<lparr>disk = disk w, ext = pt_outside (ext w)\<rparr>),
       ans_transformer = ans_transformer a, ans_range = ans_range a, ans_range_all = ans_range_all a\<rparr>)"

text \<open>The call of \<open>syncPaths\<close> at a tick.\<close>

definition monitor_tick ::
  "('p, 'v, 'q, 'k, 'e) main_env \<Rightarrow> 'e sync_env \<Rightarrow> 'y ConfigManager \<Rightarrow> Monitor \<times> WorkloadManager \<times> wl_observer Workload \<Rightarrow> 'e world \<Rightarrow>
   (Monitor \<times> WorkloadManager \<times> wl_observer Workload, 'e world) call" where
  "monitor_tick env senv cfg c w =
     (case c of (m, mgr, wrap) \<Rightarrow>
        (case syncPaths (worker_sync senv) (workload_wrapper (me_wrapper env) :: ('p, 'e wl_process) WorkloadWrapper) cfg m
                \<lparr>wm = mgr, out = \<lparr>disk = disk w, ext = \<lparr>wrapper = wrap, outside = ext w\<rparr>\<rparr>\<rparr> of
           (r, u) \<Rightarrow> (case r of Ret (_, m') \<Rightarrow> Ret (m', wm u, wrapper (ext (out u))) | Panic \<Rightarrow> Panic,
                      \<lparr>disk = disk (out u), ext = outside (ext (out u))\<rparr>)))"

text \<open>
  A step of the daemon's loops leaves its map of targets as it is. The outside changes at any time.
  The heartbeats, whose state is a copy, the disconnect and the reboot are in their own theories.
\<close>

inductive worker_step ::
  "('p, 'v, 'q, 'k, 'e) main_env \<Rightarrow> 'e sync_env \<Rightarrow> ('v, 'e) scrape_env \<Rightarrow> labels_range \<Rightarrow>
   'e parts deviceServer \<Rightarrow> 'e parts deviceServer \<Rightarrow> bool" for env senv scenv rng where
  serve: "server_step (worker_ansible env) (me_codec env) s s' \<Longrightarrow> worker_step env senv scenv rng s s'"
| pod: "pod_event env senv (srv_config s) ev (srv_world s) = (Ret (), w) \<Longrightarrow> worker_step env senv scenv rng s (s\<lparr>srv_world := w\<rparr>)"
| scrape: "pt_daemon (ext (srv_world s)) = Some md \<Longrightarrow>
    daemon_step scenv (me_tsdb env) rng (md, pt_outside (ext (srv_world s))) (md', e) \<Longrightarrow> md_targets md' = md_targets md \<Longrightarrow>
    worker_step env senv scenv rng s (s\<lparr>srv_world := set_parts (\<lambda>p. p\<lparr>pt_daemon := Some md', pt_outside := e\<rparr>) (srv_world s)\<rparr>)"
| transfer: "on_component (\<lambda>p. both (pt_monitor p) (pt_workloads p)) (\<lambda>(m, wl) p. p\<lparr>pt_monitor := Some m, pt_workloads := Some wl\<rparr>)
      (monitor_tick env senv (srv_config s)) (srv_world s) = (Ret (), w) \<Longrightarrow>
    worker_step env senv scenv rng s (s\<lparr>srv_world := w\<rparr>)"
| elsewhere: "worker_step env senv scenv rng s (s\<lparr>srv_world := set_parts (\<lambda>p. p\<lparr>pt_outside := e\<rparr>) (srv_world s)\<rparr>)"

section \<open>The invariant\<close>

text \<open>
  The daemon, the log target and the workload wrapper, where they exist, are well-formed. Which
  parts exist never changes once \<open>main\<close> has made them.
\<close>

definition parts_ok :: "bool \<Rightarrow> wl_observer list \<Rightarrow> 'e parts \<Rightarrow> bool" where
  "parts_ok off os p \<longleftrightarrow> pred_option daemon_ok (pt_daemon p) \<and> pred_option logs_inv (pt_logs p) \<and>
     pred_option (\<lambda>(mgr, wrap). (off \<longrightarrow> deregistered mgr) \<and> wrapper_ok os wrap) (pt_workloads p) \<and> pred_option heartbeat_inv (pt_heartbeat p)"

definition present :: "'e parts \<Rightarrow> bool list" where
  "present p = [pt_tsdb p \<noteq> None, pt_daemon p \<noteq> None, pt_wlmetrics p \<noteq> None, pt_system p \<noteq> None, pt_workloads p \<noteq> None,
     pt_logs p \<noteq> None, pt_remote p \<noteq> None, pt_os p \<noteq> None, pt_monitor p \<noteq> None, pt_heartbeat p \<noteq> None]"

definition parts_inv :: "bool \<Rightarrow> wl_observer list \<Rightarrow> bool list \<Rightarrow> 'e parts \<Rightarrow> bool" where
  "parts_inv off os bs p \<longleftrightarrow> parts_ok off os p \<and> present p = bs"

lemma parts_inv_outside [simp]: "parts_inv off os bs (p\<lparr>pt_outside := e\<rparr>) = parts_inv off os bs p"
  by (simp add: parts_inv_def parts_ok_def present_def)

lemma on_raw_inv: "parts_inv off os bs (ext w) \<Longrightarrow> on_raw f w = (r, w') \<Longrightarrow> parts_inv off os bs (ext w')"
  by (auto simp: on_raw_def split: prod.splits)

lemma on_raw_get:
  assumes "on_raw f w = (r, w')" and "\<And>p e. get (p\<lparr>pt_outside := e\<rparr>) = get p"
  shows "get (ext w') = get (ext w)"
  using assms by (auto simp: on_raw_def split: prod.splits)

text \<open>An access to one part keeps the invariant when the new part is as good as the old one.\<close>

lemma on_part_inv:
  assumes "parts_inv off os bs (ext w)" and "\<And>p e. get (p\<lparr>pt_outside := e\<rparr>) = get p"
    and "\<And>p c v err m c' v'. parts_inv off os bs p \<Longrightarrow> get p = Some c \<Longrightarrow> f msg c v = (Ret (err, m, c'), v') \<Longrightarrow> parts_inv off os bs (put c' p)"
  shows "parts_inv off os bs (ext (snd (on_part get put f msg w)))"
proof (cases "get (ext w)")
  case (Some c)
  obtain r w' where r: "on_raw (f msg c) w = (r, w')" by fastforce
  have w': "parts_inv off os bs (ext w')" "get (ext w') = Some c"
    using on_raw_inv [OF assms(1) r] on_raw_get [OF r assms(2)] Some by simp_all
  show ?thesis
  proof (cases r)
    case (Ret t)
    obtain err m c' where t: "t = (err, m, c')" by (cases t)
    obtain v' where "f msg c \<lparr>disk = disk w, ext = pt_outside (ext w)\<rparr> = (Ret (err, m, c'), v')"
      using r Ret t by (auto simp: on_raw_def split: prod.splits)
    from assms(3) [OF w' this] show ?thesis using r Some Ret t by (simp add: on_part_def)
  qed (use r Some w' in \<open>simp add: on_part_def\<close>)
qed (simp add: on_part_def assms)

lemma on_component_inv:
  assumes "parts_inv off os bs (ext w)" and "\<And>p e. get (p\<lparr>pt_outside := e\<rparr>) = get p"
    and "\<And>p c v c' v'. parts_inv off os bs p \<Longrightarrow> get p = Some c \<Longrightarrow> f c v = (Ret c', v') \<Longrightarrow> parts_inv off os bs (put c' p)"
  shows "parts_inv off os bs (ext (snd (on_component get put f w)))"
proof (cases "get (ext w)")
  case (Some c)
  obtain r w' where r: "on_raw (f c) w = (r, w')" by fastforce
  have w': "parts_inv off os bs (ext w')" "get (ext w') = Some c"
    using on_raw_inv [OF assms(1) r] on_raw_get [OF r assms(2)] Some by simp_all
  show ?thesis
  proof (cases r)
    case (Ret c')
    obtain v' where "f c \<lparr>disk = disk w, ext = pt_outside (ext w)\<rparr> = (Ret c', v')"
      using r Ret by (auto simp: on_raw_def split: prod.splits)
    from assms(3) [OF w' this] show ?thesis using r Some Ret by (simp add: on_component_def)
  qed (use r Some w' in \<open>simp add: on_component_def\<close>)
qed (simp add: on_component_def assms)

lemma both_Some: "both a b = Some (x, y) \<longleftrightarrow> a = Some x \<and> b = Some y"
  by (cases a; cases b) auto

lemma keeping_Ret: "keeping f msg c v = (Ret (err, m, c'), v') \<longleftrightarrow> m = msg \<and> f msg c v = (Ret (err, c'), v')"
  by (auto simp: keeping_def split: prod.splits outcome.splits)

lemma SystemMetrics_Update_daemon:
  assumes "SystemMetrics_Update AddTarget DeleteTarget api config sm d w = (Ret (err, sm', d'), w')" and "daemon_ok d"
  shows "daemon_ok d'"
  using assms by (auto simp: SystemMetrics_Update_def split: prod.splits outcome.splits option.splits if_splits)

lemma logs_inv_deviceID [simp]: "logs_inv (t\<lparr>lt_deviceID := d\<rparr>) = logs_inv t"
  by (simp add: logs_inv_def logs_ok_def writers_attached_def)

lemma logs_Init_inv:
  assumes "LogsTarget_Init env config t w = (Ret (err, t'), w')" and "logs_inv t"
    and "is_range (le_writers env)" and "is_range (le_transports env)"
  shows "logs_inv t'"
proof -
  have fold_inv: "logs_inv (fst (fold (\<lambda>wrk (t, w). LogsTarget_WorkloadStarted env (wi_Name wrk) t w) ws (t, w)))" if "logs_inv t" for ws t w
    using that
  proof (induction ws arbitrary: t w)
    case (Cons x ws)
    obtain t1 w1 where "LogsTarget_WorkloadStarted env (wi_Name x) t w = (t1, w1)" by fastforce
    with Cons WorkloadStarted_inv [OF Cons.prems this] show ?case by simp
  qed simp
  have "logs_inv (t\<lparr>lt_deviceID := d\<rparr>)" for d using assms(2) by simp
  then have up: "logs_inv t1" if "LogsTarget_Update env config (t\<lparr>lt_deviceID := dcm_DeviceID config\<rparr>) = Ret (e, t1)" for e t1
    using LogsTarget_Update_effect(1) [OF that _ assms(3,4)] by blast
  have "logs_inv t2" if "logs_inv t1" and "fold (\<lambda>wrk (t, w). LogsTarget_WorkloadStarted env (wi_Name wrk) t w) ws (t1, w1) = (t2, w2)" for t1 t2 ws w1 w2
    using fold_inv [OF that(1), of ws w1] that(2) by simp
  with up show ?thesis
    using assms(1) by (auto simp: LogsTarget_Init_def split: outcome.splits option.splits prod.splits sum.splits)
qed

section \<open>The observers of the configuration keep it\<close>

definition keeps_parts :: "bool \<Rightarrow> wl_observer list \<Rightarrow> bool list \<Rightarrow> 'e parts ConfigObserver \<Rightarrow> bool" where
  "keeps_parts off os bs obs \<longleftrightarrow> (\<forall>msg w. parts_inv off os bs (ext w) \<longrightarrow>
     parts_inv off os bs (ext (snd (obs_Init obs msg w))) \<and> parts_inv off os bs (ext (snd (obs_Update obs msg w))))"

lemmas parts_inv_defs = parts_inv_def parts_ok_def present_def

lemma LogsTarget_Update_inv:
  "LogsTarget_Update (worker_logs env) config t = Ret (err, t') \<Longrightarrow> logs_inv t \<Longrightarrow> logs_inv t'"
  by (rule LogsTarget_Update_effect(1)) (auto simp: worker_logs_def)

text \<open>Listing the workloads and opening their logs leaves the wrapper alone.\<close>

lemma worker_logs_wrapper:
  "wrapper (ext (snd (le_Logs (worker_logs env) name w))) = wrapper (ext w)"
  "wrapper (ext (snd (le_List (worker_logs env) w))) = wrapper (ext w)"
  by (auto simp: worker_logs_def Workload_List_def on_service_eq split: prod.splits outcome.splits sum.splits)

lemma WorkloadStarted_wrapper:
  "LogsTarget_WorkloadStarted (worker_logs env) name t w = (t', w') \<Longrightarrow> wrapper (ext w') = wrapper (ext w)"
  using worker_logs_wrapper(1) [of env name w]
  by (auto simp: LogsTarget_WorkloadStarted_def Let_def Writer_Start_def SetTarget_def NewWorkloadWriter_def split: prod.splits option.splits)

lemma fold_started_wrapper:
  "fold (\<lambda>wrk (t, w). LogsTarget_WorkloadStarted (worker_logs env) (wi_Name wrk) t w) ws (t, w) = (t', w') \<Longrightarrow> wrapper (ext w') = wrapper (ext w)"
proof (induction ws arbitrary: t w)
  case (Cons x ws)
  obtain t1 w1 where "LogsTarget_WorkloadStarted (worker_logs env) (wi_Name x) t w = (t1, w1)" by fastforce
  with Cons WorkloadStarted_wrapper [OF this] show ?case by simp
qed simp

lemma LogsTarget_Init_wrapper:
  assumes "LogsTarget_Init (worker_logs env) config t w = (Ret (err, t'), w')"
  shows "wrapper (ext w') = wrapper (ext w)"
proof -
  have "wrapper (ext w1) = wrapper (ext w)" if "le_List (worker_logs env) w = (r, w1)" for r w1
    using worker_logs_wrapper(2) [of env w] that by simp
  then show ?thesis
    using assms by (auto simp: LogsTarget_Init_def dest!: fold_started_wrapper split: outcome.splits option.splits prod.splits sum.splits)
qed

lemma Heartbeat_observer_inv:
  "Heartbeat_Init msg h = (Ret err, h') \<Longrightarrow> heartbeat_inv h \<Longrightarrow> heartbeat_inv h'"
  "Heartbeat_Update msg h = (Ret err, h') \<Longrightarrow> heartbeat_inv h \<Longrightarrow> heartbeat_inv h'"
  using heartbeat_step_inv [OF heartbeat_step.update] by (auto simp: Heartbeat_Init_def)

lemma heartbeat_keeps: "keeps_parts off os bs heartbeat_observer"
proof -
  have put: "parts_inv off os bs (p\<lparr>pt_heartbeat := Some c'\<rparr>)"
    if "parts_inv off os bs p" "pt_heartbeat p = Some c" "heartbeat_inv c \<Longrightarrow> heartbeat_inv c'" for p c c'
    using that by (simp add: parts_inv_defs)
  have step: "parts_inv off os bs (ext (snd (on_part pt_heartbeat (\<lambda>c p. p\<lparr>pt_heartbeat := Some c\<rparr>)
      (keeping (\<lambda>msg h w. case f msg h of (Ret err, h') \<Rightarrow> (Ret (err, h'), w) | (Panic, h') \<Rightarrow> (Panic, w))) msg w)))"
    if "parts_inv off os bs (ext w)" and f: "\<And>msg h err h'. f msg h = (Ret err, h') \<Longrightarrow> heartbeat_inv h \<Longrightarrow> heartbeat_inv h'" for f msg w
  proof (rule on_part_inv [OF that(1)])
    fix p c v err m c' v'
    assume p: "parts_inv off os bs p" "pt_heartbeat p = Some c"
      and k: "keeping (\<lambda>msg h w. case f msg h of (Ret err, h') \<Rightarrow> (Ret (err, h'), w) | (Panic, h') \<Rightarrow> (Panic, w)) msg c v = (Ret (err, m, c'), v')"
    have "f msg c = (Ret err, c')" using k by (auto simp: keeping_Ret split: prod.splits outcome.splits)
    from put [OF p f [OF this]] show "parts_inv off os bs (p\<lparr>pt_heartbeat := Some c'\<rparr>)" .
  qed simp
  show ?thesis
    unfolding keeps_parts_def heartbeat_observer_def Let_def
    by (auto intro!: step dest: Heartbeat_observer_inv)
qed

lemma observers_keep:
  "keeps_parts off os bs (store_observer env)" "keeps_parts off os bs workload_metrics_observer"
  "keeps_parts off os bs (remote_write_observer env)" "keeps_parts off os bs (os_observer env)" "keeps_parts off os bs monitor_observer"
  by (auto simp: keeps_parts_def observer_defs both_Some intro!: on_part_inv)
    (auto simp: parts_inv_defs keeping_Ret both_Some split: prod.splits outcome.splits)

lemma system_keeps: "keeps_parts off os bs (system_metrics_observer env)"
  unfolding keeps_parts_def system_metrics_observer_def Let_def SystemMetrics_Init_def
  by (auto simp: both_Some keeping_Ret intro!: on_part_inv) (auto simp: parts_inv_defs dest: SystemMetrics_Update_daemon)

text \<open>What the invariant asks of new logs and of a new wrapper.\<close>

lemma parts_inv_logs:
  assumes "parts_inv off os bs p" and "pt_logs p = Some t" and "pt_workloads p = Some (mgr, wrap)" and "logs_inv t'" and "wrapper_ok os wrap'"
  shows "parts_inv off os bs (p\<lparr>pt_logs := Some t', pt_workloads := Some (mgr, wrap')\<rparr>)"
  using assms by (simp add: parts_inv_defs)

lemma parts_inv_get:
  "parts_inv off os bs p \<Longrightarrow> pt_logs p = Some t \<Longrightarrow> logs_inv t"
  "parts_inv off os bs p \<Longrightarrow> pt_workloads p = Some (mgr, wrap) \<Longrightarrow> wrapper_ok os wrap \<and> (off \<longrightarrow> deregistered mgr)"
  "parts_inv off os bs p \<Longrightarrow> pt_daemon p = Some d \<Longrightarrow> daemon_ok d"
  by (simp_all add: parts_inv_defs)

lemma logs_keep: "keeps_parts off os bs (logs_observer env)"
  unfolding keeps_parts_def logs_observer_def Let_def
proof (intro allI impI conjI, goal_cases)
  case (1 msg w)
  show ?case
  proof (simp, rule on_part_inv [OF 1])
    fix p c v err m c' v'
    let ?f = "\<lambda>msg (t, mgr, wrap) w. case LogsTarget_Init (worker_logs env) msg t \<lparr>disk = disk w, ext = \<lparr>wrapper = wrap, outside = ext w\<rparr>\<rparr> of
      (r, u) \<Rightarrow> (case r of Ret (err, t') \<Rightarrow> Ret (err, t', mgr, wrapper (ext u)) | Panic \<Rightarrow> Panic, \<lparr>disk = disk u, ext = outside (ext u)\<rparr>)"
    assume p: "parts_inv off os bs p" "both (pt_logs p) (pt_workloads p) = Some c" and f: "keeping ?f msg c v = (Ret (err, m, c'), v')"
    obtain t mgr wrap where c: "c = (t, mgr, wrap)" by (cases c)
    obtain t' u where u: "LogsTarget_Init (worker_logs env) msg t \<lparr>disk = disk v, ext = \<lparr>wrapper = wrap, outside = ext v\<rparr>\<rparr> = (Ret (err, t'), u)"
      and c': "c' = (t', mgr, wrapper (ext u))"
      using f c by (auto simp: keeping_Ret split: prod.splits outcome.splits)
    have "logs_inv t'" "wrapper (ext u) = wrap"
      using logs_Init_inv [OF u] LogsTarget_Init_wrapper [OF u] parts_inv_get(1) [OF p(1)] p(2) c by (auto simp: both_Some worker_logs_def)
    then show "parts_inv off os bs ((\<lambda>(t, wl) p. p\<lparr>pt_logs := Some t, pt_workloads := Some wl\<rparr>) c' p)"
      using p c c' parts_inv_logs [OF p(1)] parts_inv_get(2) [OF p(1)] by (auto simp: both_Some)
  qed simp
next
  case (2 msg w)
  show ?case
    by (simp, rule on_part_inv [OF 2])
      (auto simp: both_Some keeping_Ret split: outcome.splits, metis parts_inv_logs parts_inv_get(1,2) LogsTarget_Update_inv)
qed

lemma manager_keep: "keeps_parts off os bs (manager_observer env)"
proof -
  have upd: "wrapper_ok os (wrapper (ext (out m'))) \<and> (deregistered mgr \<longrightarrow> deregistered (wm m'))"
    if "WorkloadManager_Update menv (workload_wrapper wenv) msg \<lparr>wm = mgr, out = \<lparr>disk = d, ext = \<lparr>wrapper = wrap, outside = e\<rparr>\<rparr>\<rparr> = (r, m')"
      and "wrapper_ok os wrap" for menv wenv msg mgr d wrap e r m'
    using program_wrapper.Update_keeps [of os "\<lparr>wm = mgr, out = \<lparr>disk = d, ext = \<lparr>wrapper = wrap, outside = e\<rparr>\<rparr>\<rparr>" menv wenv msg] that
    by (auto simp: WorkloadManager_Update_def)
  have put: "parts_inv off os bs (p\<lparr>pt_workloads := Some c'\<rparr>)"
    if "parts_inv off os bs p" "pt_workloads p = Some c"
      and "(case c of (mgr, wrap) \<Rightarrow> \<lambda>w.
          case WorkloadManager_Update (me_manager env) (workload_wrapper (me_wrapper env)) msg
                 \<lparr>wm = mgr, out = \<lparr>disk = disk w, ext = \<lparr>wrapper = wrap, outside = ext w\<rparr>\<rparr>\<rparr> of
            (r, m) \<Rightarrow>
              (case r of Ret err \<Rightarrow> Ret (err, after_Update (me_manager env) mgr msg, wm m, wrapper (ext (out m))) | Panic \<Rightarrow> Panic,
               \<lparr>disk = disk (out m), ext = outside (ext (out m))\<rparr>)) v = (Ret (err, m0, c'), v')"
    for p c msg v err m0 c' v'
  proof -
    obtain mgr wrap where c: "c = (mgr, wrap)" by (cases c)
    obtain r m where u: "WorkloadManager_Update (me_manager env) (workload_wrapper (me_wrapper env)) msg
        \<lparr>wm = mgr, out = \<lparr>disk = disk v, ext = \<lparr>wrapper = wrap, outside = ext v\<rparr>\<rparr>\<rparr> = (r, m)" by fastforce
    then have "c' = (wm m, wrapper (ext (out m)))" using that(3) c by (cases r) auto
    moreover have "wrapper_ok os (wrapper (ext (out m))) \<and> (off \<longrightarrow> deregistered (wm m))"
      using upd [OF u] parts_inv_get(2) [OF that(1)] that(2) c by simp
    ultimately show ?thesis using that(1,2) c by (cases c') (simp add: parts_inv_defs)
  qed
  show ?thesis
    unfolding keeps_parts_def manager_observer_def Let_def WorkloadManager_Init_def
  proof (simp, intro allI impI, goal_cases)
    case (1 msg w)
    show ?case by (rule on_part_inv [OF 1 _ put]) simp_all
  qed
qed

lemma worker_observers_keep: "obs \<in> set (worker_observers env) \<Longrightarrow> keeps_parts off os bs obs"
  using observers_keep heartbeat_keeps system_keeps logs_keep manager_keep by (auto simp: worker_observers_def)

text \<open>So does the configuration manager, and the server.\<close>

lemma RegisterObserver_keeps:
  assumes "RegisterObserver obs m w = (r, w')" and "keeps_parts off os bs obs" and "parts_inv off os bs (ext w)"
  shows "parts_inv off os bs (ext w')"
proof -
  have "w' = snd (obs_Init obs (cfg_deviceConfiguration m) w)"
    using assms(1) by (auto simp: RegisterObserver_def split: prod.splits outcome.splits)
  with assms show ?thesis unfolding keeps_parts_def by blast
qed

lemma run_observers_keep:
  assumes "\<And>obs. obs \<in> set observers \<Longrightarrow> keeps_parts off os bs obs" and "parts_inv off os bs (ext w)"
    and "run_observers observers msg errors w = (r, w')"
  shows "parts_inv off os bs (ext w')"
  using assms
proof (induction observers arbitrary: msg errors w)
  case (Cons obs observers)
  obtain r1 w1 where r1: "obs_Update obs msg w = (r1, w1)" by fastforce
  then have "parts_inv off os bs (ext w1)"
    using Cons.prems(1) [of obs] Cons.prems(2) unfolding keeps_parts_def by (metis list.set_intros(1) snd_conv)
  with Cons r1 show ?case by (auto split: outcome.splits option.splits)
qed simp

lemma ConfigManager_Update_keeps:
  assumes "ConfigManager_Update enc msg m w = (Ret (err, m'), w')" and "\<And>obs. obs \<in> set (cfg_observers m) \<Longrightarrow> keeps_parts off os bs obs"
    and "parts_inv off os bs (ext w)"
  shows "parts_inv off os bs (ext w') \<and> cfg_observers m' = cfg_observers m"
proof -
  have "parts_inv off os bs (ext w1)" if "run_observers (cfg_observers m) msg [] w = (r, w1)" for r w1
    using run_observers_keep [OF assms(2,3) that] by blast
  then show ?thesis
    using assms(1,3) by (auto simp: ConfigManager_Update_def Let_def split: if_splits prod.splits outcome.splits sum.splits option.splits)
qed

lemma on_raw_parts: "parts_inv off os bs (ext w) \<Longrightarrow> parts_inv off os bs (ext (snd (on_raw f w)))"
  by (simp add: on_raw_def split: prod.splits)

text \<open>A run of a playbook keeps what running commands and sending events keep.\<close>

lemma ansible_Run_keeps: "parts_inv off os bs (ext w) \<Longrightarrow> parts_inv off os bs (ext (snd (ans_Run (worker_ansible env) cmd timeout w)))"
  by (simp add: worker_ansible_def Let_def on_raw_parts)

lemma ansible_Send_keeps: "parts_inv off os bs p \<Longrightarrow> parts_inv off os bs (snd (ans_Send (worker_ansible env) d p))"
  by (simp add: worker_ansible_def Let_def split: prod.splits)

lemma exec_body_keeps:
  assumes "exec_body (worker_ansible env) job a w = ((pc, a'), w')" and "parts_inv off os bs (ext w)"
  shows "parts_inv off os bs (ext w')"
proof -
  have "parts_inv off os bs (ext w1)" if "ans_Run (worker_ansible env) cmd timeout (w\<lparr>disk := s\<rparr>) = (r, w1)" for cmd timeout s r w1
    using ansible_Run_keeps [of off os bs "w\<lparr>disk := s\<rparr>" env cmd timeout] that assms(2) by simp
  then show ?thesis
    using assms by (auto simp: exec_body_def Let_def split: if_splits sum.splits prod.splits option.splits)
qed

lemma sendEvents_keep_parts:
  assumes "sendEvents (worker_ansible env) res url to f a w = (r, w')" and "parts_inv off os bs (ext w)"
  shows "parts_inv off os bs (ext w')"
proof -
  have "parts_inv off os bs e" if "ans_Send (worker_ansible env) d (ext w) = (err, e)" for d err e
    using ansible_Send_keeps [OF assms(2), of env d] that by simp
  then show ?thesis
    using assms by (auto simp: sendEvents_def Let_def split: if_splits sum.splits prod.splits outcome.splits)
qed

lemma playbook_step_keeps:
  "playbook_step (worker_ansible env) r r' \<Longrightarrow> parts_inv off os bs (ext (run_world r)) \<Longrightarrow> parts_inv off os bs (ext (run_world r'))"
  by (induction rule: playbook_step.induct) (auto simp: handler_returns_def dest: exec_body_keeps sendEvents_keep_parts)

lemma playbook_steps_keep:
  "(playbook_step (worker_ansible env))\<^sup>*\<^sup>* r r' \<Longrightarrow> parts_inv off os bs (ext (run_world r)) \<Longrightarrow> parts_inv off os bs (ext (run_world r'))"
  by (induction rule: rtranclp_induct) (auto dest: playbook_step_keeps)

lemma HandlePlaybook_keeps:
  assumes "HandlePlaybook (worker_ansible env) cmd d timeout a w = (r, w')"
  shows "ext w' = ext w" and "r = Ret (Inr run) \<Longrightarrow> ext (run_world run) = ext w"
  using assms by (auto simp: HandlePlaybook_def Let_def split: if_splits option.splits prod.splits)

section \<open>Every reachable state of the worker\<close>

definition worker_inv :: "bool \<Rightarrow> ('p, 'v, 'q, 'k, 'e) main_env \<Rightarrow> bool list \<Rightarrow> 'e parts deviceServer \<Rightarrow> bool" where
  "worker_inv off env bs s \<longleftrightarrow> cfg_observers (srv_config s) = worker_observers env \<and>
     parts_inv off [LogsObserver, MetricsObserver, MonitorObserver] bs (ext (srv_world s))"

lemma server_step_inv:
  assumes "server_step (worker_ansible env) (me_codec env) s s'" and "worker_inv off env bs s"
  shows "worker_inv off env bs s'"
  using assms
proof (induction rule: server_step.induct)
  case (refused i s d a err w)
  then show ?case using HandlePlaybook_keeps(1) [OF refused(5)] by (simp add: worker_inv_def hand_over_def)
next
  case (played i s d a r0 w0 r err)
  have "ext (run_world r0) = ext (srv_world s)" using HandlePlaybook_keeps(2) [OF played(5)] by simp
  with played playbook_steps_keep [OF played(6)] show ?case by (simp add: worker_inv_def hand_over_def)
next
  case (update i s msg err cfg w)
  let ?os = "[LogsObserver, MetricsObserver, MonitorObserver]"
  have "parts_inv off ?os bs (ext w) \<and> cfg_observers cfg = cfg_observers (srv_config s)"
    using update(3)
  proof (rule ConfigManager_Update_keeps)
    show "keeps_parts off ?os bs obs" if "obs \<in> set (cfg_observers (srv_config s))" for obs
      using that update(4) worker_observers_keep by (simp add: worker_inv_def)
  qed (use update(4) in \<open>simp add: worker_inv_def\<close>)
  with update(4) show ?case by (simp add: worker_inv_def)
qed (simp_all add: worker_inv_def Send_def hand_over_def)

text \<open>Transfers leave the manager and the wrapper alone.\<close>

lemma at_outside_wrapper [simp]: "wrapper (ext (snd (at_outside f w))) = wrapper (ext w)"
  by (simp add: at_outside_def split: prod.splits)

lemma worker_sync_wrapper:
  "wrapper (ext (snd (aws_NewSession (worker_sync senv) s w))) = wrapper (ext w)"
  "wrapper (ext (snd (s3sync_Sync (worker_sync senv) s src dst w))) = wrapper (ext w)"
  "wrapper (ext (snd (sync_Now (worker_sync senv) w))) = wrapper (ext w)"
  by (simp_all add: worker_sync_def)

lemma SyncPath_wrapper: "on_out (Sync_SyncPath (worker_sync senv) s src dst) w = (r, w') \<Longrightarrow> wrapper (ext (out w')) = wrapper (ext (out w)) \<and> wm w' = wm w"
  using worker_sync_wrapper(2) [of senv s src "s3_target s dst" "out w"]
  by (auto simp: on_out_def Sync_SyncPath_def split: prod.splits if_splits)

lemma sync_data_paths_wrapper:
  "sync_data_paths (worker_sync senv) s hostPath dps errors success w = (r, w') \<Longrightarrow> wrapper (ext (out w')) = wrapper (ext (out w)) \<and> wm w' = wm w"
  by (induction dps arbitrary: errors success w)
    (auto simp: Let_def dest: SyncPath_wrapper split: prod.splits outcome.splits option.splits)

lemma storeLastUpdateTime_wrapper:
  "storeLastUpdateTime (worker_sync senv) name m w = (m', w') \<Longrightarrow> wrapper (ext (out w')) = wrapper (ext (out w)) \<and> wm w' = wm w"
  using worker_sync_wrapper(3) [of senv "out w"] by (auto simp: storeLastUpdateTime_def split: prod.splits)

lemma NewSession_wrapper: "aws_NewSession (worker_sync senv) s v = (r, v') \<Longrightarrow> wrapper (ext v') = wrapper (ext v)"
  using worker_sync_wrapper(1) [of senv s v] by simp

lemma connected_sync_wrapper: "connected_sync (worker_sync senv) m w = (r, w') \<Longrightarrow> wrapper (ext (out w')) = wrapper (ext (out w)) \<and> wm w' = wm w"
  by (auto simp: connected_sync_def Sync_Connect_def dest!: NewSession_wrapper split: prod.splits sum.splits option.splits if_splits)

lemma sync_workloads_wrapper:
  "sync_workloads (worker_sync senv) s table infos errors m w = (r, w') \<Longrightarrow> wrapper (ext (out w')) = wrapper (ext (out w)) \<and> wm w' = wm w"
  by (induction infos arbitrary: errors m w)
    (auto simp: Let_def dest!: sync_data_paths_wrapper storeLastUpdateTime_wrapper split: if_splits prod.splits outcome.splits)

lemma syncPaths_wrapper:
  fixes w :: "'e wl_process mworld"
  assumes "syncPaths (worker_sync senv) (workload_wrapper env :: ('p, 'e wl_process) WorkloadWrapper) cfg m w = (r, w')" and "wrapper_ok os (wrapper (ext (out w)))"
  shows "wrapper_ok os (wrapper (ext (out w'))) \<and> wm w' = wm w"
proof -
  obtain r1 w1 where l: "ListWorkloads (workload_wrapper env :: ('p, 'e wl_process) WorkloadWrapper) w = (r1, w1)" by fastforce
  have "wrapper_ok os (wrapper (ext (out (snd (ListWorkloads (workload_wrapper env :: ('p, 'e wl_process) WorkloadWrapper) w)))))"
    by (rule program_wrapper.ListWorkloads_keeps [OF assms(2)])
  then have "wrapper_ok os (wrapper (ext (out w1)))" "wm w1 = wm w"
    using l ListWorkloads_wm [of "workload_wrapper env :: ('p, 'e wl_process) WorkloadWrapper" w] by simp_all
  with assms l show ?thesis
    by (auto simp: syncPaths_def dest!: connected_sync_wrapper sync_workloads_wrapper
        split: if_splits prod.splits sum.splits outcome.splits)
qed

lemma syncPathsWorkload_wrapper:
  "syncPathsWorkload (worker_sync senv) cfg name m w = (r, w') \<Longrightarrow> wrapper (ext (out w')) = wrapper (ext (out w)) \<and> wm w' = wm w"
  by (auto simp: syncPathsWorkload_def Let_def dest!: connected_sync_wrapper sync_data_paths_wrapper storeLastUpdateTime_wrapper
      split: if_splits prod.splits sum.splits outcome.splits)

text \<open>The notifications and the ticks keep the invariant.\<close>

lemma logs_notified_inv:
  assumes "logs_notified env n (t, mgr, wrap) v = (Ret (t', mgr', wrap'), v')" and "logs_inv t"
  shows "logs_inv t' \<and> mgr' = mgr \<and> wrap' = wrap"
proof (cases n)
  case (WorkloadRemoved name)
  with assms show ?thesis by (auto simp: logs_notified_def LogsTarget_WorkloadRemoved_def deleteWorkload_inv)
next
  case (WorkloadStarted name reports)
  then obtain u where u: "LogsTarget_WorkloadStarted (worker_logs env) name t \<lparr>disk = disk v, ext = \<lparr>wrapper = wrap, outside = ext v\<rparr>\<rparr> = (t', u)"
    and "mgr' = mgr" "wrap' = wrapper (ext u)"
    using assms(1) by (auto simp: logs_notified_def split: prod.splits)
  then show ?thesis using WorkloadStarted_inv [OF assms(2) u] WorkloadStarted_wrapper [OF u] by simp
qed

lemma metrics_notified_inv:
  "metrics_notified n (wrkM, d) v = (Ret (wrkM', d'), v') \<Longrightarrow> daemon_ok d \<Longrightarrow> daemon_ok d' \<and> wrkM' = wrkM"
  by (auto simp: metrics_notified_def WorkloadMetrics_WorkloadRemoved_def daemon.workload_started(2) split: notification.splits if_splits)

lemma monitor_notified_inv:
  assumes "monitor_notified env senv cfg n (m, mgr, wrap) v = (Ret (m', mgr', wrap'), v')"
  shows "mgr' = mgr \<and> wrap' = wrap"
  using assms
  by (auto simp: monitor_notified_def Monitor_WorkloadRemoved_def dest!: syncPathsWorkload_wrapper
      split: notification.splits prod.splits outcome.splits)

lemma monitor_tick_inv:
  assumes "monitor_tick env senv cfg (m, mgr, wrap) v = (Ret (m', mgr', wrap'), v')" and "wrapper_ok os wrap"
  shows "wrapper_ok os wrap' \<and> mgr' = mgr"
  using assms by (auto simp: monitor_tick_def dest!: syncPaths_wrapper [where os = os] split: prod.splits outcome.splits)

lemma notify_inv:
  assumes "notify env senv cfg obs n w = (r, w')" and "parts_inv off os bs (ext w)"
  shows "parts_inv off os bs (ext w')"
proof -
  have "parts_inv off os bs (ext (snd (notify env senv cfg obs n w)))"
  proof (cases obs)
    case LogsObserver
    show ?thesis
      unfolding notify_def LogsObserver wl_observer.case
      by (rule on_component_inv [OF assms(2)])
        (auto simp: both_Some, metis logs_notified_inv parts_inv_logs parts_inv_get(1,2))
  next
    case MetricsObserver
    show ?thesis
      unfolding notify_def MetricsObserver wl_observer.case
      by (rule on_component_inv [OF assms(2)]) (auto simp: both_Some parts_inv_defs dest: metrics_notified_inv)
  next
    case MonitorObserver
    show ?thesis
      unfolding notify_def MonitorObserver wl_observer.case
      by (rule on_component_inv [OF assms(2)]) (auto simp: both_Some parts_inv_defs dest: monitor_notified_inv)
  qed
  with assms(1) show ?thesis by simp
qed

lemma tell_all_inv: "tell_all env senv cfg ns w = (r, w') \<Longrightarrow> parts_inv off os bs (ext w) \<Longrightarrow> parts_inv off os bs (ext w')"
proof (induction ns arbitrary: w)
  case (Cons x ns)
  obtain obs n where x: "x = (obs, n)" by fastforce
  obtain r1 w1 where r1: "notify env senv cfg obs n w = (r1, w1)" by fastforce
  with Cons x notify_inv [OF r1 Cons.prems(2)] show ?case by (cases r1) auto
qed simp

lemma worker_step_inv:
  assumes "worker_step env senv scenv rng s s'" and "worker_inv off env bs s"
  shows "worker_inv off env bs s'"
  using assms
proof (induction rule: worker_step.induct)
  case (serve s s')
  then show ?case by (rule server_step_inv)
next
  case (pod s ev w)
  then show ?case by (auto simp: worker_inv_def pod_event_def dest: tell_all_inv split: option.splits prod.splits)
next
  case (scrape s md md' e)
  then have "daemon_ok md" by (auto simp: worker_inv_def dest: parts_inv_get(3))
  then have "daemon_ok md'" using daemon_step_ok [OF scrape(2)] by simp
  with scrape show ?case by (simp add: worker_inv_def parts_inv_defs)
next
  case (transfer s w)
  let ?os = "[LogsObserver, MetricsObserver, MonitorObserver]"
  have "parts_inv off ?os bs (ext (snd (on_component (\<lambda>p. both (pt_monitor p) (pt_workloads p)) (\<lambda>(m, wl) p. p\<lparr>pt_monitor := Some m, pt_workloads := Some wl\<rparr>)
      (monitor_tick env senv (srv_config s)) (srv_world s))))"
  proof (rule on_component_inv)
    show "parts_inv off ?os bs (ext (srv_world s))" using transfer(2) by (simp add: worker_inv_def)
  qed (auto simp: both_Some parts_inv_defs dest: monitor_tick_inv [where os = ?os])
  with transfer show ?case by (simp add: worker_inv_def)
next
  case (elsewhere s e)
  then show ?case by (simp add: worker_inv_def)
qed


end
