(* ===== verification/Worker_Life.thy ===== *)
theory Worker_Life
  imports Worker_Run Worker
begin

text \<open>
  The whole process after its start: the steps of \<open>Worker_Run\<close>, the heartbeats, what the dispatcher
  tells the worker of its connection, the attempts to register, and a signal to stop. The parts of the
  process invariant hold after every step.
\<close>

section \<open>The outside seen from the workload wrapper\<close>

text \<open>The components that hold the workload manager work on its state; their parameters see the outside only.\<close>

definition at_rest :: "('e \<Rightarrow> 'a \<times> 'e) \<Rightarrow> ('o, 'e) process \<Rightarrow> 'a \<times> ('o, 'e) process" where
  "at_rest f p = (case f (outside p) of (r, e) \<Rightarrow> (r, p\<lparr>outside := e\<rparr>))"

lemma at_rest_wrapper [simp]: "wrapper (snd (at_rest f p)) = wrapper p"
  by (simp add: at_rest_def split: prod.splits)

lemma at_rest_result: "at_rest f p = (r, p') \<Longrightarrow> wrapper p' = wrapper p"
  using at_rest_wrapper [of f p] by simp

definition process_tsdb :: "('v, 'q, 'e) tsdb_api \<Rightarrow> ('v, 'q, ('o, 'e) process) tsdb_api" where
  "process_tsdb api =
     \<lparr>tsdb_Open = (\<lambda>dir opts. at_rest (tsdb_Open api dir opts)), db_Close = at_rest (db_Close api),
      db_StartTime = at_rest (db_StartTime api), db_HeadMaxTime = at_rest (db_HeadMaxTime api),
      app_Append = (\<lambda>l t v. at_rest (app_Append api l t v)), app_Rollback = at_rest (app_Rollback api),
      app_Commit = at_rest (app_Commit api), db_Querier = (\<lambda>a b. at_rest (db_Querier api a b)),
      q_LabelNames = (\<lambda>q. at_rest (q_LabelNames api q)), q_Select = (\<lambda>q b m. at_rest (q_Select api q b m)),
      q_Close = (\<lambda>q. at_rest (q_Close api q))\<rparr>"

definition process_reg :: "('k, 'e) reg_env \<Rightarrow> ('k, ('o, 'e) process) reg_env" where
  "process_reg r =
     \<lparr>mtls_ImportFromPem = mtls_ImportFromPem r, mtls_CommonName = mtls_CommonName r, mtls_GetKey = mtls_GetKey r,
      mtls_GetNewKey = at_rest (mtls_GetNewKey r), mtls_MarshalKeyToPem = mtls_MarshalKeyToPem r,
      x509_CreateCertificateRequest = (\<lambda>d k. at_rest (x509_CreateCertificateRequest r d k)),
      pem_EncodeToMemory = pem_EncodeToMemory r, dispatcher_GetConfig = at_rest (dispatcher_GetConfig r),
      dispatcher_Send = (\<lambda>d msg. at_rest (dispatcher_Send r d msg)), dev_inventory = at_rest (dev_inventory r),
      json_HardwareInfo = json_HardwareInfo r\<rparr>"

text \<open>The heartbeat asks for the state of an upgrade only, which never reboots.\<close>

definition process_os :: "('p, 'v, 'q, 'k, 'e) main_env \<Rightarrow> 'e wl_process os_env" where
  "process_os env =
     \<lparr>os_run = (\<lambda>args. at_rest (me_command env args)), time_String = me_time_String env, gracefulRebootFlow = (\<lambda>p. p)\<rparr>"

definition process_hb ::
  "('p, 'v, 'q, 'k, 'e) main_env \<Rightarrow> (models_Heartbeat \<Rightarrow> error + string) \<Rightarrow> ('k, 'p, 'e wl_process) hb_env" where
  "process_hb env report =
     \<lparr>hbe_reg = process_reg (me_reg env), hbe_os = process_os env, hbe_ww = workload_wrapper (me_wrapper env), hbe_Marshal = report\<rparr>"

section \<open>Heartbeats and disconnects\<close>

text \<open>
  One tick of the heartbeat. The service holds pointers to the other components: its copy of them is
  the state they are in, and what it changes is theirs.
\<close>

definition worker_beat ::
  "('p, 'v, 'q, 'k, 'e) main_env \<Rightarrow> (models_Heartbeat \<Rightarrow> error + string) \<Rightarrow> 'e parts ConfigManager \<Rightarrow> 'e pworld \<Rightarrow>
   (error option, 'e pworld) call" where
  "worker_beat env report cfg w =
     (case both (pt_heartbeat (ext w)) (both (pt_monitor (ext w)) (both (pt_os (ext w)) (pt_workloads (ext w)))) of
        None \<Rightarrow> (Panic, w)
      | Some (h, mon, os, mgr, wrap) \<Rightarrow>
          (let d = (hbs_data h)\<lparr>hd_workloads := \<lparr>wm = mgr, out = \<lparr>disk = disk w, ext = \<lparr>wrapper = wrap, outside = pt_outside (ext w)\<rparr>\<rparr>\<rparr>,
                     hd_config := config_view cfg, hd_monitor := mon, hd_os := os\<rparr>
           in case pushInformation (process_hb env report) (h\<lparr>hbs_data := d\<rparr>) of
                (r, h') \<Rightarrow>
                  (let m = hd_workloads (hbs_data h') in
                   (r, w\<lparr>disk := disk (out m),
                         ext := (ext w)\<lparr>pt_heartbeat := Some h', pt_os := Some (hd_os (hbs_data h')),
                           pt_workloads := Some (wm m, wrapper (ext (out m))), pt_outside := outside (ext (out m))\<rparr>\<rparr>))))"

text \<open>The components that a disconnect deregisters, taken from the parts and put back.\<close>

definition components_of :: "'e pworld \<Rightarrow> ('e wl_process, unit) components option" where
  "components_of w =
     map_option
       (\<lambda>((mgr, wrap), mon, md, t, h).
          \<lparr>co_workloads = \<lparr>wm = mgr, out = \<lparr>disk = disk w, ext = \<lparr>wrapper = wrap, outside = pt_outside (ext w)\<rparr>\<rparr>\<rparr>,
           co_monitor = mon, co_daemon = md, co_tsdb = t, co_heartbeat = h\<rparr>)
       (both (pt_workloads (ext w)) (both (pt_monitor (ext w)) (both (pt_daemon (ext w)) (both (pt_tsdb (ext w)) (pt_heartbeat (ext w))))))"

definition put_components :: "('e wl_process, unit) components \<Rightarrow> 'e pworld \<Rightarrow> 'e pworld" where
  "put_components c w =
     (let m = co_workloads c in
      w\<lparr>disk := disk (out m),
        ext := (ext w)\<lparr>pt_workloads := Some (wm m, wrapper (ext (out m))), pt_monitor := Some (co_monitor c),
          pt_daemon := Some (co_daemon c), pt_tsdb := Some (co_tsdb c), pt_heartbeat := Some (co_heartbeat c),
          pt_outside := outside (ext (out m))\<rparr>\<rparr>)"

text \<open>What \<open>main\<close> has passed to \<open>DeregisterLater\<close>, and \<open>NotifyEvent\<close> of the server.\<close>

definition worker_deregistrables ::
  "('p, 'v, 'q, 'k, 'e) main_env \<Rightarrow>
   (string \<times> (('e wl_process, unit) worker \<Rightarrow> (error option, ('e wl_process, unit) worker) call)) list" where
  "worker_deregistrables env =
     deregistrables (workload_wrapper (me_wrapper env) :: ('p, 'e wl_process) WorkloadWrapper) (process_tsdb (me_tsdb env))"

definition worker_event ::
  "('p, 'v, 'q, 'k, 'e) main_env \<Rightarrow> Event \<Rightarrow> 'e parts ConfigManager \<Rightarrow> Registration \<Rightarrow> 'e pworld \<Rightarrow> (Registration, 'e pworld) call" where
  "worker_event env ev cfg reg w =
     (case components_of w of
        None \<Rightarrow> (Panic, w)
      | Some c \<Rightarrow>
          (case NotifyEvent (worker_deregistrables env) ev reg (c, config_view cfg) of
             (r, s) \<Rightarrow> (r, put_components (fst s) w)))"

section \<open>The process\<close>

datatype worker_phase = Running | Closing | Exited

record 'e worker_process =
  pr_server :: "'e parts deviceServer"
  pr_registration :: Registration
  pr_retrying :: bool \<comment> \<open>the goroutine of \<open>registerDeviceWithRetries\<close> is there\<close>
  pr_phase :: worker_phase

definition set_world :: "'e pworld \<Rightarrow> 'e worker_process \<Rightarrow> 'e worker_process" where
  "set_world w s = s\<lparr>pr_server := (pr_server s)\<lparr>srv_world := w\<rparr>\<rparr>"

text \<open>As \<open>main\<close> leaves it: the registration goes on when there is no configuration.\<close>

definition process_start :: "'e parts deviceServer \<Rightarrow> Registration \<Rightarrow> 'e worker_process" where
  "process_start srv reg =
     \<lparr>pr_server = srv, pr_registration = reg, pr_retrying = IsInitialConfig (srv_config srv), pr_phase = Running\<rparr>"

text \<open>
  A tick may have been delivered just before its ticker was stopped, so a heartbeat needs only a
  ticker that was once made. A signal closes the store and then waits for playbooks, which here are
  never half done; meanwhile everything else goes on. Only the first signal is received.
\<close>

inductive process_step ::
  "('p, 'v, 'q, 'k, 'e) main_env \<Rightarrow> 'e sync_env \<Rightarrow> ('v, 'e) scrape_env \<Rightarrow> labels_range \<Rightarrow> (models_Heartbeat \<Rightarrow> error + string) \<Rightarrow>
   'e worker_process \<Rightarrow> 'e worker_process \<Rightarrow> bool" for env senv scenv rng report where
  serving: "pr_phase s \<noteq> Exited \<Longrightarrow> worker_step env senv scenv rng (pr_server s) srv \<Longrightarrow>
    process_step env senv scenv rng report s (s\<lparr>pr_server := srv\<rparr>)"
| beat: "pr_phase s \<noteq> Exited \<Longrightarrow> pt_heartbeat (ext (srv_world (pr_server s))) = Some h \<Longrightarrow> HasStarted h \<Longrightarrow>
    worker_beat env report (srv_config (pr_server s)) (srv_world (pr_server s)) = (Ret err, w) \<Longrightarrow>
    process_step env senv scenv rng report s (set_world w s)"
| event: "pr_phase s \<noteq> Exited \<Longrightarrow>
    worker_event env ev (srv_config (pr_server s)) (pr_registration s) (srv_world (pr_server s)) = (Ret reg, w) \<Longrightarrow>
    process_step env senv scenv rng report s ((set_world w s)\<lparr>pr_registration := reg\<rparr>)"
| retry: "pr_phase s \<noteq> Exited \<Longrightarrow> pr_retrying s \<Longrightarrow> IsInitialConfig (srv_config (pr_server s)) \<Longrightarrow>
    on_raw (registerDeviceOnce (me_reg env) (pr_registration s)) (srv_world (pr_server s)) = ((err, reg), w) \<Longrightarrow>
    process_step env senv scenv rng report s ((set_world w s)\<lparr>pr_registration := reg\<rparr>)"
| retry_ends: "pr_phase s \<noteq> Exited \<Longrightarrow> pr_retrying s \<Longrightarrow> \<not> IsInitialConfig (srv_config (pr_server s)) \<Longrightarrow>
    process_step env senv scenv rng report s (s\<lparr>pr_retrying := False\<rparr>)"
| signal: "pr_phase s = Running \<Longrightarrow> pt_tsdb (ext (srv_world (pr_server s))) = Some t \<Longrightarrow>
    closeComponents (me_tsdb env) t (pt_outside (ext (srv_world (pr_server s)))) = (t', e) \<Longrightarrow>
    process_step env senv scenv rng report s
      ((set_world (set_parts (\<lambda>p. p\<lparr>pt_tsdb := Some t', pt_outside := e\<rparr>) (srv_world (pr_server s))) s)\<lparr>pr_phase := Closing\<rparr>)"
| exit: "pr_phase s = Closing \<Longrightarrow> process_step env senv scenv rng report s (s\<lparr>pr_phase := Exited\<rparr>)"

inductive_cases process_stepE: "process_step env senv scenv rng report s s'"

section \<open>What a heartbeat keeps\<close>

lemma process_hb_simps [simp]:
  "hbe_reg (process_hb env report) = process_reg (me_reg env)" "hbe_os (process_hb env report) = process_os env"
  "hbe_ww (process_hb env report) = workload_wrapper (me_wrapper env)" "hbe_Marshal (process_hb env report) = report"
  by (simp_all add: process_hb_def)

text \<open>What the workload manager and its wrapper are to the rest, and the steps that leave both alone.\<close>

definition same_manager :: "('e wl_process, 'y) HeartbeatData \<Rightarrow> ('e wl_process, 'y) HeartbeatData \<Rightarrow> bool" where
  "same_manager d d' \<longleftrightarrow> wrapper (hd_ext d') = wrapper (hd_ext d) \<and>
     deregistered (wm (hd_workloads d')) = deregistered (wm (hd_workloads d))"

lemma same_manager_trans: "same_manager d d1 \<Longrightarrow> same_manager d1 d2 \<Longrightarrow> same_manager d d2"
  by (simp add: same_manager_def)

lemma same_manager_set [simp]:
  "same_manager d (d'\<lparr>hd_os := os\<rparr>) = same_manager d d'"
  "same_manager d (hd_set_ext e d') \<longleftrightarrow> wrapper e = wrapper (hd_ext d) \<and> deregistered (wm (hd_workloads d')) = deregistered (wm (hd_workloads d))"
  by (simp_all add: same_manager_def hd_ext_def hd_set_ext_def)

lemma hardware_info_same: "hardware_info (process_hb env report) b d = (h, d') \<Longrightarrow> same_manager d d'"
  by (auto simp: hardware_info_def read_hardware_def process_reg_def same_manager_def hd_ext_def hd_set_ext_def dest!: at_rest_result
      split: if_splits prod.splits sum.splits)

lemma pop_same:
  "pop_ansible d = (evs, d') \<Longrightarrow> same_manager d d'" "pop_workloads d = (evs, d') \<Longrightarrow> same_manager d d'"
  by (auto simp: pop_ansible_def pop_workloads_def WorkloadManager_PopEvents_def hd_ext_def same_manager_def split: option.splits)

lemma upgrade_status_wrapper: "GetUpgradeStatus (process_os env) os e = (r, e') \<Longrightarrow> wrapper e' = wrapper e"
  by (auto simp: GetUpgradeStatus_def updateOsStatus_def RpmOstreeStatus_def process_os_def dest!: at_rest_result
      split: if_splits prod.splits sum.splits option.splits outcome.splits)

lemma dispatch_wrapper: "dispatch (process_hb env report) msg w = (r, w') \<Longrightarrow> wrapper (ext w') = wrapper (ext w)"
  by (auto simp: dispatch_def process_reg_def dest!: at_rest_result split: prod.splits)

lemma RetrieveInfo_same:
  fixes env :: "('p, 'v, 'q, 'k, 'e) main_env"
  assumes "RetrieveInfo (process_hb env report) d = (Ret info, d')"
    and "ListWorkloads (workload_wrapper (me_wrapper env) :: ('p, 'e wl_process) WorkloadWrapper) (hd_workloads d) = (l, w1)"
  shows "same_manager (d\<lparr>hd_workloads := w1\<rparr>) d'"
proof -
  obtain inc h d2 ea d3 ew d4 os' c t st e where hw: "hardware_info (process_hb env report) inc (d\<lparr>hd_workloads := w1\<rparr>) = (h, d2)"
    and pops: "pop_ansible d2 = (ea, d3)" "pop_workloads d3 = (ew, d4)"
    and u: "GetUpgradeStatus (process_os env) (hd_os d4) (hd_ext d4) = (Ret (os', c, t, st), e)"
    and d': "d' = (hd_set_ext e d4)\<lparr>hd_os := os'\<rparr>"
    using assms by (auto simp: RetrieveInfo_def Let_def split: outcome.splits prod.splits)
  have "same_manager (d\<lparr>hd_workloads := w1\<rparr>) d4"
    using same_manager_trans [OF same_manager_trans [OF hardware_info_same [OF hw] pop_same(1) [OF pops(1)]] pop_same(2) [OF pops(2)]] .
  then show ?thesis using upgrade_status_wrapper [OF u] by (simp add: d') (simp add: same_manager_def)
qed

lemma RetrieveInfo_keeps:
  fixes env :: "('p, 'v, 'q, 'k, 'e) main_env"
  assumes "RetrieveInfo (process_hb env report) d = (Ret info, d')" and "wrapper_ok os (wrapper (hd_ext d))"
  shows "wrapper_ok os (wrapper (hd_ext d')) \<and> deregistered (wm (hd_workloads d')) = deregistered (wm (hd_workloads d))"
proof -
  let ?ww = "workload_wrapper (me_wrapper env) :: ('p, 'e wl_process) WorkloadWrapper"
  obtain l w1 where l: "ListWorkloads ?ww (hd_workloads d) = (l, w1)" by fastforce
  have "wrapper_ok os (wrapper (ext (out (snd (ListWorkloads ?ww (hd_workloads d))))))"
    by (rule program_wrapper.ListWorkloads_keeps) (use assms(2) in \<open>simp add: hd_ext_def\<close>)
  then have "wrapper_ok os (wrapper (ext (out w1)))" "wm w1 = wm (hd_workloads d)"
    using l ListWorkloads_wm [of ?ww "hd_workloads d"] by simp_all
  with RetrieveInfo_same [OF assms(1) l] show ?thesis by (simp add: same_manager_def hd_ext_def)
qed

lemma heartbeat_send_wrapper:
  assumes "heartbeat_send (process_hb env report) msg s = (Ret r, s')" and "hbs_reg s = None"
  shows "wrapper (hd_ext (hbs_data s')) = wrapper (hd_ext (hbs_data s))"
proof -
  have "hbs_reg s1 = None \<and> wrapper (hd_ext (hbs_data s1)) = wrapper (hd_ext (hbs_data s))"
    if "on_world (dispatch (process_hb env report) msg) s = (x, s1)" for x s1
    using that assms(2) dispatch_wrapper [of env report msg "out (hd_workloads (hbs_data s))"]
    by (auto simp: on_world_def hd_ext_def Let_def split: prod.splits)
  then show ?thesis
    using assms(1) by (auto simp: heartbeat_send_def split: prod.splits sum.splits if_splits option.splits)
qed

lemma pushInformation_keeps:
  assumes "pushInformation (process_hb env report) s = (Ret r, s')" and "heartbeat_inv s" and "wrapper_ok os (wrapper (hd_ext (hbs_data s)))"
  shows "heartbeat_inv s' \<and> wrapper_ok os (wrapper (hd_ext (hbs_data s'))) \<and>
    deregistered (wm (hd_workloads (hbs_data s'))) = deregistered (wm (hd_workloads (hbs_data s)))"
proof -
  obtain info d where i: "RetrieveInfo (process_hb env report) (hbs_data s) = (Ret info, d)"
    using assms(1) by (auto simp: pushInformation_def split: prod.splits outcome.splits)
  note k = RetrieveInfo_keeps [OF i assms(3)]
  let ?s = "s\<lparr>hbs_data := d\<rparr>"
  show ?thesis
  proof (cases "hbe_Marshal (process_hb env report) info")
    case (Inl err)
    with assms i k show ?thesis by (auto simp: pushInformation_def heartbeat_inv_def)
  next
    case (Inr msg)
    then have s: "heartbeat_send (process_hb env report) msg ?s = (Ret r, s')"
      using assms(1) i by (simp add: pushInformation_def)
    have "hbs_reg ?s = None" using assms(2) by (simp add: heartbeat_inv_def)
    from heartbeat_send_wrapper [OF s this] heartbeat_send_keeps [OF s] k assms(2) show ?thesis
      by (auto simp: heartbeat_inv_def)
  qed
qed

lemma worker_beat_inv:
  assumes "worker_beat env report cfg w = (Ret err, w')" and "parts_inv off os bs (ext w)"
  shows "parts_inv off os bs (ext w')"
proof -
  obtain h mon u mgr wrap where p: "pt_heartbeat (ext w) = Some h" "pt_monitor (ext w) = Some mon" "pt_os (ext w) = Some u"
      "pt_workloads (ext w) = Some (mgr, wrap)"
    using assms(1) by (auto simp: worker_beat_def both_Some split: option.splits)
  let ?h = "h\<lparr>hbs_data := (hbs_data h)\<lparr>hd_workloads := \<lparr>wm = mgr, out = \<lparr>disk = disk w, ext = \<lparr>wrapper = wrap, outside = pt_outside (ext w)\<rparr>\<rparr>\<rparr>,
    hd_config := config_view cfg, hd_monitor := mon, hd_os := u\<rparr>\<rparr>"
  obtain h' where h': "pushInformation (process_hb env report) ?h = (Ret err, h')"
    and w': "ext w' = (ext w)\<lparr>pt_heartbeat := Some h', pt_os := Some (hd_os (hbs_data h')),
      pt_workloads := Some (wm (hd_workloads (hbs_data h')), wrapper (ext (out (hd_workloads (hbs_data h'))))),
      pt_outside := outside (ext (out (hd_workloads (hbs_data h'))))\<rparr>"
    using assms(1) p by (auto simp: worker_beat_def both_Some Let_def split: prod.splits)
  have "heartbeat_inv h" using assms(2) p by (simp add: parts_inv_defs)
  then have "heartbeat_inv ?h" by (simp add: heartbeat_inv_def)
  moreover have ok: "wrapper_ok os wrap" "off \<longrightarrow> deregistered mgr" using parts_inv_get(2) [OF assms(2) p(4)] by simp_all
  ultimately have "heartbeat_inv h' \<and> wrapper_ok os (wrapper (hd_ext (hbs_data h'))) \<and> deregistered (wm (hd_workloads (hbs_data h'))) = deregistered mgr"
    using pushInformation_keeps [OF h', of os] by (simp add: hd_ext_def)
  with ok p assms(2) show ?thesis by (simp add: parts_inv_defs w' hd_ext_def)
qed

section \<open>What a disconnect keeps\<close>

lemma all_steps_inv:
  assumes "\<And>f w r w'. f \<in> snd ` set steps \<Longrightarrow> P w \<Longrightarrow> f w = (r, w') \<Longrightarrow> P w'" and "P w" and "all_steps steps errors w = (r, w')"
  shows "P w'"
  using assms
proof (induction steps arbitrary: errors w)
  case (Cons st steps)
  obtain what f where st: "st = (what, f)" by fastforce
  obtain r1 w1 where f: "f w = (r1, w1)" by fastforce
  then have "P w1" using Cons.prems(1) [of f w r1 w1] Cons.prems(2) st by simp
  from f st Cons.prems(3) consider e1 where "all_steps steps e1 w1 = (r, w')" | "w' = w1"
    by (auto split: outcome.splits option.splits)
  then show ?case
  proof cases
    case 1
    have "P w2" if "g \<in> snd ` set steps" "P w0" "g w0 = (r0, w2)" for g w0 r0 w2
      using Cons.prems(1) [of g w0 r0 w2] that by simp
    from Cons.IH [OF this \<open>P w1\<close> 1] show ?thesis .
  qed (use \<open>P w1\<close> in simp)
qed simp

definition components_ok :: "bool \<Rightarrow> wl_observer list \<Rightarrow> ('e wl_process, 'y) components \<Rightarrow> bool" where
  "components_ok off os c \<longleftrightarrow> daemon_ok (co_daemon c) \<and> heartbeat_inv (co_heartbeat c) \<and>
     (off \<longrightarrow> deregistered (wm (co_workloads c))) \<and> wrapper_ok os (wrapper (ext (out (co_workloads c))))"

lemma TSDB_Deregister_wrapper: "TSDB_Deregister (process_tsdb api) t w = (r, w') \<Longrightarrow> wrapper (ext w') = wrapper (ext w)"
  by (auto simp: TSDB_Deregister_def TSDB_Close_def process_tsdb_def dest!: at_rest_result split: prod.splits option.splits)

lemma deregister_manager_ok:
  fixes ww :: "('p, 'e wl_process) WorkloadWrapper"
  assumes "ww = workload_wrapper wenv" and "WorkloadManager_Deregister ww m = (r, m')" and "wrapper_ok os (wrapper (ext (out m)))"
    and "off \<longrightarrow> deregistered (wm m)"
  shows "wrapper_ok os (wrapper (ext (out m'))) \<and> (off \<longrightarrow> deregistered (wm m'))"
proof -
  have "wrapper_ok os (wrapper (ext (out (snd (WorkloadManager_Deregister ww m)))))"
    unfolding assms(1) by (rule program_wrapper.Deregister_keeps [OF assms(3)])
  moreover have "off \<longrightarrow> deregistered (wm m')"
    using assms(2,4) by (auto simp: WorkloadManager_Deregister_def on_out_def split: prod.splits outcome.splits)
  ultimately show ?thesis using assms(2) by simp
qed

lemma deregistrables_ok:
  fixes ww :: "('p, 'e wl_process) WorkloadWrapper"
  assumes ww: "ww = workload_wrapper wenv" and "f \<in> snd ` set (deregistrables ww (process_tsdb api))" and "components_ok off os (fst s)" and "f s = (r, s')"
  shows "components_ok off os (fst s')"
  using assms(2)
  unfolding deregistrables_def
proof (simp, elim disjE, goal_cases)
  case 1
  obtain m where m: "WorkloadManager_Deregister ww (co_workloads (fst s)) = (r, m)" "fst s' = (fst s)\<lparr>co_workloads := m\<rparr>"
    using assms(4) 1 by (cases "WorkloadManager_Deregister ww (co_workloads (fst s))") (auto simp: on_components_def deregister_workloads_def)
  with deregister_manager_ok [OF ww m(1), of os off] assms(3) show ?case by (simp add: components_ok_def)
next
  case 2
  with assms(3,4) show ?case by (auto simp: deregister_configuration_def Let_def components_ok_def split: prod.splits)
next
  case 3
  with assms(3,4) show ?case
    by (auto simp: on_components_def stop_heartbeat_def Heartbeat_Deregister_def stop_ticker_def components_ok_def heartbeat_inv_def)
next
  case 4
  with assms(3,4) show ?case by (auto simp: on_components_def stop_monitor_def Monitor_Deregister_def components_ok_def)
next
  case 5
  with assms(3,4) show ?case by (auto simp: on_components_def stop_system_metrics_def SystemMetrics_Deregister_def components_ok_def)
next
  case 6
  with assms(3,4) show ?case
    by (auto simp: on_components_def stop_store_def components_ok_def dest!: TSDB_Deregister_wrapper split: prod.splits)
qed

lemma NotifyEvent_ok:
  fixes ww :: "('p, 'e wl_process) WorkloadWrapper"
  assumes ww: "ww = workload_wrapper wenv" and "NotifyEvent (deregistrables ww (process_tsdb api)) ev reg s = (r, s')" and "components_ok off os (fst s)"
  shows "components_ok off os (fst s')"
proof (cases "ev = RECEIVED_DISCONNECT")
  case True
  let ?steps = "map (\<lambda>(name, f). (''deregister '' @ name, f)) (deregistrables ww (process_tsdb api))"
  obtain r1 where a: "all_steps ?steps [] s = (r1, s')"
    using assms(2) True by (auto simp: NotifyEvent_def Registration_Deregister_def split: prod.splits outcome.splits)
  show ?thesis
  proof (rule all_steps_inv [of ?steps "\<lambda>s. components_ok off os (fst s)", OF _ assms(3) a])
    fix f w r w'
    assume "f \<in> snd ` set ?steps" and w: "components_ok off os (fst w)" "f w = (r, w')"
    then have "f \<in> snd ` set (deregistrables ww (process_tsdb api))" by force
    from deregistrables_ok [OF ww this w] show "components_ok off os (fst w')" .
  qed
qed (use assms in \<open>simp add: NotifyEvent_def\<close>)

lemma components_parts:
  assumes "parts_inv off os bs (ext w)" and "components_of w = Some c"
  shows "components_ok off os c" and "components_ok off os c' \<Longrightarrow> parts_inv off os bs (ext (put_components c' w))"
proof -
  obtain mgr wrap mon md t h where p: "pt_workloads (ext w) = Some (mgr, wrap)" "pt_monitor (ext w) = Some mon" "pt_daemon (ext w) = Some md"
      "pt_tsdb (ext w) = Some t" "pt_heartbeat (ext w) = Some h"
    and c: "c = \<lparr>co_workloads = \<lparr>wm = mgr, out = \<lparr>disk = disk w, ext = \<lparr>wrapper = wrap, outside = pt_outside (ext w)\<rparr>\<rparr>\<rparr>,
           co_monitor = mon, co_daemon = md, co_tsdb = t, co_heartbeat = h\<rparr>"
    using assms(2) by (auto simp: components_of_def both_Some)
  show "components_ok off os c" using assms(1) p by (simp add: c components_ok_def parts_inv_defs)
  show "parts_inv off os bs (ext (put_components c' w))" if "components_ok off os c'"
    using assms(1) p that by (simp add: put_components_def Let_def components_ok_def parts_inv_defs)
qed

lemma worker_event_inv:
  fixes env :: "('p, 'v, 'q, 'k, 'e) main_env"
  assumes "worker_event env ev cfg reg w = (r, w')" and "parts_inv off os bs (ext w)"
  shows "parts_inv off os bs (ext w')"
proof (cases "components_of w")
  case (Some c)
  obtain s where n: "NotifyEvent (worker_deregistrables env) ev reg (c, config_view cfg) = (r, s)"
    and w': "w' = put_components (fst s) w"
    using assms(1) Some by (simp add: worker_event_def split: prod.splits)
  have "components_ok off os (fst (c, config_view cfg :: unit ConfigManager))" using components_parts(1) [OF assms(2) Some] by simp
  from NotifyEvent_ok [OF refl n [unfolded worker_deregistrables_def] this] have "components_ok off os (fst s)" .
  with components_parts(2) [OF assms(2) Some] show ?thesis by (simp add: w')
qed (use assms in \<open>simp add: worker_event_def\<close>)

section \<open>Every state of the process\<close>

lemma process_step_inv:
  assumes "process_step env senv scenv rng report s s'" and "worker_inv off env bs (pr_server s)"
  shows "worker_inv off env bs (pr_server s')"
  using assms
proof (induction rule: process_step.induct)
  case (serving s srv)
  then show ?case by (simp add: worker_step_inv)
next
  case (beat s h err w)
  from worker_beat_inv [OF beat(4)] beat(5) show ?case by (simp add: worker_inv_def set_world_def)
next
  case (event s ev reg w)
  from worker_event_inv [OF event(2)] event(3) show ?case by (simp add: worker_inv_def set_world_def)
next
  case (retry s err reg w)
  from on_raw_inv [OF _ retry(4)] retry(5) show ?case by (simp add: worker_inv_def set_world_def)
next
  case (signal s t t' e)
  then show ?case by (simp add: worker_inv_def set_world_def parts_inv_defs)
qed simp_all

lemma process_steps_inv:
  "(process_step env senv scenv rng report)\<^sup>*\<^sup>* s s' \<Longrightarrow> worker_inv off env bs (pr_server s) \<Longrightarrow> worker_inv off env bs (pr_server s')"
  by (induction rule: rtranclp_induct) (auto intro: process_step_inv)

text \<open>A disconnect in a state with all components.\<close>

lemma worker_event_components:
  fixes env :: "('p, 'v, 'q, 'k, 'e) main_env"
  assumes "worker_event env ev cfg reg w = (Ret reg', w')"
  obtains c s where "components_of w = Some c"
    and "NotifyEvent (worker_deregistrables env) ev reg (c, config_view cfg) = (Ret reg', s)"
    and "w' = put_components (fst s) w"
  using assms by (auto simp: worker_event_def split: option.splits prod.splits)

lemma disconnect_parts:
  assumes "worker_event env RECEIVED_DISCONNECT cfg reg w = (Ret reg', w')" and "parts_inv off os bs (ext w)"
  shows "parts_inv True os bs (ext w') \<and> \<not> IsRegistered reg' \<and>
    (\<exists>h m md. pt_heartbeat (ext w') = Some h \<and> hbs_ticker h = None \<and> pt_monitor (ext w') = Some m \<and> \<not> mon_ticking m \<and>
       pt_daemon (ext w') = Some md \<and> planned md systemTargetName = None)"
proof -
  obtain c s where c: "components_of w = Some c"
    and n: "NotifyEvent (worker_deregistrables env) RECEIVED_DISCONNECT reg (c, config_view cfg) = (Ret reg', s)"
    and w': "w' = put_components (fst s) w"
    using assms(1) by (rule worker_event_components)
  have "daemon_ok (co_daemon c)" using components_parts(1) [OF assms(2) c] by (simp add: components_ok_def)
  then have e: "\<not> IsRegistered reg'" "deregistered (wm (co_workloads (fst s)))" "hbs_ticker (co_heartbeat (fst s)) = None"
      "\<not> mon_ticking (co_monitor (fst s))" "planned (co_daemon (fst s)) systemTargetName = None"
    using disconnect_effects [OF n [unfolded worker_deregistrables_def]] by simp_all
  have "parts_inv off os bs (ext w')" by (rule worker_event_inv [OF assms(1,2)])
  then have "parts_inv True os bs (ext w')" using e(2) by (simp add: parts_inv_defs w' put_components_def Let_def)
  with e show ?thesis by (simp add: w' put_components_def Let_def)
qed

text \<open>Once there is a configuration, the registration is left alone but for a disconnect.\<close>

lemma worker_step_configured:
  "worker_step env senv scenv rng s s' \<Longrightarrow> \<not> IsInitialConfig (srv_config s) \<Longrightarrow> \<not> IsInitialConfig (srv_config s')"
proof (induction rule: worker_step.induct)
  case (serve s s')
  then show ?case
    by (induction rule: server_step.induct)
      (auto simp: Send_def hand_over_def IsInitialConfig_def ConfigManager_Update_def Let_def
         split: if_splits prod.splits outcome.splits sum.splits option.splits)
qed simp_all

lemma worker_event_registration:
  assumes "worker_event env ev cfg reg w = (Ret reg', w')"
  shows "reg_clientCert reg' = reg_clientCert reg \<and> (IsRegistered reg' \<longrightarrow> IsRegistered reg)"
proof -
  obtain c s where "NotifyEvent (worker_deregistrables env) ev reg (c, config_view cfg) = (Ret reg', s)"
    using assms by (rule worker_event_components)
  then show ?thesis
    by (auto simp: NotifyEvent_def Registration_Deregister_def IsRegistered_def split: if_splits prod.splits outcome.splits)
qed

lemma process_step_configured:
  assumes "process_step env senv scenv rng report s s'" and "\<not> IsInitialConfig (srv_config (pr_server s))"
  shows "\<not> IsInitialConfig (srv_config (pr_server s')) \<and>
    reg_clientCert (pr_registration s') = reg_clientCert (pr_registration s) \<and>
    (IsRegistered (pr_registration s') \<longrightarrow> IsRegistered (pr_registration s))"
  using assms
proof (induction rule: process_step.induct)
  case (serving s srv)
  then show ?case by (simp add: worker_step_configured)
next
  case (event s ev reg w)
  from worker_event_registration [OF event(2)] event(3) show ?case by (simp add: set_world_def)
qed (simp_all add: set_world_def)

end
