(* ===== verification/Worker_Reach.thy ===== *)
theory Worker_Reach
  imports Worker_Life
begin

text \<open>
  The start-up of \<open>Startup\<close> ends in a state with the invariant of \<open>Worker_Run\<close>, so every state that
  the process reaches has it.
\<close>

section \<open>The start-up establishes it\<close>

lemma ensures_observe_inv:
  fixes w :: "'e pworld"
  assumes "parts_ok False os (ext w)" and "\<And>bs. keeps_parts False os bs obs"
    and "\<And>m' w'. parts_ok False os (ext w') \<Longrightarrow> present (ext w') = present (ext w) \<Longrightarrow> cfg_observers m' = cfg_observers m @ [obs] \<Longrightarrow>
      ensures (k m' w') Q"
  shows "ensures (observe obs m w k) Q"
proof (cases "RegisterObserver obs m w")
  case (Pair r w')
  show ?thesis
  proof (cases r)
    case (Ret m')
    have "cfg_observers m' = cfg_observers m @ [obs]"
      using Pair Ret by (auto simp: RegisterObserver_def split: prod.splits outcome.splits)
    then show ?thesis
      using assms(1,3) RegisterObserver_keeps [OF Pair assms(2) [of "present (ext w)"]] Pair Ret
      by (simp add: observe_def parts_inv_def)
  qed (simp add: observe_def Pair)
qed

lemma parts_ok_outside [simp]: "parts_ok False os (p\<lparr>pt_outside := e\<rparr>) = parts_ok False os p" "present (p\<lparr>pt_outside := e\<rparr>) = present p"
  by (simp_all add: parts_ok_def present_def)

lemma ensures_raw_inv:
  fixes w :: "'e pworld"
  assumes "parts_ok False os (ext w)"
    and "\<And>a w' v. parts_ok False os (ext w') \<Longrightarrow> present (ext w') = present (ext w) \<Longrightarrow>
      f \<lparr>disk = disk w, ext = pt_outside (ext w)\<rparr> = (Ret (Inr a), v) \<Longrightarrow> ensures (k a w') Q"
  shows "ensures (or_fatal say (on_raw f w) k) Q"
  using assms by (intro ensures_or_fatal) (auto simp: on_raw_def split: prod.splits)

lemma ensures_connect_inv:
  fixes w :: "'e pworld"
  assumes "\<And>w1. parts_ok False os (ext w1) \<Longrightarrow> present (ext w1) = present (ext w) \<Longrightarrow> ensures (k w1) Q" and "parts_ok False os (ext w)"
  shows "ensures (connect_dispatcher env w k) Q"
  unfolding connect_dispatcher_def
  using assms by (auto intro!: ensures_raw_inv [OF assms(2)] split: option.splits prod.splits)

lemma metrics_stage:
  fixes w :: "'e pworld"
  assumes "parts_ok False os (ext w)" and "present (ext w) = [False, False, False, False, False, False, False, False, False, False]"
    and "\<And>cfg1 w1. parts_ok False os (ext w1) \<Longrightarrow> present (ext w1) = [True, True, True, True, False, False, False, False, False, False] \<Longrightarrow>
      cfg_observers cfg1 = cfg_observers cfg @ [store_observer env, workload_metrics_observer, system_metrics_observer env] \<Longrightarrow>
      ensures (k cfg1 w1) Q"
  shows "ensures (start_metrics env dataDir devId cfg w k) Q"
  unfolding start_metrics_def
  apply (rule ensures_raw_inv [OF assms(1)])
  apply (rule ensures_observe_inv [where os = os, OF _ observers_keep(1)], simp add: parts_ok_def)
  apply (rule ensures_observe_inv [where os = os, OF _ observers_keep(2)], simp add: parts_ok_def)
  apply (rule ensures_raw_inv, assumption)
  apply (rule ensures_observe_inv [where os = os, OF _ system_keeps], simp add: parts_ok_def)
  apply (rule assms(3))
  apply (use assms(2) in \<open>simp_all add: present_def\<close>)
  done

lemma if_ensures: "(b \<Longrightarrow> ensures R Q) \<Longrightarrow> ensures R' Q \<Longrightarrow> ensures (if b then R else R') Q"
  by simp

text \<open>A new manager comes with a well-formed wrapper without observers.\<close>

lemma new_manager_ok:
  fixes env :: "('p, 'v, 'q, 'k, 'e) main_env"
  assumes "new_manager env dataDir devId w = (Ret (Inr wl), w')"
  shows "wrapper_ok [] (snd wl)"
proof -
  obtain mw where n: "NewWorkloadManager TYPE('p) (me_wrapper env) dataDir devId w = (Ret (Inr mw), w')" and wl: "snd wl = wrapper (ext (out mw))"
    using assms by (auto simp: new_manager_def split: prod.splits outcome.splits sum.splits)
  obtain wrap evs w1 where i: "newWorkloadInstance (me_wrapper env) dataDir defaultWorkloadsMonitoringInterval w = (Ret (Inr (wrap, evs)), w1)"
    and m: "\<exists>mgr. NewWorkloadManagerWithParamsAndInterval (workload_wrapper (me_wrapper env) :: ('p, 'e wl_process) WorkloadWrapper) dataDir devId
       \<lparr>disk = disk w1, ext = \<lparr>wrapper = wrap, outside = ext w1\<rparr>\<rparr> = (Ret (Inr mgr), out mw)"
    using n by (auto simp: NewWorkloadManager_def split: prod.splits outcome.splits sum.splits)
  have "wrapper_ok [] wrap"
    using i by (auto simp: newWorkloadInstance_def Let_def intro: wrapper_ok_New split: prod.splits sum.splits)
  then have "wrapper_ok [] (wrapper (ext (snd (Wr_Init (workload_wrapper (me_wrapper env) :: ('p, 'e wl_process) WorkloadWrapper)
      \<lparr>disk = s, ext = \<lparr>wrapper = wrap, outside = ext w1\<rparr>\<rparr>))))" for s
    using program_wrapper.init_keeps [of "[]" "\<lparr>disk = s, ext = \<lparr>wrapper = wrap, outside = ext w1\<rparr>\<rparr>" "me_wrapper env"] by simp
  then have "wrapper_ok [] (wrapper (ext v))" if "Wr_Init (workload_wrapper (me_wrapper env) :: ('p, 'e wl_process) WorkloadWrapper)
      \<lparr>disk = s, ext = \<lparr>wrapper = wrap, outside = ext w1\<rparr>\<rparr> = (r, v)" for s r v
    using that by (metis snd_conv)
  with m show ?thesis
    by (auto simp: wl NewWorkloadManagerWithParamsAndInterval_def Let_def split: prod.splits outcome.splits option.splits)
qed

lemma parts_ok_tell [simp]: "parts_ok False os (ext w) \<Longrightarrow> parts_ok False (os @ [obs]) (ext (tell_workloads obs w))"
  by (auto simp: parts_ok_def tell_workloads_def set_parts_def wrapper_ok_def Workload_RegisterObserver_def option.pred_set)

lemma present_tell [simp]: "present (ext (tell_workloads obs w)) = present (ext w)"
  by (simp add: present_def tell_workloads_def set_parts_def)

lemma workloads_stage:
  fixes w :: "'e pworld"
  assumes "parts_ok False [] (ext w)" and "present (ext w) = [True, True, True, True, False, False, False, False, False, False]"
    and "\<And>cfg1 w1. parts_ok False [LogsObserver, MetricsObserver, MonitorObserver] (ext w1) \<Longrightarrow>
      present (ext w1) = [True, True, True, True, True, True, True, True, True, False] \<Longrightarrow>
      cfg_observers cfg1 = cfg_observers cfg @ [logs_observer env, manager_observer env, remote_write_observer env, os_observer env, monitor_observer] \<Longrightarrow>
      ensures (k cfg1 w1) Q"
    and "Q Blocked"
  shows "ensures (start_workloads env dataDir devId cfg w k) Q"
proof -
  have three: "parts_ok False [LogsObserver, MetricsObserver] (ext v) \<Longrightarrow>
      parts_ok False [LogsObserver, MetricsObserver, MonitorObserver] (ext (tell_workloads MonitorObserver v))"
    "parts_ok False [LogsObserver] (ext v) \<Longrightarrow> parts_ok False [LogsObserver, MetricsObserver] (ext (tell_workloads MetricsObserver v))"
    "parts_ok False [] (ext v) \<Longrightarrow> parts_ok False [LogsObserver] (ext (tell_workloads LogsObserver v))" for v :: "'e pworld"
    using parts_ok_tell [of _ v] by fastforce+
  show ?thesis
    unfolding start_workloads_def Let_def split_beta
    apply (rule ensures_raw_inv [OF assms(1)], drule new_manager_ok)
    apply (rule ensures_observe_inv [where os = "[]", OF _ logs_keep], simp add: parts_ok_def split_beta logs_inv_New)
    apply (rule ensures_observe_inv [where os = "[LogsObserver]", OF _ manager_keep], simp add: three)
    apply (rule ensures_observe_inv [where os = "[LogsObserver, MetricsObserver]", OF _ observers_keep(3)], drule three(2), simp add: parts_ok_def)
    apply (rule ensures_observe_inv [where os = "[LogsObserver, MetricsObserver]", OF _ observers_keep(4)], simp add: parts_ok_def)
    apply (rule if_ensures)
     apply (simp add: ensures_def assms(4))
    apply (rule ensures_observe_inv [where os = "[LogsObserver, MetricsObserver, MonitorObserver]", OF _ observers_keep(5)], rule three, simp add: parts_ok_def)
    apply (rule assms(3), assumption)
    subgoal using assms(2) by (simp add: present_def tell_workloads_def)
    subgoal by simp
    done
qed

abbreviation all_parts :: "bool list" where
  "all_parts \<equiv> [True, True, True, True, True, True, True, True, True, True]"

lemma new_heartbeat_ok:
  assumes "parts_ok False os (ext w)" and "present (ext w) = [True, True, True, True, True, True, True, True, True, False]"
  shows "parts_ok False os (ext (new_heartbeat cfg reg w)) \<and> present (ext (new_heartbeat cfg reg w)) = all_parts"
  using assms by (auto simp: new_heartbeat_def present_def parts_ok_def NewHeartbeatService_def heartbeat_inv_def)

lemma ansible_keeps: "start_ansible env dir w = (a, w') \<Longrightarrow> parts_inv False os bs (ext w) \<Longrightarrow> parts_inv False os bs (ext w')"
  by (auto simp: start_ansible_def dest: on_raw_inv split: sum.splits)

lemma online_ok:
  assumes "parts_inv False [LogsObserver, MetricsObserver, MonitorObserver] bs (ext w)" and "cfg_observers cfg = worker_observers env"
  shows "ensures (go_online env cfg ansible reg w) (\<lambda>R. \<forall>srv reg' w'. R = Serving (srv, reg') w' \<longrightarrow> worker_inv False env bs srv)"
proof (cases "IsInitialConfig cfg")
  case True
  obtain reg' w' where r: "on_raw (RegisterDevice (me_reg env) [] reg) w = (reg', w')" by fastforce
  show ?thesis using on_raw_inv [OF assms(1) r] assms(2) True r by (simp add: go_online_def ensures_def worker_inv_def NewDeviceServer_def)
next
  case False
  have "parts_inv False [LogsObserver, MetricsObserver, MonitorObserver] bs ((ext w)\<lparr>pt_heartbeat := Some h\<rparr>)"
    if "pt_heartbeat (ext w) = Some h'" "Heartbeat_Start h' = (Ret (), h)" for h h'
    using assms(1) heartbeat_step_inv [OF heartbeat_step.start [OF that(2)]] that(1) by (simp add: parts_inv_defs)
  with False assms(2) show ?thesis
    by (auto simp: go_online_def ensures_def worker_inv_def NewDeviceServer_def Let_def split: option.splits prod.splits outcome.splits)
qed

lemma services_stage:
  fixes w :: "'e pworld"
  assumes "parts_ok False [LogsObserver, MetricsObserver, MonitorObserver] (ext w)"
    and "present (ext w) = [True, True, True, True, True, True, True, True, True, False]"
    and "cfg_observers cfg @ [heartbeat_observer] = worker_observers env"
  shows "ensures (start_services env dir devId cfg w)
    (\<lambda>R. \<forall>srv reg w'. R = Serving (srv, reg) w' \<longrightarrow> worker_inv False env all_parts srv)"
  unfolding start_services_def
proof (rule ensures_raw_inv [OF assms(1)], goal_cases)
  case (1 reg w1 v)
  note h = new_heartbeat_ok [OF 1(1) 1(2) [unfolded assms(2)], of cfg reg]
  show ?case
  proof (rule ensures_observe_inv [OF conjunct1 [OF h] heartbeat_keeps], rule ensures_or_fatal)
    fix cfg' :: "'e parts ConfigManager" and w2 w3 :: "'e pworld" and x
    assume w2: "parts_ok False [LogsObserver, MetricsObserver, MonitorObserver] (ext w2)"
      "present (ext w2) = present (ext (new_heartbeat cfg reg w1))" and c: "cfg_observers cfg' = cfg_observers cfg @ [heartbeat_observer]"
      and d: "dir_error (MkdirAll (disk w2) dir) w2 = (Ret (Inr x), w3)"
    obtain ansible w4 where a: "start_ansible env dir w3 = (ansible, w4)" by fastforce
    have "parts_inv False [LogsObserver, MetricsObserver, MonitorObserver] all_parts (ext w3)"
      using dir_error_world [OF d] w2 h by (simp add: parts_inv_def)
    from online_ok [OF ansible_keeps [OF a this]] c assms(3) a
    show "ensures (case start_ansible env dir w3 of (ansible, w) \<Rightarrow> go_online env cfg' ansible reg w)
        (\<lambda>R. \<forall>srv reg w'. R = Serving (srv, reg) w' \<longrightarrow> worker_inv False env all_parts srv)" by simp
  qed
qed

lemma startup_inv:
  fixes env :: "('p, 'v, 'q, 'k, 'e) main_env"
  assumes "worker_main env \<lparr>disk = d, ext = no_parts e\<rparr> = Serving (srv, reg) w'"
  shows "worker_inv False env all_parts srv"
proof -
  let ?Q = "\<lambda>R. \<forall>srv reg w'. R = Serving (srv, reg) w' \<longrightarrow> worker_inv False env all_parts srv"
  have "ensures (worker_main env \<lparr>disk = d, ext = no_parts e\<rparr>) ?Q"
    unfolding worker_main_def Let_def
  proof (rule ensures_connect_inv [where os = "[]"], rule ensures_or_fatal, rule metrics_stage [where os = "[]"])
    fix w1 w2 :: "'e pworld" and x dir
    assume "parts_ok False [] (ext w1)" and "present (ext w1) = present (ext \<lparr>disk = d, ext = no_parts e\<rparr>)"
      and m: "dir_error (MkdirAll (disk w1) dir) w1 = (Ret (Inr x), w2)"
    then show "parts_ok False [] (ext w2)" "present (ext w2) = [False, False, False, False, False, False, False, False, False, False]"
      using dir_error_world [OF m] by (simp_all add: no_parts_def present_def)
  next
    fix w1 w2 w3 :: "'e pworld" and c1 :: "'e parts ConfigManager" and dir
    assume w3: "parts_ok False [] (ext w3)" "present (ext w3) = [True, True, True, True, False, False, False, False, False, False]"
      and c1: "cfg_observers c1 = cfg_observers (NewConfigurationManager (me_codec env) dir (disk w2)) @
        [store_observer env, workload_metrics_observer, system_metrics_observer env]"
    then show "ensures (start_workloads env dir1 dev c1 w3 (start_services env dir2 dev)) ?Q" for dir1 dir2 dev
    proof (intro workloads_stage)
      fix c2 :: "'e parts ConfigManager" and w4 :: "'e pworld"
      assume "cfg_observers c2 = cfg_observers c1 @ [logs_observer env, manager_observer env, remote_write_observer env, os_observer env, monitor_observer]"
        and w4: "parts_ok False [LogsObserver, MetricsObserver, MonitorObserver] (ext w4)"
          "present (ext w4) = [True, True, True, True, True, True, True, True, True, False]"
      with c1 have "cfg_observers c2 @ [heartbeat_observer] = worker_observers env"
        by (simp add: worker_observers_def NewConfigurationManager_stored Let_def)
      from services_stage [OF w4 this] show "ensures (start_services env dir2 dev c2 w4) ?Q" .
    qed simp_all
  qed (simp add: parts_ok_def no_parts_def)
  with assms show ?thesis by (simp add: ensures_def)
qed

end
