(* ===== verification/Worker_Properties.thy ===== *)
theory Worker_Properties
  imports Worker_Reach
begin

text \<open>
  What holds of the worker as a whole: in every state of the process, for pod events, and from a
  disconnect on.
\<close>

section \<open>Every state of the process\<close>

text \<open>All states that a worker reaches from its start.\<close>

lemma reached_inv:
  assumes "worker_main env \<lparr>disk = d, ext = no_parts e\<rparr> = Serving (srv, reg) w0"
    and "(process_step env senv scenv rng report)\<^sup>*\<^sup>* (process_start srv reg) s"
  shows "worker_inv False env all_parts (pr_server s)"
  by (rule process_steps_inv [OF assms(2)]) (simp add: process_start_def startup_inv [OF assms(1)])

text \<open>
  C3: A worker that serves stays in one piece through messages and playbooks in any order, pod events,
  scrapes, transfers, heartbeats, disconnects and attempts to register: the nine observers remain registered in their order, no part that \<open>main\<close> built
  becomes nil, the daemon's map and loops fit together, the log target's writers, transports and
  streams do, the heartbeat service has a positive period and no registration, and the workload wrapper
  tells logs, metrics and data transfer of the pods, in this order.
\<close>

theorem worker_stays_well_formed:
  fixes env :: "('p, 'v, 'q, 'k, 'e) main_env"
  assumes "worker_main env \<lparr>disk = d, ext = no_parts e\<rparr> = Serving (srv, reg) w0"
    and "(process_step env senv scenv rng report)\<^sup>*\<^sup>* (process_start srv reg) s"
  shows "worker_inv False env all_parts (pr_server s)"
  using assms by (rule reached_inv)

section \<open>Pod events\<close>

text \<open>The parts of a worker in a reachable state.\<close>

lemma worker_invE:
  assumes "worker_inv False env all_parts s"
  obtains t md wrkM m mgr wrap where "pt_logs (ext (srv_world s)) = Some t" and "pt_daemon (ext (srv_world s)) = Some md"
    and "pt_wlmetrics (ext (srv_world s)) = Some wrkM" and "pt_monitor (ext (srv_world s)) = Some m"
    and "pt_workloads (ext (srv_world s)) = Some (mgr, wrap)" and "logs_inv t" and "daemon_ok md"
    and "ww_observers wrap = [LogsObserver, MetricsObserver, MonitorObserver]"
  using assms by (auto simp: worker_inv_def parts_inv_defs wrapper_ok_def)

lemma Monitor_WorkloadRemoved_forgets:
  "Monitor_WorkloadRemoved env cfg name m w = (Ret m', w') \<Longrightarrow> map_of (lastSuccessfulSyncTimes m') name = None"
  by (auto simp: Monitor_WorkloadRemoved_def split: prod.splits outcome.splits)

lemma monitor_notified_forgets:
  "monitor_notified env senv cfg (WorkloadRemoved name) (m, mgr, wrap) v = (Ret (m', mgr', wrap'), v') \<Longrightarrow>
     map_of (lastSuccessfulSyncTimes m') name = None"
  by (auto simp: monitor_notified_def dest: Monitor_WorkloadRemoved_forgets split: prod.splits outcome.splits)

lemma deleteWorkload_forgets: "map_of (lt_wwriter (deleteWorkload name t)) name = None"
  by (simp add: deleteWorkload_def split: option.splits)

lemma tell_all_Ret:
  "tell_all env senv cfg ((obs, n) # ns) w = (Ret (), w') \<longleftrightarrow>
     (\<exists>w1. notify env senv cfg obs n w = (Ret (), w1) \<and> tell_all env senv cfg ns w1 = (Ret (), w'))"
  by (auto split: prod.splits outcome.splits)

lemma notify_Ret:
  "on_component get put f w = (Ret (), w') \<longleftrightarrow>
     (\<exists>c c' v. get (ext w) = Some c \<and> f c \<lparr>disk = disk w, ext = pt_outside (ext w)\<rparr> = (Ret c', v) \<and>
        w' = w\<lparr>disk := disk v, ext := put c' ((ext w)\<lparr>pt_outside := ext v\<rparr>)\<rparr>)"
  by (auto simp: on_component_def on_raw_def set_parts_def split: option.splits prod.splits outcome.splits)

text \<open>
  C6: When podman reports that a workload has stopped, all three observers forget it, in every state
  that a worker can reach: its log writer is gone, the daemon plans no scrape of a target with its name,
  and it has no time of a last transfer.
\<close>

theorem stopped_pod_forgotten:
  fixes env :: "('p, 'v, 'q, 'k, 'e) main_env"
  assumes "worker_main env \<lparr>disk = d, ext = no_parts e\<rparr> = Serving (srv, reg) w0"
    and "(process_step env senv scenv rng rep)\<^sup>*\<^sup>* (process_start srv reg) s"
    and "pod_event env senv (srv_config (pr_server s)) \<lparr>pe_Event = StoppedContainer, pe_WorkloadName = name, pe_Report = report\<rparr> (srv_world (pr_server s)) = (Ret (), w)"
  shows "\<exists>t md m. pt_logs (ext w) = Some t \<and> map_of (lt_wwriter t) name = None \<and> pt_daemon (ext w) = Some md \<and>
    planned md name = None \<and> pt_monitor (ext w) = Some m \<and> map_of (lastSuccessfulSyncTimes m) name = None"
proof -
  have "worker_inv False env all_parts (pr_server s)" by (rule reached_inv [OF assms(1,2)])
  then obtain t md wrkM m mgr wrap where p: "pt_logs (ext (srv_world (pr_server s))) = Some t" "pt_daemon (ext (srv_world (pr_server s))) = Some md"
      "pt_wlmetrics (ext (srv_world (pr_server s))) = Some wrkM" "pt_monitor (ext (srv_world (pr_server s))) = Some m" "pt_workloads (ext (srv_world (pr_server s))) = Some (mgr, wrap)"
    and ok: "daemon_ok md" and o: "ww_observers wrap = [LogsObserver, MetricsObserver, MonitorObserver]"
    by (rule worker_invE)
  have "StoppedContainer \<noteq> StartedContainer" by (simp add: StoppedContainer_def StartedContainer_def)
  then obtain w1 w2 where n: "notify env senv (srv_config (pr_server s)) LogsObserver (WorkloadRemoved name) (srv_world (pr_server s)) = (Ret (), w1)"
      "notify env senv (srv_config (pr_server s)) MetricsObserver (WorkloadRemoved name) w1 = (Ret (), w2)"
      "notify env senv (srv_config (pr_server s)) MonitorObserver (WorkloadRemoved name) w2 = (Ret (), w)"
    using assms(3) p(5) o by (auto simp: pod_event_def observer_turn_def tell_all_Ret simp del: tell_all.simps(2))
  have l: "pt_logs (ext w1) = Some (deleteWorkload name t)" "pt_daemon (ext w1) = Some md" "pt_wlmetrics (ext w1) = Some wrkM"
    using n(1) p by (auto simp: notify_def notify_Ret both_Some logs_notified_def LogsTarget_WorkloadRemoved_def)
  have md: "pt_logs (ext w2) = Some (deleteWorkload name t)" "pt_daemon (ext w2) = Some (DeleteTarget name md)"
    using n(2) l by (auto simp: notify_def notify_Ret both_Some metrics_notified_def WorkloadMetrics_WorkloadRemoved_def)
  have "pt_logs (ext w) = Some (deleteWorkload name t)" "pt_daemon (ext w) = Some (DeleteTarget name md)"
      "\<exists>m'. pt_monitor (ext w) = Some m' \<and> map_of (lastSuccessfulSyncTimes m') name = None"
    using n(3) md by (auto simp: notify_def notify_Ret both_Some dest!: monitor_notified_forgets)
  then show ?thesis using daemon.plan_del [OF ok] deleteWorkload_forgets by auto
qed

text \<open>
  C10: When podman reports that a pod has started, telling the observers never panics, and the daemon's
  targets change in this way only: if the configuration has metrics for the workload, the target with
  the name of the pod gets their plan.
\<close>

theorem started_pod_scraped:
  fixes env :: "('p, 'v, 'q, 'k, 'e) main_env"
  assumes "worker_main env \<lparr>disk = d, ext = no_parts e\<rparr> = Serving (srv, reg) w0"
    and "(process_step env senv scenv rng rep)\<^sup>*\<^sup>* (process_start srv reg) s"
  shows "\<exists>w wrkM md md'.
    pod_event env senv (srv_config (pr_server s)) \<lparr>pe_Event = StartedContainer, pe_WorkloadName = name, pe_Report = Some pod\<rparr> (srv_world (pr_server s)) = (Ret (), w) \<and>
    pt_wlmetrics (ext (srv_world (pr_server s))) = Some wrkM \<and> pt_daemon (ext (srv_world (pr_server s))) = Some md \<and> pt_daemon (ext w) = Some md' \<and>
    (\<forall>n. planned md' n =
      (case Option.bind (getWorkload wrkM name) wl_Metrics of
         None \<Rightarrow> planned md n
       | Some metrics \<Rightarrow> if n = pr_Name pod then Some (workload_plan metrics [pod]) else planned md n))"
proof -
  have "worker_inv False env all_parts (pr_server s)" by (rule reached_inv [OF assms(1,2)])
  then obtain t md wrkM m mgr wrap where p: "pt_logs (ext (srv_world (pr_server s))) = Some t" "pt_daemon (ext (srv_world (pr_server s))) = Some md"
      "pt_wlmetrics (ext (srv_world (pr_server s))) = Some wrkM" "pt_monitor (ext (srv_world (pr_server s))) = Some m" "pt_workloads (ext (srv_world (pr_server s))) = Some (mgr, wrap)"
    and ok: "daemon_ok md" and o: "ww_observers wrap = [LogsObserver, MetricsObserver, MonitorObserver]"
    by (rule worker_invE)
  let ?n = "WorkloadStarted name [Some pod]" and ?d = "WorkloadMetrics_WorkloadStarted AddTarget wrkM name [pod] md"
  obtain w1 where n1: "notify env senv (srv_config (pr_server s)) LogsObserver ?n (srv_world (pr_server s)) = (Ret (), w1)"
      and l: "pt_daemon (ext w1) = Some md" "pt_wlmetrics (ext w1) = Some wrkM" "pt_monitor (ext w1) = Some m" "pt_workloads (ext w1) \<noteq> None"
    using p by (fastforce simp: notify_def notify_Ret both_Some logs_notified_def split: prod.splits)
  obtain w2 where n2: "notify env senv (srv_config (pr_server s)) MetricsObserver ?n w1 = (Ret (), w2)"
      and md: "pt_daemon (ext w2) = Some ?d" "pt_monitor (ext w2) = Some m" "pt_workloads (ext w2) \<noteq> None"
    using l by (fastforce simp: notify_def notify_Ret both_Some metrics_notified_def)
  obtain w where n3: "notify env senv (srv_config (pr_server s)) MonitorObserver ?n w2 = (Ret (), w)" and w: "pt_daemon (ext w) = Some ?d"
    using md by (fastforce simp: notify_def notify_Ret both_Some monitor_notified_def)
  have "pod_event env senv (srv_config (pr_server s)) \<lparr>pe_Event = StartedContainer, pe_WorkloadName = name, pe_Report = Some pod\<rparr> (srv_world (pr_server s)) = (Ret (), w)"
    using p(5) o n1 n2 n3 by (simp add: pod_event_def observer_turn_def)
  with p w daemon.workload_started(1) [OF ok, of wrkM name "[pod]"] show ?thesis
    by (intro exI [of _ w] exI [of _ wrkM] exI [of _ md] exI [of _ ?d]) (simp split: option.splits)
qed

section \<open>Concrete instances\<close>

definition demo_transfer :: "unit sync_env" where
  "demo_transfer =
     \<lparr>aws_NewSession = \<lambda>_ w. (Some (ExternalError ''no route''), w), s3sync_Sync = \<lambda>_ _ _ w. (None, w), sync_Now = \<lambda>w. (0, w)\<rparr>"

definition web_stopped :: PodmanEvent where
  "web_stopped = \<lparr>pe_Event = StoppedContainer, pe_WorkloadName = ''web'', pe_Report = None\<rparr>"

definition web_metrics :: Metrics where
  "web_metrics = \<lparr>met_AllowList = None, met_Containers = [], met_Interval = 0, met_Path = ''/m'', met_Port = 80\<rparr>"

text \<open>A device whose stored configuration has a workload with metrics; its specification is not readable.\<close>

definition metrics_main :: "(unit, int, unit, string, unit) main_env" where
  "metrics_main = demo_main\<lparr>
     me_codec := demo_codec\<lparr>json_Unmarshal := \<lambda>_. Inr (demo_message\<lparr>dcm_Workloads := [demo_workload\<lparr>wl_Metrics := Some web_metrics\<rparr>]\<rparr>)\<rparr>,
     me_manager := demo_env\<lparr>yaml_Unmarshal := \<lambda>_. Inl (ExternalError ''no YAML'')\<rparr>\<rparr>"

lemma web_stopped_handled:
  "case worker_main demo_main (demo_boot []) of
     Serving (srv, _) _ \<Rightarrow> fst (pod_event demo_main demo_transfer (srv_config srv) web_stopped (srv_world srv)) = Ret ()
   | _ \<Rightarrow> False"
  by code_simp

lemma metrics_start:
  "case worker_main metrics_main (demo_boot empty_config) of
     Serving (srv, _) _ \<Rightarrow> (case pt_wlmetrics (ext (srv_world srv)) of
        Some wrkM \<Rightarrow> Option.bind (getWorkload wrkM ''web'') wl_Metrics = Some web_metrics | None \<Rightarrow> False)
   | _ \<Rightarrow> False"
  by code_simp

lemma web_stopped_step:
  obtains srv reg w0 w where "worker_main demo_main (demo_boot []) = Serving (srv, reg) w0"
    and "pod_event demo_main demo_transfer (srv_config srv) web_stopped (srv_world srv) = (Ret (), w)"
proof -
  obtain srv reg w0 where s: "worker_main demo_main (demo_boot []) = Serving (srv, reg) w0"
    using servesE [OF first_start] .
  obtain r w where p: "pod_event demo_main demo_transfer (srv_config srv) web_stopped (srv_world srv) = (r, w)" by fastforce
  then have "r = Ret ()" using web_stopped_handled s by simp
  with s p that show thesis by blast
qed

definition demo_report :: "models_Heartbeat \<Rightarrow> error + string" where
  "demo_report _ = Inr ''{}''"

theorem worker_stays_well_formed_witness:
  "\<exists>srv reg w0 s. worker_main demo_main (demo_boot []) = Serving (srv, reg) w0 \<and>
     process_step demo_main demo_transfer demo_scrape (\<lambda>m. m) demo_report (process_start srv reg) s \<and>
     worker_inv False demo_main all_parts (pr_server s)"
proof -
  obtain srv reg w0 w where s: "worker_main demo_main (demo_boot []) = Serving (srv, reg) w0"
    and p: "pod_event demo_main demo_transfer (srv_config srv) web_stopped (srv_world srv) = (Ret (), w)"
    by (rule web_stopped_step)
  let ?s = "(process_start srv reg)\<lparr>pr_server := srv\<lparr>srv_world := w\<rparr>\<rparr>"
  have "worker_step demo_main demo_transfer demo_scrape (\<lambda>m. m) srv (srv\<lparr>srv_world := w\<rparr>)" by (rule worker_step.pod [OF p])
  then have step: "process_step demo_main demo_transfer demo_scrape (\<lambda>m. m) demo_report (process_start srv reg) ?s"
    by (intro process_step.serving) (simp_all add: process_start_def)
  have "worker_main demo_main \<lparr>disk = disk (demo_boot []), ext = no_parts ()\<rparr> = Serving (srv, reg) w0"
    using s by (simp add: demo_boot_def)
  from worker_stays_well_formed [OF this r_into_rtranclp [of "process_step demo_main demo_transfer demo_scrape (\<lambda>m. m) demo_report", OF step]] s step
  show ?thesis by blast
qed

theorem stopped_pod_forgotten_witness:
  "\<exists>srv reg w0 w md. worker_main demo_main (demo_boot []) = Serving (srv, reg) w0 \<and>
     pod_event demo_main demo_transfer (srv_config srv) web_stopped (srv_world srv) = (Ret (), w) \<and>
     pt_daemon (ext w) = Some md \<and> planned md ''web'' = None"
proof -
  obtain srv reg w0 w where s: "worker_main demo_main (demo_boot []) = Serving (srv, reg) w0"
    and p: "pod_event demo_main demo_transfer (srv_config srv) web_stopped (srv_world srv) = (Ret (), w)"
    by (rule web_stopped_step)
  have "worker_main demo_main \<lparr>disk = disk (demo_boot []), ext = no_parts ()\<rparr> = Serving (srv, reg) w0"
    using s by (simp add: demo_boot_def)
  from stopped_pod_forgotten [OF this rtranclp.rtrancl_refl, of demo_transfer "''web''" None w] s p
  show ?thesis by (auto simp: web_stopped_def process_start_def)
qed

definition web_pod :: PodReport where
  "web_pod = \<lparr>pr_Id = ''1'', pr_Name = ''web-pod'', pr_Containers = [\<lparr>cr_IPAddress = ''10.0.0.2'', cr_Id = ''2'', cr_Name = ''c''\<rparr>]\<rparr>"

theorem started_pod_scraped_witness:
  "\<exists>srv reg w0 w md. worker_main metrics_main (demo_boot empty_config) = Serving (srv, reg) w0 \<and>
     pod_event metrics_main demo_transfer (srv_config srv) \<lparr>pe_Event = StartedContainer, pe_WorkloadName = ''web'', pe_Report = Some web_pod\<rparr>
       (srv_world srv) = (Ret (), w) \<and>
     pt_daemon (ext w) = Some md \<and> planned md ''web-pod'' = Some ([''http://10.0.0.2:80/m''], 60000000000, PermissiveAllowList)"
proof -
  obtain srv reg w0 wrkM where s: "worker_main metrics_main (demo_boot empty_config) = Serving (srv, reg) w0"
    and wrkM: "pt_wlmetrics (ext (srv_world srv)) = Some wrkM" "Option.bind (getWorkload wrkM ''web'') wl_Metrics = Some web_metrics"
    using metrics_start by (auto split: main_result.splits option.splits)
  have "concat (map (\<lambda>r. getWorkloadUrls r web_metrics) [web_pod]) = [''http://10.0.0.2:80/m'']"
    by (simp add: getWorkloadUrls_def map_filter_simps web_metrics_def web_pod_def getPathOrDefault_def Itoa_def
        digits.simps [of 80] digits.simps [of 8] char_of_def bit_0)
  then have "workload_plan web_metrics [web_pod] = ([''http://10.0.0.2:80/m''], 60000000000, PermissiveAllowList)"
    by (simp add: workload_plan_def workload_interval_def workload_filter_def workload_defaultInterval_def web_metrics_def seconds_exact)
  moreover have "pr_Name web_pod = ''web-pod''" by (simp add: web_pod_def)
  ultimately show ?thesis
    using started_pod_scraped [OF _ rtranclp.rtrancl_refl, of metrics_main "disk (demo_boot empty_config)" "()" srv reg w0 demo_transfer "''web''" web_pod] s wrkM
    by (fastforce simp: demo_boot_def process_start_def)
qed

end
