(* ===== verification/Worker_Disconnect.thy ===== *)
theory Worker_Disconnect
  imports Worker_Properties
begin

text \<open>
  What a disconnect ends, and what it does not: the workload manager takes no further configuration,
  but a new one starts the heartbeats again; and how long the worker registers.
\<close>

section \<open>An update of the configuration\<close>

definition update_ok :: "'e parts ConfigObserver \<Rightarrow> bool" where
  "update_ok obs \<longleftrightarrow> (\<forall>msg w err msg' w'. obs_Update obs msg w = (Ret (err, msg'), w') \<longrightarrow> unlabelled msg' = unlabelled msg)"

lemma manager_update_ok: "update_ok (manager_observer env)"
  by (auto simp: update_ok_def manager_observer_def Let_def unlabelled_after_Update split: prod.splits outcome.splits
      elim!: on_part_message)

lemma updates_ok:
  "update_ok (store_observer env)" "update_ok workload_metrics_observer" "update_ok (system_metrics_observer env)"
  "update_ok (logs_observer env)" "update_ok (manager_observer env)" "update_ok (remote_write_observer env)"
  "update_ok (os_observer env)" "update_ok monitor_observer"
  by (rule manager_update_ok | (auto simp: update_ok_def observer_defs elim!: on_part_message dest: keeping_message)[1])+

lemma run_observers_unlabelled:
  assumes "run_observers observers msg errors w = (Ret (errors', msg'), w')" and "list_all update_ok observers"
  shows "unlabelled msg' = unlabelled msg"
  using assms
proof (induction observers arbitrary: msg errors w)
  case (Cons obs observers)
  obtain r w1 where o: "obs_Update obs msg w = (r, w1)" by fastforce
  with Cons.prems(1) obtain err msg1 where r: "r = Ret (err, msg1)" by (cases r) auto
  have "unlabelled msg1 = unlabelled msg" using Cons.prems(2) o r unfolding update_ok_def list.pred_inject(2) by blast
  moreover have "unlabelled msg' = unlabelled msg1"
    using Cons.prems o r by (cases err) (auto intro: Cons.IH)
  ultimately show ?case by simp
qed simp

lemma heartbeat_updated:
  assumes "obs_Update heartbeat_observer msg w = (Ret (err, msg'), w')"
  shows "\<exists>c h. dcm_Configuration msg = Some c \<and> pt_heartbeat (ext w') = Some h \<and> hbs_ticker h = Some (seconds (getInterval c))"
  using assms
  by (auto simp: heartbeat_observer_def on_part_def on_raw_def keeping_def Heartbeat_Update_def initTicker_def NewTicker_def
      Let_def set_parts_def split: option.splits prod.splits outcome.splits if_splits)

text \<open>An update that goes through sets the ticker of the heartbeats, whatever the other observers say.\<close>

lemma update_starts_heartbeat:
  assumes "ConfigManager_Update enc msg cfg w = (Ret (err, cfg'), w')" and "should_update msg cfg"
    and "cfg_observers cfg = worker_observers env"
  shows "\<exists>c h. dcm_Configuration msg = Some c \<and> pt_heartbeat (ext w') = Some h \<and> hbs_ticker h = Some (seconds (getInterval c))"
proof -
  let ?xs = "[store_observer env, workload_metrics_observer, system_metrics_observer env, logs_observer env, manager_observer env,
    remote_write_observer env, os_observer env, monitor_observer]"
  obtain errors msg' v where run: "run_observers (cfg_observers cfg) msg [] w = (Ret (errors, msg'), v)" and v: "ext w' = ext v"
    using assms(1,2) by (auto simp: ConfigManager_Update_def split: prod.splits outcome.splits sum.splits option.splits)
  have "cfg_observers cfg = ?xs @ [heartbeat_observer]" using assms(3) by (simp add: worker_observers_def)
  then obtain errors1 msg1 w1 where b: "run_observers ?xs msg [] w = (Ret (errors1, msg1), w1)"
    and h: "run_observers [heartbeat_observer] msg1 errors1 w1 = (Ret (errors, msg'), v)"
    using run_observers_append [of ?xs "[heartbeat_observer]" msg "[]" w errors msg' v] run by auto
  have "list_all update_ok ?xs" by (simp add: updates_ok)
  from run_observers_unlabelled [OF b this] have "dcm_Configuration msg1 = dcm_Configuration msg"
    by (metis (no_types, lifting) unlabelled_def DeviceConfigurationMessage.select_convs(2)
        DeviceConfigurationMessage.surjective DeviceConfigurationMessage.update_convs(6))
  moreover obtain e msg2 where hb: "obs_Update heartbeat_observer msg1 w1 = (Ret (e, msg2), v)"
    using h by (cases "obs_Update heartbeat_observer msg1 w1"; cases "fst (obs_Update heartbeat_observer msg1 w1)")
      (auto split: option.splits)
  ultimately show ?thesis using heartbeat_updated [OF hb] v by simp
qed

text \<open>A deregistered manager answers without an error and changes nothing.\<close>

lemma manager_ignores:
  assumes "pt_workloads (ext w) = Some (mgr, wrap)" and "deregistered mgr"
  shows "obs_Update (manager_observer env) msg w = (Ret (None, msg), w)"
proof -
  have "w\<lparr>ext := (ext w)\<lparr>pt_outside := pt_outside (ext w), pt_workloads := Some (mgr, wrap)\<rparr>\<rparr> = w"
    using assms(1) by (cases w; cases "ext w") simp
  then show ?thesis
    using assms by (simp add: manager_observer_def on_part_def on_raw_def WorkloadManager_Update_def after_Update_def set_parts_def Let_def)
qed

section \<open>Properties\<close>

text \<open>The process right after the dispatcher has reported a disconnect.\<close>

definition disconnected :: "('p, 'v, 'q, 'k, 'e) main_env \<Rightarrow> 'e worker_process \<Rightarrow> 'e worker_process \<Rightarrow> bool" where
  "disconnected env s s' \<longleftrightarrow> (\<exists>reg w.
     worker_event env RECEIVED_DISCONNECT (srv_config (pr_server s)) (pr_registration s) (srv_world (pr_server s)) = (Ret reg, w) \<and>
     s' = (set_world w s)\<lparr>pr_registration := reg\<rparr>)"

lemma disconnected_inv:
  assumes "disconnected env s s'" and "worker_inv off env all_parts (pr_server s)"
  shows "worker_inv True env all_parts (pr_server s')"
  using assms disconnect_parts unfolding disconnected_def worker_inv_def set_world_def by fastforce

text \<open>
  C23: After a disconnect, at whatever point of the worker's life, the workload manager stays
  deregistered in every later state of the process: every configuration sent to it is accepted
  without an error and without an effect on the workloads or anything else.
\<close>

theorem disconnect_is_final:
  fixes env :: "('p, 'v, 'q, 'k, 'e) main_env"
  assumes "worker_main env \<lparr>disk = d, ext = no_parts e\<rparr> = Serving (srv, reg) w0"
    and "(process_step env senv scenv rng report)\<^sup>*\<^sup>* (process_start srv reg) s"
    and "disconnected env s s1" and "(process_step env senv scenv rng report)\<^sup>*\<^sup>* s1 s2"
  shows "\<exists>mgr wrap. pt_workloads (ext (srv_world (pr_server s2))) = Some (mgr, wrap) \<and> deregistered mgr \<and>
    (\<forall>msg. obs_Update (manager_observer env) msg (srv_world (pr_server s2)) = (Ret (None, msg), srv_world (pr_server s2)))"
proof -
  have "worker_inv True env all_parts (pr_server s2)"
    by (rule process_steps_inv [OF assms(4) disconnected_inv [OF assms(3) reached_inv [OF assms(1,2)]]])
  then obtain mgr wrap where "pt_workloads (ext (srv_world (pr_server s2))) = Some (mgr, wrap)" "deregistered mgr"
    by (auto simp: worker_inv_def parts_inv_defs)
  then show ?thesis using manager_ignores by blast
qed

text \<open>
  C38: A disconnect stops the heartbeats, but not for good: the next configuration that differs from
  the stored one starts them again with its period, although its workloads are ignored. The device
  then reports to the control plane as one that is up.
\<close>

theorem heartbeats_resume_after_disconnect:
  fixes env :: "('p, 'v, 'q, 'k, 'e) main_env"
  assumes "worker_main env \<lparr>disk = d, ext = no_parts e\<rparr> = Serving (srv, reg) w0"
    and "(process_step env senv scenv rng report)\<^sup>*\<^sup>* (process_start srv reg) s"
    and "disconnected env s s1"
    and "ConfigManager_Update (me_codec env) msg (srv_config (pr_server s1)) (srv_world (pr_server s1)) = (Ret (err, cfg), w)"
    and "should_update msg (srv_config (pr_server s1))"
  shows "\<exists>h1 h c mgr wrap. pt_heartbeat (ext (srv_world (pr_server s1))) = Some h1 \<and> hbs_ticker h1 = None \<and>
    dcm_Configuration msg = Some c \<and> pt_heartbeat (ext w) = Some h \<and> hbs_ticker h = Some (seconds (getInterval c)) \<and>
    pt_workloads (ext w) = Some (mgr, wrap) \<and> deregistered mgr"
proof -
  note inv = reached_inv [OF assms(1,2)]
  have "parts_inv False [LogsObserver, MetricsObserver, MonitorObserver] all_parts (ext (srv_world (pr_server s)))"
    using inv by (simp add: worker_inv_def)
  then obtain h1 where h1: "pt_heartbeat (ext (srv_world (pr_server s1))) = Some h1" "hbs_ticker h1 = None"
    using assms(3) disconnect_parts unfolding disconnected_def set_world_def by fastforce
  have s1: "worker_inv True env all_parts (pr_server s1)" by (rule disconnected_inv [OF assms(3) inv])
  then have o: "cfg_observers (srv_config (pr_server s1)) = worker_observers env"
    and p: "parts_inv True [LogsObserver, MetricsObserver, MonitorObserver] all_parts (ext (srv_world (pr_server s1)))"
    by (simp_all add: worker_inv_def)
  have "parts_inv True [LogsObserver, MetricsObserver, MonitorObserver] all_parts (ext w)"
    using ConfigManager_Update_keeps [OF assms(4) _ p] worker_observers_keep [of _ env] o by metis
  then have "\<exists>mgr wrap. pt_workloads (ext w) = Some (mgr, wrap) \<and> deregistered mgr" by (auto simp: parts_inv_defs)
  with update_starts_heartbeat [OF assms(4,5) o] h1 show ?thesis by blast
qed


section \<open>Concrete instances\<close>

text \<open>With a \<open>podman\<close> that lists no pods, no deregistration panics.\<close>

lemma demo_list: "fst (Workload_List (me_wrapper demo_main) w) = Ret (Inr [])"
  by (simp add: Workload_List_def podman_List_def on_service_eq then_val_def demo_main_def calm_podman_def)

lemma demo_manager_deregisters:
  "fst (WorkloadManager_Deregister (workload_wrapper (me_wrapper demo_main) :: (unit, unit wl_process) WorkloadWrapper) m) \<noteq> Panic"
proof -
  let ?ww = "workload_wrapper (me_wrapper demo_main) :: (unit, unit wl_process) WorkloadWrapper"
  have "fst (removeAllWorkloads ?ww w) \<noteq> Panic" for w
    using demo_list [of w] by (cases "Workload_List (me_wrapper demo_main) w")
      (auto simp: removeAllWorkloads_def all_workloads_def workload_wrapper_def)
  then have "\<forall>(n, f) \<in> set (deregister_steps ?ww (wm m)). \<forall>w. fst (f w) \<noteq> Panic"
    by (auto simp: deregister_steps_def deleteTable_def removeMappingFile_def removeServicesFile_def on_disk_def
      workload_wrapper_def Workload_RemoveTable_def Workload_RemoveMappingFile_def Workload_RemoveServicesFile_def on_service_eq
      split: prod.splits)
  from all_steps_total [OF this] obtain errors w' where "all_steps (deregister_steps ?ww (wm m)) [] (out m) = (Ret errors, w')"
    by blast
  then show ?thesis by (simp add: WorkloadManager_Deregister_def on_out_def)
qed

lemma demo_disconnects:
  assumes "worker_inv off demo_main all_parts (pr_server s)"
  obtains s' where "disconnected demo_main s s'"
proof -
  let ?steps = "map (\<lambda>(name, f). (''deregister '' @ name, f)) (worker_deregistrables demo_main)"
  have "\<exists>c. components_of (srv_world (pr_server s)) = Some c"
    using assms by (auto simp: worker_inv_def parts_inv_defs components_of_def both_Some)
  then obtain c where c: "components_of (srv_world (pr_server s)) = Some c" by blast
  have "\<forall>(n, f) \<in> set ?steps. \<forall>w. fst (f w) \<noteq> Panic"
    using demo_manager_deregisters
    by (auto simp: worker_deregistrables_def deregistrables_def on_components_def deregister_workloads_def deregister_configuration_def
        stop_heartbeat_def stop_monitor_def stop_system_metrics_def stop_store_def Let_def split: prod.splits) (metis fst_conv)
  from all_steps_total [OF this, of "[]" "(c, config_view (srv_config (pr_server s)))"] c
  obtain reg w where "worker_event demo_main RECEIVED_DISCONNECT (srv_config (pr_server s)) (pr_registration s) (srv_world (pr_server s)) = (Ret reg, w)"
    by (auto simp: worker_event_def NotifyEvent_def Registration_Deregister_def)
  then show thesis by (intro that) (auto simp: disconnected_def)
qed

text \<open>The state in which an unreadable configuration leaves the worker.\<close>

lemma demo_system:
  "case worker_main demo_main (demo_boot empty_config) of
     Serving (srv, _) _ \<Rightarrow>
       should_update demo_message (srv_config srv) \<and> \<not> IsInitialConfig (srv_config srv) \<and>
       (case pt_system (ext (srv_world srv)) of
          Some sm \<Rightarrow> latestSystemConfig sm = Some defaultSystemMetricsConfiguration
        | None \<Rightarrow> False)
   | _ \<Rightarrow> False"
  by code_simp

lemma run_observers_return:
  assumes "\<And>obs w. obs \<in> set observers \<Longrightarrow> P w \<Longrightarrow> \<exists>err w'. obs_Update obs msg w = (Ret (err, msg), w') \<and> P w'" and "P w"
  shows "\<exists>errors' w'. run_observers observers msg errors w = (Ret (errors', msg), w')"
  using assms
proof (induction observers arbitrary: errors w)
  case (Cons obs observers)
  obtain err w1 where o: "obs_Update obs msg w = (Ret (err, msg), w1)" "P w1" using Cons.prems by (meson list.set_intros(1))
  have "\<exists>errors' w'. run_observers observers msg es w1 = (Ret (errors', msg), w')" for es
    using Cons.IH [OF _ o(2)] Cons.prems(1) by simp
  with o(1) show ?case by (cases err) simp_all
qed simp

text \<open>After a disconnect the observers go through with a configuration of defaults.\<close>

definition system_settled :: "'e pworld \<Rightarrow> bool" where
  "system_settled w \<longleftrightarrow> pred_option (\<lambda>sm. latestSystemConfig sm = Some defaultSystemMetricsConfiguration) (pt_system (ext w)) \<and>
     parts_inv True [LogsObserver, MetricsObserver, MonitorObserver] all_parts (ext w)"

lemma demo_defaults:
  "dcm_Configuration demo_message = Some defaultDeviceConfiguration"
  "expectedConfiguration (dcm_Configuration demo_message) = Ret defaultSystemMetricsConfiguration"
  by (simp_all add: demo_message_def defaultDeviceConfigurationMessage_def expectedConfiguration_def defaultDeviceConfiguration_def)

lemma settled_returns:
  assumes "obs \<in> set (worker_observers env)" and "system_settled w"
    and "\<exists>err w'. obs_Update obs msg w = (Ret (err, msg), w') \<and> pt_system (ext w') = pt_system (ext w)"
  shows "\<exists>err w'. obs_Update obs msg w = (Ret (err, msg), w') \<and> system_settled w'"
  using assms(2,3) worker_observers_keep [OF assms(1), of True "[LogsObserver, MetricsObserver, MonitorObserver]" all_parts]
  unfolding keeps_parts_def system_settled_def by (metis snd_conv)

lemma demo_observers_return:
  assumes "obs \<in> set (worker_observers env)" and "system_settled w"
  shows "\<exists>err w'. obs_Update obs demo_message w = (Ret (err, demo_message), w') \<and> pt_system (ext w') = pt_system (ext w)"
proof -
  obtain sm d t wx lt mgr wrap r os m h where p: "pt_system (ext w) = Some sm" "pt_daemon (ext w) = Some d" "pt_tsdb (ext w) = Some t"
      "pt_wlmetrics (ext w) = Some wx" "pt_logs (ext w) = Some lt" "pt_workloads (ext w) = Some (mgr, wrap)" "pt_remote (ext w) = Some r"
      "pt_os (ext w) = Some os" "pt_monitor (ext w) = Some m" "pt_heartbeat (ext w) = Some h"
    and sm: "latestSystemConfig sm = Some defaultSystemMetricsConfiguration" and mgr: "deregistered mgr"
    using assms(2) by (auto simp: system_settled_def parts_inv_defs)
  show ?thesis
    using assms(1) unfolding worker_observers_def
  proof (simp, elim disjE, goal_cases)
    case 1
    with p demo_defaults show ?case
      by (auto simp: store_observer_def on_part_def on_raw_def keeping_def tsdb_part_def TSDB_Update_def set_parts_def Let_def
          split: prod.splits option.splits outcome.splits)
  next
    case 2
    with p show ?case by (auto simp: workload_metrics_observer_def on_part_def on_raw_def keeping_def WorkloadMetrics_Update_def set_parts_def)
  next
    case 3
    with p sm demo_defaults show ?case
      by (auto simp: system_metrics_observer_def on_part_def on_raw_def keeping_def SystemMetrics_Update_def set_parts_def)
  next
    case 4
    with p demo_defaults show ?case
      by (auto simp: logs_observer_def on_part_def on_raw_def keeping_def LogsTarget_Update_def set_parts_def worker_logs_def
          defaultDeviceConfiguration_def Let_def)
  next
    case 5
    then show ?case using manager_ignores [OF p(6) mgr, of env demo_message] by blast
  next
    case 6
    with p show ?case by (auto simp: remote_write_observer_def on_part_def on_raw_def keeping_def set_parts_def split: prod.splits)
  next
    case 7
    with p demo_defaults show ?case
      by (auto simp: os_observer_def on_part_def on_raw_def keeping_def OS_Update_def set_parts_def defaultDeviceConfiguration_def Let_def)
  next
    case 8
    with p show ?case by (auto simp: monitor_observer_def on_part_def on_raw_def keeping_def set_parts_def split: prod.splits)
  next
    case 9
    have "seconds (getInterval defaultDeviceConfiguration) = 60000000000"
      by (simp add: getInterval_def defaultDeviceConfiguration_def defaultHeartbeatConfiguration_def seconds_exact)
    with 9 p demo_defaults show ?case
      by (auto simp: heartbeat_observer_def on_part_def on_raw_def keeping_def Heartbeat_Update_def initTicker_def NewTicker_def set_parts_def)
  qed
qed

lemma demo_updates:
  assumes "cfg_observers cfg = worker_observers demo_main" and "system_settled w"
  obtains err cfg' w' where "ConfigManager_Update (me_codec demo_main) demo_message cfg w = (Ret (err, cfg'), w')"
proof -
  obtain errors w1 where "run_observers (worker_observers demo_main) demo_message [] w = (Ret (errors, demo_message), w1)"
    using run_observers_return [of "worker_observers demo_main" system_settled demo_message w "[]"] assms(2)
      settled_returns [OF _ _ demo_observers_return] by blast
  moreover have "json_Marshal (me_codec demo_main) demo_message = Inr ''{}''" by (simp add: demo_main_def demo_codec_def)
  ultimately have "\<exists>err cfg' w'. ConfigManager_Update (me_codec demo_main) demo_message cfg w = (Ret (err, cfg'), w')"
    using assms(1) by (auto simp: ConfigManager_Update_def split: prod.splits option.splits)
  with that show thesis by blast
qed


text \<open>The worker with an unreadable configuration, right after a disconnect.\<close>

lemma demo_disconnect:
  obtains srv reg w0 s1 where "worker_main demo_main \<lparr>disk = disk (demo_boot empty_config), ext = no_parts ()\<rparr> = Serving (srv, reg) w0"
    and "disconnected demo_main (process_start srv reg) s1" and "should_update demo_message (srv_config (pr_server s1))"
    and "system_settled (srv_world (pr_server s1))" and "cfg_observers (srv_config (pr_server s1)) = worker_observers demo_main"
    and "\<not> IsInitialConfig (srv_config srv)" and "should_update demo_message (srv_config srv)"
proof -
  obtain srv reg w0 sm where s: "worker_main demo_main \<lparr>disk = disk (demo_boot empty_config), ext = no_parts ()\<rparr> = Serving (srv, reg) w0"
    and u: "should_update demo_message (srv_config srv)" "\<not> IsInitialConfig (srv_config srv)"
    and sm: "pt_system (ext (srv_world srv)) = Some sm" "latestSystemConfig sm = Some defaultSystemMetricsConfiguration"
    using demo_system by (auto simp: demo_boot_def split: main_result.splits option.splits)
  have inv: "worker_inv False demo_main all_parts (pr_server (process_start srv reg))"
    by (rule reached_inv [OF s rtranclp.rtrancl_refl])
  then obtain s1 where s1: "disconnected demo_main (process_start srv reg) s1" by (rule demo_disconnects)
  have c: "srv_config (pr_server s1) = srv_config srv" "pt_system (ext (srv_world (pr_server s1))) = Some sm"
    using s1 sm by (auto simp: disconnected_def set_world_def process_start_def put_components_def Let_def elim!: worker_event_components)
  from disconnected_inv [OF s1 inv] have "worker_inv True demo_main all_parts (pr_server s1)" .
  then have "system_settled (srv_world (pr_server s1))" "cfg_observers (srv_config (pr_server s1)) = worker_observers demo_main"
    using c sm by (simp_all add: worker_inv_def system_settled_def)
  with that s s1 u c show thesis by simp
qed

theorem disconnect_is_final_witness:
  "\<exists>srv reg w0 s mgr wrap. worker_main demo_main \<lparr>disk = disk (demo_boot empty_config), ext = no_parts ()\<rparr> = Serving (srv, reg) w0 \<and>
     disconnected demo_main (process_start srv reg) s \<and> pt_workloads (ext (srv_world (pr_server s))) = Some (mgr, wrap) \<and> deregistered mgr \<and>
     obs_Update (manager_observer demo_main) demo_message (srv_world (pr_server s)) = (Ret (None, demo_message), srv_world (pr_server s))"
proof -
  obtain srv reg w0 s where s: "worker_main demo_main \<lparr>disk = disk (demo_boot empty_config), ext = no_parts ()\<rparr> = Serving (srv, reg) w0"
    and d: "disconnected demo_main (process_start srv reg) s"
    by (rule demo_disconnect)
  from disconnect_is_final [OF s rtranclp.rtrancl_refl d rtranclp.rtrancl_refl] s d
  show ?thesis by blast
qed

theorem heartbeats_resume_after_disconnect_witness:
  "\<exists>srv reg w0 s err cfg w h mgr wrap.
     worker_main demo_main \<lparr>disk = disk (demo_boot empty_config), ext = no_parts ()\<rparr> = Serving (srv, reg) w0 \<and>
     disconnected demo_main (process_start srv reg) s \<and>
     ConfigManager_Update (me_codec demo_main) demo_message (srv_config (pr_server s)) (srv_world (pr_server s)) = (Ret (err, cfg), w) \<and>
     pt_heartbeat (ext w) = Some h \<and> hbs_ticker h = Some 60000000000 \<and> pt_workloads (ext w) = Some (mgr, wrap) \<and> deregistered mgr"
proof -
  obtain srv reg w0 s where s: "worker_main demo_main \<lparr>disk = disk (demo_boot empty_config), ext = no_parts ()\<rparr> = Serving (srv, reg) w0"
    and d: "disconnected demo_main (process_start srv reg) s" and u: "should_update demo_message (srv_config (pr_server s))"
    and q: "system_settled (srv_world (pr_server s))" "cfg_observers (srv_config (pr_server s)) = worker_observers demo_main"
    by (rule demo_disconnect)
  obtain err cfg w where w: "ConfigManager_Update (me_codec demo_main) demo_message (srv_config (pr_server s)) (srv_world (pr_server s)) = (Ret (err, cfg), w)"
    by (rule demo_updates [OF q(2,1)])
  have "seconds (getInterval defaultDeviceConfiguration) = 60000000000"
    by (simp add: getInterval_def defaultDeviceConfiguration_def defaultHeartbeatConfiguration_def seconds_exact)
  with heartbeats_resume_after_disconnect [OF s rtranclp.rtrancl_refl d w u] s d w demo_defaults(1)
  show ?thesis by auto
qed


end
