(* ===== verification/Spec2Isabelle.thy ===== *)
theory Spec2Isabelle
  imports Remote_Write Fifo_Log Heartbeat Ansible_Manager Metrics_Sources Log_Targets Worker Pod_Streams Worker_Disconnect
begin

text \<open>
  A verification development for the Flotta device worker: the Go program under \<open>src/\<close> that runs on an
  edge device beside the \<open>yggdrasil\<close> dispatcher, receives a device configuration from the control plane,
  brings the workloads of the device to it, and reports back.

  \<^bold>\<open>The program.\<close> \<open>main\<close> (\<open>cmd/device-worker/main.go\<close>) registers with the dispatcher, builds the components
  and makes nine of them observers of the configuration manager. Messages arrive at the gRPC service
  (\<open>internal/server\<close>), which hands each to a goroutine of its own: a playbook in it is run by the ansible
  manager, and the configuration goes to the configuration manager. This compares it with the stored one,
  calls \<open>Update\<close> of every observer in the order of their registration and writes \<open>device-config.json\<close>. The
  workload manager renders pods, runs and removes them through the workload wrapper (podman, systemd,
  \<open>nft\<close>, the name mapping) and tells its own observers (logs, workload metrics, data transfer) which
  workloads have started and stopped. The metrics daemon scrapes its targets into the store, from which
  remote write sends on. The heartbeat collects the state of all of them. A disconnect deregisters
  the components, and an operating system upgrade ends with a graceful reboot that stops them.

  \<^bold>\<open>Go.\<close> Shared by all components:
  \<^item> \<open>Go_Prelude\<close>: errors with their text, panics (\<open>outcome\<close>, \<open>call\<close>), maps as association lists with the order
    of \<open>range\<close> as a parameter, strings, \<open>Sprintf\<close>, multierror; the collections \<open>go_inv\<close> of invariants.
  \<^item> \<open>Go_Path\<close>, \<open>Go_FS\<close>: \<open>path.Join\<close>, \<open>path.Clean\<close>, and a file system whose operations can fail by a
    parameter of its state; \<open>Go_Json\<close>: printing and parsing of JSON text for the worker's own state
    files, with the contract \<open>codec\<close>; \<open>Go_Sha256\<close>; \<open>Go_Time\<close>: \<open>int32\<close>, \<open>int64\<close>, durations, tickers that panic.
  \<^item> \<open>Models\<close>: the message types of the control plane (vendored package \<open>models\<close>) as records, and the
    contract \<open>event_queue\<close>.

  \<^bold>\<open>Components.\<close> Each theory has the state of a Go type as a record of the same name, and one
  definition per method, named as in the source or \<open>Type_Method\<close>:
  \<^item> \<open>Bimap\<close>, \<open>Workload_Mapping\<close>: \<open>internal/workload/mapping\<close>; the two maps stay inverse to each other, \<open>Remove\<close>
    then \<open>Add\<close> refines one map update, the file restores the repository.
  \<^item> \<open>Systemd\<close> (\<open>internal/service\<close>), \<open>Netfilter\<close> (\<open>internal/workload/network\<close>), \<open>Podman\<close> (\<open>internal/workload/podman\<close>):
    operations on the outside, with their errors.
  \<^item> \<open>Wrapper\<close> (\<open>internal/workload/wrapper.go\<close>): what a run registers and a removal forgets, over those four.
  \<^item> \<open>Pod_Streams\<close>: the goroutines of \<open>podman.Events\<close>, \<open>containerLog\<close> and \<open>newWorkloadInstance\<close> as step relations;
    orders kept, and what is lost, overtaken or crashes.
  \<^item> \<open>Workload_Manager\<close> (\<open>internal/workload/manager.go\<close>, \<open>internal/volumes\<close>): pods, credentials and secrets are brought
    to the configuration; the wrapper is the interface \<open>WorkloadWrapper\<close>, secrets rest on \<open>secret_store\<close>.
  \<^item> \<open>Configuration\<close> (\<open>internal/configuration\<close>): when an update applies, what it stores, when it settles.
  \<^item> \<open>Metrics_Store\<close>, \<open>Metrics_Daemon\<close>, \<open>Metrics_Sources\<close>, \<open>Remote_Write\<close> (\<open>internal/metrics\<close>): the store in front
    of the time series database, filters, the daemon as a heap of targets with the program points of
    their loops, the two components that choose its targets (contract \<open>metrics_daemon\<close>), and the
    chunking of samples into requests.
  \<^item> \<open>Fifo_Log\<close>, \<open>Log_Targets\<close> (\<open>internal/logs\<close>): the bounded buffer (a refinement of a queue), the syslog transport,
    and which stream goes where.
  \<^item> \<open>Data_Transfer\<close> (\<open>internal/datatransfer\<close>), \<open>Device_OS\<close> (\<open>internal/os\<close>), \<open>Registration\<close> (\<open>internal/registration\<close>),
    \<open>Hardware\<close> (\<open>internal/hardware\<close>), \<open>Heartbeat\<close> (\<open>internal/heartbeat\<close>, with its ticker as a step relation).
  \<^item> \<open>Playbook_Mapping\<close>, \<open>Ansible_Events\<close>, \<open>Ansible_Manager\<close> (\<open>internal/ansible\<close>): pending playbooks on disk, the
    events of a run, and handler and goroutine of a run as a step function.
  \<^item> \<open>Device_Server\<close> (\<open>internal/server\<close>): the service with one goroutine per message.

  \<^bold>\<open>The components together.\<close>
  \<^item> \<open>Worker\<close>: what a disconnect deregisters, and the loop between workload manager and stored configuration.
  \<^item> \<open>Graceful_Reboot\<close>: the upgrade and the listener of \<open>main\<close> over unbuffered channels.
  \<^item> \<open>Startup\<close>: \<open>main\<close> until it serves, with all nine observers on one state of the process (\<open>parts\<close>).
  \<^item> \<open>Worker_Run\<close>: what happens afterwards as one step relation (messages, pod events told to logs, metrics and data
    transfer, scrapes, transfers) and its invariant, for which \<open>Wrapper_Invariant\<close> shows that the workload
    manager keeps what the wrapper's operations keep (locale \<open>wrapper_invariant\<close>).
  \<^item> \<open>Worker_Life\<close>: the process with everything else that acts on it (\<open>process_step\<close>): the ticks of the heartbeat, the
    events of the dispatcher, attempts to register, a signal; its steps keep the invariant of \<open>Worker_Run\<close>.
  \<^item> \<open>Worker_Reach\<close>: the start-up establishes the invariant. \<open>Worker_Properties\<close>: every reachable state of the process,
    and what a pod event does there. \<open>Worker_Disconnect\<close>: what a disconnect ends and what starts again, and how
    long the worker registers.

  \<^bold>\<open>Conventions.\<close> A method that can panic returns \<open>Ret\<close> or \<open>Panic\<close>, with the state it leaves; an error is
  a value (\<open>error option\<close>, or the left of a sum). A nil pointer is \<open>None\<close>. A method under a lock is atomic.
  Goroutines are inductive step relations over a record of their shared state, one step between
  two points where another goroutine can be seen to act; properties of them are proved by rule
  induction for every reachable state. Sources of \<open>range\<close> order are parameters of which only
  \<open>is_range\<close> is assumed. Logging is left out.

  \<^bold>\<open>Bounds and termination.\<close> \<open>range_loop\<close> and \<open>RemoteWrite_Write\<close>, the loops of remote write, are partial functions:
  \<open>write_terminates\<close> and \<open>write_range_chunks\<close> prove that they return. Every other recursion is on data or on a
  counter the source has (\<open>write_tries\<close>, three tries). Channel capacities are those of the source:
  \<open>evchan_capacity\<close> 1000, \<open>line_capacity\<close> 100, one tick in a ticker, none for the unbuffered ones.
  \<open>playbook_run_ends\<close> and \<open>reboot_flow_ends\<close> count the steps.

  \<^bold>\<open>Outside the model.\<close> These are parameters, with what is relied on as named hypotheses or locales:
  the podman bindings (\<open>podman_api\<close>; \<open>podman_secrets\<close>), D-Bus (\<open>dbus_api\<close>), running commands, gRPC and the dispatcher,
  HTTP and the exposition format, the time series database (\<open>tsdb_api\<close>), protobuf and snappy, YAML,
  the JSON encoding of the vendored message types (\<open>config_codec\<close>), AWS and \<open>s3sync\<close> (\<open>s3_store\<close>), \<open>mtls\<close> and
  X.509, \<open>net.Dial\<close>, the go-ansible parser, new UUIDs and the clock.

  \<^bold>\<open>Not modelled.\<close> The mocks, which \<open>mockgen\<close> generates for the tests. The generated \<open>UnmarshalJSON\<close> of ansible events
  and the message types of \<open>go:generate\<close>, which the worker only writes. Interface declarations,
  whose methods are the definitions of their implementations, and the \<open>String\<close> methods used for logging.
  The log level, \<open>grpc.Server.Serve\<close>, and the delivery of signals. The graceful reboot as a step of the whole
  process: it stops the components in the middle of an update, which is one step there, and is treated
  in \<open>Graceful_Reboot\<close> with both goroutines. Data races on fields read without
  the lock that protects them: each step of the relations is taken as a whole.
\<close>

end
